(* ===== verification/Prelude.thy ===== *)
theory Prelude
  imports Main "HOL-Library.Word" "HOL-Library.Multiset" "HOL-Library.Product_Lexorder"
    "HOL-Library.Char_ord"
begin

text \<open>
  Shared vocabulary of the development: the collections of proof hints, Go's machine
  integers, and the functions of Go's standard library on byte strings that the service
  calls (TrimSpace, HasSuffix, Index, IndexByte, LastIndex, ToLower, EqualFold, Atoi and the
  decimal rendering of integers). A Go string is a byte sequence, so it is a \<open>string\<close>
  (a \<open>char list\<close>) here and \<open>len\<close> counts bytes.
\<close>

named_theorems frame_intros "operations that leave a component of the world alone"
named_theorems inv_intros "operations that keep an invariant of the database"

section \<open>Machine integers and instants\<close>

text \<open>Go's \<open>int\<close> and \<open>int64\<close> are 64 bits wide on the service's platforms.\<close>

type_synonym int64 = "64 word"
type_synonym int32 = "32 word"

text \<open>An instant (\<open>time.Time\<close>), in nanoseconds since the Unix epoch.\<close>

type_synonym time = int

definition positive :: "'a::len word \<Rightarrow> bool" where
  "positive w \<longleftrightarrow> 0 < sint w"

definition go_len :: "'a list \<Rightarrow> int64" where
  "go_len xs = word_of_nat (length xs)"

text \<open>Go's integer division truncates towards zero.\<close>

definition go_div :: "int64 \<Rightarrow> int64 \<Rightarrow> int64" where
  "go_div a b = word_of_int (sgn (sint a) * sgn (sint b) * (\<bar>sint a\<bar> div \<bar>sint b\<bar>))"

text \<open>The value an \<open>int64\<close> operation leaves is its mathematical result whenever that fits.\<close>

definition fits64 :: "int \<Rightarrow> bool" where
  "fits64 n \<longleftrightarrow> - (2 ^ 63) \<le> n \<and> n < 2 ^ 63"

lemma sint_of_int64: "fits64 n \<Longrightarrow> sint (word_of_int n :: int64) = n"
  unfolding fits64_def
  by (simp add: sint_sbintrunc' signed_take_bit_int_eq_self)

lemma word_of_int_sint_arith:
  fixes a b :: int64
  shows "a + b = word_of_int (sint a + sint b)"
    and "a - b = word_of_int (sint a - sint b)"
    and "a * b = word_of_int (sint a * sint b)"
  by simp_all

lemma sint_add64: "fits64 (sint a + sint b) \<Longrightarrow> sint (a + b :: int64) = sint a + sint b"
  by (subst word_of_int_sint_arith(1)) (rule sint_of_int64)

lemma sint_sub64: "fits64 (sint a - sint b) \<Longrightarrow> sint (a - b :: int64) = sint a - sint b"
  by (subst word_of_int_sint_arith(2)) (rule sint_of_int64)

lemma sint_mult64: "fits64 (sint a * sint b) \<Longrightarrow> sint (a * b :: int64) = sint a * sint b"
  by (subst word_of_int_sint_arith(3)) (rule sint_of_int64)

lemma sint_of_int32: "- (2 ^ 31) \<le> n \<Longrightarrow> n < 2 ^ 31 \<Longrightarrow> sint (word_of_int n :: int32) = n"
  by (simp add: sint_sbintrunc' signed_take_bit_int_eq_self)

lemma sint_succ32: "sint i + 1 < 2 ^ 31 \<Longrightarrow> sint (i + 1 :: int32) = sint i + 1"
  using sint_of_int32 [of "sint i + 1"] sint_ge [of i] by simp

lemma sint_go_div:
  assumes "0 \<le> sint a" and "0 < sint b"
  shows "sint (go_div a b) = sint a div sint b"
proof -
  have bound: "sint a < 2 ^ 63" using sint_lt [of a] by simp
  have "sint a div sint b \<le> sint a"
    using assms by (simp add: div_le_dividend zdiv_mono2 [of "sint a" 1 "sint b", simplified])
  moreover have "0 \<le> sint a div sint b" using assms by (simp add: pos_imp_zdiv_nonneg_iff)
  ultimately have "fits64 (sint a div sint b)" using bound by (simp add: fits64_def)
  moreover have "sgn (sint a) * sgn (sint b) * (\<bar>sint a\<bar> div \<bar>sint b\<bar>) = sint a div sint b"
    using assms by (cases "sint a = 0") auto
  ultimately show ?thesis unfolding go_div_def by (metis sint_of_int64)
qed

lemma sint_go_len: "int (length xs) < 2 ^ 63 \<Longrightarrow> sint (go_len xs) = int (length xs)"
proof -
  assume "int (length xs) < 2 ^ 63"
  then have "fits64 (int (length xs))" by (simp add: fits64_def)
  then have "sint (word_of_int (int (length xs)) :: int64) = int (length xs)"
    by (rule sint_of_int64)
  then show ?thesis by (simp add: go_len_def)
qed

section \<open>Trimming white space\<close>

text \<open>
  \<open>strings.TrimSpace\<close> removes the Unicode white space at both ends. In UTF-8 the white
  space runes are the six ASCII ones, two of two bytes (U+0085, U+00A0) and those of three
  bytes (U+1680, U+2000 to U+200A, U+2028, U+2029, U+202F, U+205F, U+3000).
\<close>

definition ascii_space :: "char \<Rightarrow> bool" where
  "ascii_space c \<longleftrightarrow> c \<in> {CHR 0x09, CHR 0x0A, CHR 0x0B, CHR 0x0C, CHR 0x0D, CHR 0x20}"

definition space2 :: "char \<Rightarrow> char \<Rightarrow> bool" where
  "space2 c d \<longleftrightarrow> c = CHR 0xC2 \<and> d \<in> {CHR 0x85, CHR 0xA0}"

definition space3 :: "char \<Rightarrow> char \<Rightarrow> char \<Rightarrow> bool" where
  "space3 c d f \<longleftrightarrow>
     c = CHR 0xE1 \<and> d = CHR 0x9A \<and> f = CHR 0x80 \<or>
     c = CHR 0xE2 \<and> d = CHR 0x80 \<and>
       (of_char f \<in> {0x80..(0x8A::nat)} \<or> f \<in> {CHR 0xA8, CHR 0xA9, CHR 0xAF}) \<or>
     c = CHR 0xE2 \<and> d = CHR 0x81 \<and> f = CHR 0x9F \<or>
     c = CHR 0xE3 \<and> d = CHR 0x80 \<and> f = CHR 0x80"

text \<open>The length of the white space rune a string starts with, 0 when there is none.\<close>

fun lead_space :: "string \<Rightarrow> nat" where
  "lead_space [] = 0"
| "lead_space [c] = (if ascii_space c then 1 else 0)"
| "lead_space [c, d] = (if ascii_space c then 1 else if space2 c d then 2 else 0)"
| "lead_space (c # d # f # s) =
     (if ascii_space c then 1 else if space2 c d then 2 else if space3 c d f then 3 else 0)"

text \<open>The same at the end of a string; the argument is the string reversed.\<close>

fun trail_space :: "string \<Rightarrow> nat" where
  "trail_space [] = 0"
| "trail_space [c] = (if ascii_space c then 1 else 0)"
| "trail_space [c, d] = (if ascii_space c then 1 else if space2 d c then 2 else 0)"
| "trail_space (c # d # f # s) =
     (if ascii_space c then 1 else if space2 d c then 2 else if space3 f d c then 3 else 0)"

function trim_with :: "(string \<Rightarrow> nat) \<Rightarrow> string \<Rightarrow> string" where
  "trim_with f s = (if s \<noteq> [] \<and> 0 < f s then trim_with f (drop (f s) s) else s)"
  by pat_completeness auto
termination
  by (relation "measure (\<lambda>(f, s). length s)") auto

declare trim_with.simps [simp del]

definition TrimSpace :: "string \<Rightarrow> string" where
  "TrimSpace s = rev (trim_with trail_space (rev (trim_with lead_space s)))"

lemma trim_with_stop: "f s = 0 \<Longrightarrow> trim_with f s = s"
  by (simp add: trim_with.simps)

lemma trim_with_Nil [simp]: "trim_with f [] = []"
  by (simp add: trim_with.simps)

lemma trim_with_done: "f [] = 0 \<Longrightarrow> f (trim_with f s) = 0"
proof (induction f s rule: trim_with.induct)
  case (1 f s)
  then show ?case by (cases "s \<noteq> [] \<and> 0 < f s") (auto simp: trim_with.simps [of f s])
qed

lemma trim_with_drop: "\<exists>n. trim_with f s = drop n s"
proof (induction f s rule: trim_with.induct)
  case (1 f s)
  show ?case
  proof (cases "s \<noteq> [] \<and> 0 < f s")
    case True
    with 1 obtain n where "trim_with f (drop (f s) s) = drop n (drop (f s) s)" by blast
    with True show ?thesis by (auto simp: trim_with.simps [of f s] intro: exI [of _ "n + f s"])
  next
    case False
    then show ?thesis by (auto simp: trim_with.simps [of f s] intro: exI [of _ 0])
  qed
qed

lemma lead_space_take: "lead_space s = 0 \<Longrightarrow> lead_space (take n s) = 0"
proof (cases s rule: lead_space.cases)
  case (4 c d f s')
  assume "lead_space s = 0"
  with 4 show ?thesis
    by (cases n; cases "n - 1"; cases "n - 2") (auto split: if_splits)
next
  case (3 c d)
  assume "lead_space s = 0"
  with 3 show ?thesis by (cases n; cases "n - 1") (auto split: if_splits)
next
  case (2 c)
  assume "lead_space s = 0"
  with 2 show ?thesis by (cases n) (auto split: if_splits)
qed auto

text \<open>Trimming twice is trimming once, so stored values are already in normal form.\<close>

lemma TrimSpace_idem [simp]: "TrimSpace (TrimSpace s) = TrimSpace s"
proof -
  define t where "t = trim_with lead_space s"
  define u where "u = trim_with trail_space (rev t)"
  have t0: "lead_space t = 0" unfolding t_def by (rule trim_with_done) simp
  have u0: "trail_space u = 0" unfolding u_def by (rule trim_with_done) simp
  obtain n where "u = drop n (rev t)" unfolding u_def using trim_with_drop by blast
  then have "rev u = take (length t - n) t" by (simp add: drop_rev)
  with t0 have "lead_space (rev u) = 0" by (simp add: lead_space_take)
  with u0 show ?thesis
    unfolding TrimSpace_def t_def [symmetric] u_def [symmetric]
    by (simp add: trim_with_stop)
qed

lemma TrimSpace_Nil [simp]: "TrimSpace [] = []"
  by (simp add: TrimSpace_def)

lemma length_TrimSpace: "length (TrimSpace s) \<le> length s"
proof -
  obtain n where n: "trim_with lead_space s = drop n s" using trim_with_drop by blast
  obtain m where "trim_with trail_space (rev (drop n s)) = drop m (rev (drop n s))"
    using trim_with_drop by blast
  with n show ?thesis by (simp add: TrimSpace_def)
qed

text \<open>A string of visible ASCII characters is its own trimmed form.\<close>

definition visible :: "string \<Rightarrow> bool" where
  "visible s \<longleftrightarrow> list_all (\<lambda>c. 0x20 < (of_char c :: nat) \<and> (of_char c :: nat) < 0x7F) s"

lemma visible_char:
  assumes "0x20 < (of_char c :: nat)" and "(of_char c :: nat) < 0x7F"
  shows "\<not> ascii_space c" and "\<not> space2 c d" and "\<not> space2 d c"
    and "\<not> space3 c d f" and "\<not> space3 f d c"
  using assms by (auto simp: ascii_space_def space2_def space3_def)

lemma visible_lead_space: "visible s \<Longrightarrow> lead_space s = 0"
  by (cases s rule: lead_space.cases) (auto simp: visible_def visible_char)

lemma visible_trail_space: "visible s \<Longrightarrow> trail_space s = 0"
  by (cases s rule: trail_space.cases) (auto simp: visible_def visible_char)

lemma visible_rev [simp]: "visible (rev s) = visible s"
  by (simp add: visible_def list_all_iff)

lemma TrimSpace_visible: "visible s \<Longrightarrow> TrimSpace s = s"
  by (simp add: TrimSpace_def trim_with_stop visible_lead_space visible_trail_space)

section \<open>Searching, suffixes, letter case\<close>

definition has_suffix :: "string \<Rightarrow> string \<Rightarrow> bool" where
  "has_suffix s suf \<longleftrightarrow>
     length suf \<le> length s \<and> drop (length s - length suf) s = suf"

definition has_prefix :: "string \<Rightarrow> string \<Rightarrow> bool" where
  "has_prefix s pre \<longleftrightarrow> take (length pre) s = pre"

text \<open>\<open>strings.Index\<close>: the first position at which a string occurs.\<close>

fun str_index :: "string \<Rightarrow> string \<Rightarrow> nat option" where
  "str_index [] pat = (if pat = [] then Some 0 else None)"
| "str_index (c # s) pat =
     (if has_prefix (c # s) pat then Some 0 else map_option Suc (str_index s pat))"

definition str_contains :: "string \<Rightarrow> string \<Rightarrow> bool" where
  "str_contains s pat \<longleftrightarrow> str_index s pat \<noteq> None"

text \<open>The text before the first occurrence of a byte (all of it when there is none).\<close>

definition before_byte :: "char \<Rightarrow> string \<Rightarrow> string" where
  "before_byte c s = takeWhile (\<lambda>d. d \<noteq> c) s"

text \<open>The text after the last occurrence of a byte.\<close>

definition after_last :: "char \<Rightarrow> string \<Rightarrow> string option" where
  "after_last c s =
     (if c \<in> set s then Some (rev (takeWhile (\<lambda>d. d \<noteq> c) (rev s))) else None)"

text \<open>\<open>strings.ToLower\<close> on the ASCII letters; other bytes stay.\<close>

definition lower_char :: "char \<Rightarrow> char" where
  "lower_char c =
     (if CHR ''A'' \<le> c \<and> c \<le> CHR ''Z''
      then (case c of Char b0 b1 b2 b3 b4 b5 b6 b7 \<Rightarrow> Char b0 b1 b2 b3 b4 True b6 b7) else c)"

definition to_lower :: "string \<Rightarrow> string" where
  "to_lower s = map lower_char s"

text \<open>
  \<open>strings.EqualFold\<close> and the key matching of \<open>encoding/json\<close> against an ASCII word:
  simple case folding maps, besides the ASCII capitals, U+017F to \<open>s\<close> and U+212A to \<open>k\<close>.
\<close>

fun fold_key :: "string \<Rightarrow> string" where
  "fold_key [] = []"
| "fold_key [c] = [lower_char c]"
| "fold_key [c, d] =
     (if c = CHR 0xC5 \<and> d = CHR 0xBF then ''s'' else lower_char c # fold_key [d])"
| "fold_key (c # d # f # s) =
     (if c = CHR 0xC5 \<and> d = CHR 0xBF then CHR ''s'' # fold_key (f # s)
      else if c = CHR 0xE2 \<and> d = CHR 0x84 \<and> f = CHR 0xAA then CHR ''k'' # fold_key s
      else lower_char c # fold_key (d # f # s))"

definition equal_fold :: "string \<Rightarrow> string \<Rightarrow> bool" where
  "equal_fold s t \<longleftrightarrow> fold_key s = fold_key t"

lemma equal_fold_refl [simp]: "equal_fold s s"
  by (simp add: equal_fold_def)

section \<open>Decimal numbers\<close>

definition digit :: "nat \<Rightarrow> char" where
  "digit n = ''0123456789'' ! n"

fun show_nat :: "nat \<Rightarrow> string" where
  "show_nat n = (if n < 10 then [digit n] else show_nat (n div 10) @ [digit (n mod 10)])"

declare show_nat.simps [simp del]

definition show_int :: "int \<Rightarrow> string" where
  "show_int n = (if n < 0 then CHR ''-'' # show_nat (nat (- n)) else show_nat (nat n))"

fun parse_digits :: "nat \<Rightarrow> string \<Rightarrow> nat option" where
  "parse_digits acc [] = Some acc"
| "parse_digits acc (c # s) =
     (let n = (of_char c :: nat)
      in if 48 \<le> n \<and> n \<le> 57 then parse_digits (10 * acc + (n - 48)) s else None)"

text \<open>\<open>strconv.Atoi\<close>: an optional sign, at least one digit, and the value fits in 64 bits.\<close>

definition atoi :: "string \<Rightarrow> int option" where
  "atoi s =
     (let neg = (case s of c # _ \<Rightarrow> c = CHR ''-'' | [] \<Rightarrow> False);
          sgnd = (case s of c # _ \<Rightarrow> c = CHR ''-'' \<or> c = CHR ''+'' | [] \<Rightarrow> False);
          ds = (if sgnd then drop 1 s else s)
      in if ds = [] then None
         else case parse_digits 0 ds of
           None \<Rightarrow> None
         | Some n \<Rightarrow> (let v = (if neg then - int n else int n)
                      in if fits64 v then Some v else None))"

lemma of_char_digit: "n < 10 \<Longrightarrow> (of_char (digit n) :: nat) = 48 + n"
proof -
  assume "n < 10"
  then have "n \<in> {0, 1, 2, 3, 4, 5, 6, 7, 8, 9}" by auto
  then show ?thesis by (auto simp: digit_def)
qed

lemma parse_digits_append:
  "parse_digits a (s @ t) = Option.bind (parse_digits a s) (\<lambda>b. parse_digits b t)"
  by (induction a s rule: parse_digits.induct) (auto simp: Let_def)

lemma parse_show_nat: "parse_digits 0 (show_nat n) = Some n"
proof (induction n rule: show_nat.induct)
  case (1 n)
  show ?case
  proof (cases "n < 10")
    case True
    then show ?thesis by (simp add: show_nat.simps [of n] of_char_digit Let_def)
  next
    case False
    with 1 have "parse_digits 0 (show_nat (n div 10)) = Some (n div 10)" by simp
    with False show ?thesis
      by (simp add: show_nat.simps [of n] parse_digits_append of_char_digit Let_def)
  qed
qed

lemma show_nat_nonempty [simp]: "show_nat n \<noteq> []"
  by (subst show_nat.simps) simp

lemma set_show_nat: "c \<in> set (show_nat n) \<Longrightarrow> 48 \<le> (of_char c :: nat) \<and> (of_char c :: nat) \<le> 57"
proof (induction n rule: show_nat.induct)
  case (1 n)
  then show ?case
    by (cases "n < 10") (auto simp: show_nat.simps [of n] of_char_digit)
qed

lemma show_nat_hd_digit:
  assumes "show_nat n = c # s"
  shows "c \<noteq> CHR ''-''" and "c \<noteq> CHR ''+''"
proof -
  from assms have "c \<in> set (show_nat n)" by simp
  then have "48 \<le> (of_char c :: nat)" using set_show_nat by blast
  then show "c \<noteq> CHR ''-''" and "c \<noteq> CHR ''+''" by auto
qed

lemma atoi_show_nat: "int n < 2 ^ 63 \<Longrightarrow> atoi (show_nat n) = Some (int n)"
proof -
  assume small: "int n < 2 ^ 63"
  obtain c s where cs: "show_nat n = c # s" using show_nat_nonempty [of n] by (cases "show_nat n") auto
  with show_nat_hd_digit [OF cs] parse_show_nat [of n] small show ?thesis
    by (simp add: atoi_def Let_def fits64_def)
qed

lemma show_nat_inj: "show_nat n = show_nat m \<Longrightarrow> n = m"
  by (metis option.inject parse_show_nat)

end
