(* ===== verification/Errors.thy ===== *)
theory Errors
  imports Prelude
begin

text \<open>
  Errors as values: the sentinel errors of \<open>internal/domain/error.go\<close>, the shapes in which Go
  code wraps them (\<open>fmt.Errorf\<close> with \<open>%w\<close>, \<open>errors.Join\<close>), and the errors of the drivers the
  repositories inspect. \<open>errors_is\<close> is \<open>errors.Is\<close> against a sentinel: it looks through every
  wrapping. \<open>error_text\<close> is \<open>err.Error()\<close>.
\<close>

section \<open>The sentinel errors of the domain\<close>

datatype domain_error =
    ErrInvalidGigID | ErrInvalidGigSlug | ErrInvalidFreelancerID | ErrInvalidUsername
  | ErrInvalidTitle | ErrInvalidShortInfo | ErrInvalidDescription | ErrInvalidCategoryID
  | ErrInvalidCurrency | ErrInvalidPackageTier | ErrInvalidPackageID
  | ErrInvalidPackageDescription | ErrInvalidPackageDeliveryDays | ErrInvalidPackagePriceCents
  | ErrInvalidQuestionContent | ErrInvalidQuestionID | ErrInvalidMediaUpload | ErrInvalidFileID
  | ErrInvalidGigListStatus | ErrInvalidGigListSort | ErrInvalidGigListOrder
  | ErrInvalidGigListPage | ErrInvalidGigListLimit | ErrInvalidPackageCount | ErrInvalidGigState
  | ErrConnectOnboardingIncomplete | ErrGigNotFound | ErrGigAlreadyExists | ErrGigDraftIncomplete
  | ErrGigAlreadyPublished | ErrFailedToCreateGig | ErrFailedToUpdateGig | ErrFailedToPublishGig
  | ErrFailedToFindGig | ErrFailedToReplaceGigPackages | ErrFailedToReplaceGigQuestions
  | ErrFailedToReplaceGigMedia

text \<open>\<open>ErrInvalidMediaRef\<close> is declared as the same value as \<open>ErrInvalidFileID\<close>.\<close>

abbreviation ErrInvalidMediaRef :: domain_error where
  "ErrInvalidMediaRef \<equiv> ErrInvalidFileID"

fun domain_text :: "domain_error \<Rightarrow> string" where
  "domain_text ErrInvalidGigID = ''invalid gig id''"
| "domain_text ErrInvalidGigSlug = ''invalid gig slug''"
| "domain_text ErrInvalidFreelancerID = ''invalid freelancer id''"
| "domain_text ErrInvalidUsername = ''invalid username''"
| "domain_text ErrInvalidTitle = ''invalid title''"
| "domain_text ErrInvalidShortInfo = ''invalid short info''"
| "domain_text ErrInvalidDescription = ''invalid description''"
| "domain_text ErrInvalidCategoryID = ''invalid category id''"
| "domain_text ErrInvalidCurrency = ''invalid currency''"
| "domain_text ErrInvalidPackageTier = ''invalid package tier''"
| "domain_text ErrInvalidPackageID = ''invalid package id''"
| "domain_text ErrInvalidPackageDescription = ''invalid package description''"
| "domain_text ErrInvalidPackageDeliveryDays = ''invalid package delivery days''"
| "domain_text ErrInvalidPackagePriceCents = ''invalid package price cents''"
| "domain_text ErrInvalidQuestionContent = ''invalid question content''"
| "domain_text ErrInvalidQuestionID = ''invalid question id''"
| "domain_text ErrInvalidMediaUpload = ''invalid media upload''"
| "domain_text ErrInvalidFileID = ''invalid file id''"
| "domain_text ErrInvalidGigListStatus = ''invalid gig list status''"
| "domain_text ErrInvalidGigListSort = ''invalid gig list sort''"
| "domain_text ErrInvalidGigListOrder = ''invalid gig list order''"
| "domain_text ErrInvalidGigListPage = ''invalid gig list page''"
| "domain_text ErrInvalidGigListLimit = ''invalid gig list limit''"
| "domain_text ErrInvalidPackageCount = ''invalid package count''"
| "domain_text ErrInvalidGigState = ''invalid gig state''"
| "domain_text ErrConnectOnboardingIncomplete = ''connect onboarding incomplete''"
| "domain_text ErrGigNotFound = ''gig not found''"
| "domain_text ErrGigAlreadyExists = ''gig already exists''"
| "domain_text ErrGigDraftIncomplete = ''gig draft is incomplete''"
| "domain_text ErrGigAlreadyPublished = ''gig already published''"
| "domain_text ErrFailedToCreateGig = ''failed to create gig''"
| "domain_text ErrFailedToUpdateGig = ''failed to update gig''"
| "domain_text ErrFailedToPublishGig = ''failed to publish gig''"
| "domain_text ErrFailedToFindGig = ''failed to find gig''"
| "domain_text ErrFailedToReplaceGigPackages = ''failed to replace gig packages''"
| "domain_text ErrFailedToReplaceGigQuestions = ''failed to replace gig questions''"
| "domain_text ErrFailedToReplaceGigMedia = ''failed to replace gig media''"

section \<open>Errors in general\<close>

text \<open>The gRPC status codes the service produces or inspects, and the others by name.\<close>

datatype grpc_code =
  CodeUnknown | CodeInvalidArgument | CodeNotFound | CodeFailedPrecondition | CodeInternal
  | CodeUnavailable | CodeOther string

text \<open>A server error of PostgreSQL: severity, message, SQLSTATE, constraint.\<close>

record pg_error =
  pg_severity :: string
  pg_message :: string
  pg_code :: string
  pg_constraint :: string

text \<open>
  The repository imports \<open>github.com/jackc/pgconn\<close> (whose error type is \<open>PgV4\<close> here) while the
  connection is opened through pgx v5, whose errors have a type of their own (\<open>PgV5\<close>).
\<close>

datatype gerr =
    Dom domain_error
  | Wrap string gerr
  | Join gerr gerr
  | NoRows
  | PgV4 pg_error
  | PgV5 pg_error
  | RedisNil
  | Status grpc_code string
  | Permanent gerr
  | Opaque string

fun errors_is :: "gerr \<Rightarrow> domain_error \<Rightarrow> bool" where
  "errors_is (Dom d) t = (d = t)"
| "errors_is (Wrap _ e) t = errors_is e t"
| "errors_is (Join a b) t = (errors_is a t \<or> errors_is b t)"
| "errors_is (Permanent e) t = errors_is e t"
| "errors_is _ t = False"

fun is_no_rows :: "gerr \<Rightarrow> bool" where
  "is_no_rows NoRows = True"
| "is_no_rows (Wrap _ e) = is_no_rows e"
| "is_no_rows (Join a b) = (is_no_rows a \<or> is_no_rows b)"
| "is_no_rows (Permanent e) = is_no_rows e"
| "is_no_rows _ = False"

fun is_redis_nil :: "gerr \<Rightarrow> bool" where
  "is_redis_nil RedisNil = True"
| "is_redis_nil (Wrap _ e) = is_redis_nil e"
| "is_redis_nil (Join a b) = (is_redis_nil a \<or> is_redis_nil b)"
| "is_redis_nil (Permanent e) = is_redis_nil e"
| "is_redis_nil _ = False"

text \<open>\<open>errors.As\<close> into the error type of the older driver.\<close>

fun as_pg_error :: "gerr \<Rightarrow> pg_error option" where
  "as_pg_error (PgV4 p) = Some p"
| "as_pg_error (Wrap _ e) = as_pg_error e"
| "as_pg_error (Join a b) = (case as_pg_error a of None \<Rightarrow> as_pg_error b | Some p \<Rightarrow> Some p)"
| "as_pg_error (Permanent e) = as_pg_error e"
| "as_pg_error _ = None"

text \<open>Whether the chain holds a \<open>resilience.PermanentError\<close>.\<close>

fun is_permanent :: "gerr \<Rightarrow> bool" where
  "is_permanent (Permanent _) = True"
| "is_permanent (Wrap _ e) = is_permanent e"
| "is_permanent (Join a b) = (is_permanent a \<or> is_permanent b)"
| "is_permanent _ = False"

text \<open>\<open>status.FromError\<close>: the code and the message of the status in the chain.\<close>

fun as_status :: "gerr \<Rightarrow> (grpc_code \<times> string) option" where
  "as_status (Status c m) = Some (c, m)"
| "as_status (Wrap _ e) = as_status e"
| "as_status (Join a b) = (case as_status a of None \<Rightarrow> as_status b | Some p \<Rightarrow> Some p)"
| "as_status (Permanent e) = as_status e"
| "as_status _ = None"

definition pg_text :: "pg_error \<Rightarrow> string" where
  "pg_text p = pg_severity p @ '': '' @ pg_message p @ '' (SQLSTATE '' @ pg_code p @ '')''"

fun code_text :: "grpc_code \<Rightarrow> string" where
  "code_text CodeUnknown = ''Unknown''"
| "code_text CodeInvalidArgument = ''InvalidArgument''"
| "code_text CodeNotFound = ''NotFound''"
| "code_text CodeFailedPrecondition = ''FailedPrecondition''"
| "code_text CodeInternal = ''Internal''"
| "code_text CodeUnavailable = ''Unavailable''"
| "code_text (CodeOther name) = name"

fun error_text :: "gerr \<Rightarrow> string" where
  "error_text (Dom d) = domain_text d"
| "error_text (Wrap p e) = p @ '': '' @ error_text e"
| "error_text (Join a b) = error_text a @ [CHR 0x0A] @ error_text b"
| "error_text NoRows = ''sql: no rows in result set''"
| "error_text (PgV4 p) = pg_text p"
| "error_text (PgV5 p) = pg_text p"
| "error_text RedisNil = ''redis: nil''"
| "error_text (Status c m) =
     ''rpc error: code = '' @ code_text c @ '' desc = '' @ m"
| "error_text (Permanent e) = error_text e"
| "error_text (Opaque s) = s"

section \<open>Results of operations\<close>

text \<open>
  What a call leaves behind: a value, an error, or a run-time panic (nil dereference, slice
  bounds), which no code of the service recovers from.
\<close>

datatype 'a res = Ok 'a | Err gerr | Panic

fun is_ok :: "'a res \<Rightarrow> bool" where
  "is_ok (Ok _) = True"
| "is_ok _ = False"

fun map_err :: "(gerr \<Rightarrow> gerr) \<Rightarrow> 'a res \<Rightarrow> 'a res" where
  "map_err f (Err e) = Err (f e)"
| "map_err f r = r"

fun bind_res :: "'a res \<Rightarrow> ('a \<Rightarrow> 'b res) \<Rightarrow> 'b res" where
  "bind_res (Ok a) f = f a"
| "bind_res (Err x) f = Err x"
| "bind_res Panic f = Panic"

lemma map_err_Ok [simp]: "map_err f r = Ok a \<longleftrightarrow> r = Ok a"
  by (cases r) auto

lemma is_ok_iff: "is_ok r \<longleftrightarrow> (\<exists>a. r = Ok a)"
  by (cases r) auto

end
