(* ===== verification/Domain.thy ===== *)
theory Domain
  imports Errors
begin

text \<open>
  The data of \<open>internal/domain/gig.go\<close> and \<open>internal/application/type.go\<close>: the write model of a
  gig, its packages, questions and media, the parameters of the operations, the preview
  projection, the popularity snapshot, and the aggregates other services return. Field names
  are Go's, with the struct as a prefix. A pointer that may be nil is an option.
\<close>

definition StatusDraft :: string where "StatusDraft = ''draft''"
definition StatusPublished :: string where "StatusPublished = ''published''"
definition StatusPaused :: string where "StatusPaused = ''paused''"
definition StatusArchived :: string where "StatusArchived = ''archived''"

definition TierBasic :: string where "TierBasic = ''basic''"
definition TierStandard :: string where "TierStandard = ''standard''"
definition TierPremium :: string where "TierPremium = ''premium''"

lemmas status_defs = StatusDraft_def StatusPublished_def StatusPaused_def StatusArchived_def
lemmas tier_defs = TierBasic_def TierStandard_def TierPremium_def

record GigPackage =
  pkg_ID :: string
  pkg_GigID :: string
  pkg_Tier :: string
  pkg_Description :: string
  pkg_DeliveryDays :: int32
  pkg_PriceCents :: int64
  pkg_SortOrder :: int32

record GigQuestion =
  que_ID :: string
  que_GigID :: string
  que_Content :: string
  que_SortOrder :: int32

record GigMedia =
  med_ID :: string
  med_GigID :: string
  med_FileID :: string
  med_URL :: string
  med_SortOrder :: int32

record Gig =
  gig_ID :: string
  gig_FreelancerID :: string
  gig_SellerUsername :: string
  gig_Slug :: string
  gig_Title :: string
  gig_ShortInfo :: string
  gig_Description :: string
  gig_CategoryID :: int64
  gig_Currency :: string
  gig_Status :: string
  gig_BasicInfoCompleted :: bool
  gig_PackagesCompleted :: bool
  gig_RequirementsCompleted :: bool
  gig_MediaCompleted :: bool
  gig_PictureFileID :: string
  gig_PictureURL :: string
  gig_PublishedAt :: "time option"
  gig_CreatedAt :: time
  gig_UpdatedAt :: time
  gig_Packages :: "GigPackage list"
  gig_Questions :: "GigQuestion list"
  gig_Media :: "GigMedia list"

record MediaUpload =
  up_Filename :: string
  up_ContentType :: string
  up_Data :: string

record CreateDraftParams =
  cdp_GigID :: string
  cdp_FreelancerID :: string

record UpdateBasicInfoParams =
  ubi_Title :: string
  ubi_Slug :: string
  ubi_ShortInfo :: string
  ubi_Description :: string
  ubi_CategoryID :: int64
  ubi_Currency :: string

record ReplaceMediaParams =
  rmp_PictureFileID :: string
  rmp_Media :: "GigMedia list"

text \<open>A \<open>float64\<close> is its bit pattern; its order and its arithmetic are in theory \<open>Floats\<close>.\<close>

type_synonym float64 = int64

record GigPreview =
  pv_ID :: string
  pv_FreelancerID :: string
  pv_SellerUsername :: string
  pv_Slug :: string
  pv_Title :: string
  pv_ShortInfo :: string
  pv_MinimumPriceCents :: int64
  pv_PictureURL :: string
  pv_PopularityScore :: int64
  pv_Status :: string
  pv_PublishedAt :: "time option"
  pv_UpdatedAt :: time
  pv_RatingAvg :: float64
  pv_TotalReviews :: int64
  pv_OrderCount :: int64
  pv_CreatedAt :: time

record GigPopularitySnapshot =
  ps_GigID :: string
  ps_Score :: int64
  ps_CompletedOrdersLast30d :: int64
  ps_ReviewsCountLast30d :: int64
  ps_ViewsLast7d :: int64
  ps_CalculatedAt :: time

record ListPreviewGigsQuery =
  lpq_SellerUsername :: string
  lpq_Page :: int64
  lpq_Limit :: int64

record ListMyGigsQuery =
  lmq_UserID :: string
  lmq_Status :: string
  lmq_Sort :: string
  lmq_Order :: string
  lmq_Page :: int64
  lmq_Limit :: int64

text \<open>
  \<open>ListPreviewGigsResult\<close> and \<open>ListMyGigsResult\<close> have the same fields; the elements are pointers.
\<close>

record 'a ListResult =
  lr_Gigs :: "'a list"
  lr_Page :: int64
  lr_Limit :: int64
  lr_TotalPages :: int64
  lr_HasMore :: bool

section \<open>Aggregates of the neighbouring services\<close>

record ConnectStatusResult =
  cs_UserID :: string
  cs_Status :: string
  cs_StripeAccountID :: string
  cs_DisabledReason :: string
  cs_OccurredAt :: string

record ReviewSummary =
  rs_RatingAvg :: float64
  rs_TotalReviews :: int64

record PopularityRow =
  pop_GigID :: string
  pop_CompletedOrdersLast30d :: int64
  pop_ReviewsCountLast30d :: int64
  pop_ViewsLast7d :: int64

record UserPreview =
  usr_UserID :: string
  usr_Username :: string
  usr_DisplayName :: string
  usr_AvatarID :: string
  usr_AvatarURL :: string

record OrderStartQuestion =
  osq_ID :: string
  osq_Text :: string
  osq_SortOrder :: int32

record OrderStartSnapshot =
  oss_GigID :: string
  oss_PackageID :: string
  oss_SellerID :: string
  oss_SellerUsername :: string
  oss_GigTitle :: string
  oss_PictureFileID :: string
  oss_PackageTitle :: string
  oss_PackageDescription :: string
  oss_PriceCents :: int64
  oss_Currency :: string
  oss_DeliveryDays :: int32
  oss_RevisionCount :: int32
  oss_GigPublished :: bool
  oss_PackageAvailable :: bool
  oss_Questions :: "OrderStartQuestion list"

end
