(* ===== verification/Floats.thy ===== *)
theory Floats
  imports Domain
begin

text \<open>
  The \<open>float64\<close> values the service touches: ratings, which it compares, and the scores of
  Redis sorted sets, which are conversions of \<open>int64\<close>. A value is its IEEE 754 bit pattern.
  \<open>f64_key\<close> orders the numbers, \<open>f64_of_int\<close> is Go's conversion (round to nearest, ties to
  even), and the last section shows that the conversion is monotone, so that ranking by a
  score kept in a sorted set never inverts the ranking by the integer it came from.
\<close>

definition f64_exponent :: "float64 \<Rightarrow> nat" where
  "f64_exponent f = unat f div 2 ^ 52 mod 2 ^ 11"

definition f64_fraction :: "float64 \<Rightarrow> nat" where
  "f64_fraction f = unat f mod 2 ^ 52"

definition f64_is_nan :: "float64 \<Rightarrow> bool" where
  "f64_is_nan f \<longleftrightarrow> f64_exponent f = 2047 \<and> f64_fraction f \<noteq> 0"

definition f64_finite :: "float64 \<Rightarrow> bool" where
  "f64_finite f \<longleftrightarrow> f64_exponent f \<noteq> 2047"

text \<open>Among the numbers (no NaN) the order is that of sign and magnitude; the zeros are equal.\<close>

definition f64_key :: "float64 \<Rightarrow> int" where
  "f64_key f = (if unat f < 2 ^ 63 then int (unat f) else - int (unat f - 2 ^ 63))"

definition f64_less :: "float64 \<Rightarrow> float64 \<Rightarrow> bool" where
  "f64_less a b \<longleftrightarrow> \<not> f64_is_nan a \<and> \<not> f64_is_nan b \<and> f64_key a < f64_key b"

fun ilog2 :: "nat \<Rightarrow> nat" where
  "ilog2 n = (if n < 2 then 0 else Suc (ilog2 (n div 2)))"

declare ilog2.simps [simp del]

text \<open>\<open>n div 2 ^ s\<close> rounded to nearest, ties to even.\<close>

definition round_shift :: "nat \<Rightarrow> nat \<Rightarrow> nat" where
  "round_shift s n =
     (let q = n div 2 ^ s; r = n mod 2 ^ s; half = 2 ^ s div 2
      in if s = 0 then n
         else if r > half \<or> r = half \<and> odd q then q + 1 else q)"

text \<open>
  The magnitude bits of a positive integer: exponent and 52-bit fraction. A significand that
  rounds up to \<open>2 ^ 53\<close> carries into the exponent by the addition.
\<close>

definition f64_mag :: "nat \<Rightarrow> nat" where
  "f64_mag n =
     (if n = 0 then 0
      else let e = ilog2 n;
               m = (if e \<le> 52 then n * 2 ^ (52 - e) else round_shift (e - 52) n)
           in (e + 1023) * 2 ^ 52 + m - 2 ^ 52)"

definition f64_of_int :: "int \<Rightarrow> float64" where
  "f64_of_int n =
     (if n < 0 then word_of_nat (2 ^ 63 + f64_mag (nat (- n))) else word_of_nat (f64_mag (nat n)))"

definition f64_of_int64 :: "int64 \<Rightarrow> float64" where
  "f64_of_int64 w = f64_of_int (sint w)"

section \<open>The conversion is monotone\<close>

lemma ilog2_bounds: "0 < n \<Longrightarrow> 2 ^ ilog2 n \<le> n \<and> n < 2 ^ Suc (ilog2 n)"
proof (induction n rule: ilog2.induct)
  case (1 n)
  show ?case
  proof (cases "n < 2")
    case True
    with 1 show ?thesis by (simp add: ilog2.simps [of n])
  next
    case False
    with 1 have "2 ^ ilog2 (n div 2) \<le> n div 2" "n div 2 < 2 ^ Suc (ilog2 (n div 2))" by auto
    then have "2 ^ Suc (ilog2 (n div 2)) \<le> n" "n < 2 ^ Suc (Suc (ilog2 (n div 2)))" by auto
    moreover from False have "ilog2 n = Suc (ilog2 (n div 2))" by (simp add: ilog2.simps [of n])
    ultimately show ?thesis by simp
  qed
qed

lemma ilog2_mono: "0 < m \<Longrightarrow> m \<le> n \<Longrightarrow> ilog2 m \<le> ilog2 n"
proof (rule ccontr)
  assume "0 < m" and "m \<le> n" and "\<not> ilog2 m \<le> ilog2 n"
  then have "Suc (ilog2 n) \<le> ilog2 m" by simp
  then have "(2 :: nat) ^ Suc (ilog2 n) \<le> 2 ^ ilog2 m" by (rule power_increasing) simp
  with ilog2_bounds [of m] ilog2_bounds [of n] \<open>0 < m\<close> \<open>m \<le> n\<close> show False by simp
qed

lemma round_shift_mono: "m \<le> n \<Longrightarrow> round_shift s m \<le> round_shift s n"
proof -
  assume le: "m \<le> n"
  show ?thesis
  proof (cases "m div 2 ^ s = n div 2 ^ s")
    case True
    with le have "m mod 2 ^ s \<le> n mod 2 ^ s"
      by (metis add_le_cancel_left div_mult_mod_eq)
    with True le show ?thesis by (auto simp: round_shift_def Let_def)
  next
    case False
    moreover have "m div 2 ^ s \<le> n div 2 ^ s" using le by (rule div_le_mono)
    ultimately have "m div 2 ^ s + 1 \<le> n div 2 ^ s" by simp
    with le show ?thesis by (auto simp: round_shift_def Let_def)
  qed
qed

lemma round_shift_bounds:
  assumes "2 ^ (s + 52) \<le> n" and "n < 2 ^ (s + 53)"
  shows "2 ^ 52 \<le> round_shift s n" and "round_shift s n \<le> 2 ^ 53"
proof -
  have "n div 2 ^ s < 2 ^ 53"
    using assms(2) by (simp add: power_add less_mult_imp_div_less mult.commute)
  then show "round_shift s n \<le> 2 ^ 53"
    using assms(2) by (auto simp: round_shift_def Let_def)
  have "2 ^ 52 \<le> n div 2 ^ s"
    using assms(1) by (simp add: power_add less_eq_div_iff_mult_less_eq mult.commute)
  then show "2 ^ 52 \<le> round_shift s n"
    using assms(1) by (auto simp: round_shift_def Let_def)
qed

text \<open>The significand of \<open>f64_mag\<close>, always within \<open>[2 ^ 52, 2 ^ 53]\<close>.\<close>

definition f64_sig :: "nat \<Rightarrow> nat" where
  "f64_sig n =
     (let e = ilog2 n in if e \<le> 52 then n * 2 ^ (52 - e) else round_shift (e - 52) n)"

lemma f64_mag_sig: "0 < n \<Longrightarrow> f64_mag n = (ilog2 n + 1023) * 2 ^ 52 + f64_sig n - 2 ^ 52"
  by (simp add: f64_mag_def f64_sig_def Let_def)

lemma f64_sig_bounds:
  assumes "0 < n"
  shows "2 ^ 52 \<le> f64_sig n" and "f64_sig n \<le> 2 ^ 53"
proof -
  let ?e = "ilog2 n"
  have b: "2 ^ ?e \<le> n" "n < 2 ^ Suc ?e" using ilog2_bounds [OF assms] by auto
  have "2 ^ 52 \<le> f64_sig n \<and> f64_sig n \<le> 2 ^ 53"
  proof (cases "?e \<le> 52")
    case True
    have p: "2 ^ ?e * 2 ^ (52 - ?e) = (2 :: nat) ^ 52"
      using True by (simp only: power_add [symmetric] le_add_diff_inverse)
    have "2 ^ ?e * 2 ^ (52 - ?e) \<le> n * 2 ^ (52 - ?e)" using b(1) by simp
    moreover have "n * 2 ^ (52 - ?e) \<le> 2 * (2 ^ ?e * 2 ^ (52 - ?e))" using b(2) by simp
    ultimately show ?thesis using True unfolding p by (simp add: f64_sig_def)
  next
    case False
    then have "?e - 52 + 52 = ?e" "?e - 52 + 53 = Suc ?e" by simp_all
    with b have "2 ^ (?e - 52 + 52) \<le> n" "n < 2 ^ (?e - 52 + 53)" by simp_all
    from round_shift_bounds [OF this] False show ?thesis by (simp add: f64_sig_def)
  qed
  then show "2 ^ 52 \<le> f64_sig n" and "f64_sig n \<le> 2 ^ 53" by simp_all
qed

lemma f64_mag_mono: "m \<le> n \<Longrightarrow> f64_mag m \<le> f64_mag n"
proof -
  assume le: "m \<le> n"
  show ?thesis
  proof (cases "m = 0")
    case True
    then show ?thesis by (simp add: f64_mag_def)
  next
    case False
    then have pos: "0 < m" "0 < n" using le by auto
    note sb = f64_sig_bounds [OF pos(1)] f64_sig_bounds [OF pos(2)]
    have em: "ilog2 m \<le> ilog2 n" using ilog2_mono [OF pos(1) le] .
    show ?thesis
    proof (cases "ilog2 m = ilog2 n")
      case True
      with le have "f64_sig m \<le> f64_sig n"
        by (auto simp: f64_sig_def Let_def intro: round_shift_mono)
      with True pos show ?thesis by (simp add: f64_mag_sig)
    next
      case False
      with em have "ilog2 m + 1 \<le> ilog2 n" by simp
      with sb pos show ?thesis by (simp add: f64_mag_sig)
    qed
  qed
qed

lemma f64_mag_bound: "n \<le> 2 ^ 63 \<Longrightarrow> f64_mag n < 2 ^ 62 + 2 ^ 61"
proof (cases "n = 0")
  case False
  assume le: "n \<le> 2 ^ 63"
  have "ilog2 n \<le> 63"
  proof (rule ccontr)
    assume "\<not> ilog2 n \<le> 63"
    then have "(2 :: nat) ^ 64 \<le> 2 ^ ilog2 n" by (intro power_increasing) auto
    also have "\<dots> \<le> n" using ilog2_bounds [of n] False by simp
    finally show False using le by simp
  qed
  then have "f64_mag n \<le> (63 + 1023) * 2 ^ 52 + 2 ^ 53 - 2 ^ 52"
    unfolding f64_mag_sig [OF False [unfolded neq0_conv]]
    using f64_sig_bounds(2) [of n] False by (intro diff_le_mono add_mono mult_le_mono1) auto
  then show ?thesis by simp
qed (simp add: f64_mag_def)

lemma f64_key_of_int:
  assumes "\<bar>n\<bar> \<le> 2 ^ 63"
  shows "f64_key (f64_of_int n) = sgn n * int (f64_mag (nat \<bar>n\<bar>))"
proof -
  have b: "f64_mag (nat \<bar>n\<bar>) < 2 ^ 62 + 2 ^ 61"
    using assms by (intro f64_mag_bound) (simp add: nat_le_iff)
  show ?thesis
  proof (cases "n < 0")
    case True
    then have "unat (f64_of_int n) = 2 ^ 63 + f64_mag (nat \<bar>n\<bar>)"
      using b by (simp add: f64_of_int_def unat_of_nat del: of_nat_add)
    with True show ?thesis by (simp add: f64_key_def)
  next
    case False
    then have "unat (f64_of_int n) = f64_mag (nat \<bar>n\<bar>)"
      using b by (simp add: f64_of_int_def unat_of_nat del: of_nat_add)
    with b have "f64_key (f64_of_int n) = int (f64_mag (nat \<bar>n\<bar>))" by (simp add: f64_key_def)
    with False show ?thesis by (cases "n = 0") (simp_all add: f64_mag_def)
  qed
qed

lemma f64_of_int_mono:
  assumes "m \<le> n" and "\<bar>m\<bar> \<le> 2 ^ 63" and "\<bar>n\<bar> \<le> 2 ^ 63"
  shows "f64_key (f64_of_int m) \<le> f64_key (f64_of_int n)"
proof -
  consider "0 \<le> m" | "m < 0" "0 \<le> n" | "n < 0" by linarith
  then show ?thesis
  proof cases
    case 1
    with assms have "nat \<bar>m\<bar> \<le> nat \<bar>n\<bar>" by simp
    from f64_mag_mono [OF this] 1 assms show ?thesis
      by (cases "m = 0"; cases "n = 0") (simp_all add: f64_key_of_int f64_mag_def)
  next
    case 2
    with assms show ?thesis by (cases "n = 0") (simp_all add: f64_key_of_int)
  next
    case 3
    with assms have "nat \<bar>n\<bar> \<le> nat \<bar>m\<bar>" by simp
    from f64_mag_mono [OF this] 3 assms show ?thesis by (simp add: f64_key_of_int)
  qed
qed

lemma f64_of_int64_mono:
  "sint a \<le> sint b \<Longrightarrow> f64_key (f64_of_int64 a) \<le> f64_key (f64_of_int64 b)"
  unfolding f64_of_int64_def using sint_ge [of a] sint_lt [of a] sint_ge [of b] sint_lt [of b]
  by (intro f64_of_int_mono) (auto simp: abs_le_iff)

end
