(* ===== verification/GoJson.thy ===== *)
theory GoJson
  imports Floats
begin

text \<open>
  What the service uses of \<open>encoding/json\<close>, \<open>unicode/utf8\<close> and \<open>time\<close>. A JSON document is
  its tree: the text between \<open>Marshal\<close> and \<open>Unmarshal\<close> is not modelled, the rules of both
  are. Strings are coerced to valid UTF-8 when written; \<open>time.Time\<close> is written as an RFC 3339
  string (\<open>JTime\<close> is a string token that holds one) and only for the years 0 to 9999; a
  \<open>float64\<close> must be finite. Decoding follows the order of the object's members, matches keys
  by simple case folding, ignores unknown keys, leaves a field alone on null, and after a type
  mismatch goes on with the remaining members and reports the mismatch at the end.
\<close>

section \<open>UTF-8\<close>

definition byte_in :: "char \<Rightarrow> char \<Rightarrow> char \<Rightarrow> bool" where
  "byte_in c lo hi \<longleftrightarrow> lo \<le> c \<and> c \<le> hi"

definition cont_byte :: "char \<Rightarrow> bool" where
  "cont_byte c \<longleftrightarrow> byte_in c (CHR 0x80) (CHR 0xBF)"

text \<open>The number of bytes of the well-formed rune a string starts with, 0 when there is none.\<close>

fun utf8_rune :: "string \<Rightarrow> nat" where
  "utf8_rune [] = 0"
| "utf8_rune (c # s) =
     (if byte_in c (CHR 0x00) (CHR 0x7F) then 1
      else case s of
        [] \<Rightarrow> 0
      | d # s \<Rightarrow>
          if byte_in c (CHR 0xC2) (CHR 0xDF) \<and> cont_byte d then 2
          else case s of
            [] \<Rightarrow> 0
          | f # s \<Rightarrow>
              if cont_byte f \<and>
                 (byte_in c (CHR 0xE0) (CHR 0xE0) \<and> byte_in d (CHR 0xA0) (CHR 0xBF) \<or>
                  (byte_in c (CHR 0xE1) (CHR 0xEC) \<or> byte_in c (CHR 0xEE) (CHR 0xEF)) \<and> cont_byte d \<or>
                  byte_in c (CHR 0xED) (CHR 0xED) \<and> byte_in d (CHR 0x80) (CHR 0x9F)) then 3
              else case s of
                [] \<Rightarrow> 0
              | g # s \<Rightarrow>
                  if cont_byte f \<and> cont_byte g \<and>
                     (byte_in c (CHR 0xF0) (CHR 0xF0) \<and> byte_in d (CHR 0x90) (CHR 0xBF) \<or>
                      byte_in c (CHR 0xF1) (CHR 0xF3) \<and> cont_byte d \<or>
                      byte_in c (CHR 0xF4) (CHR 0xF4) \<and> byte_in d (CHR 0x80) (CHR 0x8F)) then 4
                  else 0)"

function valid_utf8 :: "string \<Rightarrow> bool" where
  "valid_utf8 s =
     (if s = [] then True
      else if utf8_rune s = 0 then False else valid_utf8 (drop (utf8_rune s) s))"
  by pat_completeness auto
termination by (relation "measure length") auto

function coerce_utf8 :: "string \<Rightarrow> string" where
  "coerce_utf8 s =
     (if s = [] then []
      else if utf8_rune s = 0
           then [CHR 0xEF, CHR 0xBF, CHR 0xBD] @ coerce_utf8 (tl s)
           else take (utf8_rune s) s @ coerce_utf8 (drop (utf8_rune s) s))"
  by pat_completeness auto
termination by (relation "measure length") auto

declare valid_utf8.simps [simp del] coerce_utf8.simps [simp del]

text \<open>The number of characters of a text, as PostgreSQL counts them.\<close>

definition rune_count :: "string \<Rightarrow> nat" where
  "rune_count s = length (filter (\<lambda>c. \<not> cont_byte c) s)"

lemma utf8_Nil [simp]: "valid_utf8 []" "coerce_utf8 [] = []"
  by (simp_all add: valid_utf8.simps coerce_utf8.simps)

lemma coerce_utf8_valid: "valid_utf8 s \<Longrightarrow> coerce_utf8 s = s"
proof (induction s rule: valid_utf8.induct)
  case (1 s)
  then show ?case
    by (cases "s = []"; cases "utf8_rune s = 0")
      (simp_all add: valid_utf8.simps [of s] coerce_utf8.simps [of s])
qed

lemma valid_utf8_ascii: "list_all (\<lambda>c. c \<le> CHR 0x7F) s \<Longrightarrow> valid_utf8 s"
  by (induction s) (simp_all add: valid_utf8.simps byte_in_def less_eq_char_def)

lemma rune_count_le: "rune_count s \<le> length s"
  by (simp add: rune_count_def)

section \<open>Instants\<close>

text \<open>Go's zero time is the first instant of the year 1.\<close>

definition zero_time :: time where
  "zero_time = - 62135596800 * 10 ^ 9"

definition unix_milli :: "time \<Rightarrow> int" where
  "unix_milli t = t div 10 ^ 6"

text \<open>\<open>time.Time.MarshalJSON\<close> refuses a year outside 0 to 9999.\<close>

definition json_time_ok :: "time \<Rightarrow> bool" where
  "json_time_ok t \<longleftrightarrow> - 62167219200 * 10 ^ 9 \<le> t \<and> t < 253402300800 * 10 ^ 9"

text \<open>The civil date of a day number (days since 1970-01-01): year, month, day.\<close>

definition civil_from_days :: "int \<Rightarrow> int \<times> int \<times> int" where
  "civil_from_days days =
     (let z = days + 719468; era = z div 146097; doe = z mod 146097;
          yoe = (doe - doe div 1460 + doe div 36524 - doe div 146096) div 365;
          doy = doe - (365 * yoe + yoe div 4 - yoe div 100);
          mp = (5 * doy + 2) div 153;
          d = doy - (153 * mp + 2) div 5 + 1;
          m = (if mp < 10 then mp + 3 else mp - 9)
      in (yoe + era * 400 + (if m \<le> 2 then 1 else 0), m, d))"

definition pad_zero :: "nat \<Rightarrow> string \<Rightarrow> string" where
  "pad_zero n s = replicate (n - length s) (CHR ''0'') @ s"

definition show_pad :: "nat \<Rightarrow> int \<Rightarrow> string" where
  "show_pad n v = (if v < 0 then CHR ''-'' # pad_zero n (show_nat (nat (- v)))
                   else pad_zero n (show_nat (nat v)))"

definition strip_zeros :: "string \<Rightarrow> string" where
  "strip_zeros s = rev (dropWhile (\<lambda>c. c = CHR ''0'') (rev s))"

text \<open>\<open>t.UTC().Format(time.RFC3339Nano)\<close>.\<close>

definition rfc3339_nano :: "time \<Rightarrow> string" where
  "rfc3339_nano t =
     (let secs = t div 10 ^ 9; ns = t mod 10 ^ 9; sod = secs mod 86400;
          (y, m, d) = civil_from_days (secs div 86400);
          frac = strip_zeros (show_pad 9 ns)
      in show_pad 4 y @ ''-'' @ show_pad 2 m @ ''-'' @ show_pad 2 d @ ''T'' @
         show_pad 2 (sod div 3600) @ '':'' @ show_pad 2 (sod div 60 mod 60) @ '':'' @
         show_pad 2 (sod mod 60) @ (if frac = [] then [] else ''.'' @ frac) @ ''Z'')"

section \<open>Trees\<close>

datatype json =
    JNull
  | JBool bool
  | JNum int
  | JFloat float64
  | JStr string
  | JTime time
  | JArr "json list"
  | JObj "(string \<times> json) list"

text \<open>The payload of a message or a Redis value: a JSON document, or other bytes.\<close>

datatype bytes = Json json | Raw string

section \<open>Encoding\<close>

definition enc_str :: "string \<Rightarrow> json" where
  "enc_str s = JStr (coerce_utf8 s)"

definition enc_int :: "'a::len word \<Rightarrow> json" where
  "enc_int w = JNum (sint w)"

definition enc_slice :: "('a \<Rightarrow> json) \<Rightarrow> 'a list \<Rightarrow> json" where
  "enc_slice f xs = (if xs = [] then JNull else JArr (map f xs))"

fun enc_time_ptr :: "time option \<Rightarrow> json" where
  "enc_time_ptr None = JNull"
| "enc_time_ptr (Some t) = JTime t"

definition time_ptr_ok :: "time option \<Rightarrow> bool" where
  "time_ptr_ok p = (case p of None \<Rightarrow> True | Some t \<Rightarrow> json_time_ok t)"

text \<open>A member with \<open>omitempty\<close>.\<close>

definition omit_str :: "string \<Rightarrow> string \<Rightarrow> (string \<times> json) list" where
  "omit_str k s = (if s = [] then [] else [(k, enc_str s)])"

definition omit_time_ptr :: "string \<Rightarrow> time option \<Rightarrow> (string \<times> json) list" where
  "omit_time_ptr k p = (case p of None \<Rightarrow> [] | Some t \<Rightarrow> [(k, JTime t)])"

section \<open>Decoding\<close>

text \<open>
  A decoder receives the value and what the target holds; it returns whether the value had
  the right type, and what the target holds afterwards.
\<close>

type_synonym 'a decoder = "json \<Rightarrow> 'a \<Rightarrow> bool \<times> 'a"

fun dec_str :: "string decoder" where
  "dec_str (JStr s) _ = (True, s)"
| "dec_str (JTime t) _ = (True, rfc3339_nano t)"
| "dec_str JNull v = (True, v)"
| "dec_str _ v = (False, v)"

fun dec_bool :: "bool decoder" where
  "dec_bool (JBool b) _ = (True, b)"
| "dec_bool JNull v = (True, v)"
| "dec_bool _ v = (False, v)"

fun dec_int :: "'a::len word decoder" where
  "dec_int (JNum n) v =
     (if - (2 ^ (LENGTH('a) - 1)) \<le> n \<and> n < 2 ^ (LENGTH('a) - 1) then (True, word_of_int n)
      else (False, v))"
| "dec_int JNull v = (True, v)"
| "dec_int _ v = (False, v)"

fun dec_float :: "float64 decoder" where
  "dec_float (JFloat f) _ = (True, f)"
| "dec_float (JNum n) _ = (True, f64_of_int n)"
| "dec_float JNull v = (True, v)"
| "dec_float _ v = (False, v)"

fun dec_time :: "time decoder" where
  "dec_time (JTime t) _ = (True, t)"
| "dec_time JNull v = (True, v)"
| "dec_time _ v = (False, v)"

fun dec_time_ptr :: "time option decoder" where
  "dec_time_ptr JNull _ = (True, None)"
| "dec_time_ptr j p =
     (let (ok, t) = dec_time j (case p of None \<Rightarrow> zero_time | Some t \<Rightarrow> t) in (ok, Some t))"

fun dec_slice :: "'a \<Rightarrow> 'a decoder \<Rightarrow> 'a list decoder" where
  "dec_slice z d JNull _ = (True, [])"
| "dec_slice z d (JArr js) _ =
     (let rs = map (\<lambda>j. d j z) js in (list_all fst rs, map snd rs))"
| "dec_slice z d _ v = (False, v)"

text \<open>A field of a struct: its value is read and written through the record's functions.\<close>

definition field :: "('r \<Rightarrow> 'a) \<Rightarrow> (('a \<Rightarrow> 'a) \<Rightarrow> 'r \<Rightarrow> 'r) \<Rightarrow> 'a decoder \<Rightarrow> 'r decoder" where
  "field sel upd d j r = (let (ok, v) = d j (sel r) in (ok, upd (\<lambda>_. v) r))"

fun dec_members :: "(string \<times> 'r decoder) list \<Rightarrow> (string \<times> json) list \<Rightarrow> 'r \<Rightarrow> bool \<times> 'r" where
  "dec_members fs [] r = (True, r)"
| "dec_members fs ((k, v) # kvs) r =
     (case map_of fs (fold_key k) of
        None \<Rightarrow> dec_members fs kvs r
      | Some d \<Rightarrow> (let (ok, r) = d v r; (ok', r) = dec_members fs kvs r in (ok \<and> ok', r)))"

fun dec_struct :: "(string \<times> 'r decoder) list \<Rightarrow> 'r decoder" where
  "dec_struct fs (JObj kvs) r = dec_members fs kvs r"
| "dec_struct fs JNull r = (True, r)"
| "dec_struct fs _ r = (False, r)"

text \<open>\<open>json.Unmarshal\<close>; bytes that are no JSON document leave the target as it was.\<close>

fun unmarshal :: "'a decoder \<Rightarrow> bytes \<Rightarrow> 'a \<Rightarrow> bool \<times> 'a" where
  "unmarshal d (Json j) v = d j v"
| "unmarshal d (Raw _) v = (False, v)"

section \<open>Round trips of the parts\<close>

lemma dec_str_enc [simp]: "valid_utf8 s \<Longrightarrow> dec_str (enc_str s) v = (True, s)"
  by (simp add: enc_str_def coerce_utf8_valid)

lemma dec_int_enc [simp]: "dec_int (enc_int w) v = (True, w)"
  for w :: "'a::len word"
  using sint_ge [of w] sint_lt [of w] by (simp add: enc_int_def)

lemma dec_time_ptr_enc [simp]: "dec_time_ptr (enc_time_ptr p) v = (True, p)"
  by (cases p) simp_all

lemma dec_slice_enc:
  "(\<And>x. x \<in> set xs \<Longrightarrow> d (f x) z = (True, x)) \<Longrightarrow> dec_slice z d (enc_slice f xs) v = (True, xs)"
  by (auto simp: enc_slice_def list_all_iff Let_def intro!: map_idI)

definition plain_key :: "string \<Rightarrow> bool" where
  "plain_key s \<longleftrightarrow> list_all (\<lambda>c. c < CHR 0x80 \<and> lower_char c = c) s"

lemma fold_key_plain: "plain_key s \<Longrightarrow> fold_key s = s"
  by (induction s rule: fold_key.induct) (auto simp: plain_key_def)

lemma field_apply: "d j (sel r) = (ok, v) \<Longrightarrow> field sel upd d j r = (ok, upd (\<lambda>_. v) r)"
  by (simp add: field_def)

lemma dec_members_append:
  "dec_members fs (kvs @ kvs') r =
     (let (ok, r) = dec_members fs kvs r; (ok', r) = dec_members fs kvs' r in (ok \<and> ok', r))"
  by (induction fs kvs r rule: dec_members.induct)
    (auto simp: Let_def split: option.splits prod.splits)

end
