(* ===== verification/EventMapper.thy ===== *)
theory EventMapper
  imports GoJson
begin

text \<open>
  \<open>internal/application/mapper.go\<close>: the JSON payloads of a gig. \<open>ToPublishedPayload\<close> and
  \<open>FromPublishedPayload\<close> are the two ends of the events \<open>gig.published\<close>,
  \<open>gig.projection.requested\<close> and \<open>gig.preview.projection.requested\<close>; \<open>ToReadModelPayload\<close> and
  \<open>FromReadModelPayload\<close> those of the Redis read model. The last sections show what survives
  each trip: everything but the identifiers of the media rows, and the file ids replaced by
  the row's own fields on the read-model side.
\<close>

section \<open>Subjects\<close>

definition gigPublishedSubject :: string where
  "gigPublishedSubject = ''gig.published''"
definition gigProjectionRequestedSubject :: string where
  "gigProjectionRequestedSubject = ''gig.projection.requested''"
definition gigPreviewProjectionSubject :: string where
  "gigPreviewProjectionSubject = ''gig.preview.projection.requested''"
definition gigViewedSubject :: string where
  "gigViewedSubject = ''gig.viewed''"

lemmas subject_defs = gigPublishedSubject_def gigProjectionRequestedSubject_def
  gigPreviewProjectionSubject_def gigViewedSubject_def

section \<open>Event structs\<close>

record GigPublishedPackage =
  pp_ID :: string
  pp_GigID :: string
  pp_Tier :: string
  pp_Description :: string
  pp_DeliveryDays :: int32
  pp_PriceCents :: int64
  pp_SortOrder :: int32

record GigPublishedQuestion =
  pq_ID :: string
  pq_GigID :: string
  pq_Content :: string
  pq_SortOrder :: int32

record GigPublishedMedia =
  pm_ID :: string
  pm_GigID :: string
  pm_FileID :: string
  pm_URL :: string
  pm_SortOrder :: int32

record GigPublishedEvent =
  pe_EventID :: string
  pe_OperationID :: string
  pe_CorrelationID :: string
  pe_GigID :: string
  pe_FreelancerID :: string
  pe_SellerUsername :: string
  pe_Slug :: string
  pe_Title :: string
  pe_ShortInfo :: string
  pe_Description :: string
  pe_CategoryID :: int64
  pe_Currency :: string
  pe_Status :: string
  pe_BasicInfoCompleted :: bool
  pe_PackagesCompleted :: bool
  pe_RequirementsCompleted :: bool
  pe_MediaCompleted :: bool
  pe_PictureFileID :: string
  pe_PublishedAt :: "time option"
  pe_CreatedAt :: time
  pe_UpdatedAt :: time
  pe_Packages :: "GigPublishedPackage list"
  pe_Questions :: "GigPublishedQuestion list"
  pe_Media :: "GigPublishedMedia list"
  pe_PictureURL :: string

record GigReadModelQuestion =
  rq_ID :: string
  rq_GigID :: string
  rq_Content :: string
  rq_SortOrder :: int32

record GigReadModelPackage =
  rp_ID :: string
  rp_GigID :: string
  rp_Tier :: string
  rp_Description :: string
  rp_DeliveryDays :: int32
  rp_PriceCents :: int64
  rp_SortOrder :: int32

record GigReadModelMedia =
  rm_ID :: string
  rm_GigID :: string
  rm_URL :: string
  rm_SortOrder :: int32

record GigReadModelEvent =
  re_GigID :: string
  re_FreelancerID :: string
  re_SellerUsername :: string
  re_Slug :: string
  re_Title :: string
  re_ShortInfo :: string
  re_Description :: string
  re_CategoryID :: int64
  re_Currency :: string
  re_Status :: string
  re_BasicInfoCompleted :: bool
  re_PackagesCompleted :: bool
  re_RequirementsCompleted :: bool
  re_MediaCompleted :: bool
  re_PictureFileID :: string
  re_PictureURL :: string
  re_PublishedAt :: "time option"
  re_CreatedAt :: time
  re_UpdatedAt :: time
  re_Packages :: "GigReadModelPackage list"
  re_Questions :: "GigReadModelQuestion list"
  re_Media :: "GigReadModelMedia list"

record GigViewedEvent =
  ve_GigID :: string
  ve_FreelancerID :: string
  ve_SellerUsername :: string
  ve_Slug :: string
  ve_ViewedAt :: time

section \<open>JSON form of the structs\<close>

text \<open>Members marked \<open>omitempty\<close> in the source are left out when empty.\<close>

definition json_of_pp :: "GigPublishedPackage \<Rightarrow> json" where
  "json_of_pp p = JObj (
       omit_str ''id'' (pp_ID p) @
       omit_str ''gig_id'' (pp_GigID p) @
       [(''tier'', enc_str (pp_Tier p)),
        (''description'', enc_str (pp_Description p)),
        (''delivery_days'', enc_int (pp_DeliveryDays p)),
        (''price_cents'', enc_int (pp_PriceCents p)),
        (''sort_order'', enc_int (pp_SortOrder p))])"

definition json_of_pq :: "GigPublishedQuestion \<Rightarrow> json" where
  "json_of_pq q = JObj (
       omit_str ''id'' (pq_ID q) @
       omit_str ''gig_id'' (pq_GigID q) @
       [(''content'', enc_str (pq_Content q)),
        (''sort_order'', enc_int (pq_SortOrder q))])"

definition json_of_pm :: "GigPublishedMedia \<Rightarrow> json" where
  "json_of_pm m = JObj (
       omit_str ''id'' (pm_ID m) @
       omit_str ''gig_id'' (pm_GigID m) @
       [(''file_id'', enc_str (pm_FileID m))] @
       omit_str ''url'' (pm_URL m) @
       [(''sort_order'', enc_int (pm_SortOrder m))])"

definition json_of_published :: "GigPublishedEvent \<Rightarrow> json" where
  "json_of_published ev = JObj (
       omit_str ''event_id'' (pe_EventID ev) @
       omit_str ''operation_id'' (pe_OperationID ev) @
       omit_str ''correlation_id'' (pe_CorrelationID ev) @
       [(''gig_id'', enc_str (pe_GigID ev)),
        (''freelancer_id'', enc_str (pe_FreelancerID ev)),
        (''seller_username'', enc_str (pe_SellerUsername ev)),
        (''slug'', enc_str (pe_Slug ev)),
        (''title'', enc_str (pe_Title ev)),
        (''short_info'', enc_str (pe_ShortInfo ev)),
        (''description'', enc_str (pe_Description ev)),
        (''category_id'', enc_int (pe_CategoryID ev)),
        (''currency'', enc_str (pe_Currency ev)),
        (''status'', enc_str (pe_Status ev)),
        (''basic_info_completed'', JBool (pe_BasicInfoCompleted ev)),
        (''packages_completed'', JBool (pe_PackagesCompleted ev)),
        (''requirements_completed'', JBool (pe_RequirementsCompleted ev)),
        (''media_completed'', JBool (pe_MediaCompleted ev)),
        (''picture_file_id'', enc_str (pe_PictureFileID ev))] @
       omit_time_ptr ''published_at'' (pe_PublishedAt ev) @
       [(''created_at'', JTime (pe_CreatedAt ev)),
        (''updated_at'', JTime (pe_UpdatedAt ev)),
        (''packages'', enc_slice json_of_pp (pe_Packages ev)),
        (''questions'', enc_slice json_of_pq (pe_Questions ev)),
        (''media'', enc_slice json_of_pm (pe_Media ev))] @
       omit_str ''picture_url'' (pe_PictureURL ev))"

definition json_of_rp :: "GigReadModelPackage \<Rightarrow> json" where
  "json_of_rp p = JObj (
       omit_str ''id'' (rp_ID p) @
       omit_str ''gig_id'' (rp_GigID p) @
       [(''tier'', enc_str (rp_Tier p)),
        (''description'', enc_str (rp_Description p)),
        (''delivery_days'', enc_int (rp_DeliveryDays p)),
        (''price_cents'', enc_int (rp_PriceCents p)),
        (''sort_order'', enc_int (rp_SortOrder p))])"

definition json_of_rq :: "GigReadModelQuestion \<Rightarrow> json" where
  "json_of_rq q = JObj (
       omit_str ''id'' (rq_ID q) @
       omit_str ''gig_id'' (rq_GigID q) @
       [(''content'', enc_str (rq_Content q)),
        (''sort_order'', enc_int (rq_SortOrder q))])"

definition json_of_rm :: "GigReadModelMedia \<Rightarrow> json" where
  "json_of_rm m = JObj (
       omit_str ''id'' (rm_ID m) @
       omit_str ''gig_id'' (rm_GigID m) @
       omit_str ''url'' (rm_URL m) @
       [(''sort_order'', enc_int (rm_SortOrder m))])"

definition json_of_read_model :: "GigReadModelEvent \<Rightarrow> json" where
  "json_of_read_model ev = JObj (
       [(''gig_id'', enc_str (re_GigID ev)),
        (''freelancer_id'', enc_str (re_FreelancerID ev)),
        (''seller_username'', enc_str (re_SellerUsername ev)),
        (''slug'', enc_str (re_Slug ev)),
        (''title'', enc_str (re_Title ev)),
        (''short_info'', enc_str (re_ShortInfo ev)),
        (''description'', enc_str (re_Description ev)),
        (''category_id'', enc_int (re_CategoryID ev)),
        (''currency'', enc_str (re_Currency ev)),
        (''status'', enc_str (re_Status ev)),
        (''basic_info_completed'', JBool (re_BasicInfoCompleted ev)),
        (''packages_completed'', JBool (re_PackagesCompleted ev)),
        (''requirements_completed'', JBool (re_RequirementsCompleted ev)),
        (''media_completed'', JBool (re_MediaCompleted ev)),
        (''picture_file_id'', enc_str (re_PictureFileID ev))] @
       omit_str ''picture_url'' (re_PictureURL ev) @
       omit_time_ptr ''published_at'' (re_PublishedAt ev) @
       [(''created_at'', JTime (re_CreatedAt ev)),
        (''updated_at'', JTime (re_UpdatedAt ev)),
        (''packages'', enc_slice json_of_rp (re_Packages ev)),
        (''questions'', enc_slice json_of_rq (re_Questions ev)),
        (''media'', enc_slice json_of_rm (re_Media ev))])"

definition pp_zero :: GigPublishedPackage where
  "pp_zero =
     \<lparr>pp_ID = [], pp_GigID = [], pp_Tier = [], pp_Description = [], pp_DeliveryDays = 0,
      pp_PriceCents = 0, pp_SortOrder = 0\<rparr>"

definition pp_fields :: "(string \<times> GigPublishedPackage decoder) list" where
  "pp_fields =
     [(''id'', field pp_ID pp_ID_update dec_str),
      (''gig_id'', field pp_GigID pp_GigID_update dec_str),
      (''tier'', field pp_Tier pp_Tier_update dec_str),
      (''description'', field pp_Description pp_Description_update dec_str),
      (''delivery_days'', field pp_DeliveryDays pp_DeliveryDays_update dec_int),
      (''price_cents'', field pp_PriceCents pp_PriceCents_update dec_int),
      (''sort_order'', field pp_SortOrder pp_SortOrder_update dec_int)]"

definition pq_zero :: GigPublishedQuestion where
  "pq_zero =
     \<lparr>pq_ID = [], pq_GigID = [], pq_Content = [], pq_SortOrder = 0\<rparr>"

definition pq_fields :: "(string \<times> GigPublishedQuestion decoder) list" where
  "pq_fields =
     [(''id'', field pq_ID pq_ID_update dec_str),
      (''gig_id'', field pq_GigID pq_GigID_update dec_str),
      (''content'', field pq_Content pq_Content_update dec_str),
      (''sort_order'', field pq_SortOrder pq_SortOrder_update dec_int)]"

definition pm_zero :: GigPublishedMedia where
  "pm_zero =
     \<lparr>pm_ID = [], pm_GigID = [], pm_FileID = [], pm_URL = [], pm_SortOrder = 0\<rparr>"

definition pm_fields :: "(string \<times> GigPublishedMedia decoder) list" where
  "pm_fields =
     [(''id'', field pm_ID pm_ID_update dec_str),
      (''gig_id'', field pm_GigID pm_GigID_update dec_str),
      (''file_id'', field pm_FileID pm_FileID_update dec_str),
      (''url'', field pm_URL pm_URL_update dec_str),
      (''sort_order'', field pm_SortOrder pm_SortOrder_update dec_int)]"

definition rp_zero :: GigReadModelPackage where
  "rp_zero =
     \<lparr>rp_ID = [], rp_GigID = [], rp_Tier = [], rp_Description = [], rp_DeliveryDays = 0,
      rp_PriceCents = 0, rp_SortOrder = 0\<rparr>"

definition rp_fields :: "(string \<times> GigReadModelPackage decoder) list" where
  "rp_fields =
     [(''id'', field rp_ID rp_ID_update dec_str),
      (''gig_id'', field rp_GigID rp_GigID_update dec_str),
      (''tier'', field rp_Tier rp_Tier_update dec_str),
      (''description'', field rp_Description rp_Description_update dec_str),
      (''delivery_days'', field rp_DeliveryDays rp_DeliveryDays_update dec_int),
      (''price_cents'', field rp_PriceCents rp_PriceCents_update dec_int),
      (''sort_order'', field rp_SortOrder rp_SortOrder_update dec_int)]"

definition rq_zero :: GigReadModelQuestion where
  "rq_zero =
     \<lparr>rq_ID = [], rq_GigID = [], rq_Content = [], rq_SortOrder = 0\<rparr>"

definition rq_fields :: "(string \<times> GigReadModelQuestion decoder) list" where
  "rq_fields =
     [(''id'', field rq_ID rq_ID_update dec_str),
      (''gig_id'', field rq_GigID rq_GigID_update dec_str),
      (''content'', field rq_Content rq_Content_update dec_str),
      (''sort_order'', field rq_SortOrder rq_SortOrder_update dec_int)]"

definition rm_zero :: GigReadModelMedia where
  "rm_zero =
     \<lparr>rm_ID = [], rm_GigID = [], rm_URL = [], rm_SortOrder = 0\<rparr>"

definition rm_fields :: "(string \<times> GigReadModelMedia decoder) list" where
  "rm_fields =
     [(''id'', field rm_ID rm_ID_update dec_str),
      (''gig_id'', field rm_GigID rm_GigID_update dec_str),
      (''url'', field rm_URL rm_URL_update dec_str),
      (''sort_order'', field rm_SortOrder rm_SortOrder_update dec_int)]"

definition published_zero :: GigPublishedEvent where
  "published_zero =
     \<lparr>pe_EventID = [], pe_OperationID = [], pe_CorrelationID = [], pe_GigID = [],
      pe_FreelancerID = [], pe_SellerUsername = [], pe_Slug = [], pe_Title = [], pe_ShortInfo
      = [], pe_Description = [], pe_CategoryID = 0, pe_Currency = [], pe_Status = [],
      pe_BasicInfoCompleted = False, pe_PackagesCompleted = False, pe_RequirementsCompleted =
      False, pe_MediaCompleted = False, pe_PictureFileID = [], pe_PublishedAt = None,
      pe_CreatedAt = zero_time, pe_UpdatedAt = zero_time, pe_Packages = [], pe_Questions = [],
      pe_Media = [], pe_PictureURL = []\<rparr>"

definition published_fields :: "(string \<times> GigPublishedEvent decoder) list" where
  "published_fields =
     [(''event_id'', field pe_EventID pe_EventID_update dec_str),
      (''operation_id'', field pe_OperationID pe_OperationID_update dec_str),
      (''correlation_id'', field pe_CorrelationID pe_CorrelationID_update dec_str),
      (''gig_id'', field pe_GigID pe_GigID_update dec_str),
      (''freelancer_id'', field pe_FreelancerID pe_FreelancerID_update dec_str),
      (''seller_username'', field pe_SellerUsername pe_SellerUsername_update dec_str),
      (''slug'', field pe_Slug pe_Slug_update dec_str),
      (''title'', field pe_Title pe_Title_update dec_str),
      (''short_info'', field pe_ShortInfo pe_ShortInfo_update dec_str),
      (''description'', field pe_Description pe_Description_update dec_str),
      (''category_id'', field pe_CategoryID pe_CategoryID_update dec_int),
      (''currency'', field pe_Currency pe_Currency_update dec_str),
      (''status'', field pe_Status pe_Status_update dec_str),
      (''basic_info_completed'', field pe_BasicInfoCompleted pe_BasicInfoCompleted_update dec_bool),
      (''packages_completed'', field pe_PackagesCompleted pe_PackagesCompleted_update dec_bool),
      (''requirements_completed'', field pe_RequirementsCompleted pe_RequirementsCompleted_update dec_bool),
      (''media_completed'', field pe_MediaCompleted pe_MediaCompleted_update dec_bool),
      (''picture_file_id'', field pe_PictureFileID pe_PictureFileID_update dec_str),
      (''published_at'', field pe_PublishedAt pe_PublishedAt_update dec_time_ptr),
      (''created_at'', field pe_CreatedAt pe_CreatedAt_update dec_time),
      (''updated_at'', field pe_UpdatedAt pe_UpdatedAt_update dec_time),
      (''packages'', field pe_Packages pe_Packages_update (dec_slice pp_zero (dec_struct pp_fields))),
      (''questions'', field pe_Questions pe_Questions_update (dec_slice pq_zero (dec_struct pq_fields))),
      (''media'', field pe_Media pe_Media_update (dec_slice pm_zero (dec_struct pm_fields))),
      (''picture_url'', field pe_PictureURL pe_PictureURL_update dec_str)]"

definition read_model_zero :: GigReadModelEvent where
  "read_model_zero =
     \<lparr>re_GigID = [], re_FreelancerID = [], re_SellerUsername = [], re_Slug = [], re_Title =
      [], re_ShortInfo = [], re_Description = [], re_CategoryID = 0, re_Currency = [],
      re_Status = [], re_BasicInfoCompleted = False, re_PackagesCompleted = False,
      re_RequirementsCompleted = False, re_MediaCompleted = False, re_PictureFileID = [],
      re_PictureURL = [], re_PublishedAt = None, re_CreatedAt = zero_time, re_UpdatedAt =
      zero_time, re_Packages = [], re_Questions = [], re_Media = []\<rparr>"

definition read_model_fields :: "(string \<times> GigReadModelEvent decoder) list" where
  "read_model_fields =
     [(''gig_id'', field re_GigID re_GigID_update dec_str),
      (''freelancer_id'', field re_FreelancerID re_FreelancerID_update dec_str),
      (''seller_username'', field re_SellerUsername re_SellerUsername_update dec_str),
      (''slug'', field re_Slug re_Slug_update dec_str),
      (''title'', field re_Title re_Title_update dec_str),
      (''short_info'', field re_ShortInfo re_ShortInfo_update dec_str),
      (''description'', field re_Description re_Description_update dec_str),
      (''category_id'', field re_CategoryID re_CategoryID_update dec_int),
      (''currency'', field re_Currency re_Currency_update dec_str),
      (''status'', field re_Status re_Status_update dec_str),
      (''basic_info_completed'', field re_BasicInfoCompleted re_BasicInfoCompleted_update dec_bool),
      (''packages_completed'', field re_PackagesCompleted re_PackagesCompleted_update dec_bool),
      (''requirements_completed'', field re_RequirementsCompleted re_RequirementsCompleted_update dec_bool),
      (''media_completed'', field re_MediaCompleted re_MediaCompleted_update dec_bool),
      (''picture_file_id'', field re_PictureFileID re_PictureFileID_update dec_str),
      (''picture_url'', field re_PictureURL re_PictureURL_update dec_str),
      (''published_at'', field re_PublishedAt re_PublishedAt_update dec_time_ptr),
      (''created_at'', field re_CreatedAt re_CreatedAt_update dec_time),
      (''updated_at'', field re_UpdatedAt re_UpdatedAt_update dec_time),
      (''packages'', field re_Packages re_Packages_update (dec_slice rp_zero (dec_struct rp_fields))),
      (''questions'', field re_Questions re_Questions_update (dec_slice rq_zero (dec_struct rq_fields))),
      (''media'', field re_Media re_Media_update (dec_slice rm_zero (dec_struct rm_fields)))]"

section \<open>The mapper\<close>

text \<open>The error \<open>json.Marshal\<close> returns for a year it cannot write.\<close>

definition marshal_time_error :: gerr where
  "marshal_time_error = Opaque ''json: error calling MarshalJSON for type time.Time''"

definition unmarshal_error :: gerr where
  "unmarshal_error = Opaque ''json: cannot unmarshal''"

definition published_package :: "GigPackage \<Rightarrow> GigPublishedPackage" where
  "published_package p =
     \<lparr>pp_ID = pkg_ID p,
      pp_GigID = pkg_GigID p,
      pp_Tier = pkg_Tier p,
      pp_Description = pkg_Description p,
      pp_DeliveryDays = pkg_DeliveryDays p,
      pp_PriceCents = pkg_PriceCents p,
      pp_SortOrder = pkg_SortOrder p\<rparr>"

definition published_question :: "GigQuestion \<Rightarrow> GigPublishedQuestion" where
  "published_question q =
     \<lparr>pq_ID = que_ID q,
      pq_GigID = que_GigID q,
      pq_Content = que_Content q,
      pq_SortOrder = que_SortOrder q\<rparr>"

definition published_media :: "GigMedia \<Rightarrow> GigPublishedMedia" where
  "published_media m =
     \<lparr>pm_ID = med_FileID m,
      pm_GigID = med_GigID m,
      pm_FileID = med_FileID m,
      pm_URL = med_URL m,
      pm_SortOrder = med_SortOrder m\<rparr>"

definition published_event :: "Gig \<Rightarrow> GigPublishedEvent" where
  "published_event g =
     \<lparr>pe_EventID = [],
      pe_OperationID = [],
      pe_CorrelationID = [],
      pe_GigID = gig_ID g,
      pe_FreelancerID = gig_FreelancerID g,
      pe_SellerUsername = gig_SellerUsername g,
      pe_Slug = gig_Slug g,
      pe_Title = gig_Title g,
      pe_ShortInfo = gig_ShortInfo g,
      pe_Description = gig_Description g,
      pe_CategoryID = gig_CategoryID g,
      pe_Currency = gig_Currency g,
      pe_Status = gig_Status g,
      pe_BasicInfoCompleted = gig_BasicInfoCompleted g,
      pe_PackagesCompleted = gig_PackagesCompleted g,
      pe_RequirementsCompleted = gig_RequirementsCompleted g,
      pe_MediaCompleted = gig_MediaCompleted g,
      pe_PictureFileID = gig_PictureFileID g,
      pe_PublishedAt = gig_PublishedAt g,
      pe_CreatedAt = gig_CreatedAt g,
      pe_UpdatedAt = gig_UpdatedAt g,
      pe_Packages = map published_package (gig_Packages g),
      pe_Questions = map published_question (gig_Questions g),
      pe_Media = map published_media (gig_Media g),
      pe_PictureURL = gig_PictureURL g\<rparr>"

definition published_times_ok :: "GigPublishedEvent \<Rightarrow> bool" where
  "published_times_ok ev \<longleftrightarrow>
     time_ptr_ok (pe_PublishedAt ev) \<and> json_time_ok (pe_CreatedAt ev) \<and> json_time_ok (pe_UpdatedAt ev)"

definition marshal_published :: "GigPublishedEvent \<Rightarrow> bytes res" where
  "marshal_published ev =
     (if published_times_ok ev then Ok (Json (json_of_published ev)) else Err marshal_time_error)"

definition unmarshal_published :: "bytes \<Rightarrow> GigPublishedEvent res" where
  "unmarshal_published b =
     (case unmarshal (dec_struct published_fields) b published_zero of
        (ok, ev) \<Rightarrow> if ok then Ok ev else Err unmarshal_error)"

definition ToPublishedPayload :: "Gig \<Rightarrow> bytes res" where
  "ToPublishedPayload g = marshal_published (published_event g)"

definition ToViewedPayload :: "time \<Rightarrow> Gig \<Rightarrow> bytes res" where
  "ToViewedPayload now g =
     (let ev = \<lparr>ve_GigID = gig_ID g, ve_FreelancerID = gig_FreelancerID g,
                 ve_SellerUsername = gig_SellerUsername g, ve_Slug = gig_Slug g, ve_ViewedAt = now\<rparr>
      in if json_time_ok (ve_ViewedAt ev)
         then Ok (Json (JObj
                [(''gig_id'', enc_str (ve_GigID ev)),
                 (''freelancer_id'', enc_str (ve_FreelancerID ev)),
                 (''seller_username'', enc_str (ve_SellerUsername ev)),
                 (''slug'', enc_str (ve_Slug ev)),
                 (''viewed_at'', JTime (ve_ViewedAt ev))]))
         else Err marshal_time_error)"

definition read_model_package :: "GigPackage \<Rightarrow> GigReadModelPackage" where
  "read_model_package p =
     \<lparr>rp_ID = pkg_ID p,
      rp_GigID = pkg_GigID p,
      rp_Tier = pkg_Tier p,
      rp_Description = pkg_Description p,
      rp_DeliveryDays = pkg_DeliveryDays p,
      rp_PriceCents = pkg_PriceCents p,
      rp_SortOrder = pkg_SortOrder p\<rparr>"

definition read_model_question :: "GigQuestion \<Rightarrow> GigReadModelQuestion" where
  "read_model_question q =
     \<lparr>rq_ID = que_ID q,
      rq_GigID = que_GigID q,
      rq_Content = que_Content q,
      rq_SortOrder = que_SortOrder q\<rparr>"

definition read_model_media :: "GigMedia \<Rightarrow> GigReadModelMedia" where
  "read_model_media m =
     \<lparr>rm_ID = med_FileID m,
      rm_GigID = med_GigID m,
      rm_URL = med_URL m,
      rm_SortOrder = med_SortOrder m\<rparr>"

definition read_model_event :: "Gig \<Rightarrow> GigReadModelEvent" where
  "read_model_event g =
     \<lparr>re_GigID = gig_ID g,
      re_FreelancerID = gig_FreelancerID g,
      re_SellerUsername = gig_SellerUsername g,
      re_Slug = gig_Slug g,
      re_Title = gig_Title g,
      re_ShortInfo = gig_ShortInfo g,
      re_Description = gig_Description g,
      re_CategoryID = gig_CategoryID g,
      re_Currency = gig_Currency g,
      re_Status = gig_Status g,
      re_BasicInfoCompleted = gig_BasicInfoCompleted g,
      re_PackagesCompleted = gig_PackagesCompleted g,
      re_RequirementsCompleted = gig_RequirementsCompleted g,
      re_MediaCompleted = gig_MediaCompleted g,
      re_PictureFileID = gig_PictureFileID g,
      re_PictureURL = gig_PictureURL g,
      re_PublishedAt = gig_PublishedAt g,
      re_CreatedAt = gig_CreatedAt g,
      re_UpdatedAt = gig_UpdatedAt g,
      re_Packages = map read_model_package (gig_Packages g),
      re_Questions = map read_model_question (gig_Questions g),
      re_Media = map read_model_media (gig_Media g)\<rparr>"

definition ToReadModelPayload :: "Gig \<Rightarrow> bytes res" where
  "ToReadModelPayload g =
     (let ev = read_model_event g
      in if time_ptr_ok (re_PublishedAt ev) \<and> json_time_ok (re_CreatedAt ev) \<and>
            json_time_ok (re_UpdatedAt ev)
         then Ok (Json (json_of_read_model ev)) else Err marshal_time_error)"

definition package_of_published :: "GigPublishedPackage \<Rightarrow> GigPackage" where
  "package_of_published p =
     \<lparr>pkg_ID = pp_ID p,
      pkg_GigID = pp_GigID p,
      pkg_Tier = pp_Tier p,
      pkg_Description = pp_Description p,
      pkg_DeliveryDays = pp_DeliveryDays p,
      pkg_PriceCents = pp_PriceCents p,
      pkg_SortOrder = pp_SortOrder p\<rparr>"

definition question_of_published :: "GigPublishedQuestion \<Rightarrow> GigQuestion" where
  "question_of_published q =
     \<lparr>que_ID = pq_ID q,
      que_GigID = pq_GigID q,
      que_Content = pq_Content q,
      que_SortOrder = pq_SortOrder q\<rparr>"

definition media_of_published :: "GigPublishedMedia \<Rightarrow> GigMedia" where
  "media_of_published m =
     \<lparr>med_ID = [],
      med_GigID = pm_GigID m,
      med_FileID = pm_FileID m,
      med_URL = pm_URL m,
      med_SortOrder = pm_SortOrder m\<rparr>"

definition gig_of_published :: "GigPublishedEvent \<Rightarrow> Gig" where
  "gig_of_published ev =
     \<lparr>gig_ID = pe_GigID ev,
      gig_FreelancerID = pe_FreelancerID ev,
      gig_SellerUsername = pe_SellerUsername ev,
      gig_Slug = pe_Slug ev,
      gig_Title = pe_Title ev,
      gig_ShortInfo = pe_ShortInfo ev,
      gig_Description = pe_Description ev,
      gig_CategoryID = pe_CategoryID ev,
      gig_Currency = pe_Currency ev,
      gig_Status = pe_Status ev,
      gig_BasicInfoCompleted = pe_BasicInfoCompleted ev,
      gig_PackagesCompleted = pe_PackagesCompleted ev,
      gig_RequirementsCompleted = pe_RequirementsCompleted ev,
      gig_MediaCompleted = pe_MediaCompleted ev,
      gig_PictureFileID = pe_PictureFileID ev,
      gig_PictureURL = pe_PictureURL ev,
      gig_PublishedAt = pe_PublishedAt ev,
      gig_CreatedAt = pe_CreatedAt ev,
      gig_UpdatedAt = pe_UpdatedAt ev,
      gig_Packages = map package_of_published (pe_Packages ev),
      gig_Questions = map question_of_published (pe_Questions ev),
      gig_Media = map media_of_published (pe_Media ev)\<rparr>"

definition FromPublishedPayload :: "bytes \<Rightarrow> Gig res" where
  "FromPublishedPayload b =
     (case unmarshal_published b of Ok ev \<Rightarrow> Ok (gig_of_published ev) | Err x \<Rightarrow> Err x | Panic \<Rightarrow> Panic)"

definition package_of_read_model :: "GigReadModelPackage \<Rightarrow> GigPackage" where
  "package_of_read_model p =
     \<lparr>pkg_ID = rp_ID p,
      pkg_GigID = rp_GigID p,
      pkg_Tier = rp_Tier p,
      pkg_Description = rp_Description p,
      pkg_DeliveryDays = rp_DeliveryDays p,
      pkg_PriceCents = rp_PriceCents p,
      pkg_SortOrder = rp_SortOrder p\<rparr>"

definition question_of_read_model :: "GigReadModelQuestion \<Rightarrow> GigQuestion" where
  "question_of_read_model q =
     \<lparr>que_ID = rq_ID q,
      que_GigID = rq_GigID q,
      que_Content = rq_Content q,
      que_SortOrder = rq_SortOrder q\<rparr>"

definition media_of_read_model :: "GigReadModelMedia \<Rightarrow> GigMedia" where
  "media_of_read_model m =
     \<lparr>med_ID = [],
      med_GigID = rm_GigID m,
      med_FileID = rm_ID m,
      med_URL = rm_URL m,
      med_SortOrder = rm_SortOrder m\<rparr>"

definition gig_of_read_model :: "GigReadModelEvent \<Rightarrow> Gig" where
  "gig_of_read_model ev =
     \<lparr>gig_ID = re_GigID ev,
      gig_FreelancerID = re_FreelancerID ev,
      gig_SellerUsername = re_SellerUsername ev,
      gig_Slug = re_Slug ev,
      gig_Title = re_Title ev,
      gig_ShortInfo = re_ShortInfo ev,
      gig_Description = re_Description ev,
      gig_CategoryID = re_CategoryID ev,
      gig_Currency = re_Currency ev,
      gig_Status = re_Status ev,
      gig_BasicInfoCompleted = re_BasicInfoCompleted ev,
      gig_PackagesCompleted = re_PackagesCompleted ev,
      gig_RequirementsCompleted = re_RequirementsCompleted ev,
      gig_MediaCompleted = re_MediaCompleted ev,
      gig_PictureFileID = re_PictureFileID ev,
      gig_PictureURL = re_PictureURL ev,
      gig_PublishedAt = re_PublishedAt ev,
      gig_CreatedAt = re_CreatedAt ev,
      gig_UpdatedAt = re_UpdatedAt ev,
      gig_Packages = map package_of_read_model (re_Packages ev),
      gig_Questions = map question_of_read_model (re_Questions ev),
      gig_Media = map media_of_read_model (re_Media ev)\<rparr>"

definition FromReadModelPayload :: "bytes \<Rightarrow> Gig res" where
  "FromReadModelPayload b =
     (case unmarshal (dec_struct read_model_fields) b read_model_zero of
        (ok, ev) \<Rightarrow> if ok then Ok (gig_of_read_model ev) else Err unmarshal_error)"

section \<open>Decoding what was encoded\<close>

lemma dec_members_omit_str:
  assumes "map_of fs (fold_key k) = Some (field sel upd dec_str)" and "valid_utf8 s"
    and "upd (\<lambda>_. []) r = r"
  shows "dec_members fs (omit_str k s @ kvs) r = dec_members fs kvs (upd (\<lambda>_. s) r)"
  using assms by (simp add: omit_str_def field_def split: prod.splits)

lemma dec_members_omit_time:
  assumes "map_of fs (fold_key k) = Some (field sel upd dec_time_ptr)"
    and "upd (\<lambda>_. None) r = r"
  shows "dec_members fs (omit_time_ptr k p @ kvs) r = dec_members fs kvs (upd (\<lambda>_. p) r)"
  using assms by (cases p) (simp_all add: omit_time_ptr_def field_def split: prod.splits)

lemmas struct_simps = dec_members_omit_str dec_members_omit_time field_def lower_char_def
  dec_members_omit_str [where kvs = "[]", simplified]

definition utf8_pp :: "GigPublishedPackage \<Rightarrow> bool" where
  "utf8_pp p \<longleftrightarrow> valid_utf8 (pp_ID p) \<and> valid_utf8 (pp_GigID p) \<and> valid_utf8 (pp_Tier p) \<and>
     valid_utf8 (pp_Description p)"
definition utf8_pq :: "GigPublishedQuestion \<Rightarrow> bool" where
  "utf8_pq q \<longleftrightarrow> valid_utf8 (pq_ID q) \<and> valid_utf8 (pq_GigID q) \<and> valid_utf8 (pq_Content q)"
definition utf8_pm :: "GigPublishedMedia \<Rightarrow> bool" where
  "utf8_pm m \<longleftrightarrow> valid_utf8 (pm_ID m) \<and> valid_utf8 (pm_GigID m) \<and> valid_utf8 (pm_FileID m) \<and>
     valid_utf8 (pm_URL m)"

definition utf8_published :: "GigPublishedEvent \<Rightarrow> bool" where
  "utf8_published ev \<longleftrightarrow>
     list_all valid_utf8
       [pe_EventID ev, pe_OperationID ev, pe_CorrelationID ev, pe_GigID ev, pe_FreelancerID ev,
        pe_SellerUsername ev, pe_Slug ev, pe_Title ev, pe_ShortInfo ev, pe_Description ev,
        pe_Currency ev, pe_Status ev, pe_PictureFileID ev, pe_PictureURL ev] \<and>
     list_all utf8_pp (pe_Packages ev) \<and> list_all utf8_pq (pe_Questions ev) \<and>
     list_all utf8_pm (pe_Media ev)"

lemma pp_roundtrip: "utf8_pp p \<Longrightarrow> dec_struct pp_fields (json_of_pp p) pp_zero = (True, p)"
  by (cases p) (simp add: json_of_pp_def pp_fields_def pp_zero_def utf8_pp_def struct_simps)

lemma pq_roundtrip: "utf8_pq q \<Longrightarrow> dec_struct pq_fields (json_of_pq q) pq_zero = (True, q)"
  by (cases q) (simp add: json_of_pq_def pq_fields_def pq_zero_def utf8_pq_def struct_simps)

lemma pm_roundtrip: "utf8_pm m \<Longrightarrow> dec_struct pm_fields (json_of_pm m) pm_zero = (True, m)"
  by (cases m) (simp add: json_of_pm_def pm_fields_def pm_zero_def utf8_pm_def struct_simps)

lemmas slice_roundtrips =
  dec_slice_enc [of _ "dec_struct pp_fields" json_of_pp pp_zero, OF pp_roundtrip]
  dec_slice_enc [of _ "dec_struct pq_fields" json_of_pq pq_zero, OF pq_roundtrip]
  dec_slice_enc [of _ "dec_struct pm_fields" json_of_pm pm_zero, OF pm_roundtrip]

lemma published_struct_roundtrip:
  "utf8_published ev \<Longrightarrow>
   dec_struct published_fields (json_of_published ev) published_zero = (True, ev)"
  by (cases ev)
    (simp add: json_of_published_def published_fields_def published_zero_def utf8_published_def
      list_all_iff slice_roundtrips struct_simps)

definition utf8_rp :: "GigReadModelPackage \<Rightarrow> bool" where
  "utf8_rp p \<longleftrightarrow> valid_utf8 (rp_ID p) \<and> valid_utf8 (rp_GigID p) \<and> valid_utf8 (rp_Tier p) \<and>
     valid_utf8 (rp_Description p)"

definition utf8_rq :: "GigReadModelQuestion \<Rightarrow> bool" where
  "utf8_rq q \<longleftrightarrow> valid_utf8 (rq_ID q) \<and> valid_utf8 (rq_GigID q) \<and> valid_utf8 (rq_Content q)"

definition utf8_rm :: "GigReadModelMedia \<Rightarrow> bool" where
  "utf8_rm m \<longleftrightarrow> valid_utf8 (rm_ID m) \<and> valid_utf8 (rm_GigID m) \<and> valid_utf8 (rm_URL m)"

definition utf8_read_model :: "GigReadModelEvent \<Rightarrow> bool" where
  "utf8_read_model ev \<longleftrightarrow>
     list_all valid_utf8
       [re_GigID ev, re_FreelancerID ev, re_SellerUsername ev, re_Slug ev, re_Title ev,
        re_ShortInfo ev, re_Description ev, re_Currency ev, re_Status ev, re_PictureFileID ev,
        re_PictureURL ev] \<and>
     list_all utf8_rp (re_Packages ev) \<and> list_all utf8_rq (re_Questions ev) \<and>
     list_all utf8_rm (re_Media ev)"

lemma rp_roundtrip: "utf8_rp p \<Longrightarrow> dec_struct rp_fields (json_of_rp p) rp_zero = (True, p)"
  by (cases p) (simp add: json_of_rp_def rp_fields_def rp_zero_def utf8_rp_def struct_simps)

lemma rq_roundtrip: "utf8_rq q \<Longrightarrow> dec_struct rq_fields (json_of_rq q) rq_zero = (True, q)"
  by (cases q) (simp add: json_of_rq_def rq_fields_def rq_zero_def utf8_rq_def struct_simps)

lemma rm_roundtrip: "utf8_rm m \<Longrightarrow> dec_struct rm_fields (json_of_rm m) rm_zero = (True, m)"
  by (cases m) (simp add: json_of_rm_def rm_fields_def rm_zero_def utf8_rm_def struct_simps)

lemmas read_model_slice_roundtrips =
  dec_slice_enc [of _ "dec_struct rp_fields" json_of_rp rp_zero, OF rp_roundtrip]
  dec_slice_enc [of _ "dec_struct rq_fields" json_of_rq rq_zero, OF rq_roundtrip]
  dec_slice_enc [of _ "dec_struct rm_fields" json_of_rm rm_zero, OF rm_roundtrip]

lemma read_model_struct_roundtrip:
  "utf8_read_model ev \<Longrightarrow>
   dec_struct read_model_fields (json_of_read_model ev) read_model_zero = (True, ev)"
  by (cases ev)
    (simp add: json_of_read_model_def read_model_fields_def read_model_zero_def
      utf8_read_model_def list_all_iff read_model_slice_roundtrips struct_simps)

section \<open>A gig over the wire\<close>

text \<open>The texts of a gig are valid UTF-8 (proto3 and PostgreSQL both insist on it).\<close>

definition utf8_gig :: "Gig \<Rightarrow> bool" where
  "utf8_gig g \<longleftrightarrow>
     list_all valid_utf8
       [gig_ID g, gig_FreelancerID g, gig_SellerUsername g, gig_Slug g, gig_Title g,
        gig_ShortInfo g, gig_Description g, gig_Currency g, gig_Status g, gig_PictureFileID g,
        gig_PictureURL g] \<and>
     list_all (\<lambda>p. list_all valid_utf8 [pkg_ID p, pkg_GigID p, pkg_Tier p, pkg_Description p])
       (gig_Packages g) \<and>
     list_all (\<lambda>q. list_all valid_utf8 [que_ID q, que_GigID q, que_Content q]) (gig_Questions g) \<and>
     list_all (\<lambda>m. list_all valid_utf8 [med_GigID m, med_FileID m, med_URL m]) (gig_Media g)"

definition gig_times_ok :: "Gig \<Rightarrow> bool" where
  "gig_times_ok g \<longleftrightarrow>
     time_ptr_ok (gig_PublishedAt g) \<and> json_time_ok (gig_CreatedAt g) \<and> json_time_ok (gig_UpdatedAt g)"

text \<open>What neither payload carries: the identifier of a media row.\<close>

definition wire_gig :: "Gig \<Rightarrow> Gig" where
  "wire_gig g = g\<lparr>gig_Media := map (\<lambda>m. m\<lparr>med_ID := []\<rparr>) (gig_Media g)\<rparr>"

lemma part_trips [simp]:
  "package_of_published (published_package p) = p"
  "question_of_published (published_question q) = q"
  "media_of_published (published_media m) = m\<lparr>med_ID := []\<rparr>"
  "package_of_read_model (read_model_package p) = p"
  "question_of_read_model (read_model_question q) = q"
  "media_of_read_model (read_model_media m) = m\<lparr>med_ID := []\<rparr>"
  by (simp_all add: package_of_published_def published_package_def question_of_published_def
      published_question_def media_of_published_def published_media_def
      package_of_read_model_def read_model_package_def question_of_read_model_def
      read_model_question_def media_of_read_model_def read_model_media_def)

lemma gig_of_published_event:
  "gig_of_published
     (published_event g\<lparr>pe_EventID := a, pe_OperationID := b, pe_CorrelationID := c\<rparr>) = wire_gig g"
  by (cases g) (simp add: gig_of_published_def published_event_def wire_gig_def o_def)

lemma gig_of_published_event' [simp]: "gig_of_published (published_event g) = wire_gig g"
  using gig_of_published_event [where a = "[]" and b = "[]" and c = "[]" and g = g] by (simp add: published_event_def)

lemma gig_of_read_model_event [simp]: "gig_of_read_model (read_model_event g) = wire_gig g"
  by (cases g) (simp add: gig_of_read_model_def read_model_event_def wire_gig_def o_def)

lemma utf8_published_event:
  "utf8_gig g \<Longrightarrow> utf8_published
     (published_event g\<lparr>pe_EventID := a, pe_OperationID := b, pe_CorrelationID := c\<rparr>) \<longleftrightarrow>
     valid_utf8 a \<and> valid_utf8 b \<and> valid_utf8 c"
  by (auto simp: utf8_gig_def utf8_published_def published_event_def list_all_iff utf8_pp_def
      published_package_def utf8_pq_def published_question_def utf8_pm_def published_media_def)

lemma utf8_read_model_event: "utf8_gig g \<Longrightarrow> utf8_read_model (read_model_event g)"
  by (auto simp: utf8_gig_def utf8_read_model_def read_model_event_def list_all_iff utf8_rp_def
      read_model_package_def utf8_rq_def read_model_question_def utf8_rm_def
      read_model_media_def)

lemma published_times_event:
  "published_times_ok
     (published_event g\<lparr>pe_EventID := a, pe_OperationID := b, pe_CorrelationID := c\<rparr>) \<longleftrightarrow>
     gig_times_ok g"
  by (simp add: published_times_ok_def gig_times_ok_def published_event_def)

lemma unmarshal_published_json:
  "utf8_published ev \<Longrightarrow> unmarshal_published (Json (json_of_published ev)) = Ok ev"
  by (simp add: unmarshal_published_def published_struct_roundtrip)

lemma published_event_plain:
  "published_event g\<lparr>pe_EventID := [], pe_OperationID := [], pe_CorrelationID := []\<rparr> = published_event g"
  by (simp add: published_event_def)

lemma published_event_facts:
  "utf8_gig g \<Longrightarrow> utf8_published (published_event g)"
  "published_times_ok (published_event g) \<longleftrightarrow> gig_times_ok g"
  using utf8_published_event [where a = "[]" and b = "[]" and c = "[]" and g = g]
    published_times_event [where a = "[]" and b = "[]" and c = "[]" and g = g]
  by (simp_all add: published_event_plain)

section \<open>The codec interface\<close>

text \<open>
  What the users of a payload rely on: a gig is written exactly when its instants have a JSON
  form, and reading what was written gives the gig back, up to what the wire does not carry.
\<close>

locale gig_codec =
  fixes encode :: "Gig \<Rightarrow> bytes res" and decode :: "bytes \<Rightarrow> Gig res"
  assumes encode_total: "gig_times_ok g \<Longrightarrow> \<exists>b. encode g = Ok b"
    and encode_refuses: "\<not> gig_times_ok g \<Longrightarrow> encode g = Err marshal_time_error"
    and decode_encode: "utf8_gig g \<Longrightarrow> encode g = Ok b \<Longrightarrow> decode b = Ok (wire_gig g)"
begin

lemma roundtrip:
  assumes "utf8_gig g" and "gig_times_ok g"
  shows "bind_res (encode g) decode = Ok (wire_gig g)"
proof -
  obtain b where "encode g = Ok b" using encode_total [OF assms(2)] by blast
  with decode_encode [OF assms(1)] show ?thesis by simp
qed

lemma encode_Ok_iff: "(\<exists>b. encode g = Ok b) \<longleftrightarrow> gig_times_ok g"
  using encode_total encode_refuses by (metis res.distinct(1))

lemma encode_inj:
  assumes "utf8_gig g" and "utf8_gig h" and "encode g = Ok b" and "encode h = Ok b"
  shows "wire_gig g = wire_gig h"
  using decode_encode [OF assms(1,3)] decode_encode [OF assms(2,4)] by simp

end

interpretation published: gig_codec ToPublishedPayload FromPublishedPayload
proof
  fix g b
  show "gig_times_ok g \<Longrightarrow> \<exists>b. ToPublishedPayload g = Ok b"
    and "\<not> gig_times_ok g \<Longrightarrow> ToPublishedPayload g = Err marshal_time_error"
    by (simp_all add: ToPublishedPayload_def marshal_published_def published_event_facts)
  show "utf8_gig g \<Longrightarrow> ToPublishedPayload g = Ok b \<Longrightarrow> FromPublishedPayload b = Ok (wire_gig g)"
    by (auto simp: ToPublishedPayload_def marshal_published_def FromPublishedPayload_def
        unmarshal_published_json published_event_facts split: if_splits)
qed

interpretation read_model: gig_codec ToReadModelPayload FromReadModelPayload
proof
  fix g b
  have times: "time_ptr_ok (re_PublishedAt (read_model_event g)) \<and>
      json_time_ok (re_CreatedAt (read_model_event g)) \<and>
      json_time_ok (re_UpdatedAt (read_model_event g)) \<longleftrightarrow> gig_times_ok g"
    by (simp add: gig_times_ok_def read_model_event_def)
  show "gig_times_ok g \<Longrightarrow> \<exists>b. ToReadModelPayload g = Ok b"
    and "\<not> gig_times_ok g \<Longrightarrow> ToReadModelPayload g = Err marshal_time_error"
    by (simp_all add: ToReadModelPayload_def Let_def times)
  show "utf8_gig g \<Longrightarrow> ToReadModelPayload g = Ok b \<Longrightarrow> FromReadModelPayload b = Ok (wire_gig g)"
    by (auto simp: ToReadModelPayload_def Let_def FromReadModelPayload_def
        read_model_struct_roundtrip utf8_read_model_event split: if_splits)
qed

end
