(* ===== verification/World.thy ===== *)
theory World
  imports EventMapper
begin

text \<open>
  The world the service acts on and the programs that act on it. A program takes the
  environment (what never changes during a run: configuration, clocks, and the answers of
  everything outside the service) and the world (database, Redis, messages sent, calls made to
  the file service), and leaves a result and a world. Every call that leaves the process takes
  a tick, and the environment decides at that tick how it ends: it is carried out, it fails
  without effect, or it is carried out and the caller still sees an error (a lost reply). All
  statements about the service quantify over the environment, hence over all of these.
\<close>

section \<open>Tables\<close>

text \<open>The rows of \<open>internal/infra/write/postgres/model/user.go\<close>; instants are in whole microseconds.\<close>

record GigRow =
  grow_ID :: string
  grow_FreelancerID :: string
  grow_SellerUsername :: string
  grow_Slug :: string
  grow_Title :: string
  grow_ShortInfo :: string
  grow_Description :: string
  grow_CategoryID :: int64
  grow_Currency :: string
  grow_Status :: string
  grow_BasicInfoCompleted :: bool
  grow_PackagesCompleted :: bool
  grow_RequirementsCompleted :: bool
  grow_MediaCompleted :: bool
  grow_PictureFileID :: string
  grow_PublishedAt :: "time option"
  grow_CreatedAt :: time
  grow_UpdatedAt :: time

record GigPackageRow =
  prow_ID :: string
  prow_GigID :: string
  prow_Tier :: string
  prow_Description :: string
  prow_DeliveryDays :: int32
  prow_PriceCents :: int64
  prow_SortOrder :: int32
  prow_CreatedAt :: time
  prow_UpdatedAt :: time

record GigQuestionRow =
  qrow_ID :: string
  qrow_GigID :: string
  qrow_Content :: string
  qrow_SortOrder :: int32
  qrow_CreatedAt :: time
  qrow_UpdatedAt :: time

record GigMediaRow =
  mrow_ID :: string
  mrow_GigID :: string
  mrow_FileID :: string
  mrow_SortOrder :: int32
  mrow_CreatedAt :: time
  mrow_UpdatedAt :: time

record db =
  t_gigs :: "GigRow list"
  t_packages :: "GigPackageRow list"
  t_questions :: "GigQuestionRow list"
  t_media :: "GigMediaRow list"

section \<open>Redis and the other services\<close>

text \<open>A Redis value (a string, or a sorted set as its members with scores); the keyspace with the
  expiry of each key.\<close>

datatype rvalue = RStr bytes | RZSet "(string \<times> float64) list"

type_synonym redis = "(string \<times> rvalue \<times> time option) list"

text \<open>The calls to the file service that have an effect there.\<close>

datatype rpc = RpcUpload string string "MediaUpload list" | RpcDelete string

text \<open>The statuses of an operation, named by the shared realtime package, which also has their texts.\<close>

datatype notify_status = StatusAccepted | StatusCompleted | StatusFailed

text \<open>The arguments of the notification builder of the shared realtime package.\<close>

record notify_args =
  nfy_EventType :: string
  nfy_EntityID :: string
  nfy_UserID :: string
  nfy_OperationID :: string
  nfy_CorrelationID :: string
  nfy_Status :: notify_status
  nfy_ErrorCode :: string
  nfy_Retryable :: "bool option"
  nfy_Payload :: "bytes option"

datatype outcome = Done | Failed gerr | Ambiguous gerr

text \<open>
  The environment: the outcome, the clock, the generated UUID at each tick; PostgreSQL's input
  conversion of a \<open>uuid\<close>; the slug library; the configuration; the replies of the other
  services to a request; the identifiers and the notification bodies of the shared realtime
  package.
\<close>

record env =
  e_call :: "nat \<Rightarrow> outcome"
  e_now :: "nat \<Rightarrow> time"
  e_uuid7 :: "nat \<Rightarrow> string option"
  e_uuid_in :: "string \<Rightarrow> string option"
  e_slug_make :: "string \<Rightarrow> string"
  e_page_size :: int64
  e_window_size :: int64
  e_window_ttl :: int
  e_uploaded :: "nat \<Rightarrow> string \<Rightarrow> string \<Rightarrow> MediaUpload list \<Rightarrow> string list option"
  e_file_urls :: "nat \<Rightarrow> string list \<Rightarrow> (string \<times> string) option list option"
  e_connect :: "nat \<Rightarrow> string \<Rightarrow> ConnectStatusResult option"
  e_rating :: "nat \<Rightarrow> string \<Rightarrow> ReviewSummary option"
  e_orders :: "nat \<Rightarrow> string \<Rightarrow> int64 option"
  e_popularity :: "nat \<Rightarrow> PopularityRow list"
  e_user :: "nat \<Rightarrow> string \<Rightarrow> UserPreview option option"
  e_realtime_ids :: "nat \<Rightarrow> string \<times> string \<times> string"
  e_notification :: "nat \<Rightarrow> notify_args \<Rightarrow> json option"
  e_json_text :: "json \<Rightarrow> string"

record world =
  w_db :: db
  w_txnow :: "time option"
  w_redis :: redis
  w_log :: "(string \<times> bytes) list"
  w_rpc :: "rpc list"
  w_tick :: nat

section \<open>Programs\<close>

type_synonym 'a prog = "env \<Rightarrow> world \<Rightarrow> 'a res \<times> world"

definition retP :: "'a \<Rightarrow> 'a prog" where "retP a e w = (Ok a, w)"
definition failP :: "gerr \<Rightarrow> 'a prog" where "failP x e w = (Err x, w)"
definition panicP :: "'a prog" where "panicP e w = (Panic, w)"

definition domP :: "domain_error \<Rightarrow> 'a prog" where "domP d = failP (Dom d)"

definition bindP :: "'a prog \<Rightarrow> ('a \<Rightarrow> 'b prog) \<Rightarrow> 'b prog" where
  "bindP m f e w =
     (case m e w of
        (Ok a, w) \<Rightarrow> f a e w
      | (Err x, w) \<Rightarrow> (Err x, w)
      | (Panic, w) \<Rightarrow> (Panic, w))"

text \<open>A call whose error the caller looks at: the error is a value. A panic goes on.\<close>

definition attemptP :: "'a prog \<Rightarrow> (gerr + 'a) prog" where
  "attemptP m e w =
     (case m e w of
        (Ok a, w) \<Rightarrow> (Ok (Inr a), w)
      | (Err x, w) \<Rightarrow> (Ok (Inl x), w)
      | (Panic, w) \<Rightarrow> (Panic, w))"

text \<open>A call whose error is only logged.\<close>

definition ignoreP :: "'a prog \<Rightarrow> unit prog" where
  "ignoreP m = bindP (attemptP m) (\<lambda>_. retP ())"

definition mapErrP :: "(gerr \<Rightarrow> gerr) \<Rightarrow> 'a prog \<Rightarrow> 'a prog" where
  "mapErrP f m e w = (case m e w of (r, w) \<Rightarrow> (map_err f r, w))"

definition liftP :: "'a res \<Rightarrow> 'a prog" where "liftP r e w = (r, w)"

definition askP :: "(env \<Rightarrow> 'a) \<Rightarrow> 'a prog" where "askP f e w = (Ok (f e), w)"

fun mapP :: "('a \<Rightarrow> 'b prog) \<Rightarrow> 'a list \<Rightarrow> 'b list prog" where
  "mapP f [] = retP []"
| "mapP f (x # xs) = bindP (f x) (\<lambda>y. bindP (mapP f xs) (\<lambda>ys. retP (y # ys)))"

fun iterP :: "('a \<Rightarrow> unit prog) \<Rightarrow> 'a list \<Rightarrow> unit prog" where
  "iterP f [] = retP ()"
| "iterP f (x # xs) = bindP (f x) (\<lambda>_. iterP f xs)"

text \<open>The clock (\<open>time.Now().UTC()\<close>) and the UUID generator; reading either takes a tick.\<close>

definition nowP :: "time prog" where
  "nowP e w = (Ok (e_now e (w_tick w)), w\<lparr>w_tick := Suc (w_tick w)\<rparr>)"

definition uuid7P :: "string prog" where
  "uuid7P e w =
     (case e_uuid7 e (w_tick w) of
        Some u \<Rightarrow> (Ok u, w\<lparr>w_tick := Suc (w_tick w)\<rparr>)
      | None \<Rightarrow> (Panic, w\<lparr>w_tick := Suc (w_tick w)\<rparr>))"

text \<open>A call that leaves the process: its effect and its reply.\<close>

definition remoteP :: "(world \<Rightarrow> world) \<Rightarrow> (env \<Rightarrow> nat \<Rightarrow> world \<Rightarrow> 'a) \<Rightarrow> 'a prog" where
  "remoteP eff reply e w =
     (let n = w_tick w; w = w\<lparr>w_tick := Suc n\<rparr>
      in case e_call e n of
           Done \<Rightarrow> (Ok (reply e n w), eff w)
         | Failed x \<Rightarrow> (Err x, w)
         | Ambiguous x \<Rightarrow> (Err x, eff w))"

text \<open>A message published through the broker.\<close>

definition publishP :: "string \<Rightarrow> bytes \<Rightarrow> unit prog" where
  "publishP subject payload =
     remoteP (\<lambda>w. w\<lparr>w_log := w_log w @ [(subject, payload)]\<rparr>) (\<lambda>_ _ _. ())"

lemmas prog_defs = retP_def failP_def panicP_def domP_def bindP_def attemptP_def mapErrP_def
  liftP_def askP_def

end
