(* ===== verification/Effects.thy ===== *)
theory Effects
  imports World
begin

text \<open>
  Reasoning about programs. \<open>steps e R m\<close>: every run of \<open>m\<close> relates the world before to the
  world after by \<open>R\<close>, whatever the result; the locale \<open>effect\<close> derives the rules of the
  program constructors for any reflexive and transitive \<open>R\<close>, and its interpretations below
  are the frames (a part of the world stays), the growth of the message log and the
  preservation of a database invariant. \<open>hoare e P m Q\<close> adds the result: from a world in
  \<open>P\<close>, result and world satisfy \<open>Q\<close>.
\<close>

definition steps :: "env \<Rightarrow> (world \<Rightarrow> world \<Rightarrow> bool) \<Rightarrow> 'a prog \<Rightarrow> bool" where
  "steps e R m \<longleftrightarrow> (\<forall>w. R w (snd (m e w)))"

lemma stepsI: "(\<And>w. R w (snd (m e w))) \<Longrightarrow> steps e R m"
  by (simp add: steps_def)

lemma stepsD: "steps e R m \<Longrightarrow> m e w = (r, w') \<Longrightarrow> R w w'"
  by (metis snd_conv steps_def)

lemma steps_mono: "steps e R m \<Longrightarrow> (\<And>w w'. R w w' \<Longrightarrow> S w w') \<Longrightarrow> steps e S m"
  by (simp add: steps_def)

locale effect =
  fixes R :: "world \<Rightarrow> world \<Rightarrow> bool"
  assumes R_refl: "R w w"
    and R_trans: "R u v \<Longrightarrow> R v w \<Longrightarrow> R u w"
begin

lemma steps_retP: "steps e R (retP a)"
  by (simp add: steps_def retP_def R_refl)

lemma steps_failP: "steps e R (failP x)"
  by (simp add: steps_def failP_def R_refl)

lemma steps_domP: "steps e R (domP x)"
  by (simp add: domP_def steps_failP)

lemma steps_panicP: "steps e R panicP"
  by (simp add: steps_def panicP_def R_refl)

lemma steps_liftP: "steps e R (liftP r)"
  by (simp add: steps_def liftP_def R_refl)

lemma steps_askP: "steps e R (askP f)"
  by (simp add: steps_def askP_def R_refl)

lemma steps_bindP:
  assumes "steps e R m" and "\<And>a. steps e R (f a)"
  shows "steps e R (bindP m f)"
proof (rule stepsI)
  fix w
  obtain r w' where m: "m e w = (r, w')" by (cases "m e w")
  with assms(1) have "R w w'" by (rule stepsD)
  with m assms(2) show "R w (snd (bindP m f e w))"
    by (cases r) (auto simp: bindP_def steps_def intro: R_trans)
qed

lemma steps_attemptP: "steps e R m \<Longrightarrow> steps e R (attemptP m)"
  by (auto simp: steps_def attemptP_def split: prod.splits res.splits) (metis snd_conv)+

lemma steps_ignoreP: "steps e R m \<Longrightarrow> steps e R (ignoreP m)"
  by (simp add: ignoreP_def steps_bindP steps_attemptP steps_retP)

lemma steps_mapErrP: "steps e R m \<Longrightarrow> steps e R (mapErrP f m)"
  by (auto simp: steps_def mapErrP_def split: prod.splits) (metis snd_conv)

lemma steps_mapP: "(\<And>x. steps e R (f x)) \<Longrightarrow> steps e R (mapP f xs)"
  by (induction xs) (simp_all add: steps_bindP steps_retP)

lemma steps_iterP: "(\<And>x. steps e R (f x)) \<Longrightarrow> steps e R (iterP f xs)"
  by (induction xs) (simp_all add: steps_bindP steps_retP)

lemma steps_if: "steps e R m \<Longrightarrow> steps e R n \<Longrightarrow> steps e R (if b then m else n)"
  by simp

lemma steps_option:
  "steps e R m \<Longrightarrow> (\<And>x. steps e R (f x)) \<Longrightarrow> steps e R (case v of None \<Rightarrow> m | Some x \<Rightarrow> f x)"
  by (cases v) simp_all

lemma steps_sum:
  "(\<And>x. steps e R (f x)) \<Longrightarrow> (\<And>x. steps e R (g x)) \<Longrightarrow>
   steps e R (case v of Inl x \<Rightarrow> f x | Inr x \<Rightarrow> g x)"
  by (cases v) simp_all

lemma steps_prod: "(\<And>x y. steps e R (f x y)) \<Longrightarrow> steps e R (case v of (x, y) \<Rightarrow> f x y)"
  by (cases v) simp

lemma steps_list:
  "steps e R m \<Longrightarrow> (\<And>x xs. steps e R (f x xs)) \<Longrightarrow> steps e R (case v of [] \<Rightarrow> m | x # xs \<Rightarrow> f x xs)"
  by (cases v) simp_all

lemmas steps_rules = steps_retP steps_failP steps_domP steps_panicP steps_liftP steps_askP
  steps_bindP steps_attemptP steps_ignoreP steps_mapErrP steps_mapP steps_iterP steps_if
  steps_option steps_sum steps_prod steps_list

end

text \<open>An effect that does not look at the clock also has the clock, the UUIDs and remote calls.\<close>

locale timeless_effect = effect +
  assumes R_tick: "R w (w\<lparr>w_tick := n\<rparr>)"
begin

lemma steps_nowP: "steps e R nowP"
  by (simp add: steps_def nowP_def R_tick)

lemma steps_uuid7P: "steps e R uuid7P"
  by (simp add: steps_def uuid7P_def R_tick split: option.splits)

lemma steps_remoteP: "(\<And>w. R w (eff w)) \<Longrightarrow> steps e R (remoteP eff reply)"
  using R_trans [OF R_tick] R_tick
  by (auto simp: steps_def remoteP_def Let_def split: outcome.splits)

lemmas tick_rules = steps_nowP steps_uuid7P

end

section \<open>Frames\<close>

definition same_db :: "world \<Rightarrow> world \<Rightarrow> bool" where
  "same_db w w' \<longleftrightarrow> w_db w' = w_db w \<and> w_txnow w' = w_txnow w"

definition same_redis :: "world \<Rightarrow> world \<Rightarrow> bool" where
  "same_redis w w' \<longleftrightarrow> w_redis w' = w_redis w"

definition same_log :: "world \<Rightarrow> world \<Rightarrow> bool" where
  "same_log w w' \<longleftrightarrow> w_log w' = w_log w"

definition same_rpc :: "world \<Rightarrow> world \<Rightarrow> bool" where
  "same_rpc w w' \<longleftrightarrow> w_rpc w' = w_rpc w"

text \<open>Messages are only appended, and only some kinds of them.\<close>

definition log_adds :: "(string \<times> bytes \<Rightarrow> bool) \<Rightarrow> world \<Rightarrow> world \<Rightarrow> bool" where
  "log_adds K w w' \<longleftrightarrow> (\<exists>ms. w_log w' = w_log w @ ms \<and> list_all K ms)"

text \<open>A relation between the databases before and after.\<close>

definition db_rel :: "(db \<Rightarrow> db \<Rightarrow> bool) \<Rightarrow> world \<Rightarrow> world \<Rightarrow> bool" where
  "db_rel Q w w' \<longleftrightarrow> Q (w_db w) (w_db w')"

interpretation same_db: timeless_effect same_db
  by unfold_locales (auto simp: same_db_def)

interpretation same_redis: timeless_effect same_redis
  by unfold_locales (auto simp: same_redis_def)

interpretation same_log: timeless_effect same_log
  by unfold_locales (auto simp: same_log_def)

interpretation same_rpc: timeless_effect same_rpc
  by unfold_locales (auto simp: same_rpc_def)

lemma log_adds_effect: "timeless_effect (log_adds K)"
  by unfold_locales (auto simp: log_adds_def)

lemma db_rel_effect:
  assumes "reflp Q" and "transp Q"
  shows "timeless_effect (db_rel Q)"
  using assms by unfold_locales (auto simp: db_rel_def dest: reflpD transpD)

lemma same_db_imp_db_rel: "reflp Q \<Longrightarrow> same_db w w' \<Longrightarrow> db_rel Q w w'"
  by (simp add: db_rel_def same_db_def reflpD)

lemmas frame_rules = same_db.steps_rules same_db.tick_rules
  same_redis.steps_rules same_redis.tick_rules same_log.steps_rules same_log.tick_rules
  same_rpc.steps_rules same_rpc.tick_rules

declare frame_rules [frame_intros]

lemma publishP_frames [frame_intros]:
  "steps e same_db (publishP s p)" "steps e same_redis (publishP s p)"
  "steps e same_rpc (publishP s p)"
  unfolding publishP_def
  by (intro same_db.steps_remoteP same_redis.steps_remoteP same_rpc.steps_remoteP;
      simp add: same_db_def same_redis_def same_rpc_def)+

section \<open>Results\<close>

definition hoare ::
    "env \<Rightarrow> (world \<Rightarrow> bool) \<Rightarrow> 'a prog \<Rightarrow> ('a res \<Rightarrow> world \<Rightarrow> bool) \<Rightarrow> bool" where
  "hoare e P m Q \<longleftrightarrow> (\<forall>w. P w \<longrightarrow> Q (fst (m e w)) (snd (m e w)))"

lemma hoareI: "(\<And>w r w'. P w \<Longrightarrow> m e w = (r, w') \<Longrightarrow> Q r w') \<Longrightarrow> hoare e P m Q"
  by (simp add: hoare_def)

lemma hoareD: "hoare e P m Q \<Longrightarrow> P w \<Longrightarrow> m e w = (r, w') \<Longrightarrow> Q r w'"
  by (metis fst_conv hoare_def snd_conv)

lemma hoare_bindP:
  assumes "hoare e P m S" and "\<And>a. hoare e (S (Ok a)) (f a) Q"
    and "\<And>x w. S (Err x) w \<Longrightarrow> Q (Err x) w" and "\<And>w. S Panic w \<Longrightarrow> Q Panic w"
  shows "hoare e P (bindP m f) Q"
proof (rule hoareI)
  fix w r w'
  assume P: "P w" and run: "bindP m f e w = (r, w')"
  obtain s v where m: "m e w = (s, v)" by (cases "m e w")
  from hoareD [OF assms(1) P m] have S: "S s v" .
  show "Q r w'"
  proof (cases s)
    case (Ok a)
    with run m have "f a e v = (r, w')" by (simp add: bindP_def)
    with assms(2) S Ok show ?thesis by (blast dest: hoareD)
  qed (use S assms(3,4) run m in \<open>auto simp: bindP_def\<close>)
qed

text \<open>Running a sequence step by step.\<close>

lemma bindP_Ok: "m e w = (Ok a, w') \<Longrightarrow> bindP m f e w = f a e w'"
  by (simp add: bindP_def)

lemma bindP_Err: "m e w = (Err x, w') \<Longrightarrow> bindP m f e w = (Err x, w')"
  by (simp add: bindP_def)

lemma bindP_Panic: "m e w = (Panic, w') \<Longrightarrow> bindP m f e w = (Panic, w')"
  by (simp add: bindP_def)

lemma bindP_OkE:
  assumes "bindP m f e w = (Ok b, w')"
  obtains a v where "m e w = (Ok a, v)" and "f a e v = (Ok b, w')"
  using assms by (auto simp: bindP_def split: prod.splits res.splits)

lemma mapErrP_Ok: "mapErrP f m e w = (Ok a, w') \<longleftrightarrow> m e w = (Ok a, w')"
  by (auto simp: mapErrP_def split: prod.splits)

lemma bindP_cases:
  assumes "bindP m f e w = (r, w')"
  obtains (Ok) a v where "m e w = (Ok a, v)" and "f a e v = (r, w')"
  | (Err) x where "m e w = (Err x, w')" and "r = Err x"
  | (Panic) "m e w = (Panic, w')" and "r = Panic"
  using assms by (auto simp: bindP_def split: prod.splits res.splits)

lemma retP_run [simp]: "retP a e w = (Ok a, w)" by (simp add: retP_def)
lemma failP_run [simp]: "failP x e w = (Err x, w)" by (simp add: failP_def)
lemma domP_run [simp]: "domP d e w = (Err (Dom d), w)" by (simp add: domP_def)
lemma panicP_run [simp]: "panicP e w = (Panic, w)" by (simp add: panicP_def)
lemma liftP_run [simp]: "liftP r e w = (r, w)" by (simp add: liftP_def)
lemma askP_run [simp]: "askP f e w = (Ok (f e), w)" by (simp add: askP_def)

lemma bindP_simps [simp]:
  "bindP (retP a) f = f a"
  "bindP (failP x) f = failP x"
  "bindP (domP d) f = domP d"
  by (simp_all add: fun_eq_iff bindP_def retP_def failP_def domP_def)

end
