(* ===== verification/Sql.thy ===== *)
theory Sql
  imports Effects "HOL-Library.List_Lexorder"
begin

text \<open>
  The statements of \<open>internal/infra/write/postgres/query.go\<close> over the tables of \<open>World\<close>, with
  the constraints the migrations declare: UUID columns, primary keys, the unique pairs
  \<open>(gig_id, tier)\<close> and \<open>(gig_id, sort_order)\<close>, foreign keys to \<open>gigs\<close>, and
  \<open>short_info VARCHAR(128)\<close>. A statement is rejected with its SQLSTATE or leaves a value and
  the changed tables; \<open>NOW()\<close> is its second argument. \<open>stmtP\<close> runs one statement,
  \<open>txP\<close> a transaction with its deferred rollback.
\<close>

type_synonym 'a sql = "env \<Rightarrow> time \<Rightarrow> db \<Rightarrow> pg_error + ('a \<times> db)"

definition pg_fail :: "string \<Rightarrow> string \<Rightarrow> string \<Rightarrow> pg_error" where
  "pg_fail code msg con =
     \<lparr>pg_severity = ''ERROR'', pg_message = msg, pg_code = code, pg_constraint = con\<rparr>"

definition bad_uuid :: pg_error where
  "bad_uuid = pg_fail ''22P02'' ''invalid input syntax for type uuid'' []"
definition bad_text :: pg_error where
  "bad_text = pg_fail ''22021'' ''invalid byte sequence for encoding \"UTF8\"'' []"
definition too_long :: pg_error where
  "too_long = pg_fail ''22001'' ''value too long for type character varying(128)'' []"
definition unique_violation :: "string \<Rightarrow> pg_error" where
  "unique_violation con = pg_fail ''23505'' ''duplicate key value violates unique constraint'' con"
definition fk_violation :: "string \<Rightarrow> pg_error" where
  "fk_violation con = pg_fail ''23503'' ''insert or update violates foreign key constraint'' con"

text \<open>What a \<open>TEXT\<close> parameter may hold: valid UTF-8 without NUL.\<close>

definition text_ok :: "string \<Rightarrow> bool" where
  "text_ok s \<longleftrightarrow> valid_utf8 s \<and> CHR 0x00 \<notin> set s"

definition with_uuid :: "string \<Rightarrow> (string \<Rightarrow> 'a sql) \<Rightarrow> 'a sql" where
  "with_uuid s q e now d = (case e_uuid_in e s of None \<Rightarrow> Inl bad_uuid | Some u \<Rightarrow> q u e now d)"

definition with_texts :: "string list \<Rightarrow> 'a sql \<Rightarrow> 'a sql" where
  "with_texts ts q e now d = (if list_all text_ok ts then q e now d else Inl bad_text)"

section \<open>The table gigs\<close>

definition find_gig :: "string \<Rightarrow> db \<Rightarrow> GigRow option" where
  "find_gig gid d = find (\<lambda>r. grow_ID r = gid) (t_gigs d)"

definition set_gig :: "string \<Rightarrow> (GigRow \<Rightarrow> GigRow) \<Rightarrow> db \<Rightarrow> db" where
  "set_gig gid f d = d\<lparr>t_gigs := map (\<lambda>r. if grow_ID r = gid then f r else r) (t_gigs d)\<rparr>"

text \<open>\<open>UPDATE gigs SET ... WHERE gig_id = $1 RETURNING ...\<close>: the row left, if there is one.\<close>

definition update_gig :: "string \<Rightarrow> (GigRow \<Rightarrow> GigRow) \<Rightarrow> GigRow option sql" where
  "update_gig gid f e now d =
     Inr (map_option f (find_gig gid d), set_gig gid f d)"

definition new_draft_row :: "string \<Rightarrow> string \<Rightarrow> time \<Rightarrow> GigRow" where
  "new_draft_row gid fid now =
     \<lparr>grow_ID = gid, grow_FreelancerID = fid, grow_SellerUsername = [], grow_Slug = [],
      grow_Title = [], grow_ShortInfo = [], grow_Description = [], grow_CategoryID = 0,
      grow_Currency = [], grow_Status = StatusDraft, grow_BasicInfoCompleted = False,
      grow_PackagesCompleted = False, grow_RequirementsCompleted = False,
      grow_MediaCompleted = False, grow_PictureFileID = [], grow_PublishedAt = None,
      grow_CreatedAt = now, grow_UpdatedAt = now\<rparr>"

text \<open>
  \<open>ON CONFLICT (gig_id) DO UPDATE\<close>: the replay of a creation takes over the row's owner and
  keeps a published status and everything else.
\<close>

definition redraft_row :: "string \<Rightarrow> time \<Rightarrow> GigRow \<Rightarrow> GigRow" where
  "redraft_row fid now r =
     r\<lparr>grow_FreelancerID := fid,
       grow_Status := (if grow_Status r = StatusPublished then grow_Status r else StatusDraft),
       grow_UpdatedAt := now\<rparr>"

definition createGigDraftQuery :: "string \<Rightarrow> string \<Rightarrow> GigRow option sql" where
  "createGigDraftQuery gid fid =
     with_uuid gid (\<lambda>g. with_uuid fid (\<lambda>f e now d.
       case find_gig g d of
         Some _ \<Rightarrow> update_gig g (redraft_row f now) e now d
       | None \<Rightarrow> (let r = new_draft_row g f now in Inr (Some r, d\<lparr>t_gigs := t_gigs d @ [r]\<rparr>))))"

definition basic_info_row :: "UpdateBasicInfoParams \<Rightarrow> time \<Rightarrow> GigRow \<Rightarrow> GigRow" where
  "basic_info_row p now r =
     r\<lparr>grow_Title := ubi_Title p, grow_ShortInfo := ubi_ShortInfo p, grow_Slug := ubi_Slug p,
       grow_Description := ubi_Description p, grow_CategoryID := ubi_CategoryID p,
       grow_Currency := ubi_Currency p, grow_BasicInfoCompleted := True, grow_UpdatedAt := now\<rparr>"

definition updateGigBasicInfoQuery :: "string \<Rightarrow> UpdateBasicInfoParams \<Rightarrow> GigRow option sql" where
  "updateGigBasicInfoQuery gid p =
     with_uuid gid (\<lambda>g. with_texts [ubi_Title p, ubi_ShortInfo p, ubi_Slug p, ubi_Description p,
         ubi_Currency p] (\<lambda>e now d.
       if find_gig g d \<noteq> None \<and> 128 < rune_count (ubi_ShortInfo p) then Inl too_long
       else update_gig g (basic_info_row p now) e now d))"

definition seller_row :: "string \<Rightarrow> time \<Rightarrow> GigRow \<Rightarrow> GigRow" where
  "seller_row u now r = r\<lparr>grow_SellerUsername := u, grow_UpdatedAt := now\<rparr>"

definition updateGigSellerUsernameQuery :: "string \<Rightarrow> string \<Rightarrow> GigRow option sql" where
  "updateGigSellerUsernameQuery gid u =
     with_uuid gid (\<lambda>g. with_texts [u] (\<lambda>e now. update_gig g (seller_row u now) e now))"

definition published_row :: "time \<Rightarrow> GigRow \<Rightarrow> GigRow" where
  "published_row now r =
     r\<lparr>grow_Status := StatusPublished, grow_PublishedAt := Some now, grow_UpdatedAt := now\<rparr>"

definition publishGigQuery :: "string \<Rightarrow> GigRow option sql" where
  "publishGigQuery gid = with_uuid gid (\<lambda>g e now. update_gig g (published_row now) e now)"

definition getGigQuery :: "string \<Rightarrow> GigRow option sql" where
  "getGigQuery gid = with_uuid gid (\<lambda>g e now d. Inr (find_gig g d, d))"

definition listAllGigsQuery :: "GigRow list sql" where
  "listAllGigsQuery e now d =
     Inr (sort_key (\<lambda>r. (grow_CreatedAt r, grow_ID r)) (t_gigs d), d)"

definition listPublishedBySellerUsernameQuery :: "string \<Rightarrow> GigRow list sql" where
  "listPublishedBySellerUsernameQuery u =
     with_texts [u] (\<lambda>e now d. Inr
       (rev (sort_key (\<lambda>r. (grow_CreatedAt r, grow_ID r))
          (filter (\<lambda>r. grow_SellerUsername r = u \<and> grow_Status r = StatusPublished)
             (t_gigs d))), d))"

section \<open>The tables gig_packages, gig_questions and gig_media\<close>

definition deleteGigPackagesQuery :: "string \<Rightarrow> unit sql" where
  "deleteGigPackagesQuery gid = with_uuid gid (\<lambda>g e now d.
     Inr ((), d\<lparr>t_packages := filter (\<lambda>r. prow_GigID r \<noteq> g) (t_packages d)\<rparr>))"

definition insertGigPackageQuery ::
    "string \<Rightarrow> string \<Rightarrow> string \<Rightarrow> string \<Rightarrow> int32 \<Rightarrow> int64 \<Rightarrow> int32 \<Rightarrow> unit sql" where
  "insertGigPackageQuery pid gid tier desc days price ord =
     with_uuid pid (\<lambda>p. with_uuid gid (\<lambda>g. with_texts [tier, desc] (\<lambda>e now d.
       if list_ex (\<lambda>r. prow_ID r = p) (t_packages d) then Inl (unique_violation ''gig_packages_pkey'')
       else if list_ex (\<lambda>r. prow_GigID r = g \<and> prow_Tier r = tier) (t_packages d)
            then Inl (unique_violation ''ux_gig_packages_gig_id_tier'')
       else if find_gig g d = None then Inl (fk_violation ''fk_gig_packages_gig_id'')
       else Inr ((), d\<lparr>t_packages := t_packages d @
              [\<lparr>prow_ID = p, prow_GigID = g, prow_Tier = tier, prow_Description = desc,
                prow_DeliveryDays = days, prow_PriceCents = price, prow_SortOrder = ord,
                prow_CreatedAt = now, prow_UpdatedAt = now\<rparr>]\<rparr>))))"

definition deleteGigQuestionsQuery :: "string \<Rightarrow> unit sql" where
  "deleteGigQuestionsQuery gid = with_uuid gid (\<lambda>g e now d.
     Inr ((), d\<lparr>t_questions := filter (\<lambda>r. qrow_GigID r \<noteq> g) (t_questions d)\<rparr>))"

definition insertGigQuestionQuery :: "string \<Rightarrow> string \<Rightarrow> string \<Rightarrow> int32 \<Rightarrow> unit sql" where
  "insertGigQuestionQuery qid gid content ord =
     with_uuid qid (\<lambda>q. with_uuid gid (\<lambda>g. with_texts [content] (\<lambda>e now d.
       if list_ex (\<lambda>r. qrow_ID r = q) (t_questions d) then Inl (unique_violation ''gig_questions_pkey'')
       else if list_ex (\<lambda>r. qrow_GigID r = g \<and> qrow_SortOrder r = ord) (t_questions d)
            then Inl (unique_violation ''ux_gig_questions_gig_id_sort_order'')
       else if find_gig g d = None then Inl (fk_violation ''fk_gig_questions_gig_id'')
       else Inr ((), d\<lparr>t_questions := t_questions d @
              [\<lparr>qrow_ID = q, qrow_GigID = g, qrow_Content = content, qrow_SortOrder = ord,
                qrow_CreatedAt = now, qrow_UpdatedAt = now\<rparr>]\<rparr>))))"

definition deleteGigMediaQuery :: "string \<Rightarrow> unit sql" where
  "deleteGigMediaQuery gid = with_uuid gid (\<lambda>g e now d.
     Inr ((), d\<lparr>t_media := filter (\<lambda>r. mrow_GigID r \<noteq> g) (t_media d)\<rparr>))"

definition insertGigMediaQuery :: "string \<Rightarrow> string \<Rightarrow> string \<Rightarrow> int32 \<Rightarrow> unit sql" where
  "insertGigMediaQuery mid gid fileID ord =
     with_uuid mid (\<lambda>m. with_uuid gid (\<lambda>g. with_texts [fileID] (\<lambda>e now d.
       if list_ex (\<lambda>r. mrow_ID r = m) (t_media d) then Inl (unique_violation ''gig_media_pkey'')
       else if list_ex (\<lambda>r. mrow_GigID r = g \<and> mrow_SortOrder r = ord) (t_media d)
            then Inl (unique_violation ''ux_gig_media_gig_id_sort_order'')
       else if find_gig g d = None then Inl (fk_violation ''fk_gig_media_gig_id'')
       else Inr ((), d\<lparr>t_media := t_media d @
              [\<lparr>mrow_ID = m, mrow_GigID = g, mrow_FileID = fileID, mrow_SortOrder = ord,
                mrow_CreatedAt = now, mrow_UpdatedAt = now\<rparr>]\<rparr>))))"

definition packages_of :: "string \<Rightarrow> db \<Rightarrow> GigPackageRow list" where
  "packages_of g d =
     sort_key (\<lambda>r. (sint (prow_SortOrder r), prow_CreatedAt r))
       (filter (\<lambda>r. prow_GigID r = g) (t_packages d))"

definition questions_of :: "string \<Rightarrow> db \<Rightarrow> GigQuestionRow list" where
  "questions_of g d =
     sort_key (\<lambda>r. (sint (qrow_SortOrder r), qrow_CreatedAt r))
       (filter (\<lambda>r. qrow_GigID r = g) (t_questions d))"

definition media_of :: "string \<Rightarrow> db \<Rightarrow> GigMediaRow list" where
  "media_of g d =
     sort_key (\<lambda>r. (sint (mrow_SortOrder r), mrow_CreatedAt r))
       (filter (\<lambda>r. mrow_GigID r = g) (t_media d))"

definition getGigPackagesQuery :: "string \<Rightarrow> GigPackageRow list sql" where
  "getGigPackagesQuery gid = with_uuid gid (\<lambda>g e now d. Inr (packages_of g d, d))"

definition getGigQuestionsQuery :: "string \<Rightarrow> GigQuestionRow list sql" where
  "getGigQuestionsQuery gid = with_uuid gid (\<lambda>g e now d. Inr (questions_of g d, d))"

definition getGigMediaQuery :: "string \<Rightarrow> GigMediaRow list sql" where
  "getGigMediaQuery gid = with_uuid gid (\<lambda>g e now d. Inr (media_of g d, d))"

text \<open>The completion updates written inline in \<open>repository.go\<close>.\<close>

definition completePackagesQuery :: "string \<Rightarrow> unit sql" where
  "completePackagesQuery gid = with_uuid gid (\<lambda>g e now d. Inr ((), set_gig g
     (\<lambda>r. r\<lparr>grow_PackagesCompleted := True, grow_UpdatedAt := now\<rparr>) d))"

definition completeQuestionsQuery :: "string \<Rightarrow> unit sql" where
  "completeQuestionsQuery gid = with_uuid gid (\<lambda>g e now d. Inr ((), set_gig g
     (\<lambda>r. r\<lparr>grow_RequirementsCompleted := True, grow_UpdatedAt := now\<rparr>) d))"

definition completeMediaQuery :: "string \<Rightarrow> string \<Rightarrow> unit sql" where
  "completeMediaQuery gid picture = with_uuid gid (\<lambda>g. with_texts [picture] (\<lambda>e now d.
     Inr ((), set_gig g
     (\<lambda>r. r\<lparr>grow_PictureFileID := picture, grow_MediaCompleted := True, grow_UpdatedAt := now\<rparr>) d)))"

section \<open>Running statements and transactions\<close>

text \<open>PostgreSQL's clock has microseconds.\<close>

definition pg_now :: "env \<Rightarrow> nat \<Rightarrow> time" where
  "pg_now e n = e_now e n div 1000 * 1000"

definition stmtP :: "'a sql \<Rightarrow> 'a prog" where
  "stmtP q e w =
     (let n = w_tick w; w' = w\<lparr>w_tick := Suc n\<rparr>;
          now = (case w_txnow w of Some t \<Rightarrow> t | None \<Rightarrow> pg_now e n)
      in case e_call e n of
           Failed x \<Rightarrow> (Err x, w')
         | Done \<Rightarrow> (case q e now (w_db w) of
             Inl p \<Rightarrow> (Err (PgV5 p), w')
           | Inr (a, d) \<Rightarrow> (Ok a, w'\<lparr>w_db := d\<rparr>))
         | Ambiguous x \<Rightarrow> (Err x, case q e now (w_db w) of
             Inl p \<Rightarrow> w'
           | Inr (a, d) \<Rightarrow> w'\<lparr>w_db := d\<rparr>))"

text \<open>\<open>QueryRow(...).Scan(...)\<close> and \<open>Get\<close>: no row is \<open>sql.ErrNoRows\<close>.\<close>

definition rowP :: "'a option sql \<Rightarrow> 'a prog" where
  "rowP q = bindP (stmtP q) (\<lambda>v. case v of None \<Rightarrow> failP NoRows | Some r \<Rightarrow> retP r)"

text \<open>
  \<open>BeginTxx\<close>, the body, \<open>Commit\<close>, with the deferred \<open>Rollback\<close>: until the commit succeeds
  every way out restores the tables. \<open>NOW()\<close> is the transaction's start. A lost reply to the
  commit is an error of a transaction that took place.
\<close>

definition txP :: "(gerr \<Rightarrow> gerr) \<Rightarrow> unit prog \<Rightarrow> unit prog" where
  "txP translate body e w =
     (let n = w_tick w; w0 = w\<lparr>w_tick := Suc n\<rparr>
      in case e_call e n of
           Failed x \<Rightarrow> (Err (translate x), w0)
         | Ambiguous x \<Rightarrow> (Err (translate x), w0)
         | Done \<Rightarrow>
             (case body e (w0\<lparr>w_txnow := Some (pg_now e n)\<rparr>) of
                (Err x, w1) \<Rightarrow> (Err x, w1\<lparr>w_db := w_db w, w_txnow := w_txnow w\<rparr>)
              | (Panic, w1) \<Rightarrow> (Panic, w1\<lparr>w_db := w_db w, w_txnow := w_txnow w\<rparr>)
              | (Ok _, w1) \<Rightarrow>
                  (let m = w_tick w1; w2 = w1\<lparr>w_tick := Suc m, w_txnow := w_txnow w\<rparr>
                   in case e_call e m of
                        Done \<Rightarrow> (Ok (), w2)
                      | Failed x \<Rightarrow> (Err (translate x), w2\<lparr>w_db := w_db w\<rparr>)
                      | Ambiguous x \<Rightarrow> (Err (translate x), w2))))"

end
