(* ===== verification/Postgres.thy ===== *)
theory Postgres
  imports Sql
begin

text \<open>
  \<open>internal/infra/write/postgres\<close>: the error translator, the mapping of rows to the
  aggregate, and the write repository (\<open>repository.go\<close>), one program per method.
\<close>

section \<open>Errors\<close>

definition WrapCreateGigError :: "gerr \<Rightarrow> gerr" where "WrapCreateGigError = Wrap ''create gig''"
definition WrapFindGigError :: "gerr \<Rightarrow> gerr" where "WrapFindGigError = Wrap ''find gig''"
definition WrapPublishGigError :: "gerr \<Rightarrow> gerr" where "WrapPublishGigError = Wrap ''publish gig''"

definition WrapDomainError :: "domain_error \<Rightarrow> gerr \<Rightarrow> gerr" where
  "WrapDomainError d x = Join (Dom d) x"

definition GigsPrimaryKeyConstraint :: string where
  "GigsPrimaryKeyConstraint = ''gigs_pkey''"

definition TranslateCreateGigError :: "gerr \<Rightarrow> gerr" where
  "TranslateCreateGigError err =
     (let text = error_text err;
          by_text = (if str_contains text ''SQLSTATE 23505'' then WrapDomainError ErrGigAlreadyExists err
                     else if str_contains text ''SQLSTATE 22P02'' then WrapDomainError ErrInvalidGigID err
                     else WrapCreateGigError err)
      in case as_pg_error err of
           None \<Rightarrow> by_text
         | Some p \<Rightarrow>
             if pg_code p = ''23505'' then
               (if pg_constraint p = GigsPrimaryKeyConstraint
                then WrapDomainError ErrGigAlreadyExists err else by_text)
             else if pg_code p = ''22P02'' then WrapDomainError ErrInvalidGigID err
             else by_text)"

definition TranslateFindGigError :: "gerr \<Rightarrow> gerr" where
  "TranslateFindGigError err =
     (if is_no_rows err then WrapDomainError ErrGigNotFound err else WrapFindGigError err)"

definition TranslatePublishGigError :: "gerr \<Rightarrow> gerr" where
  "TranslatePublishGigError err = WrapPublishGigError err"

section \<open>Rows to aggregate\<close>

definition package_of_row :: "GigPackageRow \<Rightarrow> GigPackage" where
  "package_of_row r =
     \<lparr>pkg_ID = prow_ID r, pkg_GigID = prow_GigID r, pkg_Tier = prow_Tier r,
      pkg_Description = prow_Description r, pkg_DeliveryDays = prow_DeliveryDays r,
      pkg_PriceCents = prow_PriceCents r, pkg_SortOrder = prow_SortOrder r\<rparr>"

definition question_of_row :: "GigQuestionRow \<Rightarrow> GigQuestion" where
  "question_of_row r =
     \<lparr>que_ID = qrow_ID r, que_GigID = qrow_GigID r, que_Content = qrow_Content r,
      que_SortOrder = qrow_SortOrder r\<rparr>"

definition media_of_row :: "GigMediaRow \<Rightarrow> GigMedia" where
  "media_of_row r =
     \<lparr>med_ID = [], med_GigID = mrow_GigID r, med_FileID = mrow_FileID r, med_URL = [],
      med_SortOrder = mrow_SortOrder r\<rparr>"

definition MapGigRowToDomain ::
    "GigRow \<Rightarrow> GigPackageRow list \<Rightarrow> GigQuestionRow list \<Rightarrow> GigMediaRow list \<Rightarrow> Gig" where
  "MapGigRowToDomain row ps qs ms =
     \<lparr>gig_ID = grow_ID row, gig_FreelancerID = grow_FreelancerID row,
      gig_SellerUsername = grow_SellerUsername row, gig_Slug = grow_Slug row,
      gig_Title = grow_Title row, gig_ShortInfo = grow_ShortInfo row,
      gig_Description = grow_Description row, gig_CategoryID = grow_CategoryID row,
      gig_Currency = grow_Currency row, gig_Status = grow_Status row,
      gig_BasicInfoCompleted = grow_BasicInfoCompleted row,
      gig_PackagesCompleted = grow_PackagesCompleted row,
      gig_RequirementsCompleted = grow_RequirementsCompleted row,
      gig_MediaCompleted = grow_MediaCompleted row,
      gig_PictureFileID = grow_PictureFileID row, gig_PictureURL = [],
      gig_PublishedAt = grow_PublishedAt row, gig_CreatedAt = grow_CreatedAt row,
      gig_UpdatedAt = grow_UpdatedAt row, gig_Packages = map package_of_row ps,
      gig_Questions = map question_of_row qs, gig_Media = map media_of_row ms\<rparr>"

section \<open>The repository\<close>

definition loadPackages :: "string \<Rightarrow> GigPackageRow list prog" where
  "loadPackages gid = mapErrP TranslateFindGigError (stmtP (getGigPackagesQuery gid))"

definition loadQuestions :: "string \<Rightarrow> GigQuestionRow list prog" where
  "loadQuestions gid = mapErrP TranslateFindGigError (stmtP (getGigQuestionsQuery gid))"

definition loadMedia :: "string \<Rightarrow> GigMediaRow list prog" where
  "loadMedia gid = mapErrP TranslateFindGigError (stmtP (getGigMediaQuery gid))"

definition loadGig :: "string \<Rightarrow> GigRow \<Rightarrow> Gig prog" where
  "loadGig gid row =
     bindP (loadPackages gid) (\<lambda>ps.
     bindP (loadQuestions gid) (\<lambda>qs.
     bindP (loadMedia gid) (\<lambda>ms.
     retP (MapGigRowToDomain row ps qs ms))))"

definition repo_CreateDraft :: "CreateDraftParams \<Rightarrow> Gig prog" where
  "repo_CreateDraft params =
     bindP (if cdp_GigID params = [] then uuid7P else retP (cdp_GigID params)) (\<lambda>gid.
     bindP (mapErrP TranslateCreateGigError
              (rowP (createGigDraftQuery gid (cdp_FreelancerID params)))) (\<lambda>row.
     loadGig (grow_ID row) row))"

definition repo_UpdateBasicInfo :: "string \<Rightarrow> UpdateBasicInfoParams \<Rightarrow> Gig prog" where
  "repo_UpdateBasicInfo gid params =
     bindP (mapErrP TranslateFindGigError (rowP (updateGigBasicInfoQuery gid params))) (\<lambda>row.
     loadGig gid row)"

definition repo_UpdateSellerUsername :: "string \<Rightarrow> string \<Rightarrow> Gig prog" where
  "repo_UpdateSellerUsername gid sellerUsername =
     bindP (mapErrP TranslateFindGigError
              (rowP (updateGigSellerUsernameQuery gid sellerUsername))) (\<lambda>row.
     loadGig gid row)"

text \<open>\<open>GetByID\<close> compares the driver's error itself with \<open>sql.ErrNoRows\<close>.\<close>

definition get_error :: "gerr \<Rightarrow> gerr" where
  "get_error err = (if err = NoRows then Dom ErrGigNotFound else TranslateFindGigError err)"

definition repo_GetByID :: "string \<Rightarrow> Gig prog" where
  "repo_GetByID gid =
     bindP (mapErrP get_error (rowP (getGigQuery gid))) (\<lambda>row. loadGig gid row)"

definition repo_Publish :: "string \<Rightarrow> Gig prog" where
  "repo_Publish gid =
     bindP (mapErrP TranslatePublishGigError (rowP (publishGigQuery gid))) (\<lambda>row. loadGig gid row)"

text \<open>
  The inserts of the replacements, numbered from 1. A UUID is generated for every row, and used
  when the row brings none.
\<close>

fun insertPackages :: "string \<Rightarrow> int32 \<Rightarrow> GigPackage list \<Rightarrow> unit prog" where
  "insertPackages gid i [] = retP ()"
| "insertPackages gid i (pkg # pkgs) =
     bindP uuid7P (\<lambda>u.
     bindP (mapErrP TranslatePublishGigError (stmtP (insertGigPackageQuery
         (if pkg_ID pkg \<noteq> [] then pkg_ID pkg else u) gid (pkg_Tier pkg) (pkg_Description pkg)
         (pkg_DeliveryDays pkg) (pkg_PriceCents pkg) i))) (\<lambda>_.
     insertPackages gid (i + 1) pkgs))"

fun insertQuestions :: "string \<Rightarrow> int32 \<Rightarrow> GigQuestion list \<Rightarrow> unit prog" where
  "insertQuestions gid i [] = retP ()"
| "insertQuestions gid i (q # qs) =
     bindP uuid7P (\<lambda>u.
     bindP (mapErrP TranslatePublishGigError (stmtP (insertGigQuestionQuery
         (if que_ID q \<noteq> [] then que_ID q else u) gid (que_Content q) i))) (\<lambda>_.
     insertQuestions gid (i + 1) qs))"

fun insertMedia :: "string \<Rightarrow> int32 \<Rightarrow> GigMedia list \<Rightarrow> unit prog" where
  "insertMedia gid i [] = retP ()"
| "insertMedia gid i (m # ms) =
     bindP uuid7P (\<lambda>u.
     bindP (mapErrP TranslatePublishGigError (stmtP (insertGigMediaQuery
         (if med_ID m \<noteq> [] then med_ID m else u) gid (med_FileID m) i))) (\<lambda>_.
     insertMedia gid (i + 1) ms))"

definition execP :: "unit sql \<Rightarrow> unit prog" where
  "execP q = mapErrP TranslatePublishGigError (stmtP q)"

definition repo_ReplacePackages :: "string \<Rightarrow> GigPackage list \<Rightarrow> Gig prog" where
  "repo_ReplacePackages gid packages =
     bindP (txP TranslatePublishGigError
       (bindP (execP (deleteGigPackagesQuery gid)) (\<lambda>_.
        bindP (insertPackages gid 1 packages) (\<lambda>_.
        execP (completePackagesQuery gid))))) (\<lambda>_.
     repo_GetByID gid)"

definition repo_ReplaceQuestions :: "string \<Rightarrow> GigQuestion list \<Rightarrow> Gig prog" where
  "repo_ReplaceQuestions gid questions =
     bindP (txP TranslatePublishGigError
       (bindP (execP (deleteGigQuestionsQuery gid)) (\<lambda>_.
        bindP (insertQuestions gid 1 questions) (\<lambda>_.
        execP (completeQuestionsQuery gid))))) (\<lambda>_.
     repo_GetByID gid)"

definition repo_ReplaceMedia :: "string \<Rightarrow> ReplaceMediaParams \<Rightarrow> Gig prog" where
  "repo_ReplaceMedia gid params =
     bindP (txP TranslatePublishGigError
       (bindP (execP (deleteGigMediaQuery gid)) (\<lambda>_.
        bindP (insertMedia gid 1 (rmp_Media params)) (\<lambda>_.
        execP (completeMediaQuery gid (rmp_PictureFileID params)))))) (\<lambda>_.
     repo_GetByID gid)"

definition repo_ListAll :: "Gig list prog" where
  "repo_ListAll =
     bindP (mapErrP TranslateFindGigError (stmtP listAllGigsQuery)) (\<lambda>rows.
     retP (map (\<lambda>row. MapGigRowToDomain row [] [] []) rows))"

definition repo_ListPublishedBySellerUsername :: "ListPreviewGigsQuery \<Rightarrow> Gig list prog" where
  "repo_ListPublishedBySellerUsername query =
     (let username = TrimSpace (lpq_SellerUsername query)
      in if username = [] then domP ErrInvalidUsername
         else bindP (mapErrP TranslateFindGigError
                       (stmtP (listPublishedBySellerUsernameQuery username))) (\<lambda>rows.
              let limit = (if sint (lpq_Limit query) \<le> 0 \<or> int (length rows) < sint (lpq_Limit query)
                           then length rows else nat (sint (lpq_Limit query)))
              in mapP (\<lambda>row. loadGig (grow_ID row) row) (take limit rows)))"

end
