(* ===== verification/ReadCodec.thy ===== *)
theory ReadCodec
  imports EventMapper
begin

text \<open>
  The JSON documents the read repository keeps besides the gig itself: the preview of a gig
  (\<open>domain.GigPreview\<close>) and its popularity snapshot, as the struct tags of
  \<open>internal/domain/gig.go\<close> write them, and their round trips.
\<close>

definition json_of_preview :: "GigPreview \<Rightarrow> json" where
  "json_of_preview p = JObj
       [(''id'', enc_str (pv_ID p)),
        (''freelancer_id'', enc_str (pv_FreelancerID p)),
        (''seller_username'', enc_str (pv_SellerUsername p)),
        (''slug'', enc_str (pv_Slug p)),
        (''title'', enc_str (pv_Title p)),
        (''short_info'', enc_str (pv_ShortInfo p)),
        (''minimum_price_cents'', enc_int (pv_MinimumPriceCents p)),
        (''picture_url'', enc_str (pv_PictureURL p)),
        (''popularity_score'', enc_int (pv_PopularityScore p)),
        (''status'', enc_str (pv_Status p)),
        (''published_at'', enc_time_ptr (pv_PublishedAt p)),
        (''updated_at'', JTime (pv_UpdatedAt p)),
        (''rating_avg'', JFloat (pv_RatingAvg p)),
        (''total_reviews'', enc_int (pv_TotalReviews p)),
        (''order_count'', enc_int (pv_OrderCount p)),
        (''created_at'', JTime (pv_CreatedAt p))]"

definition preview_zero :: GigPreview where
  "preview_zero =
     \<lparr>pv_ID = [], pv_FreelancerID = [], pv_SellerUsername = [], pv_Slug = [], pv_Title = [],
      pv_ShortInfo = [], pv_MinimumPriceCents = 0, pv_PictureURL = [], pv_PopularityScore =
      0, pv_Status = [], pv_PublishedAt = None, pv_UpdatedAt = zero_time, pv_RatingAvg = 0,
      pv_TotalReviews = 0, pv_OrderCount = 0, pv_CreatedAt = zero_time\<rparr>"

definition preview_fields :: "(string \<times> GigPreview decoder) list" where
  "preview_fields =
     [(''id'', field pv_ID pv_ID_update dec_str),
      (''freelancer_id'', field pv_FreelancerID pv_FreelancerID_update dec_str),
      (''seller_username'', field pv_SellerUsername pv_SellerUsername_update dec_str),
      (''slug'', field pv_Slug pv_Slug_update dec_str),
      (''title'', field pv_Title pv_Title_update dec_str),
      (''short_info'', field pv_ShortInfo pv_ShortInfo_update dec_str),
      (''minimum_price_cents'', field pv_MinimumPriceCents pv_MinimumPriceCents_update dec_int),
      (''picture_url'', field pv_PictureURL pv_PictureURL_update dec_str),
      (''popularity_score'', field pv_PopularityScore pv_PopularityScore_update dec_int),
      (''status'', field pv_Status pv_Status_update dec_str),
      (''published_at'', field pv_PublishedAt pv_PublishedAt_update dec_time_ptr),
      (''updated_at'', field pv_UpdatedAt pv_UpdatedAt_update dec_time),
      (''rating_avg'', field pv_RatingAvg pv_RatingAvg_update dec_float),
      (''total_reviews'', field pv_TotalReviews pv_TotalReviews_update dec_int),
      (''order_count'', field pv_OrderCount pv_OrderCount_update dec_int),
      (''created_at'', field pv_CreatedAt pv_CreatedAt_update dec_time)]"

definition json_of_snapshot :: "GigPopularitySnapshot \<Rightarrow> json" where
  "json_of_snapshot s = JObj
       [(''gig_id'', enc_str (ps_GigID s)),
        (''score'', enc_int (ps_Score s)),
        (''completed_orders_last_30d'', enc_int (ps_CompletedOrdersLast30d s)),
        (''reviews_count_last_30d'', enc_int (ps_ReviewsCountLast30d s)),
        (''views_last_7d'', enc_int (ps_ViewsLast7d s)),
        (''calculated_at'', JTime (ps_CalculatedAt s))]"

definition snapshot_zero :: GigPopularitySnapshot where
  "snapshot_zero =
     \<lparr>ps_GigID = [], ps_Score = 0, ps_CompletedOrdersLast30d = 0, ps_ReviewsCountLast30d =
      0, ps_ViewsLast7d = 0, ps_CalculatedAt = zero_time\<rparr>"

definition snapshot_fields :: "(string \<times> GigPopularitySnapshot decoder) list" where
  "snapshot_fields =
     [(''gig_id'', field ps_GigID ps_GigID_update dec_str),
      (''score'', field ps_Score ps_Score_update dec_int),
      (''completed_orders_last_30d'', field ps_CompletedOrdersLast30d ps_CompletedOrdersLast30d_update dec_int),
      (''reviews_count_last_30d'', field ps_ReviewsCountLast30d ps_ReviewsCountLast30d_update dec_int),
      (''views_last_7d'', field ps_ViewsLast7d ps_ViewsLast7d_update dec_int),
      (''calculated_at'', field ps_CalculatedAt ps_CalculatedAt_update dec_time)]"

text \<open>\<open>json.Marshal\<close> refuses instants outside the years 0 to 9999 and floats that are no numbers.\<close>

definition preview_json_ok :: "GigPreview \<Rightarrow> bool" where
  "preview_json_ok p \<longleftrightarrow>
     time_ptr_ok (pv_PublishedAt p) \<and> json_time_ok (pv_UpdatedAt p) \<and> json_time_ok (pv_CreatedAt p) \<and>
     f64_finite (pv_RatingAvg p)"

definition marshal_preview :: "GigPreview \<Rightarrow> bytes res" where
  "marshal_preview p =
     (if preview_json_ok p then Ok (Json (json_of_preview p)) else Err marshal_time_error)"

definition unmarshal_preview :: "bytes \<Rightarrow> GigPreview res" where
  "unmarshal_preview b =
     (case unmarshal (dec_struct preview_fields) b preview_zero of
        (ok, p) \<Rightarrow> if ok then Ok p else Err unmarshal_error)"

definition marshal_snapshot :: "GigPopularitySnapshot \<Rightarrow> bytes res" where
  "marshal_snapshot s =
     (if json_time_ok (ps_CalculatedAt s) then Ok (Json (json_of_snapshot s))
      else Err marshal_time_error)"

definition unmarshal_snapshot :: "bytes \<Rightarrow> GigPopularitySnapshot res" where
  "unmarshal_snapshot b =
     (case unmarshal (dec_struct snapshot_fields) b snapshot_zero of
        (ok, s) \<Rightarrow> if ok then Ok s else Err unmarshal_error)"

definition utf8_preview :: "GigPreview \<Rightarrow> bool" where
  "utf8_preview p \<longleftrightarrow>
     list_all valid_utf8
       [pv_ID p, pv_FreelancerID p, pv_SellerUsername p, pv_Slug p, pv_Title p, pv_ShortInfo p,
        pv_PictureURL p, pv_Status p]"

lemma preview_struct_roundtrip:
  "utf8_preview p \<Longrightarrow> dec_struct preview_fields (json_of_preview p) preview_zero = (True, p)"
  by (cases p)
    (simp add: json_of_preview_def preview_fields_def preview_zero_def utf8_preview_def struct_simps)

lemma snapshot_struct_roundtrip:
  "valid_utf8 (ps_GigID s) \<Longrightarrow>
   dec_struct snapshot_fields (json_of_snapshot s) snapshot_zero = (True, s)"
  by (cases s) (simp add: json_of_snapshot_def snapshot_fields_def snapshot_zero_def struct_simps)

text \<open>The codec interface of a stored document: what is stored is read back.\<close>

locale doc_codec =
  fixes marshal :: "'a \<Rightarrow> bytes res" and unmarsh :: "bytes \<Rightarrow> 'a res"
    and storable :: "'a \<Rightarrow> bool" and clean :: "'a \<Rightarrow> bool"
  assumes marshal_ok: "storable x \<Longrightarrow> \<exists>j. marshal x = Ok (Json j)"
    and marshal_refuses: "\<not> storable x \<Longrightarrow> \<exists>err. marshal x = Err err"
    and unmarshal_marshal: "clean x \<Longrightarrow> marshal x = Ok b \<Longrightarrow> unmarsh b = Ok x"
begin

lemma roundtrip: "clean x \<Longrightarrow> storable x \<Longrightarrow> bind_res (marshal x) unmarsh = Ok x"
  using marshal_ok unmarshal_marshal by fastforce

lemma marshal_Json: "marshal x = Ok b \<Longrightarrow> \<exists>j. b = Json j"
  using marshal_ok marshal_refuses by (metis res.distinct(1) res.inject(1))

lemma unmarshal_injective:
  "clean x \<Longrightarrow> clean y \<Longrightarrow> marshal x = Ok b \<Longrightarrow> marshal y = Ok b \<Longrightarrow> x = y"
  using unmarshal_marshal by (metis res.inject(1))

end

interpretation preview_doc: doc_codec marshal_preview unmarshal_preview preview_json_ok utf8_preview
  by unfold_locales
    (auto simp: marshal_preview_def unmarshal_preview_def preview_struct_roundtrip split: if_splits)

interpretation snapshot_doc: doc_codec marshal_snapshot unmarshal_snapshot
    "\<lambda>s. json_time_ok (ps_CalculatedAt s)" "\<lambda>s. valid_utf8 (ps_GigID s)"
  by unfold_locales
    (auto simp: marshal_snapshot_def unmarshal_snapshot_def snapshot_struct_roundtrip
      split: if_splits)

end
