(* ===== verification/RedisStore.thy ===== *)
theory RedisStore
  imports ReadCodec Effects "HOL-Library.AList" "HOL-Library.List_Lexorder"
begin

text \<open>
  The Redis commands and scripts \<open>internal/infra/read/redis/repository.go\<close> issues, over the
  keyspace of \<open>World\<close>: a command looks at the clock, and leaves a reply or an error and the
  keyspace. A key past its expiry is absent. \<open>cmdP\<close> sends one command, \<open>pipeP\<close> a pipeline;
  the locale \<open>string_store\<close> is what the repository relies on when it reads back a string.
\<close>

type_synonym 'a rcmd = "time \<Rightarrow> redis \<Rightarrow> (gerr + 'a) \<times> redis"

definition live :: "time \<Rightarrow> redis \<Rightarrow> string \<Rightarrow> rvalue option" where
  "live now r k =
     (case map_of r k of
        None \<Rightarrow> None
      | Some (v, None) \<Rightarrow> Some v
      | Some (v, Some t) \<Rightarrow> if now < t then Some v else None)"

definition wrong_type :: gerr where
  "wrong_type = Opaque ''WRONGTYPE Operation against a key holding the wrong kind of value''"

text \<open>A time to live as the client sends it: at least a millisecond, in whole milliseconds.\<close>

definition expiry :: "time \<Rightarrow> int \<Rightarrow> time option \<Rightarrow> time option" where
  "expiry now ttl old =
     (if 0 < ttl then Some (now + max 1 (ttl div 10 ^ 6) * 10 ^ 6)
      else if ttl = -1 then old else None)"

definition cmd_get :: "string \<Rightarrow> bytes rcmd" where
  "cmd_get k now r =
     (case live now r k of
        None \<Rightarrow> (Inl RedisNil, r)
      | Some (RStr b) \<Rightarrow> (Inr b, r)
      | Some (RZSet _) \<Rightarrow> (Inl wrong_type, r))"

definition cmd_set :: "string \<Rightarrow> bytes \<Rightarrow> int \<Rightarrow> unit rcmd" where
  "cmd_set k b ttl now r =
     (let old = (if live now r k = None then None else Option.bind (map_of r k) snd)
      in (Inr (), AList.update k (RStr b, expiry now ttl old) r))"

text \<open>\<open>SET key value NX PX ttl\<close>: refused with a nil reply while the key exists.\<close>

definition cmd_set_nx :: "string \<Rightarrow> bytes \<Rightarrow> int \<Rightarrow> unit rcmd" where
  "cmd_set_nx k b ttl now r =
     (if live now r k = None then (Inr (), AList.update k (RStr b, expiry now ttl None) r)
      else (Inl RedisNil, r))"

definition cmd_del :: "string \<Rightarrow> unit rcmd" where
  "cmd_del k now r = (Inr (), AList.delete k r)"

text \<open>\<open>EXPIRE\<close> counts whole seconds, at least one.\<close>

definition cmd_expire :: "string \<Rightarrow> int \<Rightarrow> unit rcmd" where
  "cmd_expire k ttl now r =
     (case live now r k of
        None \<Rightarrow> (Inr (), r)
      | Some v \<Rightarrow> (Inr (), AList.update k (v, Some (now + max 1 (ttl div 10 ^ 9) * 10 ^ 9)) r))"

definition cmd_zadd :: "string \<Rightarrow> float64 \<Rightarrow> string \<Rightarrow> unit rcmd" where
  "cmd_zadd k score member now r =
     (case live now r k of
        None \<Rightarrow> (Inr (), AList.update k (RZSet [(member, score)], None) r)
      | Some (RZSet z) \<Rightarrow>
          (Inr (), AList.update k (RZSet (AList.update member score z),
                                   Option.bind (map_of r k) snd) r)
      | Some (RStr _) \<Rightarrow> (Inl wrong_type, r))"

text \<open>The members from the highest score down; equal scores are in descending byte order.\<close>

definition zset_rev :: "(string \<times> float64) list \<Rightarrow> string list" where
  "zset_rev z = rev (map fst (sort_key (\<lambda>(m, s). (f64_key s, m)) z))"

definition cmd_zrevrange :: "string \<Rightarrow> string list rcmd" where
  "cmd_zrevrange k now r =
     (case live now r k of
        None \<Rightarrow> (Inr [], r)
      | Some (RZSet z) \<Rightarrow> (Inr (zset_rev z), r)
      | Some (RStr _) \<Rightarrow> (Inl wrong_type, r))"

definition string_at :: "time \<Rightarrow> redis \<Rightarrow> string \<Rightarrow> bytes option" where
  "string_at now r k = (case live now r k of Some (RStr b) \<Rightarrow> Some b | _ \<Rightarrow> None)"

definition cmd_mget :: "string list \<Rightarrow> bytes option list rcmd" where
  "cmd_mget ks now r = (Inr (map (string_at now r) ks), r)"

text \<open>
  Redis's glob patterns, for \<open>SCAN ... MATCH\<close>: star, question mark, backslash and character classes.
\<close>

fun glob_class :: "string \<Rightarrow> char \<Rightarrow> bool \<Rightarrow> bool \<times> string" where
  "glob_class [] c hit = (hit, [])"
| "glob_class (p # ps) c hit =
     (if p = CHR 0x5C \<and> ps \<noteq> [] then glob_class (tl ps) c (hit \<or> hd ps = c)
      else if p = CHR '']'' then (hit, ps)
      else case ps of
        d # q # ps' \<Rightarrow>
          if d = CHR ''-'' then glob_class ps' c (hit \<or> min p q \<le> c \<and> c \<le> max p q)
          else glob_class ps c (hit \<or> p = c)
      | _ \<Rightarrow> glob_class ps c (hit \<or> p = c))"

declare glob_class.simps(2) [simp del]

lemma glob_class_shorter: "length (snd (glob_class ps c hit)) \<le> length ps"
proof (induction ps c hit rule: glob_class.induct)
  case (2 p ps c hit)
  show ?case
  proof (cases "p = CHR 0x5C \<and> ps \<noteq> []")
    case True
    with 2(1) show ?thesis by (simp add: glob_class.simps(2) [of _ ps] le_diff_conv le_SucI)
  next
    case no_escape: False
    show ?thesis
    proof (cases "p = CHR '']''")
      case True
      then show ?thesis by (simp add: glob_class.simps(2) [of _ ps])
    next
      case False
      note ih = 2(2-) [OF no_escape False]
      show ?thesis
      proof (cases ps)
        case Nil
        with no_escape False show ?thesis by (simp add: glob_class.simps(2))
      next
        case (Cons d ds)
        then show ?thesis
          using ih no_escape False
          by (subst glob_class.simps(2)) (auto split: list.splits intro: le_SucI)
      qed
    qed
  qed
qed simp

function glob :: "string \<Rightarrow> string \<Rightarrow> bool" where
  "glob [] s = (s = [])"
| "glob (p # ps) s =
     (if p = CHR ''*'' then (if glob ps s then True else if s = [] then False else glob (p # ps) (tl s))
      else case s of
        [] \<Rightarrow> False
      | c # s' \<Rightarrow>
          if p = CHR ''?'' then glob ps s'
          else if p = CHR ''['' then
            (let neg = (ps \<noteq> [] \<and> hd ps = CHR 0x5E); cls = (if neg then tl ps else ps);
                 (hit, rest) = glob_class cls c False
             in hit \<noteq> neg \<and> glob rest s')
          else if p = CHR 0x5C \<and> ps \<noteq> [] then hd ps = c \<and> glob (tl ps) s'
          else p = c \<and> glob ps s')"
  by pat_completeness auto
termination
proof (relation "measure (\<lambda>(ps, s). length ps + length s)", goal_cases)
  case (5 p ps s c s' neg cls x hit rest)
  have "length rest \<le> length cls" using 5 glob_class_shorter by (metis snd_conv)
  moreover have "length cls \<le> length ps" using 5 by simp
  ultimately show ?case using 5 by simp
qed auto

text \<open>A full \<open>SCAN\<close> over an unchanging keyspace yields every live key that matches.\<close>

definition cmd_scan :: "string \<Rightarrow> string list rcmd" where
  "cmd_scan pat now r =
     (Inr (filter (\<lambda>k. live now r k \<noteq> None \<and> glob pat k) (remdups (map fst r))), r)"

section \<open>Sending commands\<close>

definition cmdP :: "'a rcmd \<Rightarrow> 'a prog" where
  "cmdP c e w =
     (let n = w_tick w; w' = w\<lparr>w_tick := Suc n\<rparr>; (v, r) = c (e_now e n) (w_redis w)
      in case e_call e n of
           Failed x \<Rightarrow> (Err x, w')
         | Ambiguous x \<Rightarrow> (Err x, w'\<lparr>w_redis := r\<rparr>)
         | Done \<Rightarrow> (case v of Inl x \<Rightarrow> (Err x, w'\<lparr>w_redis := r\<rparr>)
                            | Inr a \<Rightarrow> (Ok a, w'\<lparr>w_redis := r\<rparr>)))"

text \<open>
  \<open>Pipeline().Exec\<close>: every command is sent, each may or may not take effect when the
  connection breaks, and the first error is the error of the whole.
\<close>

fun first_error :: "(gerr + unit) list \<Rightarrow> gerr option" where
  "first_error [] = None"
| "first_error (Inl x # _) = Some x"
| "first_error (Inr _ # rs) = first_error rs"

definition pipeP :: "unit rcmd list \<Rightarrow> unit prog" where
  "pipeP cs =
     bindP (mapP (\<lambda>c. attemptP (cmdP c)) cs) (\<lambda>rs.
     case first_error rs of None \<Rightarrow> retP () | Some x \<Rightarrow> failP x)"

lemma cmdP_frames [frame_intros]:
  "steps e same_db (cmdP c)" "steps e same_log (cmdP c)" "steps e same_rpc (cmdP c)"
  by (auto simp: steps_def cmdP_def same_db_def same_log_def same_rpc_def Let_def
      split: outcome.splits sum.splits prod.splits)

lemma pipeP_frames [frame_intros]:
  "steps e same_db (pipeP cs)" "steps e same_log (pipeP cs)" "steps e same_rpc (pipeP cs)"
  unfolding pipeP_def by (intro frame_intros)+

section \<open>Strings\<close>

lemma live_update:
  "live now (AList.update k (v, x) r) k' =
     (if k' = k then (case x of None \<Rightarrow> Some v | Some t \<Rightarrow> if now < t then Some v else None)
      else live now r k')"
  by (simp add: live_def update_conv' split: option.splits)

lemma live_delete: "live now (AList.delete k r) k' = (if k' = k then None else live now r k')"
  by (simp add: live_def delete_conv')

text \<open>
  The interface the repository's round trips rest on: a string that was written is read back
  until it expires, and no other key is touched.
\<close>

locale string_store =
  fixes fetch :: "string \<Rightarrow> time \<Rightarrow> 'r \<Rightarrow> bytes option"
    and put :: "string \<Rightarrow> bytes \<Rightarrow> int \<Rightarrow> time \<Rightarrow> 'r \<Rightarrow> 'r"
    and drop_key :: "string \<Rightarrow> 'r \<Rightarrow> 'r"
  assumes fetch_put_forever: "fetch k later (put k b 0 now s) = Some b"
    and fetch_put_other: "k' \<noteq> k \<Longrightarrow> fetch k' later (put k b ttl now s) = fetch k' later s"
    and fetch_drop: "fetch k' later (drop_key k s) = (if k' = k then None else fetch k' later s)"
begin

lemma put_twice: "fetch k later (put k b 0 now (put k b' ttl now' s)) = Some b"
  by (rule fetch_put_forever)

lemma put_commute:
  "k \<noteq> k' \<Longrightarrow> fetch k later (put k' b' ttl now' (put k b 0 now s)) = Some b"
  by (simp add: fetch_put_other fetch_put_forever)

lemma put_then_drop: "fetch k later (drop_key k' (put k b 0 now s)) = (if k = k' then None else Some b)"
  by (simp add: fetch_drop fetch_put_forever)

end

interpretation redis_strings: string_store "\<lambda>k now r. string_at now r k"
    "\<lambda>k b ttl now r. snd (cmd_set k b ttl now r)" "AList.delete"
  by unfold_locales (simp_all add: string_at_def cmd_set_def Let_def live_update live_delete expiry_def)

lemma cmd_get_string: "string_at now r k = Some b \<Longrightarrow> cmd_get k now r = (Inr b, r)"
  by (auto simp: string_at_def cmd_get_def split: option.splits rvalue.splits)

end
