(* ===== verification/Redis.thy ===== *)
theory Redis
  imports RedisStore
begin

text \<open>
  \<open>internal/infra/read/redis\<close>: the read repository, one program per method. A slice of pointers
  that may hold nil is a list of options. The error texts quote keys with plain quotation marks.
\<close>

section \<open>Keys\<close>

definition GigCacheKey :: "string \<Rightarrow> string" where
  "GigCacheKey gigID = ''gig:'' @ gigID"

definition GigPreviewWindowKey :: "string \<Rightarrow> int64 \<Rightarrow> string" where
  "GigPreviewWindowKey userID window =
     ''gig:preview:'' @ TrimSpace userID @ '':window:'' @ show_int (sint window)"

definition GigPreviewPayloadKey :: "string \<Rightarrow> string" where
  "GigPreviewPayloadKey gigID = ''gig:preview:'' @ TrimSpace gigID"

definition GigOwnerPreviewIndexKey :: "string \<Rightarrow> string" where
  "GigOwnerPreviewIndexKey userID = ''gig:preview:owner:'' @ TrimSpace userID"

definition GigPreviewLeaseKey :: "string \<Rightarrow> string" where
  "GigPreviewLeaseKey userID = ''gig:preview:'' @ TrimSpace userID @ '':lease''"

definition UserLookupKey :: "string \<Rightarrow> string" where
  "UserLookupKey username = ''user:'' @ TrimSpace username"

definition GigPopularityKey :: "string \<Rightarrow> string" where
  "GigPopularityKey gigID = ''gig.popularity.'' @ TrimSpace gigID"

section \<open>Errors\<close>

definition quoted :: "string \<Rightarrow> string" where "quoted s = [CHR 0x22] @ s @ [CHR 0x22]"

definition ErrNilGig :: gerr where "ErrNilGig = Opaque ''gig is nil''"
definition ErrPreviewLeaseBusy :: gerr where "ErrPreviewLeaseBusy = Opaque ''preview lease is busy''"
definition WrapMarshalGigCacheError :: "gerr \<Rightarrow> gerr" where
  "WrapMarshalGigCacheError = Wrap ''marshal gig cache''"
definition WrapSetGigCacheError :: "string \<Rightarrow> gerr \<Rightarrow> gerr" where
  "WrapSetGigCacheError key = Wrap (''set gig cache by key '' @ quoted key)"
definition WrapGetGigCacheError :: "string \<Rightarrow> gerr \<Rightarrow> gerr" where
  "WrapGetGigCacheError key = Wrap (''get gig cache by key '' @ quoted key)"
definition WrapUnmarshalGigCacheError :: "gerr \<Rightarrow> gerr" where
  "WrapUnmarshalGigCacheError = Wrap ''unmarshal gig cache''"
definition WrapDeleteGigCacheError :: "string \<Rightarrow> gerr \<Rightarrow> gerr" where
  "WrapDeleteGigCacheError key = Wrap (''delete gig cache by key '' @ quoted key)"
definition WrapPreviewLeaseError :: "string \<Rightarrow> gerr \<Rightarrow> gerr" where
  "WrapPreviewLeaseError key = Wrap (''acquire preview lease by key '' @ quoted key)"
definition WrapReleasePreviewLeaseError :: "string \<Rightarrow> gerr \<Rightarrow> gerr" where
  "WrapReleasePreviewLeaseError key = Wrap (''release preview lease by key '' @ quoted key)"

text \<open>An absent key is \<open>ErrGigNotFound\<close>; other errors go through the given wrapping.\<close>

definition nil_not_found :: "(gerr \<Rightarrow> gerr) \<Rightarrow> gerr \<Rightarrow> gerr" where
  "nil_not_found wrap err = (if is_redis_nil err then Dom ErrGigNotFound else wrap err)"

section \<open>The gig read model\<close>

definition read_Upsert :: "Gig option \<Rightarrow> unit prog" where
  "read_Upsert gig =
     (case gig of
        None \<Rightarrow> failP ErrNilGig
      | Some g \<Rightarrow>
          bindP (mapErrP WrapMarshalGigCacheError (liftP (ToReadModelPayload g))) (\<lambda>payload.
          mapErrP (WrapSetGigCacheError (GigCacheKey (gig_ID g)))
            (cmdP (cmd_set (GigCacheKey (gig_ID g)) payload 0))))"

definition read_GetByID :: "string \<Rightarrow> Gig prog" where
  "read_GetByID gigID =
     bindP (mapErrP (nil_not_found (WrapGetGigCacheError (GigCacheKey gigID)))
              (cmdP (cmd_get (GigCacheKey gigID)))) (\<lambda>raw.
     mapErrP WrapUnmarshalGigCacheError (liftP (FromReadModelPayload raw)))"

definition read_DeleteByID :: "string \<Rightarrow> unit prog" where
  "read_DeleteByID gigID =
     mapErrP (WrapDeleteGigCacheError (GigCacheKey gigID)) (cmdP (cmd_del (GigCacheKey gigID)))"

section \<open>Previews\<close>

definition gigPopularityScore :: "GigPreview option \<Rightarrow> int64" where
  "gigPopularityScore gig = (case gig of None \<Rightarrow> 0 | Some p \<Rightarrow> pv_PopularityScore p)"

text \<open>The commands of one window; a gig that cannot be marshalled ends the call before any is sent.\<close>

fun window_cmds :: "string \<Rightarrow> int \<Rightarrow> GigPreview option list \<Rightarrow> unit rcmd list res" where
  "window_cmds key ttl [] = Ok []"
| "window_cmds key ttl (None # gigs) = window_cmds key ttl gigs"
| "window_cmds key ttl (Some g # gigs) =
     bind_res (marshal_preview g) (\<lambda>payload.
     bind_res (window_cmds key ttl gigs) (\<lambda>cs.
     Ok (cmd_set (GigPreviewPayloadKey (pv_ID g)) payload ttl #
         cmd_zadd key (f64_of_int64 (gigPopularityScore (Some g))) (pv_ID g) # cs)))"

definition read_UpsertPreviewWindow ::
    "string \<Rightarrow> int64 \<Rightarrow> GigPreview option list \<Rightarrow> bool \<Rightarrow> int \<Rightarrow> unit prog" where
  "read_UpsertPreviewWindow userID window gigs hasMore ttl =
     (let userID = TrimSpace userID; window = (if sint window < 0 then 0 else window)
      in if userID = [] then domP ErrInvalidUsername
         else bindP (liftP (window_cmds (GigPreviewWindowKey userID window) ttl gigs)) (\<lambda>cs.
              pipeP (cmd_del (GigPreviewWindowKey userID window) # cs @
                (if 0 < sint window \<and> 0 < ttl
                 then [cmd_expire (GigPreviewWindowKey userID window) ttl] else []))))"

definition read_UpsertOwnerPreview :: "string \<Rightarrow> GigPreview option \<Rightarrow> unit prog" where
  "read_UpsertOwnerPreview userID gig =
     (let userID = TrimSpace userID
      in if userID = [] then domP ErrInvalidUsername
         else case gig of
           None \<Rightarrow> failP ErrNilGig
         | Some g \<Rightarrow>
             if TrimSpace (pv_ID g) = [] then failP ErrNilGig
             else bindP (liftP (marshal_preview g)) (\<lambda>payload.
                  pipeP [cmd_set (GigPreviewPayloadKey (pv_ID g)) payload 0,
                         cmd_zadd (GigOwnerPreviewIndexKey userID)
                           (f64_of_int (unix_milli (pv_UpdatedAt g))) (pv_ID g)]))"

text \<open>A payload that is blank text is skipped; one that does not decode is an error.\<close>

definition blank :: "bytes \<Rightarrow> bool" where
  "blank b = (case b of Raw s \<Rightarrow> TrimSpace s = [] | Json _ \<Rightarrow> False)"

fun decode_previews :: "bytes option list \<Rightarrow> GigPreview list res" where
  "decode_previews [] = Ok []"
| "decode_previews (None # bs) = decode_previews bs"
| "decode_previews (Some b # bs) =
     (if blank b then decode_previews bs
      else bind_res (unmarshal_preview b) (\<lambda>p. bind_res (decode_previews bs) (\<lambda>ps. Ok (p # ps))))"

text \<open>The script of \<open>ListPreviewWindow\<close>: payloads of the window's members, and whether the next window has any.\<close>

definition script_window :: "string \<Rightarrow> string \<Rightarrow> (bool \<times> bytes option list) rcmd" where
  "script_window key next now r =
     (case live now r key of
        Some (RStr _) \<Rightarrow> (Inl wrong_type, r)
      | v \<Rightarrow>
          (let ids = (case v of Some (RZSet z) \<Rightarrow> zset_rev z | _ \<Rightarrow> [])
           in if ids = [] then (Inl RedisNil, r)
              else case live now r next of
                Some (RStr _) \<Rightarrow> (Inl wrong_type, r)
              | n \<Rightarrow> (Inr (case n of Some (RZSet z) \<Rightarrow> z \<noteq> [] | _ \<Rightarrow> False,
                          map (\<lambda>id. string_at now r (''gig:preview:'' @ id)) ids), r)))"

definition read_ListPreviewWindow :: "string \<Rightarrow> int64 \<Rightarrow> GigPreview ListResult prog" where
  "read_ListPreviewWindow userID window =
     (let userID = TrimSpace userID; window = (if sint window < 0 then 0 else window)
      in if userID = [] then domP ErrInvalidUsername
         else bindP (mapErrP (nil_not_found id)
                (cmdP (script_window (GigPreviewWindowKey userID window)
                                     (GigPreviewWindowKey userID (window + 1))))) (\<lambda>(more, payloads).
              bindP (liftP (decode_previews payloads)) (\<lambda>gigs.
              retP \<lparr>lr_Gigs = gigs, lr_Page = 0, lr_Limit = 0, lr_TotalPages = 0, lr_HasMore = more\<rparr>)))"

definition read_ListOwnerPreviewGigs :: "string \<Rightarrow> GigPreview list prog" where
  "read_ListOwnerPreviewGigs userID =
     (let userID = TrimSpace userID
      in if userID = [] then domP ErrInvalidUsername
         else bindP (mapErrP (nil_not_found id)
                       (cmdP (cmd_zrevrange (GigOwnerPreviewIndexKey userID)))) (\<lambda>ids.
              let keys = map GigPreviewPayloadKey (filter (\<lambda>i. i \<noteq> []) (map TrimSpace ids))
              in if keys = [] then domP ErrGigNotFound
                 else bindP (cmdP (cmd_mget keys)) (\<lambda>raws.
                      bindP (liftP (decode_previews raws)) (\<lambda>gigs.
                      if gigs = [] then domP ErrGigNotFound else retP gigs))))"

definition read_GetPreviewByID :: "string \<Rightarrow> GigPreview prog" where
  "read_GetPreviewByID gigID =
     (let gigID = TrimSpace gigID
      in if gigID = [] then domP ErrInvalidGigID
         else bindP (mapErrP (nil_not_found id) (cmdP (cmd_get (GigPreviewPayloadKey gigID)))) (\<lambda>raw.
              liftP (unmarshal_preview raw)))"

section \<open>Appending under the seller's lease\<close>

definition parsePreviewWindowIndex :: "string \<Rightarrow> int64 option" where
  "parsePreviewWindowIndex key =
     (case after_last (CHR '':'') key of
        None \<Rightarrow> None
      | Some s \<Rightarrow> if s = [] then None else map_option word_of_int (atoi s))"

definition previewWindowIndexes :: "string \<Rightarrow> int64 list prog" where
  "previewWindowIndexes userID =
     bindP (cmdP (cmd_scan (''gig:preview:'' @ TrimSpace userID @ '':window:*''))) (\<lambda>keys.
     retP (sort_key sint (List.map_filter parsePreviewWindowIndex keys)))"

definition script_release :: "string \<Rightarrow> string \<Rightarrow> bool rcmd" where
  "script_release key token now r =
     (case live now r key of
        Some (RZSet _) \<Rightarrow> (Inl wrong_type, r)
      | Some (RStr b) \<Rightarrow> if b = Raw token then (Inr True, AList.delete key r) else (Inr False, r)
      | None \<Rightarrow> (Inr False, r))"

definition releasePreviewLease :: "string \<Rightarrow> string \<Rightarrow> bool prog" where
  "releasePreviewLease leaseKey token =
     mapErrP (WrapReleasePreviewLeaseError leaseKey) (cmdP (script_release leaseKey token))"

text \<open>A deferred call whose result is only logged: it runs on every way out, a panic included.\<close>

definition deferP :: "unit prog \<Rightarrow> 'a prog \<Rightarrow> 'a prog" where
  "deferP cleanup m e w = (case m e w of (r, w) \<Rightarrow> (r, snd (cleanup e w)))"

text \<open>
  The walk over the windows: a gig already in one is left there; the tail window takes it while
  it has room; otherwise it opens the window after the tail.
\<close>

fun append_walk ::
    "string \<Rightarrow> GigPreview \<Rightarrow> int64 \<Rightarrow> int \<Rightarrow> int64 \<Rightarrow> int64 list \<Rightarrow> unit prog" where
  "append_walk userID gig cap ttl tail [] =
     read_UpsertPreviewWindow userID (tail + 1) [Some gig] False ttl"
| "append_walk userID gig cap ttl tail (window # windows) =
     bindP (attemptP (read_ListPreviewWindow userID window)) (\<lambda>loaded.
     case loaded of
       Inl err \<Rightarrow>
         if errors_is err ErrGigNotFound then append_walk userID gig cap ttl tail windows
         else failP err
     | Inr current \<Rightarrow>
         if list_ex (\<lambda>p. pv_ID p = pv_ID gig) (lr_Gigs current) then retP ()
         else if window = tail \<and> int (length (lr_Gigs current)) < sint cap
         then read_UpsertPreviewWindow userID window (map Some (lr_Gigs current @ [gig])) False ttl
         else append_walk userID gig cap ttl tail windows)"

definition lease_ttl :: int where "lease_ttl = 15 * 10 ^ 9"

definition read_AppendPreviewGig :: "string \<Rightarrow> GigPreview option \<Rightarrow> int64 \<Rightarrow> int \<Rightarrow> unit prog" where
  "read_AppendPreviewGig userID gig windowSize ttl =
     (let userID = TrimSpace userID; cap = (if sint windowSize \<le> 0 then 1 else windowSize)
      in if userID = [] then domP ErrInvalidUsername
         else case gig of
           None \<Rightarrow> failP ErrNilGig
         | Some g \<Rightarrow>
             if TrimSpace (pv_ID g) = [] then failP ErrNilGig
             else
               bindP nowP (\<lambda>now.
               let key = GigPreviewLeaseKey userID;
                   token = show_int now @ ''-'' @ pv_ID g
               in bindP (mapErrP (\<lambda>err. if err = RedisNil then ErrPreviewLeaseBusy
                                        else WrapPreviewLeaseError key err)
                          (cmdP (cmd_set_nx key (Raw token) lease_ttl))) (\<lambda>_.
                  deferP (ignoreP (releasePreviewLease key token))
                    (bindP (previewWindowIndexes userID) (\<lambda>indexes.
                     if indexes = []
                     then read_UpsertPreviewWindow userID 0 [Some g] False 0
                     else append_walk userID g cap ttl (last indexes) indexes)))))"

section \<open>Lookups and popularity\<close>

definition read_SetUserLookup :: "string \<Rightarrow> string \<Rightarrow> int \<Rightarrow> unit prog" where
  "read_SetUserLookup username userID ttl =
     (let username = TrimSpace username; userID = TrimSpace userID
      in if username = [] \<or> userID = [] then domP ErrInvalidUsername
         else cmdP (cmd_set (UserLookupKey username) (Raw userID) ttl))"

text \<open>The text of a value read as a string.\<close>

definition bytes_text :: "env \<Rightarrow> bytes \<Rightarrow> string" where
  "bytes_text e b = (case b of Raw s \<Rightarrow> s | Json j \<Rightarrow> e_json_text e j)"

definition read_GetUserLookup :: "string \<Rightarrow> string prog" where
  "read_GetUserLookup username =
     (let username = TrimSpace username
      in if username = [] then domP ErrInvalidUsername
         else bindP (mapErrP (nil_not_found id) (cmdP (cmd_get (UserLookupKey username)))) (\<lambda>raw.
              bindP (askP (\<lambda>e. bytes_text e raw)) (\<lambda>s. retP (TrimSpace s))))"

definition read_SetPopularitySnapshot :: "GigPopularitySnapshot option \<Rightarrow> unit prog" where
  "read_SetPopularitySnapshot snapshot =
     (case snapshot of
        None \<Rightarrow> domP ErrInvalidGigID
      | Some s \<Rightarrow>
          if TrimSpace (ps_GigID s) = [] then domP ErrInvalidGigID
          else bindP (liftP (marshal_snapshot s)) (\<lambda>payload.
               cmdP (cmd_set (GigPopularityKey (ps_GigID s)) payload 0)))"

definition read_GetPopularitySnapshot :: "string \<Rightarrow> GigPopularitySnapshot prog" where
  "read_GetPopularitySnapshot gigID =
     (let gigID = TrimSpace gigID
      in if gigID = [] then domP ErrInvalidGigID
         else bindP (mapErrP (nil_not_found id) (cmdP (cmd_get (GigPopularityKey gigID)))) (\<lambda>raw.
              liftP (unmarshal_snapshot raw)))"

fun collect_snapshots ::
    "(string \<times> bytes option) list \<Rightarrow> (string \<rightharpoonup> GigPopularitySnapshot) \<Rightarrow>
     (string \<rightharpoonup> GigPopularitySnapshot) res" where
  "collect_snapshots [] out = Ok out"
| "collect_snapshots ((gid, None) # rs) out = collect_snapshots rs out"
| "collect_snapshots ((gid, Some b) # rs) out =
     bind_res (unmarshal_snapshot b) (\<lambda>s.
     collect_snapshots rs (out(gid \<mapsto> s\<lparr>ps_GigID := gid\<rparr>)))"

definition read_ListPopularitySnapshotsByGigIDs ::
    "string list \<Rightarrow> (string \<rightharpoonup> GigPopularitySnapshot) prog" where
  "read_ListPopularitySnapshotsByGigIDs gigIDs =
     (let ids = filter (\<lambda>i. i \<noteq> []) (map TrimSpace gigIDs)
      in if ids = [] then retP Map.empty
         else bindP (cmdP (cmd_mget (map GigPopularityKey ids))) (\<lambda>raws.
              liftP (collect_snapshots (zip ids raws) Map.empty)))"

fun get_snapshots :: "string list \<Rightarrow> GigPopularitySnapshot list prog" where
  "get_snapshots [] = retP []"
| "get_snapshots (k # ks) =
     bindP (attemptP (cmdP (cmd_get k))) (\<lambda>got.
     case got of
       Inl err \<Rightarrow> if is_redis_nil err then get_snapshots ks else failP err
     | Inr raw \<Rightarrow>
         bindP (liftP (unmarshal_snapshot raw)) (\<lambda>s.
         bindP (get_snapshots ks) (\<lambda>ss. retP (s # ss))))"

definition read_ListPopularitySnapshots :: "GigPopularitySnapshot list prog" where
  "read_ListPopularitySnapshots =
     bindP (cmdP (cmd_scan ''gig.popularity.*'')) get_snapshots"

end
