(* ===== verification/Clients.thy ===== *)
theory Clients
  imports Effects
begin

text \<open>
  The gRPC clients \<open>internal/infra/{file,payment,review,order,user}/grpc\<close>: the mapping of the
  replies and of the errors, and the calls. The services themselves are parameters: the reply
  to a call is what the environment gives at its tick. A protobuf getter on a nil message
  returns the zero value.
\<close>

section \<open>File service\<close>

definition ToUploadFilesResponse :: "string list option \<Rightarrow> string list" where
  "ToUploadFilesResponse res = (case res of None \<Rightarrow> [] | Some ids \<Rightarrow> ids)"

fun collect_urls :: "(string \<times> string) option list \<Rightarrow> (string \<rightharpoonup> string) \<Rightarrow> (string \<rightharpoonup> string)" where
  "collect_urls [] urls = urls"
| "collect_urls (None # items) urls = collect_urls items urls"
| "collect_urls (Some (fid, url) # items) urls = collect_urls items (urls(fid \<mapsto> url))"

definition ToGetFileURLsResponse :: "(string \<times> string) option list option \<Rightarrow> (string \<rightharpoonup> string)" where
  "ToGetFileURLsResponse res = (case res of None \<Rightarrow> Map.empty | Some items \<Rightarrow> collect_urls items Map.empty)"

definition file_ToError :: "gerr \<Rightarrow> gerr" where
  "file_ToError err =
     (case as_status err of
        None \<Rightarrow> err
      | Some (c, _) \<Rightarrow>
          if c = CodeInvalidArgument then Dom ErrInvalidMediaUpload
          else if c = CodeNotFound then Dom ErrInvalidFileID
          else err)"

definition UploadFiles :: "string \<Rightarrow> string \<Rightarrow> MediaUpload list \<Rightarrow> string list prog" where
  "UploadFiles ownerID pre files =
     bindP (mapErrP file_ToError
       (remoteP (\<lambda>w. w\<lparr>w_rpc := w_rpc w @ [RpcUpload ownerID pre files]\<rparr>)
                (\<lambda>e n w. e_uploaded e n ownerID pre files))) (\<lambda>res.
     retP (ToUploadFilesResponse res))"

definition GetFileURLs :: "string list \<Rightarrow> (string \<rightharpoonup> string) prog" where
  "GetFileURLs fileIDs =
     bindP (mapErrP file_ToError (remoteP (\<lambda>w. w) (\<lambda>e n w. e_file_urls e n fileIDs))) (\<lambda>res.
     retP (ToGetFileURLsResponse res))"

definition DeleteFile :: "string \<Rightarrow> unit prog" where
  "DeleteFile fileID =
     mapErrP file_ToError
       (remoteP (\<lambda>w. w\<lparr>w_rpc := w_rpc w @ [RpcDelete fileID]\<rparr>) (\<lambda>_ _ _. ()))"

section \<open>Payment service\<close>

definition payment_ToError :: "gerr \<Rightarrow> gerr" where
  "payment_ToError err =
     (case as_status err of
        None \<Rightarrow> err
      | Some (c, m) \<Rightarrow>
          if c = CodeNotFound \<or> c = CodeFailedPrecondition then Dom ErrConnectOnboardingIncomplete
          else if c = CodeUnknown then
            (if str_contains (to_lower m) ''payment connect account not found''
             then Dom ErrConnectOnboardingIncomplete else Dom ErrConnectOnboardingIncomplete)
          else err)"

definition GetConnectStatus :: "string \<Rightarrow> ConnectStatusResult option prog" where
  "GetConnectStatus userID =
     mapErrP payment_ToError (remoteP (\<lambda>w. w) (\<lambda>e n w. e_connect e n userID))"

section \<open>Review, order and user services\<close>

definition GetGigRatingSummary :: "string \<Rightarrow> ReviewSummary option prog" where
  "GetGigRatingSummary gigID = remoteP (\<lambda>w. w) (\<lambda>e n w. e_rating e n gigID)"

definition GetOrderCountByGigID :: "string \<Rightarrow> int64 option prog" where
  "GetOrderCountByGigID gigID = remoteP (\<lambda>w. w) (\<lambda>e n w. e_orders e n (TrimSpace gigID))"

definition ListPopularityRows :: "PopularityRow list prog" where
  "ListPopularityRows = remoteP (\<lambda>w. w) (\<lambda>e n w. e_popularity e n)"

definition ToGetUserPreviewByIDNoCacheResponse :: "UserPreview option option \<Rightarrow> UserPreview option" where
  "ToGetUserPreviewByIDNoCacheResponse res = (case res of None \<Rightarrow> None | Some user \<Rightarrow> user)"

definition user_ToError :: "gerr \<Rightarrow> gerr" where
  "user_ToError err =
     (case as_status err of
        None \<Rightarrow> err
      | Some (c, _) \<Rightarrow> if c = CodeNotFound then Opaque ''user not found'' else err)"

definition GetUserPreviewByIDNoCache :: "string \<Rightarrow> UserPreview option prog" where
  "GetUserPreviewByIDNoCache userID =
     bindP (mapErrP user_ToError (remoteP (\<lambda>w. w) (\<lambda>e n w. e_user e n (TrimSpace userID)))) (\<lambda>res.
     retP (ToGetUserPreviewByIDNoCacheResponse res))"

section \<open>Frames\<close>

lemma readonly_client_frames [frame_intros]:
  "steps e same_db (GetFileURLs ids)" "steps e same_redis (GetFileURLs ids)"
  "steps e same_log (GetFileURLs ids)" "steps e same_rpc (GetFileURLs ids)"
  "steps e same_db (GetConnectStatus u)" "steps e same_redis (GetConnectStatus u)"
  "steps e same_log (GetConnectStatus u)" "steps e same_rpc (GetConnectStatus u)"
  "steps e same_db (GetGigRatingSummary g)" "steps e same_redis (GetGigRatingSummary g)"
  "steps e same_log (GetGigRatingSummary g)" "steps e same_rpc (GetGigRatingSummary g)"
  "steps e same_db (GetOrderCountByGigID g)" "steps e same_redis (GetOrderCountByGigID g)"
  "steps e same_log (GetOrderCountByGigID g)" "steps e same_rpc (GetOrderCountByGigID g)"
  "steps e same_db ListPopularityRows" "steps e same_redis ListPopularityRows"
  "steps e same_log ListPopularityRows" "steps e same_rpc ListPopularityRows"
  "steps e same_db (GetUserPreviewByIDNoCache u)" "steps e same_redis (GetUserPreviewByIDNoCache u)"
  "steps e same_log (GetUserPreviewByIDNoCache u)" "steps e same_rpc (GetUserPreviewByIDNoCache u)"
  unfolding GetFileURLs_def GetConnectStatus_def GetGigRatingSummary_def
    GetOrderCountByGigID_def ListPopularityRows_def GetUserPreviewByIDNoCache_def
  by ((intro frame_intros same_db.steps_remoteP same_redis.steps_remoteP same_log.steps_remoteP
      same_rpc.steps_remoteP; simp add: same_db_def same_redis_def same_log_def same_rpc_def)+)

lemma file_call_frames [frame_intros]:
  "steps e same_db (UploadFiles own pre fs)" "steps e same_redis (UploadFiles own pre fs)"
  "steps e same_log (UploadFiles own pre fs)"
  "steps e same_db (DeleteFile f)" "steps e same_redis (DeleteFile f)"
  "steps e same_log (DeleteFile f)"
  unfolding UploadFiles_def DeleteFile_def
  by ((intro frame_intros same_db.steps_remoteP same_redis.steps_remoteP same_log.steps_remoteP;
      simp add: same_db_def same_redis_def same_log_def)+)

end
