(* ===== verification/GigLists.thy ===== *)
theory GigLists
  imports Domain Floats "HOL-Library.List_Lexorder"
begin

text \<open>
  The list logic of \<open>internal/application/my_gigs.go\<close> and \<open>preview.go\<close>: normalization of the
  query, filter, stable sort by a comparator, and pagination on machine integers. Go's
  \<open>sort.SliceStable\<close> is a stable insertion sort; the locale \<open>sort_order\<close> shows that for a strict
  weak order the outcome is a sorted and stable permutation, which determines it, and the
  comparators of the service are shown to be such orders. The lists of pointers of the owner's
  list may hold nil, hence options.
\<close>

section \<open>Stable sorting\<close>

fun insert_by :: "('a \<Rightarrow> 'a \<Rightarrow> bool) \<Rightarrow> 'a \<Rightarrow> 'a list \<Rightarrow> 'a list" where
  "insert_by lt x [] = [x]"
| "insert_by lt x (y # ys) = (if lt y x then y # insert_by lt x ys else x # y # ys)"

definition sort_stable :: "('a \<Rightarrow> 'a \<Rightarrow> bool) \<Rightarrow> 'a list \<Rightarrow> 'a list" where
  "sort_stable lt xs = foldr (insert_by lt) xs []"

lemma mset_insert_by [simp]: "mset (insert_by lt x ys) = add_mset x (mset ys)"
  by (induction ys) simp_all

lemma mset_sort_stable [simp]: "mset (sort_stable lt xs) = mset xs"
  by (induction xs) (simp_all add: sort_stable_def)

lemma set_sort_stable [simp]: "set (sort_stable lt xs) = set xs"
  by (metis mset_eq_setD mset_sort_stable)

lemma length_sort_stable [simp]: "length (sort_stable lt xs) = length xs"
  by (metis mset_eq_length mset_sort_stable)

lemma sort_stable_Cons: "sort_stable lt (x # xs) = insert_by lt x (sort_stable lt xs)"
  by (simp add: sort_stable_def)

text \<open>A comparator that is a strict weak order on the values it is used for.\<close>

locale sort_order =
  fixes lt :: "'a \<Rightarrow> 'a \<Rightarrow> bool" and ok :: "'a \<Rightarrow> bool"
  assumes asym: "ok x \<Longrightarrow> ok y \<Longrightarrow> lt x y \<Longrightarrow> \<not> lt y x"
    and neg_trans: "ok x \<Longrightarrow> ok y \<Longrightarrow> ok z \<Longrightarrow> \<not> lt x y \<Longrightarrow> \<not> lt y z \<Longrightarrow> \<not> lt x z"
begin

definition tie :: "'a \<Rightarrow> 'a \<Rightarrow> bool" where
  "tie x y \<longleftrightarrow> \<not> lt x y \<and> \<not> lt y x"

lemma sorted_insert_by:
  assumes "ok x" and "list_all ok ys" and "sorted_wrt (\<lambda>a b. \<not> lt b a) ys"
  shows "sorted_wrt (\<lambda>a b. \<not> lt b a) (insert_by lt x ys)"
  using assms
proof (induction ys)
  case (Cons y ys)
  have set: "set (insert_by lt x ys) = insert x (set ys)"
    by (metis mset_insert_by set_mset_add_mset_insert set_mset_mset)
  show ?case
  proof (cases "lt y x")
    case True
    with Cons set show ?thesis by (auto simp: list_all_iff dest: asym)
  next
    case False
    have "\<not> lt z x" if "z \<in> set ys" for z
      using that False Cons.prems neg_trans [of z y x] by (auto simp: list_all_iff)
    with False Cons show ?thesis by auto
  qed
qed simp

lemma sorted_sort_stable:
  "list_all ok xs \<Longrightarrow> sorted_wrt (\<lambda>a b. \<not> lt b a) (sort_stable lt xs)"
proof (induction xs)
  case (Cons x xs)
  then have "list_all ok (sort_stable lt xs)" by (simp add: list_all_iff)
  with Cons show ?case by (simp add: sort_stable_Cons sorted_insert_by)
qed (simp add: sort_stable_def)

lemma filter_insert_by_tie:
  assumes "ok x" and "ok k" and "list_all ok ys" and "sorted_wrt (\<lambda>a b. \<not> lt b a) ys"
  shows "filter (tie k) (insert_by lt x ys) = (if tie k x then x # filter (tie k) ys else filter (tie k) ys)"
  using assms
proof (induction ys)
  case (Cons y ys)
  show ?case
  proof (cases "lt y x")
    case True
    have "\<not> tie k y" if "tie k x"
      using that True Cons.prems neg_trans [of y k x] by (auto simp: tie_def list_all_iff)
    with True Cons show ?thesis by auto
  qed (use Cons in auto)
qed simp

text \<open>Stability: the elements equivalent to any given one keep their order.\<close>

lemma stable_sort_stable:
  "list_all ok xs \<Longrightarrow> ok k \<Longrightarrow> filter (tie k) (sort_stable lt xs) = filter (tie k) xs"
proof (induction xs)
  case (Cons x xs)
  then have "list_all ok (sort_stable lt xs)" by (simp add: list_all_iff)
  with Cons show ?case
    by (simp add: sort_stable_Cons filter_insert_by_tie sorted_sort_stable)
qed (simp add: sort_stable_def)

text \<open>Sortedness and stability leave one list only, so the algorithm behind a stable sort is free.\<close>

lemma stable_sorted_unique:
  assumes "sorted_wrt (\<lambda>a b. \<not> lt b a) xs" and "sorted_wrt (\<lambda>a b. \<not> lt b a) ys"
    and "mset xs = mset ys" and "list_all ok xs"
    and "\<And>k. ok k \<Longrightarrow> filter (tie k) xs = filter (tie k) ys"
  shows "xs = ys"
  using assms
proof (induction xs arbitrary: ys)
  case (Cons x xs)
  then obtain y ys' where ys: "ys = y # ys'" by (cases ys) auto
  have mem: "set (x # xs) = set ys" using Cons.prems(3) by (metis mset_eq_setD)
  have okx: "ok x" using Cons.prems(4) by simp
  have oky: "ok y" using Cons.prems(4) mem ys by (auto simp: list_all_iff)
  have members: "x \<in> set (y # ys')" "y \<in> set (x # xs)" using mem ys by auto
  have "\<not> lt x y"
    using Cons.prems(2) members(1) ys okx by (auto dest: asym)
  moreover have "\<not> lt y x"
    using Cons.prems(1) members(2) oky by (auto dest: asym)
  ultimately have t: "tie x y" "tie x x" using okx asym by (auto simp: tie_def)
  have "filter (tie x) (x # xs) = filter (tie x) (y # ys')" using Cons.prems(5) [OF okx] ys by simp
  with t have xy: "x = y" by simp
  have "xs = ys'"
  proof (rule Cons.IH)
    show "filter (tie k) xs = filter (tie k) ys'" if "ok k" for k
      using Cons.prems(5) [OF that] ys xy by (auto split: if_splits)
  qed (use Cons.prems ys xy in auto)
  with xy ys show ?case by simp
qed simp

end

section \<open>The owner's list\<close>

definition gigListSortCreatedAt :: string where "gigListSortCreatedAt = ''created_at''"
definition gigListSortUpdatedAt :: string where "gigListSortUpdatedAt = ''updated_at''"
definition gigListSortPublishedAt :: string where "gigListSortPublishedAt = ''published_at''"
definition gigListSortRatingAvg :: string where "gigListSortRatingAvg = ''rating_avg''"
definition gigListSortTotalReviews :: string where "gigListSortTotalReviews = ''total_reviews''"
definition gigListSortOrderCount :: string where "gigListSortOrderCount = ''order_count''"
definition gigListOrderAsc :: string where "gigListOrderAsc = ''asc''"
definition gigListOrderDesc :: string where "gigListOrderDesc = ''desc''"
definition gigListStatusInvalid :: string where "gigListStatusInvalid = ''__invalid_status__''"
definition gigListSortInvalid :: string where "gigListSortInvalid = ''__invalid_sort__''"
definition gigListOrderInvalid :: string where "gigListOrderInvalid = ''__invalid_order__''"

lemmas sort_key_defs = gigListSortCreatedAt_def gigListSortUpdatedAt_def
  gigListSortPublishedAt_def gigListSortRatingAvg_def gigListSortTotalReviews_def
  gigListSortOrderCount_def
lemmas list_order_defs = gigListOrderAsc_def gigListOrderDesc_def

definition normalizeGigListStatus :: "string \<Rightarrow> string" where
  "normalizeGigListStatus raw =
     (let raw = TrimSpace raw
      in if raw = [] \<or> raw = StatusDraft \<or> raw = StatusPublished \<or> raw = StatusPaused \<or>
            raw = StatusArchived
         then raw else gigListStatusInvalid)"

definition normalizeGigListSort :: "string \<Rightarrow> string" where
  "normalizeGigListSort raw =
     (let raw = TrimSpace raw
      in if raw = [] then gigListSortUpdatedAt
         else if raw = gigListSortCreatedAt \<or> raw = gigListSortUpdatedAt \<or>
                 raw = gigListSortPublishedAt \<or> raw = gigListSortRatingAvg \<or>
                 raw = gigListSortTotalReviews \<or> raw = gigListSortOrderCount
         then raw else gigListSortInvalid)"

definition normalizeGigListOrder :: "string \<Rightarrow> string" where
  "normalizeGigListOrder raw =
     (let raw = TrimSpace raw
      in if raw = [] \<or> raw = gigListOrderDesc then gigListOrderDesc
         else if raw = gigListOrderAsc then gigListOrderAsc else gigListOrderInvalid)"

definition filterOwnerGigs :: "GigPreview option list \<Rightarrow> string \<Rightarrow> GigPreview option list" where
  "filterOwnerGigs items status =
     (if status = [] then items
      else filter (\<lambda>item. case item of None \<Rightarrow> False
                     | Some p \<Rightarrow> equal_fold (TrimSpace (pv_Status p)) status) items)"

definition compareTime :: "time \<Rightarrow> time \<Rightarrow> int" where
  "compareTime l r = (if l < r then -1 else if r < l then 1 else 0)"

definition compareOptionalTime :: "time option \<Rightarrow> time option \<Rightarrow> int" where
  "compareOptionalTime l r =
     (case (l, r) of
        (None, None) \<Rightarrow> 0
      | (None, Some _) \<Rightarrow> -1
      | (Some _, None) \<Rightarrow> 1
      | (Some a, Some b) \<Rightarrow> compareTime a b)"

definition compareFloat :: "float64 \<Rightarrow> float64 \<Rightarrow> int" where
  "compareFloat l r = (if f64_less l r then -1 else if f64_less r l then 1 else 0)"

definition compareInt64 :: "int64 \<Rightarrow> int64 \<Rightarrow> int" where
  "compareInt64 l r = (if sint l < sint r then -1 else if sint r < sint l then 1 else 0)"

definition compareOwnerGig :: "GigPreview \<Rightarrow> GigPreview \<Rightarrow> string \<Rightarrow> int" where
  "compareOwnerGig l r sortKey =
     (if sortKey = gigListSortCreatedAt then compareTime (pv_CreatedAt l) (pv_CreatedAt r)
      else if sortKey = gigListSortUpdatedAt then compareTime (pv_UpdatedAt l) (pv_UpdatedAt r)
      else if sortKey = gigListSortPublishedAt
           then compareOptionalTime (pv_PublishedAt l) (pv_PublishedAt r)
      else if sortKey = gigListSortRatingAvg then compareFloat (pv_RatingAvg l) (pv_RatingAvg r)
      else if sortKey = gigListSortTotalReviews
           then compareInt64 (pv_TotalReviews l) (pv_TotalReviews r)
      else if sortKey = gigListSortOrderCount
           then compareInt64 (pv_OrderCount l) (pv_OrderCount r)
      else compareTime (pv_UpdatedAt l) (pv_UpdatedAt r))"

definition owner_less :: "string \<Rightarrow> string \<Rightarrow> GigPreview option \<Rightarrow> GigPreview option \<Rightarrow> bool" where
  "owner_less sortKey order left right =
     (case (left, right) of
        (Some l, Some r) \<Rightarrow>
          (let cmp = compareOwnerGig l r sortKey
           in if cmp = 0 then TrimSpace (pv_ID r) < TrimSpace (pv_ID l)
              else if order = gigListOrderAsc then cmp < 0
              else cmp > 0)
      | (_, None) \<Rightarrow> False
      | (None, Some _) \<Rightarrow> True)"

definition sortOwnerGigs ::
    "GigPreview option list \<Rightarrow> string \<Rightarrow> string \<Rightarrow> GigPreview option list" where
  "sortOwnerGigs items sortKey order = sort_stable (owner_less sortKey order) items"

text \<open>\<open>items[start:end]\<close>: the bounds are checked at run time.\<close>

definition slice :: "'a list \<Rightarrow> int64 \<Rightarrow> int64 \<Rightarrow> 'a list res" where
  "slice items start stop =
     (if 0 \<le> sint start \<and> sint start \<le> sint stop \<and> sint stop \<le> int (length items)
      then Ok (take (nat (sint stop - sint start)) (drop (nat (sint start)) items))
      else Panic)"

definition total_pages :: "'a list \<Rightarrow> int64 \<Rightarrow> int64" where
  "total_pages items limit =
     (if 0 < length items then go_div (go_len items + limit - 1) limit else 0)"

definition paginateOwnerGigs :: "'a list \<Rightarrow> int64 \<Rightarrow> int64 \<Rightarrow> 'a ListResult res" where
  "paginateOwnerGigs items page limit =
     (let page = (if sint page \<le> 0 then 1 else page);
          limit = (if sint limit \<le> 0 then 10 else limit);
          start = (page - 1) * limit
      in if int (length items) \<le> sint start
         then Ok \<lparr>lr_Gigs = [], lr_Page = page, lr_Limit = limit,
                  lr_TotalPages = total_pages items limit, lr_HasMore = False\<rparr>
         else
           let stop = (if int (length items) < sint (start + limit) then go_len items else start + limit)
           in bind_res (slice items start stop) (\<lambda>gigs.
              Ok \<lparr>lr_Gigs = gigs, lr_Page = page, lr_Limit = limit,
                  lr_TotalPages = total_pages items limit,
                  lr_HasMore = sint stop < int (length items)\<rparr>))"

section \<open>The public list\<close>

definition previewScoreOf :: "GigPreview \<Rightarrow> int64" where
  "previewScoreOf gig = pv_PopularityScore gig"

definition preview_less :: "GigPreview \<Rightarrow> GigPreview \<Rightarrow> bool" where
  "preview_less l r =
     (if previewScoreOf l = previewScoreOf r then pv_ID r < pv_ID l
      else sint (previewScoreOf r) < sint (previewScoreOf l))"

definition sortPreviewItems :: "GigPreview list \<Rightarrow> GigPreview list" where
  "sortPreviewItems items = sort_stable preview_less items"

definition paginatePreviewItems :: "'a list \<Rightarrow> int64 \<Rightarrow> int64 \<Rightarrow> 'a ListResult res" where
  "paginatePreviewItems items page limit =
     (let page = (if sint page \<le> 0 then 1 else page);
          limit = (if sint limit \<le> 0 then 10 else limit);
          totalPages = total_pages items limit;
          start = (page - 1) * limit
      in if int (length items) \<le> sint start
         then Ok \<lparr>lr_Gigs = [], lr_Page = page, lr_Limit = limit, lr_TotalPages = totalPages,
                  lr_HasMore = False\<rparr>
         else
           let stop = (if int (length items) < sint (start + limit) then go_len items else start + limit)
           in bind_res (slice items start stop) (\<lambda>gigs.
              Ok \<lparr>lr_Gigs = gigs, lr_Page = page, lr_Limit = limit, lr_TotalPages = totalPages,
                  lr_HasMore = sint stop < int (length items)\<rparr>))"

section \<open>The comparators are strict weak orders\<close>

text \<open>The rank a sort key gives a preview; nil instants come first.\<close>

definition owner_rank :: "string \<Rightarrow> GigPreview \<Rightarrow> int \<times> int" where
  "owner_rank sortKey p =
     (if sortKey = gigListSortCreatedAt then (0, pv_CreatedAt p)
      else if sortKey = gigListSortUpdatedAt then (0, pv_UpdatedAt p)
      else if sortKey = gigListSortPublishedAt
           then (case pv_PublishedAt p of None \<Rightarrow> (0, 0) | Some t \<Rightarrow> (1, t))
      else if sortKey = gigListSortRatingAvg then (0, f64_key (pv_RatingAvg p))
      else if sortKey = gigListSortTotalReviews then (0, sint (pv_TotalReviews p))
      else if sortKey = gigListSortOrderCount then (0, sint (pv_OrderCount p))
      else (0, pv_UpdatedAt p))"

definition rating_ok :: "GigPreview option \<Rightarrow> bool" where
  "rating_ok item = (case item of None \<Rightarrow> True | Some p \<Rightarrow> \<not> f64_is_nan (pv_RatingAvg p))"

text \<open>A comparison result agrees with an order: its sign is the direction.\<close>

definition sign_of :: "int \<Rightarrow> 'a::linorder \<Rightarrow> 'a \<Rightarrow> bool" where
  "sign_of c a b \<longleftrightarrow> (c < 0 \<longleftrightarrow> a < b) \<and> (0 < c \<longleftrightarrow> b < a)"

lemma sign_ofD:
  assumes "sign_of c a b"
  shows "c < 0 \<longleftrightarrow> a < b" and "0 < c \<longleftrightarrow> b < a" and "c = 0 \<longleftrightarrow> a = b"
  using assms by (auto simp: sign_of_def not_less le_less)

lemma sign_of_compares:
  "sign_of (compareTime t u) (0 :: int, t) (0, u)"
  "sign_of (compareInt64 v w) (0 :: int, sint v) (0, sint w)"
  "\<not> f64_is_nan f \<Longrightarrow> \<not> f64_is_nan g \<Longrightarrow> sign_of (compareFloat f g) (0 :: int, f64_key f) (0, f64_key g)"
  "sign_of (compareOptionalTime p q)
     (case p of None \<Rightarrow> (0 :: int, 0) | Some t \<Rightarrow> (1, t)) (case q of None \<Rightarrow> (0, 0) | Some t \<Rightarrow> (1, t))"
  by (auto simp: sign_of_def compareTime_def compareInt64_def compareFloat_def f64_less_def
      compareOptionalTime_def split: option.split)

lemma sign_of_compareOwnerGig:
  assumes "rating_ok (Some l)" and "rating_ok (Some r)"
  shows "sign_of (compareOwnerGig l r sortKey) (owner_rank sortKey l) (owner_rank sortKey r)"
  using assms by (simp add: compareOwnerGig_def owner_rank_def sign_of_compares rating_ok_def)

lemmas compareOwnerGig_rank = sign_of_compareOwnerGig [THEN sign_ofD(1)]
  sign_of_compareOwnerGig [THEN sign_ofD(2)] sign_of_compareOwnerGig [THEN sign_ofD(3)]

lemma owner_less_rank:
  assumes "rating_ok (Some l)" and "rating_ok (Some r)"
  shows "owner_less sortKey order (Some l) (Some r) \<longleftrightarrow>
     (if order = gigListOrderAsc then owner_rank sortKey l < owner_rank sortKey r
      else owner_rank sortKey r < owner_rank sortKey l) \<or>
     owner_rank sortKey l = owner_rank sortKey r \<and> TrimSpace (pv_ID r) < TrimSpace (pv_ID l)"
  using compareOwnerGig_rank [OF assms, of sortKey]
  by (auto simp: owner_less_def Let_def)

lemma rank_neg_trans:
  fixes f :: "'a \<Rightarrow> 'b::linorder" and g :: "'a \<Rightarrow> 'c::linorder"
  shows "\<not> (f x < f y \<or> f x = f y \<and> g y < g x) \<Longrightarrow> \<not> (f y < f z \<or> f y = f z \<and> g z < g y) \<Longrightarrow>
    \<not> (f x < f z \<or> f x = f z \<and> g z < g x)"
  by (auto simp: not_less)

lemma owner_less_nil:
  "\<not> owner_less sortKey order x None" "owner_less sortKey order None (Some r)"
  by (simp_all add: owner_less_def split: option.splits)

lemma owner_less_asym:
  assumes "rating_ok (Some l)" and "rating_ok (Some r)"
  shows "owner_less sortKey order (Some l) (Some r) \<Longrightarrow> \<not> owner_less sortKey order (Some r) (Some l)"
  by (cases "order = gigListOrderAsc") (auto simp: owner_less_rank assms)

lemma owner_less_neg_trans:
  assumes "rating_ok (Some x)" and "rating_ok (Some y)" and "rating_ok (Some z)"
    and "\<not> owner_less sortKey order (Some x) (Some y)"
    and "\<not> owner_less sortKey order (Some y) (Some z)"
  shows "\<not> owner_less sortKey order (Some x) (Some z)"
proof (cases "order = gigListOrderAsc")
  case True
  with assms show ?thesis
    using rank_neg_trans [of "owner_rank sortKey" x y "\<lambda>p. TrimSpace (pv_ID p)" z]
    by (simp add: owner_less_rank)
next
  case False
  have "\<not> (owner_rank sortKey z < owner_rank sortKey x \<or>
      owner_rank sortKey x = owner_rank sortKey z \<and> TrimSpace (pv_ID z) < TrimSpace (pv_ID x))"
    using assms(4,5) False assms(1-3) by (auto simp: owner_less_rank not_less)
  with False assms(1,3) show ?thesis by (simp add: owner_less_rank)
qed

lemma owner_sort_order: "sort_order (owner_less sortKey order) rating_ok"
proof
  fix x y z
  show "rating_ok x \<Longrightarrow> rating_ok y \<Longrightarrow> owner_less sortKey order x y \<Longrightarrow> \<not> owner_less sortKey order y x"
    by (cases x; cases y) (simp_all add: owner_less_nil owner_less_asym)
  show "rating_ok x \<Longrightarrow> rating_ok y \<Longrightarrow> rating_ok z \<Longrightarrow> \<not> owner_less sortKey order x y \<Longrightarrow>
      \<not> owner_less sortKey order y z \<Longrightarrow> \<not> owner_less sortKey order x z"
    by (cases x; cases y; cases z) (simp_all add: owner_less_nil, metis owner_less_neg_trans)
qed

interpretation owner_order: sort_order "owner_less sortKey order" rating_ok
  for sortKey order :: string by (rule owner_sort_order)

interpretation preview_order: sort_order preview_less "\<lambda>_. True"
proof
  fix x y z
  show "preview_less x y \<Longrightarrow> \<not> preview_less y x"
    by (auto simp: preview_less_def split: if_splits)
  show "\<not> preview_less x y \<Longrightarrow> \<not> preview_less y z \<Longrightarrow> \<not> preview_less x z"
    by (auto simp: preview_less_def signed_word_eqI split: if_splits)
qed

section \<open>Pagination\<close>

text \<open>
  The page the arithmetic means: page \<open>P\<close> of pages of \<open>L\<close> items, for the numbers a gRPC request
  can carry (32 bits).
\<close>

definition page_of :: "'a list \<Rightarrow> nat \<Rightarrow> nat \<Rightarrow> 'a list" where
  "page_of items P L = take L (drop ((P - 1) * L) items)"

definition page_count :: "'a list \<Rightarrow> nat \<Rightarrow> nat" where
  "page_count items L = (length items + L - 1) div L"

definition page_args_ok :: "'a list \<Rightarrow> int64 \<Rightarrow> int64 \<Rightarrow> bool" where
  "page_args_ok items page limit \<longleftrightarrow>
     0 < sint page \<and> sint page < 2 ^ 31 \<and> 0 < sint limit \<and> sint limit < 2 ^ 31 \<and>
     int (length items) < 2 ^ 62"

lemma total_pages_exact:
  assumes "page_args_ok items page limit"
  shows "sint (total_pages items limit) = int (page_count items (nat (sint limit)))"
proof (cases "items = []")
  case True
  then have "page_count items (nat (sint limit)) = 0"
    using assms by (simp add: page_count_def page_args_ok_def)
  with True show ?thesis by (simp add: total_pages_def)
next
  case False
  let ?n = "int (length items)" and ?l = "sint limit"
  have b: "0 < ?l" "?l < 2 ^ 31" "0 < ?n" "?n < 2 ^ 62"
    using assms False by (auto simp: page_args_ok_def)
  have len: "sint (go_len items) = ?n" using b by (intro sint_go_len) simp
  have add: "sint (go_len items + limit) = ?n + ?l"
    using b by (subst sint_add64) (auto simp: len fits64_def)
  have sub: "sint (go_len items + limit - 1) = ?n + ?l - 1"
    using b by (subst sint_sub64) (auto simp: add fits64_def)
  have "sint (go_div (go_len items + limit - 1) limit) = (?n + ?l - 1) div ?l"
    using b by (subst sint_go_div) (auto simp: sub)
  moreover have "int (page_count items (nat ?l)) = (?n + ?l - 1) div ?l"
    using b by (simp add: page_count_def zdiv_int of_nat_diff)
  ultimately show ?thesis using False by (simp add: total_pages_def)
qed

lemma page_start_exact:
  assumes "page_args_ok items page limit"
  shows "sint ((page - 1) * limit) = (sint page - 1) * sint limit"
    and "sint ((page - 1) * limit + limit) = sint page * sint limit"
proof -
  let ?p = "sint page" and ?l = "sint limit"
  have b: "0 < ?p" "?p < 2 ^ 31" "0 < ?l" "?l < 2 ^ 31" using assms by (auto simp: page_args_ok_def)
  have sub: "sint (page - 1) = ?p - 1"
    using b by (subst sint_sub64) (auto simp: fits64_def)
  have prod: "?p * ?l \<le> 2 ^ 31 * 2 ^ 31" using b by (intro mult_mono) auto
  have less: "0 \<le> (?p - 1) * ?l" "(?p - 1) * ?l \<le> ?p * ?l" using b by (auto simp: mult_right_mono)
  show start: "sint ((page - 1) * limit) = (?p - 1) * ?l"
    using less prod by (subst sint_mult64) (auto simp: sub fits64_def)
  show "sint ((page - 1) * limit + limit) = ?p * ?l"
  proof -
    have sum: "sint ((page - 1) * limit) + ?l = ?p * ?l" unfolding start by (simp add: left_diff_distrib)
    then have "fits64 (sint ((page - 1) * limit) + ?l)" using less prod by (simp add: fits64_def)
    then show ?thesis using sum sint_add64 [of "(page - 1) * limit" limit] by metis
  qed
qed

definition exact_page :: "'a list \<Rightarrow> int64 \<Rightarrow> int64 \<Rightarrow> 'a ListResult" where
  "exact_page items page limit =
     (let P = nat (sint page); L = nat (sint limit)
      in \<lparr>lr_Gigs = page_of items P L, lr_Page = page, lr_Limit = limit,
          lr_TotalPages = total_pages items limit, lr_HasMore = P * L < length items\<rparr>)"

lemma paginatePreviewItems_eq: "paginatePreviewItems items page limit = paginateOwnerGigs items page limit"
  by (simp add: paginatePreviewItems_def paginateOwnerGigs_def Let_def)

lemma paginateOwnerGigs_exact:
  assumes "page_args_ok items page limit"
  shows "paginateOwnerGigs items page limit = Ok (exact_page items page limit)"
proof -
  let ?p = "sint page" and ?l = "sint limit" and ?n = "int (length items)"
  have b: "0 < ?p" "0 < ?l" "?n < 2 ^ 62" using assms by (auto simp: page_args_ok_def)
  note st = page_start_exact [OF assms]
  have len: "sint (go_len items) = ?n" using b by (intro sint_go_len) simp
  have nat_start: "nat ((?p - 1) * ?l) = (nat ?p - 1) * nat ?l"
    using b by (simp add: nat_mult_distrib nat_diff_distrib)
  have nat_stop: "nat (?p * ?l) = nat ?p * nat ?l" using b by (simp add: nat_mult_distrib)
  show ?thesis
  proof (cases "?n \<le> (?p - 1) * ?l")
    case True
    then have "length items \<le> (nat ?p - 1) * nat ?l" using nat_start by linarith
    moreover have "(nat ?p - 1) * nat ?l \<le> nat ?p * nat ?l" by (simp add: mult_le_mono1)
    ultimately have "\<not> nat ?p * nat ?l < length items"
      and "length items \<le> (nat ?p - 1) * nat ?l" by linarith+
    then show ?thesis using True b
      by (simp add: paginateOwnerGigs_def Let_def st exact_page_def page_of_def)
  next
    case False
    have start: "0 \<le> (?p - 1) * ?l" "(?p - 1) * ?l \<le> ?p * ?l" using b by (auto simp: mult_right_mono)
    have width: "nat (?p * ?l - (?p - 1) * ?l) = nat ?l" by (simp add: algebra_simps)
    show ?thesis
    proof (cases "?n < ?p * ?l")
      case True
      then have more: "\<not> nat ?p * nat ?l < length items" using nat_stop by linarith
      have "length items - (nat ?p - 1) * nat ?l \<le> nat ?l"
        using True nat_start width by linarith
      with True False start b more show ?thesis
        by (simp add: paginateOwnerGigs_def Let_def st exact_page_def page_of_def slice_def len
            nat_start nat_diff_distrib)
    next
      case stop: False
      then have "(nat ?p * nat ?l < length items) = (?p * ?l < ?n)" using nat_stop b start by linarith
      with stop False start b show ?thesis
        by (simp add: paginateOwnerGigs_def Let_def st exact_page_def page_of_def slice_def
            nat_start width)
    qed
  qed
qed

text \<open>The pages of a list are its consecutive pieces.\<close>

lemma pages_concat_upto: "0 < L \<Longrightarrow> concat (map (\<lambda>P. page_of items P L) [1..<Suc k]) = take (k * L) items"
proof (induction k)
  case (Suc k)
  have "take (Suc k * L) items = take (k * L) items @ page_of items (Suc k) L"
    by (simp only: page_of_def diff_Suc_1 mult_Suc add.commute [of L] take_add)
  with Suc show ?case by simp
qed simp

lemma pages_concat:
  assumes "0 < L"
  shows "concat (map (\<lambda>P. page_of items P L) [1..<Suc (page_count items L)]) = items"
proof -
  have "length items + L - 1 < page_count items L * L + L"
    unfolding page_count_def using dividend_less_div_times [OF assms] by (simp add: add.commute)
  then have "length items \<le> page_count items L * L" by linarith
  then show ?thesis by (simp only: pages_concat_upto [OF assms] take_all)
qed

end
