(* ===== verification/Service.thy ===== *)
theory Service
  imports Postgres Redis Clients GigLists
begin

text \<open>
  The application service, \<open>internal/application/service.go\<close>: the write use cases, the public
  read, the order snapshot and the events they publish. A use case is a program over the write
  repository, the read repository, the clients and the broker, in the order of the calls of
  the source; the recovery flag of the context is an argument.
\<close>

section \<open>Slugs and notifications\<close>

text \<open>\<open>slug.go\<close>: the slug library's form of the title, a hyphen, the gig's identifier.\<close>

definition Generate :: "env \<Rightarrow> string \<Rightarrow> string \<Rightarrow> string" where
  "Generate e title gigID =
     (let base = e_slug_make e title
      in if base = [] then [] else if gigID = [] then [] else base @ ''-'' @ gigID)"

definition realtimeSubject :: string where "realtimeSubject = ''realtime''"

definition notification_error :: gerr where "notification_error = Opaque ''json: unsupported value''"

text \<open>\<open>realtime.go\<close>: the body is what the shared package builds from the arguments.\<close>

definition PublishGigNotificationOutcome ::
    "Gig option \<Rightarrow> string \<Rightarrow> notify_status \<Rightarrow> string \<Rightarrow> string \<Rightarrow> string \<Rightarrow> bool option \<Rightarrow>
     bytes option \<Rightarrow> unit prog" where
  "PublishGigNotificationOutcome gig eventType status errorCode operationID correlationID retryable payload =
     (case gig of
        None \<Rightarrow> domP ErrGigNotFound
      | Some g \<Rightarrow>
          bindP nowP (\<lambda>_.
          bindP (\<lambda>e w. (Ok (e_notification e (w_tick w)
             \<lparr>nfy_EventType = eventType, nfy_EntityID = gig_ID g, nfy_UserID = gig_FreelancerID g,
              nfy_OperationID = operationID, nfy_CorrelationID = correlationID,
              nfy_Status = status, nfy_ErrorCode = errorCode, nfy_Retryable = retryable,
              nfy_Payload = payload\<rparr>), w)) (\<lambda>body.
          case body of
            None \<Rightarrow> failP notification_error
          | Some j \<Rightarrow> publishP realtimeSubject (Json j))))"

definition PublishGigNotification :: "Gig option \<Rightarrow> string \<Rightarrow> bytes option \<Rightarrow> unit prog" where
  "PublishGigNotification gig eventType payload =
     PublishGigNotificationOutcome gig eventType StatusAccepted [] [] [] None payload"

text \<open>The identifiers \<open>commonrealtime.New\<close> gives an operation: event, operation, correlation.\<close>

definition realtimeNew :: "(string \<times> string \<times> string) prog" where
  "realtimeNew e w = (Ok (e_realtime_ids e (w_tick w)), w\<lparr>w_tick := Suc (w_tick w)\<rparr>)"

section \<open>Events after a write\<close>

definition publishPreviewProjection :: "Gig \<Rightarrow> unit prog" where
  "publishPreviewProjection gig =
     bindP (liftP (ToPublishedPayload gig)) (\<lambda>payload.
     publishP gigPreviewProjectionSubject payload)"

definition publishProjection :: "Gig \<Rightarrow> unit prog" where
  "publishProjection gig =
     bindP (liftP (ToPublishedPayload gig)) (\<lambda>payload.
     publishP gigProjectionRequestedSubject payload)"

definition publishPostWritePreview :: "bool \<Rightarrow> Gig \<Rightarrow> unit prog" where
  "publishPostWritePreview recovery gig =
     (if \<not> recovery then publishPreviewProjection gig else publishPreviewProjection gig)"

text \<open>The payload, decoded and encoded again with the identifiers of the operation.\<close>

definition with_ids :: "bytes \<Rightarrow> string \<times> string \<times> string \<Rightarrow> bytes res" where
  "with_ids payload ids =
     bind_res (unmarshal_published payload) (\<lambda>ev.
     case ids of (eventID, operationID, correlationID) \<Rightarrow>
       marshal_published (ev\<lparr>pe_EventID := eventID, pe_OperationID := operationID,
                            pe_CorrelationID := correlationID\<rparr>))"

definition publishPostWriteProjections :: "Gig \<Rightarrow> unit prog" where
  "publishPostWriteProjections gig =
     bindP (liftP (ToPublishedPayload gig)) (\<lambda>payload0.
     bindP realtimeNew (\<lambda>ids.
     bindP (liftP (with_ids payload0 ids)) (\<lambda>payload.
     bindP (publishP gigProjectionRequestedSubject payload) (\<lambda>_.
     bindP (publishP gigPreviewProjectionSubject payload) (\<lambda>_.
     ignoreP (PublishGigNotificationOutcome (Some gig) ''gig.updated'' StatusAccepted []
                (fst (snd ids)) (snd (snd ids)) None (Some payload)))))))"

section \<open>Validation\<close>

fun validate_tiers :: "string list \<Rightarrow> GigPackage list \<Rightarrow> domain_error option" where
  "validate_tiers expected [] = None"
| "validate_tiers [] (pkg # pkgs) = Some ErrInvalidPackageTier"
| "validate_tiers (tier # expected) (pkg # pkgs) =
     (if TrimSpace (pkg_Tier pkg) \<noteq> tier then Some ErrInvalidPackageTier
      else if TrimSpace (pkg_Description pkg) = [] then Some ErrInvalidPackageDescription
      else if \<not> positive (pkg_DeliveryDays pkg) then Some ErrInvalidPackageDeliveryDays
      else if \<not> positive (pkg_PriceCents pkg) then Some ErrInvalidPackagePriceCents
      else validate_tiers expected pkgs)"

definition validatePackages :: "GigPackage list \<Rightarrow> domain_error option" where
  "validatePackages packages =
     (if length packages < 1 \<or> length packages > 3 then Some ErrInvalidPackageCount
      else validate_tiers [TierBasic, TierStandard, TierPremium] packages)"

definition validatePublishReady :: "Gig \<Rightarrow> domain_error option" where
  "validatePublishReady gig =
     (if gig_Status gig \<noteq> StatusDraft then Some ErrGigAlreadyPublished
      else if \<not> gig_BasicInfoCompleted gig then Some ErrGigDraftIncomplete
      else if \<not> gig_PackagesCompleted gig then Some ErrGigDraftIncomplete
      else if gig_Packages gig = [] then Some ErrGigDraftIncomplete
      else validatePackages (gig_Packages gig))"

definition bad_upload :: "MediaUpload \<Rightarrow> bool" where
  "bad_upload f \<longleftrightarrow> TrimSpace (up_Filename f) = [] \<or> TrimSpace (up_ContentType f) = [] \<or> up_Data f = []"

definition validateMediaUploads :: "MediaUpload list \<Rightarrow> domain_error option" where
  "validateMediaUploads files =
     (if files = [] then Some ErrInvalidMediaUpload
      else if list_ex bad_upload files then Some ErrInvalidMediaUpload else None)"

definition checkP :: "domain_error option \<Rightarrow> unit prog" where
  "checkP v = (case v of None \<Rightarrow> retP () | Some d \<Rightarrow> domP d)"

definition gigMediaPrefix :: "string \<Rightarrow> string" where
  "gigMediaPrefix gigID = ''gigs/'' @ TrimSpace gigID @ ''/media''"

fun buildGigMedia_from :: "int32 \<Rightarrow> string \<Rightarrow> string list \<Rightarrow> GigMedia list" where
  "buildGigMedia_from i gigID [] = []"
| "buildGigMedia_from i gigID (f # fs) =
     \<lparr>med_ID = [], med_GigID = gigID, med_FileID = f, med_URL = [], med_SortOrder = i\<rparr>
     # buildGigMedia_from (i + 1) gigID fs"

definition buildGigMedia :: "string \<Rightarrow> string list \<Rightarrow> GigMedia list" where
  "buildGigMedia gigID fileIDs = buildGigMedia_from 1 gigID fileIDs"

definition compensateUploadedFiles :: "string list \<Rightarrow> unit prog" where
  "compensateUploadedFiles fileIDs = iterP (\<lambda>f. ignoreP (DeleteFile f)) (rev fileIDs)"

text \<open>The packages of a request as they are stored: trimmed and numbered, or the first fault.\<close>

fun normalizePackages :: "bool \<Rightarrow> int32 \<Rightarrow> GigPackage list \<Rightarrow> GigPackage list res" where
  "normalizePackages recovery i [] = Ok []"
| "normalizePackages recovery i (pkg # pkgs) =
     (if TrimSpace (pkg_ID pkg) = [] \<and> recovery then Err (Dom ErrInvalidPackageID)
      else if TrimSpace (pkg_Tier pkg) = [] then Err (Dom ErrInvalidPackageTier)
      else bind_res (normalizePackages recovery (i + 1) pkgs) (\<lambda>rest.
           Ok (\<lparr>pkg_ID = TrimSpace (pkg_ID pkg), pkg_GigID = TrimSpace (pkg_GigID pkg),
                pkg_Tier = TrimSpace (pkg_Tier pkg),
                pkg_Description = TrimSpace (pkg_Description pkg),
                pkg_DeliveryDays = pkg_DeliveryDays pkg, pkg_PriceCents = pkg_PriceCents pkg,
                pkg_SortOrder = i\<rparr> # rest)))"

fun validateQuestions :: "bool \<Rightarrow> GigQuestion list \<Rightarrow> domain_error option" where
  "validateQuestions recovery [] = None"
| "validateQuestions recovery (q # qs) =
     (if TrimSpace (que_ID q) = [] \<and> recovery then Some ErrInvalidQuestionID
      else if TrimSpace (que_Content q) = [] then Some ErrInvalidQuestionContent
      else validateQuestions recovery qs)"

definition validateBasicInfo :: "UpdateBasicInfoParams \<Rightarrow> domain_error option" where
  "validateBasicInfo params =
     (let title = TrimSpace (ubi_Title params); shortInfo = TrimSpace (ubi_ShortInfo params)
      in if title = [] then Some ErrInvalidTitle
         else if shortInfo = [] then Some ErrInvalidShortInfo
         else if length shortInfo > 128 then Some ErrInvalidShortInfo
         else if ubi_Description params = [] then Some ErrInvalidDescription
         else if sint (ubi_CategoryID params) \<le> 0 then Some ErrInvalidCategoryID
         else if TrimSpace (ubi_Currency params) = [] then Some ErrInvalidCurrency
         else None)"

section \<open>Write use cases\<close>

definition getOwnedGig :: "string \<Rightarrow> string \<Rightarrow> Gig prog" where
  "getOwnedGig gigID freelancerID =
     (let gigID = TrimSpace gigID; freelancerID = TrimSpace freelancerID
      in if gigID = [] then domP ErrInvalidGigID
         else if freelancerID = [] then domP ErrInvalidFreelancerID
         else bindP (repo_GetByID gigID) (\<lambda>gig.
              if gig_FreelancerID gig \<noteq> freelancerID then domP ErrInvalidFreelancerID
              else retP gig))"

definition createDraft :: "bool \<Rightarrow> string \<Rightarrow> string \<Rightarrow> Gig prog" where
  "createDraft recovery gigID freelancerID =
     (let freelancerID = TrimSpace freelancerID
      in if freelancerID = [] then domP ErrInvalidFreelancerID
         else bindP (repo_CreateDraft \<lparr>cdp_GigID = gigID, cdp_FreelancerID = freelancerID\<rparr>) (\<lambda>gig.
              bindP (publishPostWritePreview recovery gig) (\<lambda>_.
              bindP (ignoreP (PublishGigNotification (Some gig) ''gig.created'' None)) (\<lambda>_.
              retP gig))))"

definition CreateDraft :: "bool \<Rightarrow> string \<Rightarrow> Gig prog" where
  "CreateDraft recovery freelancerID = createDraft recovery [] freelancerID"

definition CreateDraftWithID :: "bool \<Rightarrow> string \<Rightarrow> string \<Rightarrow> Gig prog" where
  "CreateDraftWithID recovery gigID freelancerID = createDraft recovery gigID freelancerID"

text \<open>A successful write is followed by its projections, whose failure is the call's failure.\<close>

definition with_projections :: "Gig prog \<Rightarrow> Gig prog" where
  "with_projections m = bindP m (\<lambda>gig. bindP (publishPostWriteProjections gig) (\<lambda>_. retP gig))"

definition UpdateBasicInfo :: "string \<Rightarrow> string \<Rightarrow> UpdateBasicInfoParams \<Rightarrow> Gig prog" where
  "UpdateBasicInfo gigID freelancerID params =
     bindP (getOwnedGig gigID freelancerID) (\<lambda>gig.
     bindP (checkP (validateBasicInfo params)) (\<lambda>_.
     bindP (askP (\<lambda>e. Generate e (TrimSpace (ubi_Title params)) (gig_ID gig))) (\<lambda>slug.
     if slug = [] then domP ErrInvalidTitle
     else with_projections (repo_UpdateBasicInfo (gig_ID gig)
            \<lparr>ubi_Title = TrimSpace (ubi_Title params), ubi_Slug = slug,
             ubi_ShortInfo = TrimSpace (ubi_ShortInfo params),
             ubi_Description = TrimSpace (ubi_Description params),
             ubi_CategoryID = ubi_CategoryID params,
             ubi_Currency = TrimSpace (ubi_Currency params)\<rparr>))))"

definition ReplacePackages :: "bool \<Rightarrow> string \<Rightarrow> string \<Rightarrow> GigPackage list \<Rightarrow> Gig prog" where
  "ReplacePackages recovery gigID freelancerID packages =
     bindP (getOwnedGig gigID freelancerID) (\<lambda>gig.
     bindP (liftP (normalizePackages recovery 1 packages)) (\<lambda>normalized.
     bindP (checkP (validatePackages normalized)) (\<lambda>_.
     with_projections (repo_ReplacePackages (gig_ID gig) normalized))))"

definition ReplaceQuestions :: "bool \<Rightarrow> string \<Rightarrow> string \<Rightarrow> GigQuestion list \<Rightarrow> Gig prog" where
  "ReplaceQuestions recovery gigID freelancerID questions =
     bindP (getOwnedGig gigID freelancerID) (\<lambda>gig.
     bindP (checkP (validateQuestions recovery questions)) (\<lambda>_.
     with_projections (repo_ReplaceQuestions (gig_ID gig) questions)))"

definition ReplaceMedia :: "string \<Rightarrow> string \<Rightarrow> MediaUpload list \<Rightarrow> Gig prog" where
  "ReplaceMedia gigID freelancerID files =
     bindP (getOwnedGig gigID freelancerID) (\<lambda>gig.
     bindP (checkP (validateMediaUploads files)) (\<lambda>_.
     bindP (UploadFiles (gig_FreelancerID gig) (gigMediaPrefix (gig_ID gig)) files) (\<lambda>fileIDs.
     if length fileIDs = 0 \<or> length fileIDs \<noteq> length files then domP ErrInvalidMediaUpload
     else
       bindP (attemptP (repo_ReplaceMedia (gig_ID gig)
                \<lparr>rmp_PictureFileID = hd fileIDs, rmp_Media = buildGigMedia (gig_ID gig) (tl fileIDs)\<rparr>)) (\<lambda>saved.
       case saved of
         Inl err \<Rightarrow> bindP (compensateUploadedFiles fileIDs) (\<lambda>_. failP err)
       | Inr gig \<Rightarrow> with_projections (retP gig)))))"

definition GetByID :: "string \<Rightarrow> string \<Rightarrow> Gig prog" where
  "GetByID gigID freelancerID = getOwnedGig gigID freelancerID"

text \<open>Publication: readiness, payment onboarding, the status change, the username, the events.\<close>

definition checkOnboarding :: "bool \<Rightarrow> string \<Rightarrow> unit prog" where
  "checkOnboarding recovery freelancerID =
     (if recovery then retP ()
      else bindP (GetConnectStatus freelancerID) (\<lambda>status.
           case status of
             None \<Rightarrow> domP ErrConnectOnboardingIncomplete
           | Some s \<Rightarrow> if cs_Status s \<noteq> ''completed'' then domP ErrConnectOnboardingIncomplete
                       else retP ()))"

definition Publish :: "bool \<Rightarrow> string \<Rightarrow> string \<Rightarrow> string \<Rightarrow> Gig prog" where
  "Publish recovery gigID freelancerID username =
     bindP (getOwnedGig gigID freelancerID) (\<lambda>owned.
     bindP (checkP (validatePublishReady owned)) (\<lambda>_.
     bindP (checkOnboarding recovery (gig_FreelancerID owned)) (\<lambda>_.
     bindP (repo_Publish (gig_ID owned)) (\<lambda>published.
     bindP (if TrimSpace username \<noteq> [] \<and> TrimSpace (gig_SellerUsername published) = []
            then repo_UpdateSellerUsername (gig_ID published) (TrimSpace username)
            else retP published) (\<lambda>gig.
     bindP (liftP (ToPublishedPayload gig)) (\<lambda>payload0.
     bindP realtimeNew (\<lambda>ids.
     bindP (liftP (with_ids payload0 ids)) (\<lambda>payload.
     bindP (publishP gigPublishedSubject payload) (\<lambda>_.
     bindP (ignoreP (PublishGigNotification (Some gig) ''gig.published'' (Some payload))) (\<lambda>_.
     bindP (publishPostWriteProjections gig) (\<lambda>_.
     retP gig)))))))))))"

end
