(* ===== verification/ServiceRead.thy ===== *)
theory ServiceRead
  imports Service
begin

text \<open>
  The read side of the application service: the projection of a gig with its file URLs, the
  public read with its cache, popularity snapshots, the order snapshot (\<open>service.go\<close>), the owner
  preview (\<open>owner_preview.go\<close>), the freelancer's public list (\<open>preview.go\<close>) and the owner's
  list (\<open>my_gigs.go\<close>).
\<close>

section \<open>Projection\<close>

text \<open>The distinct file identifiers of a gig, cover first.\<close>

fun gallery_ids :: "string list \<Rightarrow> GigMedia list \<Rightarrow> string list" where
  "gallery_ids seen [] = []"
| "gallery_ids seen (m # ms) =
     (let f = TrimSpace (med_FileID m)
      in if f = [] \<or> f \<in> set seen then gallery_ids seen ms
         else f # gallery_ids (f # seen) ms)"

definition projection_file_ids :: "Gig \<Rightarrow> string list" where
  "projection_file_ids gig =
     (let picture = TrimSpace (gig_PictureFileID gig)
      in if picture = [] then gallery_ids [] (gig_Media gig)
         else picture # gallery_ids [picture] (gig_Media gig))"

definition url_of :: "(string \<rightharpoonup> string) \<Rightarrow> string \<Rightarrow> string" where
  "url_of urls f = (case urls f of None \<Rightarrow> [] | Some u \<Rightarrow> u)"

definition project_with :: "(string \<rightharpoonup> string) \<Rightarrow> Gig \<Rightarrow> Gig" where
  "project_with urls gig =
     gig\<lparr>gig_PictureURL := (if TrimSpace (gig_PictureFileID gig) = [] then gig_PictureURL gig
                            else url_of urls (TrimSpace (gig_PictureFileID gig))),
         gig_Media := map (\<lambda>m. \<lparr>med_ID = [], med_GigID = med_GigID m, med_FileID = med_FileID m,
                                med_URL = url_of urls (TrimSpace (med_FileID m)),
                                med_SortOrder = med_SortOrder m\<rparr>) (gig_Media gig)\<rparr>"

definition Project :: "Gig option \<Rightarrow> Gig prog" where
  "Project gig =
     (case gig of
        None \<Rightarrow> domP ErrGigNotFound
      | Some g \<Rightarrow>
          bindP (if projection_file_ids g = [] then retP (Inr Map.empty)
                 else attemptP (GetFileURLs (projection_file_ids g))) (\<lambda>resolved.
          retP (project_with (case resolved of Inl _ \<Rightarrow> Map.empty | Inr urls \<Rightarrow> urls) g)))"

section \<open>Public read\<close>

text \<open>The view event is best effort.\<close>

definition publishViewed :: "Gig \<Rightarrow> unit prog" where
  "publishViewed gig =
     bindP nowP (\<lambda>now.
     case ToViewedPayload now gig of
       Ok payload \<Rightarrow> ignoreP (publishP gigViewedSubject payload)
     | _ \<Rightarrow> retP ())"

definition GetPublicByID :: "string \<Rightarrow> Gig prog" where
  "GetPublicByID gigID =
     (let gigID = TrimSpace gigID
      in if gigID = [] then domP ErrInvalidGigID
         else bindP (attemptP (read_GetByID gigID)) (\<lambda>cached.
              case cached of
                Inr gig \<Rightarrow> bindP (publishViewed gig) (\<lambda>_. retP gig)
              | Inl err \<Rightarrow>
                  if \<not> errors_is err ErrGigNotFound then failP err
                  else
                    bindP (repo_GetByID gigID) (\<lambda>stored.
                    if gig_Status stored \<noteq> StatusPublished then domP ErrGigNotFound
                    else
                      bindP (Project (Some stored)) (\<lambda>gig.
                      bindP (read_Upsert (Some gig)) (\<lambda>_.
                      bindP (publishViewed gig) (\<lambda>_.
                      retP gig))))))"

section \<open>Popularity\<close>

text \<open>The score: a completed order weighs 1000, a review 200, a view 5.\<close>

definition popularity_score :: "PopularityRow \<Rightarrow> int64" where
  "popularity_score row =
     pop_CompletedOrdersLast30d row * 1000 + pop_ReviewsCountLast30d row * 200 + pop_ViewsLast7d row * 5"

definition popularity_zero :: PopularityRow where
  "popularity_zero =
     \<lparr>pop_GigID = [], pop_CompletedOrdersLast30d = 0, pop_ReviewsCountLast30d = 0, pop_ViewsLast7d = 0\<rparr>"

fun rows_by_id :: "PopularityRow list \<Rightarrow> (string \<rightharpoonup> PopularityRow) \<Rightarrow> (string \<rightharpoonup> PopularityRow)" where
  "rows_by_id [] m = m"
| "rows_by_id (row # rows) m =
     (if TrimSpace (pop_GigID row) = [] then rows_by_id rows m
      else rows_by_id rows (m(pop_GigID row \<mapsto> row)))"

definition snapshot_of :: "(string \<rightharpoonup> PopularityRow) \<Rightarrow> time \<Rightarrow> Gig \<Rightarrow> GigPopularitySnapshot" where
  "snapshot_of byID now gig =
     (let row = (case byID (gig_ID gig) of None \<Rightarrow> popularity_zero | Some row \<Rightarrow> row)
      in \<lparr>ps_GigID = gig_ID gig, ps_Score = popularity_score row,
          ps_CompletedOrdersLast30d = pop_CompletedOrdersLast30d row,
          ps_ReviewsCountLast30d = pop_ReviewsCountLast30d row,
          ps_ViewsLast7d = pop_ViewsLast7d row, ps_CalculatedAt = now\<rparr>)"

definition RebuildPopularitySnapshots :: "Gig list \<Rightarrow> unit prog" where
  "RebuildPopularitySnapshots gigs =
     (if gigs = [] then retP ()
      else bindP ListPopularityRows (\<lambda>rows.
           bindP nowP (\<lambda>now.
           iterP (\<lambda>gig. if TrimSpace (gig_ID gig) = [] then retP ()
                   else ignoreP (read_SetPopularitySnapshot
                          (Some (snapshot_of (rows_by_id rows Map.empty) now gig)))) gigs)))"

section \<open>The snapshot an order starts from\<close>

definition order_snapshot :: "Gig \<Rightarrow> GigPackage \<Rightarrow> string \<Rightarrow> OrderStartSnapshot" where
  "order_snapshot gig pkg username =
     \<lparr>oss_GigID = gig_ID gig, oss_PackageID = pkg_ID pkg, oss_SellerID = gig_FreelancerID gig,
      oss_SellerUsername = username, oss_GigTitle = gig_Title gig,
      oss_PictureFileID = gig_PictureFileID gig, oss_PackageTitle = pkg_Tier pkg,
      oss_PackageDescription = pkg_Description pkg, oss_PriceCents = pkg_PriceCents pkg,
      oss_Currency = gig_Currency gig, oss_DeliveryDays = pkg_DeliveryDays pkg,
      oss_RevisionCount = word_of_nat (length (gig_Questions gig)),
      oss_GigPublished = (gig_Status gig = StatusPublished), oss_PackageAvailable = True,
      oss_Questions = map (\<lambda>q. \<lparr>osq_ID = que_ID q, osq_Text = que_Content q,
                                osq_SortOrder = que_SortOrder q\<rparr>) (gig_Questions gig)\<rparr>"

definition cached_username :: "string \<Rightarrow> string prog" where
  "cached_username gigID =
     bindP (attemptP (read_GetByID gigID)) (\<lambda>cached.
     retP (case cached of Inl _ \<Rightarrow> [] | Inr g \<Rightarrow> TrimSpace (gig_SellerUsername g)))"

definition GetOrderStartSnapshot :: "string \<Rightarrow> string \<Rightarrow> OrderStartSnapshot prog" where
  "GetOrderStartSnapshot gigID packageID =
     (let gigID = TrimSpace gigID; packageID = TrimSpace packageID
      in if gigID = [] then domP ErrInvalidGigID
         else if packageID = [] then domP ErrInvalidPackageTier
         else
           bindP (repo_GetByID gigID) (\<lambda>gig.
           if gig_Status gig \<noteq> StatusPublished then domP ErrGigDraftIncomplete
           else case find (\<lambda>p. TrimSpace (pkg_ID p) = packageID) (gig_Packages gig) of
             None \<Rightarrow> domP ErrInvalidPackageTier
           | Some pkg \<Rightarrow>
               bindP (if TrimSpace (gig_SellerUsername gig) = [] then cached_username (gig_ID gig)
                      else retP (TrimSpace (gig_SellerUsername gig))) (\<lambda>username.
               bindP (if username \<noteq> [] \<and> TrimSpace (gig_SellerUsername gig) = []
                      then attemptP (repo_UpdateSellerUsername (gig_ID gig) username)
                      else retP (Inr gig)) (\<lambda>updated.
               retP (order_snapshot (case updated of Inl _ \<Rightarrow> gig | Inr g \<Rightarrow> g) pkg username)))))"

section \<open>Previews\<close>

definition min_price :: "GigPackage list \<Rightarrow> int64" where
  "min_price pkgs =
     (case pkgs of
        [] \<Rightarrow> 0
      | p # ps \<Rightarrow> foldl (\<lambda>m q. if sint (pkg_PriceCents q) < sint m then pkg_PriceCents q else m)
                    (pkg_PriceCents p) ps)"

definition toPreview ::
    "Gig \<Rightarrow> GigPopularitySnapshot option \<Rightarrow> ReviewSummary option \<Rightarrow> int64 option \<Rightarrow> GigPreview" where
  "toPreview gig snapshot rating orderCount =
     \<lparr>pv_ID = gig_ID gig, pv_FreelancerID = gig_FreelancerID gig,
      pv_SellerUsername = gig_SellerUsername gig, pv_Slug = gig_Slug gig, pv_Title = gig_Title gig,
      pv_ShortInfo = gig_ShortInfo gig, pv_MinimumPriceCents = min_price (gig_Packages gig),
      pv_PictureURL = gig_PictureURL gig,
      pv_PopularityScore = (case snapshot of None \<Rightarrow> 0 | Some s \<Rightarrow> ps_Score s),
      pv_Status = gig_Status gig, pv_PublishedAt = gig_PublishedAt gig,
      pv_UpdatedAt = gig_UpdatedAt gig,
      pv_RatingAvg = (case rating of None \<Rightarrow> 0 | Some r \<Rightarrow> rs_RatingAvg r),
      pv_TotalReviews = (case rating of None \<Rightarrow> 0 | Some r \<Rightarrow> rs_TotalReviews r),
      pv_OrderCount =
        (case orderCount of
           Some c \<Rightarrow> c
         | None \<Rightarrow> (case snapshot of None \<Rightarrow> 0 | Some s \<Rightarrow> ps_CompletedOrdersLast30d s)),
      pv_CreatedAt = gig_CreatedAt gig\<rparr>"

text \<open>Rating and orders of a preview: the cached ones, else those of the other services.\<close>

definition preview_stats :: "bool \<Rightarrow> Gig \<Rightarrow> (ReviewSummary option \<times> int64) prog" where
  "preview_stats recovery projected =
     bindP (attemptP (read_GetPreviewByID (gig_ID projected))) (\<lambda>cached.
     case cached of
       Inr c \<Rightarrow> retP (Some \<lparr>rs_RatingAvg = pv_RatingAvg c, rs_TotalReviews = pv_TotalReviews c\<rparr>,
                      pv_OrderCount c)
     | Inl _ \<Rightarrow>
         if gig_Status projected = StatusPublished \<and> \<not> recovery then
           bindP (attemptP (GetGigRatingSummary (gig_ID projected))) (\<lambda>summary.
           bindP (attemptP (GetOrderCountByGigID (gig_ID projected))) (\<lambda>count.
           retP (case summary of Inl _ \<Rightarrow> None | Inr s \<Rightarrow> s,
                 case count of Inr (Some c) \<Rightarrow> c | _ \<Rightarrow> 0)))
         else retP (None, 0))"

definition UpsertPreviewGig :: "bool \<Rightarrow> Gig option \<Rightarrow> unit prog" where
  "UpsertPreviewGig recovery gig =
     (case gig of
        None \<Rightarrow> domP ErrGigNotFound
      | Some g \<Rightarrow>
          bindP (Project (Some g)) (\<lambda>projected.
          bindP (attemptP (read_GetPopularitySnapshot (gig_ID projected))) (\<lambda>popularity.
          case popularity of
            Inl err \<Rightarrow>
              if \<not> errors_is err ErrGigNotFound then failP err
              else bindP (preview_stats recovery projected) (\<lambda>(rating, orders).
                   read_UpsertOwnerPreview (TrimSpace (gig_FreelancerID projected))
                     (Some (toPreview projected None rating (Some orders))))
          | Inr s \<Rightarrow>
              bindP (preview_stats recovery projected) (\<lambda>(rating, orders).
              read_UpsertOwnerPreview (TrimSpace (gig_FreelancerID projected))
                (Some (toPreview projected (Some s) rating (Some orders)))))))"

definition RefreshPreviewRating :: "bool \<Rightarrow> string \<Rightarrow> unit prog" where
  "RefreshPreviewRating recovery gigID =
     (let gigID = TrimSpace gigID
      in if gigID = [] then domP ErrInvalidGigID
         else bindP (attemptP (read_GetPreviewByID gigID)) (\<lambda>cached.
              case cached of
                Inl _ \<Rightarrow> bindP (repo_GetByID gigID) (\<lambda>gig. UpsertPreviewGig recovery (Some gig))
              | Inr preview \<Rightarrow>
                  bindP (GetGigRatingSummary gigID) (\<lambda>summary.
                  case summary of
                    None \<Rightarrow> panicP
                  | Some s \<Rightarrow> read_UpsertOwnerPreview (pv_FreelancerID preview)
                      (Some (preview\<lparr>pv_RatingAvg := rs_RatingAvg s,
                                     pv_TotalReviews := rs_TotalReviews s\<rparr>)))))"

definition incrementPreviewOrderCount :: "GigPreview option \<Rightarrow> unit prog" where
  "incrementPreviewOrderCount preview =
     (case preview of
        None \<Rightarrow> domP ErrGigNotFound
      | Some p \<Rightarrow> read_UpsertOwnerPreview (pv_FreelancerID p)
                    (Some (p\<lparr>pv_OrderCount := pv_OrderCount p + 1\<rparr>)))"

definition RefreshPreviewOrderCount :: "bool \<Rightarrow> string \<Rightarrow> unit prog" where
  "RefreshPreviewOrderCount recovery gigID =
     (let gigID = TrimSpace gigID
      in if gigID = [] then domP ErrInvalidGigID
         else bindP (attemptP (read_GetPreviewByID gigID)) (\<lambda>cached.
              case cached of
                Inl _ \<Rightarrow> bindP (repo_GetByID gigID) (\<lambda>gig. UpsertPreviewGig recovery (Some gig))
              | Inr preview \<Rightarrow> incrementPreviewOrderCount (Some preview)))"

section \<open>Lists\<close>

definition gigIDs :: "Gig list \<Rightarrow> string list" where "gigIDs gigs = map gig_ID gigs"

text \<open>The preview of one gig of the public list: cached, else refreshed, else built on the spot.\<close>

definition preview_item ::
    "bool \<Rightarrow> (string \<rightharpoonup> GigPopularitySnapshot) \<Rightarrow> Gig \<Rightarrow> GigPreview prog" where
  "preview_item recovery popularity gig =
     bindP (attemptP (read_GetPreviewByID (gig_ID gig))) (\<lambda>cached.
     case cached of
       Inr p \<Rightarrow> retP p
     | Inl _ \<Rightarrow>
         bindP (UpsertPreviewGig recovery (Some gig)) (\<lambda>_.
         bindP (attemptP (read_GetPreviewByID (gig_ID gig))) (\<lambda>again.
         case again of
           Inr p \<Rightarrow> retP p
         | Inl _ \<Rightarrow>
             bindP (Project (Some gig)) (\<lambda>projected.
             retP (toPreview projected (popularity (gig_ID projected)) None None)))))"

definition GetPreviewGigsByFreelancerUsername ::
    "bool \<Rightarrow> ListPreviewGigsQuery \<Rightarrow> GigPreview ListResult prog" where
  "GetPreviewGigsByFreelancerUsername recovery query =
     (let username = TrimSpace (lpq_SellerUsername query);
          page = (if sint (lpq_Page query) \<le> 0 then 1 else lpq_Page query)
      in if username = [] then domP ErrInvalidUsername
         else
           bindP (askP e_page_size) (\<lambda>pageSize.
           let limit0 = (if sint (lpq_Limit query) \<le> 0 then pageSize else lpq_Limit query);
               limit = (if sint limit0 \<le> 0 then 10 else limit0)
           in bindP (repo_ListPublishedBySellerUsername
                \<lparr>lpq_SellerUsername = username, lpq_Page = 0, lpq_Limit = 0\<rparr>) (\<lambda>gigs.
              if gigs = [] then
                retP \<lparr>lr_Gigs = [], lr_Page = page, lr_Limit = limit, lr_TotalPages = 0,
                      lr_HasMore = False\<rparr>
              else
                bindP (ignoreP (RebuildPopularitySnapshots gigs)) (\<lambda>_.
                bindP (attemptP (read_ListPopularitySnapshotsByGigIDs (gigIDs gigs))) (\<lambda>snapshots.
                let popularity = (case snapshots of Inl _ \<Rightarrow> Map.empty | Inr m \<Rightarrow> m)
                in bindP (mapP (preview_item recovery popularity) gigs) (\<lambda>unsorted.
                   let items = sortPreviewItems unsorted;
                       userID = TrimSpace (pv_FreelancerID (hd items))
                   in bindP (if items \<noteq> [] \<and> userID \<noteq> []
                             then ignoreP (read_UpsertPreviewWindow userID 0 (map Some items) False 0)
                             else retP ()) (\<lambda>_.
                      liftP (paginatePreviewItems items page limit))))))))"

text \<open>Whether the first window of a seller holds previews; an absent window holds none.\<close>

definition window_filled :: "string \<Rightarrow> bool prog" where
  "window_filled userID =
     bindP (attemptP (read_ListPreviewWindow userID 0)) (\<lambda>current.
     case current of
       Inl err \<Rightarrow> if \<not> errors_is err ErrGigNotFound then failP err else retP False
     | Inr c \<Rightarrow> retP (lr_Gigs c \<noteq> []))"

definition appendToWindow :: "Gig \<Rightarrow> unit prog" where
  "appendToWindow gig =
     bindP (askP (\<lambda>e. (e_window_size e, e_window_ttl e))) (\<lambda>(cap, ttl).
     read_AppendPreviewGig (gig_FreelancerID gig)
       (Some ((toPreview gig None None None)\<lparr>pv_PopularityScore := 0\<rparr>)) cap ttl)"

text \<open>An empty first window: looked at again, then filled by building the public list.\<close>

definition appendToEmpty :: "bool \<Rightarrow> Gig \<Rightarrow> unit prog" where
  "appendToEmpty recovery gig =
     bindP (window_filled (gig_FreelancerID gig)) (\<lambda>filled.
     if filled then appendToWindow gig
     else
       bindP (askP e_page_size) (\<lambda>pageSize.
       bindP (GetPreviewGigsByFreelancerUsername recovery
                \<lparr>lpq_SellerUsername = gig_SellerUsername gig, lpq_Page = 1, lpq_Limit = pageSize\<rparr>) (\<lambda>_.
       appendToWindow gig)))"

definition AppendPreviewGig :: "bool \<Rightarrow> Gig option \<Rightarrow> unit prog" where
  "AppendPreviewGig recovery gig =
     (case gig of
        None \<Rightarrow> domP ErrGigNotFound
      | Some g \<Rightarrow>
          bindP (UpsertPreviewGig recovery (Some g)) (\<lambda>_.
          if gig_Status g \<noteq> StatusPublished then retP ()
          else
            bindP (window_filled (gig_FreelancerID g)) (\<lambda>filled.
            if filled then appendToWindow g
            else
              bindP (attemptP (read_GetUserLookup (gig_SellerUsername g))) (\<lambda>found.
              case found of
                Inl err \<Rightarrow>
                  if \<not> errors_is err ErrGigNotFound then failP err else appendToEmpty recovery g
              | Inr _ \<Rightarrow> appendToEmpty recovery g))))"

text \<open>
  The owner's list. Without previews in the cache it is built from the write model; otherwise
  the cached previews are filtered, sorted and paged in memory.
\<close>

definition list_page ::
    "GigPreview option list \<Rightarrow> string \<Rightarrow> string \<Rightarrow> string \<Rightarrow> int64 \<Rightarrow> int64 \<Rightarrow>
     GigPreview option ListResult res" where
  "list_page previews status sortKey order page limit =
     paginateOwnerGigs (sortOwnerGigs (filterOwnerGigs previews status) sortKey order) page limit"

definition buildMyGigsFromSource ::
    "bool \<Rightarrow> string \<Rightarrow> string \<Rightarrow> string \<Rightarrow> string \<Rightarrow> int64 \<Rightarrow> int64 \<Rightarrow> GigPreview option ListResult prog" where
  "buildMyGigsFromSource recovery ownerID status sortKey order page limit =
     bindP repo_ListAll (\<lambda>gigs.
     bindP (mapP (\<lambda>gig. repo_GetByID (gig_ID gig))
              (filter (\<lambda>gig. TrimSpace (gig_FreelancerID gig) = ownerID) gigs)) (\<lambda>owned.
     if owned = [] then
       retP \<lparr>lr_Gigs = [], lr_Page = page, lr_Limit = limit, lr_TotalPages = 0, lr_HasMore = False\<rparr>
     else
       bindP (ignoreP (RebuildPopularitySnapshots owned)) (\<lambda>_.
       bindP (mapP (\<lambda>gig. bindP (ignoreP (UpsertPreviewGig recovery (Some gig))) (\<lambda>_.
                          read_GetPreviewByID (gig_ID gig))) owned) (\<lambda>previewed.
       liftP (list_page (map Some previewed) status sortKey order page limit)))))"

definition GetMyGigs :: "bool \<Rightarrow> ListMyGigsQuery \<Rightarrow> GigPreview option ListResult prog" where
  "GetMyGigs recovery query =
     (let ownerID = TrimSpace (lmq_UserID query);
          status = normalizeGigListStatus (lmq_Status query);
          sortKey = normalizeGigListSort (lmq_Sort query);
          order = normalizeGigListOrder (lmq_Order query);
          page = (if sint (lmq_Page query) \<le> 0 then 1 else lmq_Page query)
      in if ownerID = [] then domP ErrInvalidFreelancerID
         else if status = gigListStatusInvalid then domP ErrInvalidGigListStatus
         else if sortKey = gigListSortInvalid then domP ErrInvalidGigListSort
         else if order = gigListOrderInvalid then domP ErrInvalidGigListOrder
         else
           bindP (askP e_page_size) (\<lambda>pageSize.
           let limit = (if sint (lmq_Limit query) \<le> 0 then pageSize else lmq_Limit query)
           in if sint limit \<le> 0 then domP ErrInvalidGigListLimit
              else
                bindP (attemptP (read_ListOwnerPreviewGigs ownerID)) (\<lambda>cached.
                case cached of
                  Inl err \<Rightarrow>
                    if \<not> errors_is err ErrGigNotFound then failP err
                    else buildMyGigsFromSource recovery ownerID status sortKey order page limit
                | Inr previews \<Rightarrow>
                    if previews = []
                    then buildMyGigsFromSource recovery ownerID status sortKey order page limit
                    else liftP (list_page (map Some previews) status sortKey order page limit))))"

end
