(* ===== verification/PostgresLaws.thy ===== *)
theory PostgresLaws
  imports Postgres
begin

text \<open>
  What the write repository guarantees, in terms of the view of the tables as a map from gig
  identifiers to aggregates: reads leave the tables alone and return the view's aggregate, every
  write touches one identifier only, and a statement or transaction that fails before its
  commit leaves the tables as they were. \<open>uuid_ok\<close> is the one thing required of PostgreSQL's
  \<open>uuid\<close> type: its output is read back as itself.
\<close>

definition uuid_ok :: "env \<Rightarrow> bool" where
  "uuid_ok e \<longleftrightarrow> (\<forall>s c. e_uuid_in e s = Some c \<longrightarrow> e_uuid_in e c = Some c)"

definition view :: "db \<Rightarrow> string \<Rightarrow> Gig option" where
  "view d g = map_option (\<lambda>r. MapGigRowToDomain r (packages_of g d) (questions_of g d) (media_of g d))
                (find_gig g d)"

text \<open>The identifiers stored are in PostgreSQL's output form.\<close>

definition canonical_db :: "env \<Rightarrow> db \<Rightarrow> bool" where
  "canonical_db e d \<longleftrightarrow> list_all (\<lambda>r. e_uuid_in e (grow_ID r) = Some (grow_ID r)) (t_gigs d)"

section \<open>Single statements\<close>

lemma stmtP_cases:
  assumes "stmtP q e w = (r, w')"
  obtains (Done) now a where "r = Ok a" and "q e now (w_db w) = Inr (a, w_db w')"
      and "w_txnow w' = w_txnow w"
  | (Kept) x where "r = Err x" and "w_db w' = w_db w" and "w_txnow w' = w_txnow w"
  | (Lost) x now a where "r = Err x" and "q e now (w_db w) = Inr (a, w_db w')"
      and "w_txnow w' = w_txnow w"
  using assms by (auto simp: stmtP_def Let_def split: outcome.splits sum.splits prod.splits)

lemma stmtP_Ok:
  assumes "stmtP q e w = (Ok a, w')"
  shows "\<exists>now. q e now (w_db w) = Inr (a, w_db w') \<and> w_txnow w' = w_txnow w \<and>
               (\<forall>t. w_txnow w = Some t \<longrightarrow> now = t)"
  using assms by (auto simp: stmtP_def Let_def split: outcome.splits sum.splits prod.splits)

lemma stmtP_frames [frame_intros]:
  "steps e same_redis (stmtP q)" "steps e same_log (stmtP q)" "steps e same_rpc (stmtP q)"
  by (auto simp: steps_def stmtP_def same_redis_def same_log_def same_rpc_def Let_def
      split: outcome.splits sum.splits prod.splits)

lemma stmtP_db_rel:
  assumes "reflp Q" and "\<And>now d a d'. q e now d = Inr (a, d') \<Longrightarrow> Q d d'"
  shows "steps e (db_rel Q) (stmtP q)"
proof (rule stepsI)
  fix w
  obtain r w' where run: "stmtP q e w = (r, w')" by (cases "stmtP q e w")
  show "db_rel Q w (snd (stmtP q e w))"
    using run assms by (cases rule: stmtP_cases [OF run]) (auto simp: db_rel_def reflpD)
qed

definition reads :: "'a sql \<Rightarrow> bool" where
  "reads q \<longleftrightarrow> (\<forall>e now d a d'. q e now d = Inr (a, d') \<longrightarrow> d' = d)"

lemma reads_same_db: "reads q \<Longrightarrow> steps e same_db (stmtP q)"
  by (auto simp: steps_def stmtP_def same_db_def reads_def Let_def
      split: outcome.splits sum.splits prod.splits)

lemma reads_queries [simp]:
  "reads (getGigQuery g)" "reads listAllGigsQuery" "reads (listPublishedBySellerUsernameQuery u)"
  "reads (getGigPackagesQuery g)" "reads (getGigQuestionsQuery g)" "reads (getGigMediaQuery g)"
  by (auto simp: reads_def getGigQuery_def listAllGigsQuery_def with_uuid_def with_texts_def
      listPublishedBySellerUsernameQuery_def getGigPackagesQuery_def getGigQuestionsQuery_def
      getGigMediaQuery_def split: option.splits if_splits)

lemma rowP_frames [frame_intros]:
  "steps e same_redis (rowP q)" "steps e same_log (rowP q)" "steps e same_rpc (rowP q)"
  unfolding rowP_def by (intro frame_intros)+

lemma rowP_reads: "reads q \<Longrightarrow> steps e same_db (rowP q)"
  unfolding rowP_def by (intro frame_intros reads_same_db)

lemma rowP_Ok:
  assumes "rowP q e w = (Ok r, w')"
  shows "\<exists>now. q e now (w_db w) = Inr (Some r, w_db w')"
  using assms unfolding rowP_def by (auto elim!: bindP_OkE dest!: stmtP_Ok split: option.splits)

lemma rowP_db_rel:
  assumes "reflp Q" "transp Q" and "\<And>now d a d'. q e now d = Inr (a, d') \<Longrightarrow> Q d d'"
  shows "steps e (db_rel Q) (rowP q)"
proof -
  have eff: "effect (db_rel Q)" by (rule timeless_effect.axioms(1) [OF db_rel_effect [OF assms(1,2)]])
  show ?thesis unfolding rowP_def by (intro effect.steps_rules [OF eff] stmtP_db_rel assms)
qed

section \<open>Reading\<close>

lemma load_frames [frame_intros]:
  "steps e same_db (loadGig g r)" "steps e same_redis (loadGig g r)"
  "steps e same_log (loadGig g r)" "steps e same_rpc (loadGig g r)"
  unfolding loadGig_def loadPackages_def loadQuestions_def loadMedia_def
  by (intro frame_intros reads_same_db reads_queries)+

lemma read_frames [frame_intros]:
  "steps e same_db (repo_GetByID g)" "steps e same_redis (repo_GetByID g)"
  "steps e same_log (repo_GetByID g)" "steps e same_rpc (repo_GetByID g)"
  "steps e same_db repo_ListAll" "steps e same_redis repo_ListAll"
  "steps e same_log repo_ListAll" "steps e same_rpc repo_ListAll"
  unfolding repo_GetByID_def repo_ListAll_def
  by (intro frame_intros reads_same_db rowP_reads reads_queries)+

lemma loadGig_Ok:
  assumes "loadGig g row e w = (Ok gig, w')"
  obtains c where "e_uuid_in e g = Some c"
    and "gig = MapGigRowToDomain row (packages_of c (w_db w)) (questions_of c (w_db w)) (media_of c (w_db w))"
    and "w_db w' = w_db w" and "w_txnow w' = w_txnow w"
proof -
  have same: "same_db w w'" using load_frames(1) assms by (rule stepsD)
  obtain ps w1 qs w2 ms w3 where
    "stmtP (getGigPackagesQuery g) e w = (Ok ps, w1)"
    "stmtP (getGigQuestionsQuery g) e w1 = (Ok qs, w2)"
    "stmtP (getGigMediaQuery g) e w2 = (Ok ms, w3)"
    and gig: "gig = MapGigRowToDomain row ps qs ms"
    using assms unfolding loadGig_def loadPackages_def loadQuestions_def loadMedia_def
    by (auto elim!: bindP_OkE simp: mapErrP_Ok)
  then have "\<exists>c. e_uuid_in e g = Some c \<and> ps = packages_of c (w_db w) \<and>
      qs = questions_of c (w_db w) \<and> ms = media_of c (w_db w)"
    by (auto dest!: stmtP_Ok simp: getGigPackagesQuery_def getGigQuestionsQuery_def
        getGigMediaQuery_def with_uuid_def split: option.splits)
  with gig same that show ?thesis by (auto simp: same_db_def)
qed

lemma find_gig_ID: "find_gig g d = Some r \<Longrightarrow> grow_ID r = g"
  by (auto simp: find_gig_def find_Some_iff)

lemma gig_ID_Map [simp]:
  "gig_ID (MapGigRowToDomain r ps qs ms) = grow_ID r"
  "gig_FreelancerID (MapGigRowToDomain r ps qs ms) = grow_FreelancerID r"
  "gig_Status (MapGigRowToDomain r ps qs ms) = grow_Status r"
  "gig_BasicInfoCompleted (MapGigRowToDomain r ps qs ms) = grow_BasicInfoCompleted r"
  "gig_PackagesCompleted (MapGigRowToDomain r ps qs ms) = grow_PackagesCompleted r"
  "gig_Packages (MapGigRowToDomain r ps qs ms) = map package_of_row ps"
  "gig_SellerUsername (MapGigRowToDomain r ps qs ms) = grow_SellerUsername r"
  by (simp_all add: MapGigRowToDomain_def)

lemma view_ID: "view d g = Some gig \<Longrightarrow> gig_ID gig = g"
  by (auto simp: view_def dest: find_gig_ID)

text \<open>A read returns the aggregate of the view.\<close>

lemma repo_GetByID_Ok:
  assumes "repo_GetByID s e w = (Ok gig, w')"
  shows "e_uuid_in e s = Some (gig_ID gig)" and "view (w_db w) (gig_ID gig) = Some gig"
    and "w_db w' = w_db w" and "w_txnow w' = w_txnow w"
proof -
  have same: "same_db w w'" using read_frames(1) assms by (rule stepsD)
  obtain row w1 where row: "rowP (getGigQuery s) e w = (Ok row, w1)" and load: "loadGig s row e w1 = (Ok gig, w')"
    using assms unfolding repo_GetByID_def by (auto elim!: bindP_OkE simp: mapErrP_Ok)
  have w1: "w_db w1 = w_db w"
    using rowP_reads [OF reads_queries(1)] row by (metis same_db_def stepsD)
  from load obtain c where c: "e_uuid_in e s = Some c"
    and gig: "gig = MapGigRowToDomain row (packages_of c (w_db w)) (questions_of c (w_db w)) (media_of c (w_db w))"
    using w1 by (auto elim!: loadGig_Ok)
  from rowP_Ok [OF row] c have found: "find_gig c (w_db w) = Some row"
    by (auto simp: getGigQuery_def with_uuid_def)
  then have "gig_ID gig = c" using gig find_gig_ID by simp
  with c gig found show "e_uuid_in e s = Some (gig_ID gig)" "view (w_db w) (gig_ID gig) = Some gig"
    by (auto simp: view_def)
  from same show "w_db w' = w_db w" "w_txnow w' = w_txnow w" by (auto simp: same_db_def)
qed

section \<open>Transactions\<close>

definition tx_start :: "env \<Rightarrow> world \<Rightarrow> world" where
  "tx_start e w = w\<lparr>w_tick := Suc (w_tick w), w_txnow := Some (pg_now e (w_tick w))\<rparr>"

lemma tx_start_simps [simp]:
  "w_db (tx_start e w) = w_db w" "w_txnow (tx_start e w) = Some (pg_now e (w_tick w))"
  by (simp_all add: tx_start_def)

text \<open>Either the tables are as before and the call failed, or they are as the body left them.\<close>

lemma txP_outcome:
  assumes "txP f body e w = (r, w')"
  shows "w_db w' = w_db w \<and> r \<noteq> Ok () \<or>
    (\<exists>w1. body e (tx_start e w) = (Ok (), w1) \<and> w_db w' = w_db w1)"
  using assms unfolding tx_start_def
  by (auto simp: txP_def Let_def split: outcome.splits res.splits prod.splits)

lemma txP_Ok:
  assumes "txP f body e w = (Ok (), w')"
  shows "\<exists>w1. body e (tx_start e w) = (Ok (), w1) \<and> w_db w' = w_db w1 \<and> w_txnow w' = w_txnow w"
  using assms unfolding tx_start_def
  by (auto simp: txP_def Let_def split: outcome.splits res.splits prod.splits)

lemma txP_frame:
  assumes "timeless_effect R" and "steps e R body"
    and db: "\<And>w d. R w (w\<lparr>w_db := d\<rparr>)" and now: "\<And>w t. R w (w\<lparr>w_txnow := t\<rparr>)"
  shows "steps e R (txP f body)"
proof (rule stepsI)
  fix w :: world
  note R_tick = timeless_effect.R_tick [OF assms(1)]
  note R_trans = effect.R_trans [OF timeless_effect.axioms(1) [OF assms(1)]]
  let ?w0 = "w\<lparr>w_tick := Suc (w_tick w)\<rparr>"
  let ?w1 = "?w0\<lparr>w_txnow := Some (pg_now e (w_tick w))\<rparr>"
  obtain r w2 where body: "body e ?w1 = (r, w2)" by (cases "body e ?w1")
  have w0: "R w ?w0" by (rule R_tick)
  then have "R w ?w1" using now R_trans by blast
  then have w2: "R w w2" using stepsD [OF assms(2) body] R_trans by blast
  have undone: "R w (w2\<lparr>w_db := d, w_txnow := t\<rparr>)" for d t
    using R_trans [OF R_trans [OF w2 db [of w2 d]] now] .
  have commit: "R w (w2\<lparr>w_tick := n, w_txnow := t\<rparr>)" for n t
    using R_trans [OF R_trans [OF w2 R_tick [of w2 n]] now] .
  have failed: "R w (w2\<lparr>w_tick := n, w_txnow := t, w_db := d\<rparr>)" for n t d
    using R_trans [OF commit db] .
  show "R w (snd (txP f body e w))"
  proof (cases "e_call e (w_tick w)")
    case Done
    show ?thesis
    proof (cases r)
      case (Ok a)
      show ?thesis
        using commit failed
        by (cases "e_call e (w_tick w2)") (simp_all add: txP_def Let_def Done body Ok)
    qed (simp_all add: txP_def Let_def Done body undone)
  qed (simp_all add: txP_def Let_def w0)
qed

lemma txP_frames [frame_intros]:
  "steps e same_redis body \<Longrightarrow> steps e same_redis (txP f body)"
  "steps e same_log body \<Longrightarrow> steps e same_log (txP f body)"
  "steps e same_rpc body \<Longrightarrow> steps e same_rpc (txP f body)"
  by (rule txP_frame; unfold_locales?; auto simp: same_redis_def same_log_def same_rpc_def)+

lemma txP_db_rel:
  assumes "reflp Q" and "\<And>w0 w1. body e w0 = (Ok (), w1) \<Longrightarrow> Q (w_db w0) (w_db w1)"
  shows "steps e (db_rel Q) (txP f body)"
proof (rule stepsI)
  fix w
  obtain r w' where run: "txP f body e w = (r, w')" by (cases "txP f body e w")
  show "db_rel Q w (snd (txP f body e w))"
    using txP_outcome [OF run] run assms(1) assms(2) [of "tx_start e w"]
    by (auto simp: db_rel_def reflpD)
qed

end
