(* ===== verification/PostgresWrites.thy ===== *)
theory PostgresWrites
  imports PostgresLaws
begin

text \<open>
  The writes, as updates of the view. A row update changes the aggregate of one identifier by
  the corresponding update of the aggregate; a replacement exchanges one of its lists. Both
  are all or nothing under any failure.
\<close>

section \<open>Updating one row\<close>

lemma loadGig_db: "loadGig g row e w = (r, w') \<Longrightarrow> w_db w' = w_db w"
  using load_frames(1) by (metis same_db_def stepsD)

definition keeps_ID :: "(GigRow \<Rightarrow> GigRow) \<Rightarrow> bool" where
  "keeps_ID f \<longleftrightarrow> (\<forall>r. grow_ID (f r) = grow_ID r)"

lemma find_gig_set_gig:
  assumes "keeps_ID f"
  shows "find_gig c' (set_gig c f d) = (if c' = c then map_option f (find_gig c d) else find_gig c' d)"
proof -
  have "find (\<lambda>r. grow_ID r = c') (map (\<lambda>r. if grow_ID r = c then f r else r) rs) =
      (if c' = c then map_option f (find (\<lambda>r. grow_ID r = c) rs) else find (\<lambda>r. grow_ID r = c') rs)" for rs
    using assms by (induction rs) (auto simp: keeps_ID_def)
  then show ?thesis by (simp add: find_gig_def set_gig_def)
qed

lemma parts_set_gig [simp]:
  "packages_of g (set_gig c f d) = packages_of g d"
  "questions_of g (set_gig c f d) = questions_of g d"
  "media_of g (set_gig c f d) = media_of g d"
  "t_packages (set_gig c f d) = t_packages d"
  "t_questions (set_gig c f d) = t_questions d"
  "t_media (set_gig c f d) = t_media d"
  by (simp_all add: packages_of_def questions_of_def media_of_def set_gig_def)

text \<open>\<open>lifts f F\<close>: the row update \<open>f\<close> is the update \<open>F\<close> of the aggregate.\<close>

definition lifts :: "(GigRow \<Rightarrow> GigRow) \<Rightarrow> (Gig \<Rightarrow> Gig) \<Rightarrow> bool" where
  "lifts f F \<longleftrightarrow> keeps_ID f \<and>
     (\<forall>r ps qs ms. MapGigRowToDomain (f r) ps qs ms = F (MapGigRowToDomain r ps qs ms))"

lemma view_set_gig:
  "lifts f F \<Longrightarrow> view (set_gig c f d) c' = (if c' = c then map_option F (view d c) else view d c')"
  by (auto simp: view_def find_gig_set_gig lifts_def option.map_comp o_def)

definition only_at :: "string \<Rightarrow> db \<Rightarrow> db \<Rightarrow> bool" where
  "only_at c d d' \<longleftrightarrow> (\<forall>c'. c' \<noteq> c \<longrightarrow> view d' c' = view d c')"

lemma only_at_preorder: "reflp (only_at c)" "transp (only_at c)"
  by (auto simp: only_at_def reflp_def transp_def)

lemma only_at_set_gig: "lifts f F \<Longrightarrow> only_at c d (set_gig c f d)"
  by (simp add: only_at_def view_set_gig)

definition basic_info_gig :: "UpdateBasicInfoParams \<Rightarrow> time \<Rightarrow> Gig \<Rightarrow> Gig" where
  "basic_info_gig p now g =
     g\<lparr>gig_Title := ubi_Title p, gig_ShortInfo := ubi_ShortInfo p, gig_Slug := ubi_Slug p,
       gig_Description := ubi_Description p, gig_CategoryID := ubi_CategoryID p,
       gig_Currency := ubi_Currency p, gig_BasicInfoCompleted := True, gig_UpdatedAt := now\<rparr>"

definition seller_gig :: "string \<Rightarrow> time \<Rightarrow> Gig \<Rightarrow> Gig" where
  "seller_gig u now g = g\<lparr>gig_SellerUsername := u, gig_UpdatedAt := now\<rparr>"

definition published_gig :: "time \<Rightarrow> Gig \<Rightarrow> Gig" where
  "published_gig now g =
     g\<lparr>gig_Status := StatusPublished, gig_PublishedAt := Some now, gig_UpdatedAt := now\<rparr>"

definition redraft_gig :: "string \<Rightarrow> time \<Rightarrow> Gig \<Rightarrow> Gig" where
  "redraft_gig fid now g =
     g\<lparr>gig_FreelancerID := fid,
       gig_Status := (if gig_Status g = StatusPublished then gig_Status g else StatusDraft),
       gig_UpdatedAt := now\<rparr>"

lemma lifts_rows:
  "lifts (basic_info_row p now) (basic_info_gig p now)"
  "lifts (seller_row u now) (seller_gig u now)"
  "lifts (published_row now) (published_gig now)"
  "lifts (redraft_row fid now) (redraft_gig fid now)"
  by (simp_all add: lifts_def keeps_ID_def MapGigRowToDomain_def basic_info_row_def
      basic_info_gig_def seller_row_def seller_gig_def published_row_def published_gig_def
      redraft_row_def redraft_gig_def)

text \<open>A statement that updates one row by \<open>f\<close>, and the aggregate update that goes with it.\<close>

definition row_update ::
    "env \<Rightarrow> string \<Rightarrow> GigRow option sql \<Rightarrow> (time \<Rightarrow> GigRow \<Rightarrow> GigRow) \<Rightarrow> bool" where
  "row_update e gid q f \<longleftrightarrow>
     (\<forall>now d v d'. q e now d = Inr (v, d') \<longrightarrow>
        (\<exists>c. e_uuid_in e gid = Some c \<and> v = map_option (f now) (find_gig c d) \<and>
             d' = set_gig c (f now) d))"

lemma row_updateD:
  assumes "row_update e gid q f" and "q e now d = Inr (v, d')"
  shows "\<exists>c. e_uuid_in e gid = Some c \<and> v = map_option (f now) (find_gig c d) \<and>
             d' = set_gig c (f now) d"
  using assms by (simp add: row_update_def)

lemma row_updates:
  "row_update e gid (updateGigBasicInfoQuery gid p) (basic_info_row p)"
  "row_update e gid (updateGigSellerUsernameQuery gid u) (seller_row u)"
  "row_update e gid (publishGigQuery gid) published_row"
  by (auto simp: row_update_def updateGigBasicInfoQuery_def updateGigSellerUsernameQuery_def
      publishGigQuery_def with_uuid_def with_texts_def update_gig_def
      split: option.splits if_splits)

text \<open>The shape of the three updating methods.\<close>

definition updateRow :: "(gerr \<Rightarrow> gerr) \<Rightarrow> string \<Rightarrow> GigRow option sql \<Rightarrow> Gig prog" where
  "updateRow f gid q = bindP (mapErrP f (rowP q)) (\<lambda>row. loadGig gid row)"

lemma updateRow_methods:
  "repo_UpdateBasicInfo gid p = updateRow TranslateFindGigError gid (updateGigBasicInfoQuery gid p)"
  "repo_UpdateSellerUsername gid u = updateRow TranslateFindGigError gid (updateGigSellerUsernameQuery gid u)"
  "repo_Publish gid = updateRow TranslatePublishGigError gid (publishGigQuery gid)"
  by (simp_all add: repo_UpdateBasicInfo_def repo_UpdateSellerUsername_def repo_Publish_def updateRow_def)

lemma updateRow_frames [frame_intros]:
  "steps e same_redis (updateRow f gid q)" "steps e same_log (updateRow f gid q)"
  "steps e same_rpc (updateRow f gid q)"
  unfolding updateRow_def by (intro frame_intros)+

text \<open>All or nothing: the tables stay, or the row update took place.\<close>

lemma updateRow_db:
  assumes upd: "row_update e gid q f" and run: "updateRow tr gid q e w = (r, w')"
  shows "w_db w' = w_db w \<or>
    (\<exists>c now. e_uuid_in e gid = Some c \<and> w_db w' = set_gig c (f now) (w_db w))"
proof -
  obtain v w1 where row: "stmtP q e w = (v, w1)" by (cases "stmtP q e w")
  have w1: "w_db w1 = w_db w \<or>
      (\<exists>c now. e_uuid_in e gid = Some c \<and> w_db w1 = set_gig c (f now) (w_db w))"
    using row by (cases rule: stmtP_cases) (use row_updateD [OF upd] in blast)+
  have "w_db w' = w_db w1"
  proof (cases v)
    case (Ok a)
    then show ?thesis
      using run row
      by (auto simp: updateRow_def rowP_def bindP_def mapErrP_def dest: loadGig_db
          split: option.splits prod.splits res.splits)
  qed (use run row in \<open>auto simp: updateRow_def rowP_def bindP_def mapErrP_def\<close>)
  with w1 show ?thesis by simp
qed

lemma updateRow_Ok:
  assumes upd: "row_update e gid q f" and lift: "\<And>now. lifts (f now) (F now)"
    and run: "updateRow tr gid q e w = (Ok g, w')"
  obtains c now g0 where "e_uuid_in e gid = Some c" and "view (w_db w) c = Some g0"
    and "g = F now g0" and "view (w_db w') = (view (w_db w))(c \<mapsto> g)"
proof -
  obtain row w1 where row: "rowP q e w = (Ok row, w1)" and load: "loadGig gid row e w1 = (Ok g, w')"
    using run unfolding updateRow_def by (auto elim!: bindP_OkE simp: mapErrP_Ok)
  from rowP_Ok [OF row] obtain now where "q e now (w_db w) = Inr (Some row, w_db w1)" by blast
  from row_updateD [OF upd this] obtain c r where c: "e_uuid_in e gid = Some c"
    and r: "find_gig c (w_db w) = Some r" "row = f now r" "w_db w1 = set_gig c (f now) (w_db w)"
    by (auto simp: eq_commute [of "Some row"])
  let ?g0 = "MapGigRowToDomain r (packages_of c (w_db w)) (questions_of c (w_db w)) (media_of c (w_db w))"
  have g: "g = F now ?g0" and w': "w_db w' = set_gig c (f now) (w_db w)"
    using loadGig_Ok [OF load] c r lift [of now] by (fastforce simp: lifts_def)+
  have g0: "view (w_db w) c = Some ?g0" using r by (simp add: view_def)
  have "view (w_db w') = (view (w_db w))(c \<mapsto> g)"
    by (rule ext) (simp add: w' view_set_gig [OF lift] g0 g)
  with c g0 g that show ?thesis by blast
qed

lemma updateRow_only_at:
  assumes "row_update e gid q f" and "\<And>now. lifts (f now) (F now)" and "e_uuid_in e gid = Some c"
  shows "steps e (db_rel (only_at c)) (updateRow tr gid q)"
proof (rule stepsI)
  fix w
  obtain r w' where run: "updateRow tr gid q e w = (r, w')" by (cases "updateRow tr gid q e w")
  from updateRow_db [OF assms(1) run] assms(3) show "db_rel (only_at c) w (snd (updateRow tr gid q e w))"
    using run only_at_set_gig [OF assms(2)] only_at_preorder(1) by (auto simp: db_rel_def reflpD)
qed

lemmas updateRow_intros = updateRow_only_at [OF row_updates(1) lifts_rows(1)]
  updateRow_only_at [OF row_updates(2) lifts_rows(2)]
  updateRow_only_at [OF row_updates(3) lifts_rows(3)]

end
