(* ===== verification/PostgresReplace.thy ===== *)
theory PostgresReplace
  imports PostgresWrites
begin

text \<open>
  The three replacements (packages, questions, media) have one shape: delete the rows of the
  gig, insert the new ones numbered from 1, mark the step complete, in one transaction. The
  locale \<open>child_table\<close> states what they use of a table and proves the outcome once; the
  interpretations are the three tables of the repository.
\<close>

locale child_table =
  fixes tbl :: "db \<Rightarrow> 'r list" and set_tbl :: "('r list \<Rightarrow> 'r list) \<Rightarrow> db \<Rightarrow> db"
    and row_ID :: "'r \<Rightarrow> string" and row_gig :: "'r \<Rightarrow> string" and row_order :: "'r \<Rightarrow> int32"
    and row_created :: "'r \<Rightarrow> time"
    and del :: "string \<Rightarrow> unit sql" and ins :: "string \<Rightarrow> string \<Rightarrow> 'p \<Rightarrow> int32 \<Rightarrow> unit sql"
    and fin :: "string \<Rightarrow> unit sql" and done_row :: "time \<Rightarrow> GigRow \<Rightarrow> GigRow"
    and item_ID :: "'p \<Rightarrow> string" and carries :: "'p \<Rightarrow> 'r \<Rightarrow> bool"
    and insert_all :: "string \<Rightarrow> int32 \<Rightarrow> 'p list \<Rightarrow> unit prog"
  assumes tbl_set: "tbl (set_tbl f d) = f (tbl d)"
    and set_set: "set_tbl f (set_tbl g d) = set_tbl (\<lambda>rs. f (g rs)) d"
    and set_gigs: "t_gigs (set_tbl f d) = t_gigs d"
    and set_id: "set_tbl (\<lambda>rs. rs) d = d"
    and del_run: "del gid e now d = Inr (u, d') \<Longrightarrow>
      \<exists>c. e_uuid_in e gid = Some c \<and> d' = set_tbl (filter (\<lambda>r. row_gig r \<noteq> c)) d"
    and ins_run: "ins k gid x i e now d = Inr (u, d') \<Longrightarrow>
      \<exists>c r. e_uuid_in e gid = Some c \<and> e_uuid_in e k = Some (row_ID r) \<and> row_gig r = c \<and>
        row_order r = i \<and> carries x r \<and> d' = set_tbl (\<lambda>rs. rs @ [r]) d"
    and fin_run: "fin gid e now d = Inr (u, d') \<Longrightarrow>
      \<exists>c. e_uuid_in e gid = Some c \<and> d' = set_gig c (done_row now) d"
    and insert_all_Nil: "insert_all gid i [] = retP ()"
    and insert_all_Cons: "insert_all gid i (x # xs) =
      bindP uuid7P (\<lambda>u.
      bindP (mapErrP TranslatePublishGigError
               (stmtP (ins (if item_ID x \<noteq> [] then item_ID x else u) gid x i))) (\<lambda>_.
      insert_all gid (i + 1) xs))"
begin

definition rows_of :: "string \<Rightarrow> db \<Rightarrow> 'r list" where
  "rows_of c d = sort_key (\<lambda>r. (sint (row_order r), row_created r)) (filter (\<lambda>r. row_gig r = c) (tbl d))"

text \<open>The rows that stand for the items, numbered from \<open>i\<close>.\<close>

fun rows_for :: "env \<Rightarrow> string \<Rightarrow> int32 \<Rightarrow> 'p list \<Rightarrow> 'r list \<Rightarrow> bool" where
  "rows_for e c i [] [] = True"
| "rows_for e c i (x # xs) (r # rs) =
     (row_gig r = c \<and> row_order r = i \<and> carries x r \<and>
      (item_ID x \<noteq> [] \<longrightarrow> e_uuid_in e (item_ID x) = Some (row_ID r)) \<and> rows_for e c (i + 1) xs rs)"
| "rows_for e c i _ _ = False"

definition body :: "string \<Rightarrow> 'p list \<Rightarrow> unit prog" where
  "body gid xs =
     bindP (execP (del gid)) (\<lambda>_. bindP (insert_all gid 1 xs) (\<lambda>_. execP (fin gid)))"

lemma insert_all_Ok:
  assumes "insert_all gid i xs e w = (Ok (), w')" and "e_uuid_in e gid = Some c"
  shows "\<exists>rows. w_db w' = set_tbl (\<lambda>rs. rs @ rows) (w_db w) \<and> rows_for e c i xs rows"
  using assms
proof (induction xs arbitrary: i w)
  case Nil
  then show ?case by (intro exI [of _ "[]"]) (simp add: insert_all_Nil set_id)
next
  case (Cons x xs)
  obtain u w1 w2 where u: "uuid7P e w = (Ok u, w1)"
    and ins: "stmtP (ins (if item_ID x \<noteq> [] then item_ID x else u) gid x i) e w1 = (Ok (), w2)"
    and rest: "insert_all gid (i + 1) xs e w2 = (Ok (), w')"
    using Cons.prems(1) unfolding insert_all_Cons by (auto elim!: bindP_OkE simp: mapErrP_Ok)
  have w1: "w_db w1 = w_db w" using u by (auto simp: uuid7P_def split: option.splits)
  from stmtP_Ok [OF ins] obtain now where
    "ins (if item_ID x \<noteq> [] then item_ID x else u) gid x i e now (w_db w1) = Inr ((), w_db w2)" by blast
  from ins_run [OF this] obtain c' r where "e_uuid_in e gid = Some c'" "row_gig r = c'"
    and r: "row_order r = i" "carries x r"
      "e_uuid_in e (if item_ID x \<noteq> [] then item_ID x else u) = Some (row_ID r)"
    and w2: "w_db w2 = set_tbl (\<lambda>rs. rs @ [r]) (w_db w1)" by blast
  then have c: "row_gig r = c" using Cons.prems(2) by simp
  from Cons.IH [OF rest Cons.prems(2)] obtain rows where
    "w_db w' = set_tbl (\<lambda>rs. rs @ rows) (w_db w2)" "rows_for e c (i + 1) xs rows" by blast
  with r w2 c w1 show ?case by (intro exI [of _ "r # rows"]) (auto simp: set_set split: if_splits)
qed

lemma body_Ok:
  assumes "body gid xs e w = (Ok (), w')"
  shows "\<exists>c now rows. e_uuid_in e gid = Some c \<and> rows_for e c 1 xs rows \<and>
    w_db w' = set_gig c (done_row now) (set_tbl (\<lambda>rs. filter (\<lambda>r. row_gig r \<noteq> c) rs @ rows) (w_db w))"
proof -
  obtain w1 w2 where d: "stmtP (del gid) e w = (Ok (), w1)"
    and i: "insert_all gid 1 xs e w1 = (Ok (), w2)" and f: "stmtP (fin gid) e w2 = (Ok (), w')"
    using assms unfolding body_def execP_def by (auto elim!: bindP_OkE simp: mapErrP_Ok)
  from stmtP_Ok [OF d] del_run obtain c where c: "e_uuid_in e gid = Some c"
    and w1: "w_db w1 = set_tbl (filter (\<lambda>r. row_gig r \<noteq> c)) (w_db w)" by blast
  from insert_all_Ok [OF i c] obtain rows where rows: "rows_for e c 1 xs rows"
    and w2: "w_db w2 = set_tbl (\<lambda>rs. rs @ rows) (w_db w1)" by blast
  from stmtP_Ok [OF f] fin_run c obtain now where "w_db w' = set_gig c (done_row now) (w_db w2)"
    by fastforce
  with c rows w1 w2 show ?thesis by (auto simp: set_set)
qed

lemma rows_for_gig: "rows_for e c i xs rows \<Longrightarrow> r \<in> set rows \<Longrightarrow> row_gig r = c"
  by (induction e c i xs rows rule: rows_for.induct) auto

lemma rows_for_length: "rows_for e c i xs rows \<Longrightarrow> length rows = length xs"
  by (induction e c i xs rows rule: rows_for.induct) auto

lemma rows_for_carries: "rows_for e c i xs rows \<Longrightarrow> list_all2 carries xs rows"
  by (induction e c i xs rows rule: rows_for.induct) auto

lemma rows_for_sorted:
  assumes "rows_for e c i xs rows" and "sint i + int (length xs) \<le> 2 ^ 31"
  shows "sorted (map (\<lambda>r. (sint (row_order r), row_created r)) rows) \<and>
    (\<forall>r \<in> set rows. sint i \<le> sint (row_order r))"
  using assms
proof (induction e c i xs rows rule: rows_for.induct)
  case (2 e c i x xs r rs)
  show ?case
  proof (cases xs)
    case Nil
    with 2 have "rs = []" by (cases rs) auto
    with 2 show ?thesis by simp
  next
    case (Cons y ys)
    then have small: "sint i + 1 < 2 ^ 31" using 2(3) by simp
    have step: "sint (i + 1) = sint i + 1"
      by (rule sint_succ32 [OF small])
    then have "sorted (map (\<lambda>r. (sint (row_order r), row_created r)) rs)"
      and "\<forall>r \<in> set rs. sint i + 1 \<le> sint (row_order r)"
      using 2 by auto
    with 2(2) show ?thesis by auto
  qed
qed auto

lemma rows_of_replaced_other:
  assumes "rows_for e c 1 xs rows" and "c' \<noteq> c"
  shows "rows_of c' (set_tbl (\<lambda>rs. filter (\<lambda>r. row_gig r \<noteq> c) rs @ rows) d) = rows_of c' d"
proof -
  have "filter (\<lambda>r. row_gig r = c') (filter (\<lambda>r. row_gig r \<noteq> c) (tbl d) @ rows) =
      filter (\<lambda>r. row_gig r = c') (tbl d)"
    using rows_for_gig [OF assms(1)] assms(2) by (auto simp: filter_empty_conv intro: filter_cong)
  then show ?thesis by (simp add: rows_of_def tbl_set)
qed

lemma rows_of_replaced:
  assumes "rows_for e c 1 xs rows" and "int (length xs) < 2 ^ 31"
  shows "rows_of c' (set_tbl (\<lambda>rs. filter (\<lambda>r. row_gig r \<noteq> c) rs @ rows) d) =
    (if c' = c then rows else rows_of c' d)"
proof (cases "c' = c")
  case True
  have "filter (\<lambda>r. row_gig r = c) (filter (\<lambda>r. row_gig r \<noteq> c) (tbl d) @ rows) = rows"
    using rows_for_gig [OF assms(1)] by (simp add: filter_empty_conv)
  moreover have "sorted (map (\<lambda>r. (sint (row_order r), row_created r)) rows)"
    using rows_for_sorted [OF assms(1)] assms(2) by simp
  ultimately show ?thesis using True by (simp add: rows_of_def tbl_set sort_key_id_if_sorted)
qed (simp add: rows_of_replaced_other [OF assms(1)])

end

section \<open>The three tables\<close>

definition package_row :: "GigPackage \<Rightarrow> GigPackageRow \<Rightarrow> bool" where
  "package_row p r \<longleftrightarrow>
     prow_Tier r = pkg_Tier p \<and> prow_Description r = pkg_Description p \<and>
     prow_DeliveryDays r = pkg_DeliveryDays p \<and> prow_PriceCents r = pkg_PriceCents p"

definition packages_done :: "time \<Rightarrow> GigRow \<Rightarrow> GigRow" where
  "packages_done now r = r\<lparr>grow_PackagesCompleted := True, grow_UpdatedAt := now\<rparr>"

lemma insertGigPackage_run:
  assumes "insertGigPackageQuery k gid tier desc days price i e now d = Inr (u, d')"
  shows "\<exists>c r. e_uuid_in e gid = Some c \<and> e_uuid_in e k = Some (prow_ID r) \<and> prow_GigID r = c \<and>
    prow_SortOrder r = i \<and> (prow_Tier r = tier \<and> prow_Description r = desc \<and>
    prow_DeliveryDays r = days \<and> prow_PriceCents r = price) \<and>
    d' = t_packages_update (\<lambda>rs. rs @ [r]) d"
proof -
  obtain c p where cp: "e_uuid_in e gid = Some c" "e_uuid_in e k = Some p"
    using assms by (auto simp: insertGigPackageQuery_def with_uuid_def with_texts_def split: option.splits)
  let ?r = "\<lparr>prow_ID = p, prow_GigID = c, prow_Tier = tier, prow_Description = desc,
      prow_DeliveryDays = days, prow_PriceCents = price, prow_SortOrder = i,
      prow_CreatedAt = now, prow_UpdatedAt = now\<rparr>"
  have "d' = t_packages_update (\<lambda>rs. rs @ [?r]) d"
    using assms cp by (auto simp: insertGigPackageQuery_def with_uuid_def with_texts_def split: option.splits if_splits)
  with cp show ?thesis by (intro exI [of _ c] exI [of _ ?r]) simp
qed

interpretation packages: child_table t_packages t_packages_update prow_ID prow_GigID
    prow_SortOrder prow_CreatedAt deleteGigPackagesQuery
    "\<lambda>k gid p i. insertGigPackageQuery k gid (pkg_Tier p) (pkg_Description p) (pkg_DeliveryDays p)
       (pkg_PriceCents p) i"
    completePackagesQuery packages_done pkg_ID package_row insertPackages
proof (unfold_locales, goal_cases)
  case (6 k gid x i e now d u d')
  from insertGigPackage_run [OF 6] show ?case by (simp add: package_row_def)
qed (auto simp: deleteGigPackagesQuery_def completePackagesQuery_def
      with_uuid_def package_row_def packages_done_def [abs_def] o_def split: option.splits)

definition question_row :: "GigQuestion \<Rightarrow> GigQuestionRow \<Rightarrow> bool" where
  "question_row q r \<longleftrightarrow> qrow_Content r = que_Content q"

definition questions_done :: "time \<Rightarrow> GigRow \<Rightarrow> GigRow" where
  "questions_done now r = r\<lparr>grow_RequirementsCompleted := True, grow_UpdatedAt := now\<rparr>"

lemma insertGigQuestion_run:
  assumes "insertGigQuestionQuery k gid content i e now d = Inr (u, d')"
  shows "\<exists>c r. e_uuid_in e gid = Some c \<and> e_uuid_in e k = Some (qrow_ID r) \<and> qrow_GigID r = c \<and>
    qrow_SortOrder r = i \<and> qrow_Content r = content \<and> d' = t_questions_update (\<lambda>rs. rs @ [r]) d"
proof -
  obtain c p where cp: "e_uuid_in e gid = Some c" "e_uuid_in e k = Some p"
    using assms by (auto simp: insertGigQuestionQuery_def with_uuid_def with_texts_def split: option.splits)
  let ?r = "\<lparr>qrow_ID = p, qrow_GigID = c, qrow_Content = content, qrow_SortOrder = i,
      qrow_CreatedAt = now, qrow_UpdatedAt = now\<rparr>"
  have "d' = t_questions_update (\<lambda>rs. rs @ [?r]) d"
    using assms cp by (auto simp: insertGigQuestionQuery_def with_uuid_def with_texts_def split: option.splits if_splits)
  with cp show ?thesis by (intro exI [of _ c] exI [of _ ?r]) simp
qed

interpretation questions: child_table t_questions t_questions_update qrow_ID qrow_GigID
    qrow_SortOrder qrow_CreatedAt deleteGigQuestionsQuery
    "\<lambda>k gid q i. insertGigQuestionQuery k gid (que_Content q) i"
    completeQuestionsQuery questions_done que_ID question_row insertQuestions
proof (unfold_locales, goal_cases)
  case (6 k gid x i e now d u d')
  from insertGigQuestion_run [OF 6] show ?case by (simp add: question_row_def)
qed (auto simp: deleteGigQuestionsQuery_def completeQuestionsQuery_def
      with_uuid_def question_row_def questions_done_def [abs_def] o_def split: option.splits)

definition media_row :: "GigMedia \<Rightarrow> GigMediaRow \<Rightarrow> bool" where
  "media_row m r \<longleftrightarrow> mrow_FileID r = med_FileID m"

definition media_done :: "string \<Rightarrow> time \<Rightarrow> GigRow \<Rightarrow> GigRow" where
  "media_done picture now r =
     r\<lparr>grow_PictureFileID := picture, grow_MediaCompleted := True, grow_UpdatedAt := now\<rparr>"

lemma insertGigMedia_run:
  assumes "insertGigMediaQuery k gid fileID i e now d = Inr (u, d')"
  shows "\<exists>c r. e_uuid_in e gid = Some c \<and> e_uuid_in e k = Some (mrow_ID r) \<and> mrow_GigID r = c \<and>
    mrow_SortOrder r = i \<and> mrow_FileID r = fileID \<and> d' = t_media_update (\<lambda>rs. rs @ [r]) d"
proof -
  obtain c p where cp: "e_uuid_in e gid = Some c" "e_uuid_in e k = Some p"
    using assms by (auto simp: insertGigMediaQuery_def with_uuid_def with_texts_def split: option.splits)
  let ?r = "\<lparr>mrow_ID = p, mrow_GigID = c, mrow_FileID = fileID, mrow_SortOrder = i,
      mrow_CreatedAt = now, mrow_UpdatedAt = now\<rparr>"
  have "d' = t_media_update (\<lambda>rs. rs @ [?r]) d"
    using assms cp by (auto simp: insertGigMediaQuery_def with_uuid_def with_texts_def split: option.splits if_splits)
  with cp show ?thesis by (intro exI [of _ c] exI [of _ ?r]) simp
qed

interpretation media: child_table t_media t_media_update mrow_ID mrow_GigID
    mrow_SortOrder mrow_CreatedAt deleteGigMediaQuery
    "\<lambda>k gid m i. insertGigMediaQuery k gid (med_FileID m) i"
    "\<lambda>gid. completeMediaQuery gid picture" "media_done picture" med_ID media_row insertMedia
  for picture :: string
proof (unfold_locales, goal_cases)
  case (6 k gid x i e now d u d')
  from insertGigMedia_run [OF 6] show ?case by (simp add: media_row_def)
qed (auto simp: deleteGigMediaQuery_def completeMediaQuery_def
      with_uuid_def with_texts_def media_row_def media_done_def [abs_def] o_def
      split: option.splits if_splits)

section \<open>The repository's replacements\<close>

lemma rows_of_tables:
  "packages.rows_of = packages_of" "questions.rows_of = questions_of" "media.rows_of = media_of"
  by (simp_all add: fun_eq_iff packages.rows_of_def packages_of_def questions.rows_of_def
      questions_of_def media.rows_of_def media_of_def)

lemma replace_methods:
  "repo_ReplacePackages gid ps =
     bindP (txP TranslatePublishGigError (packages.body gid ps)) (\<lambda>_. repo_GetByID gid)"
  "repo_ReplaceQuestions gid qs =
     bindP (txP TranslatePublishGigError (questions.body gid qs)) (\<lambda>_. repo_GetByID gid)"
  "repo_ReplaceMedia gid mp =
     bindP (txP TranslatePublishGigError (media.body (rmp_PictureFileID mp) gid (rmp_Media mp)))
       (\<lambda>_. repo_GetByID gid)"
  by (simp_all add: repo_ReplacePackages_def packages.body_def repo_ReplaceQuestions_def
      questions.body_def repo_ReplaceMedia_def media.body_def)

lemma repo_GetByID_db: "repo_GetByID g e w = (r, w') \<Longrightarrow> w_db w' = w_db w"
  using read_frames(1) by (metis same_db_def stepsD)

text \<open>A transaction followed by a read: what it leaves is what the transaction leaves.\<close>

lemma tx_then_read:
  assumes "bindP (txP f body) (\<lambda>_. repo_GetByID gid) e w = (r, w')"
  obtains (Kept) "w_db w' = w_db w"
  | (Done) w1 where "body e (tx_start e w) = (Ok (), w1)" and "w_db w' = w_db w1"
proof -
  obtain v w1 where tx: "txP f body e w = (v, w1)" by (cases "txP f body e w")
  have "w_db w' = w_db w1"
    using assms tx by (cases v) (auto simp: bindP_def dest: repo_GetByID_db)
  with txP_outcome [OF tx] that show thesis by auto
qed

lemma tx_then_read_Ok:
  assumes "bindP (txP f body) (\<lambda>_. repo_GetByID gid) e w = (Ok g, w')"
  obtains w1 where "body e (tx_start e w) = (Ok (), w1)" and "w_db w' = w_db w1"
    and "e_uuid_in e gid = Some (gig_ID g)" and "view (w_db w') (gig_ID g) = Some g"
proof -
  obtain w1 where tx: "txP f body e w = (Ok (), w1)" and get: "repo_GetByID gid e w1 = (Ok g, w')"
    using assms by (auto elim!: bindP_OkE)
  from txP_Ok [OF tx] repo_GetByID_Ok [OF get] that show thesis by auto
qed

lemma replace_frames [frame_intros]:
  "steps e same_redis (repo_ReplacePackages gid ps)" "steps e same_log (repo_ReplacePackages gid ps)"
  "steps e same_rpc (repo_ReplacePackages gid ps)"
  "steps e same_redis (repo_ReplaceQuestions gid qs)" "steps e same_log (repo_ReplaceQuestions gid qs)"
  "steps e same_rpc (repo_ReplaceQuestions gid qs)"
  "steps e same_redis (repo_ReplaceMedia gid mp)" "steps e same_log (repo_ReplaceMedia gid mp)"
  "steps e same_rpc (repo_ReplaceMedia gid mp)"
proof -
  have "steps e same_redis (insertPackages gid i ps)" "steps e same_log (insertPackages gid i ps)"
    "steps e same_rpc (insertPackages gid i ps)" for i
    by (induction ps arbitrary: i; simp; intro frame_intros; assumption?)+
  moreover have "steps e same_redis (insertQuestions gid i qs)" "steps e same_log (insertQuestions gid i qs)"
    "steps e same_rpc (insertQuestions gid i qs)" for i
    by (induction qs arbitrary: i; simp; intro frame_intros; assumption?)+
  moreover have "steps e same_redis (insertMedia gid i ms)" "steps e same_log (insertMedia gid i ms)"
    "steps e same_rpc (insertMedia gid i ms)" for i ms
    by (induction ms arbitrary: i; simp; intro frame_intros; assumption?)+
  ultimately show "steps e same_redis (repo_ReplacePackages gid ps)"
    "steps e same_log (repo_ReplacePackages gid ps)" "steps e same_rpc (repo_ReplacePackages gid ps)"
    "steps e same_redis (repo_ReplaceQuestions gid qs)"
    "steps e same_log (repo_ReplaceQuestions gid qs)" "steps e same_rpc (repo_ReplaceQuestions gid qs)"
    "steps e same_redis (repo_ReplaceMedia gid mp)" "steps e same_log (repo_ReplaceMedia gid mp)"
    "steps e same_rpc (repo_ReplaceMedia gid mp)"
    unfolding repo_ReplacePackages_def repo_ReplaceQuestions_def repo_ReplaceMedia_def execP_def
    by (intro frame_intros; blast)+
qed

text \<open>The tables after a replacement of the packages, and their view.\<close>

definition packages_replaced :: "string \<Rightarrow> time \<Rightarrow> GigPackageRow list \<Rightarrow> db \<Rightarrow> db" where
  "packages_replaced c now rows d =
     set_gig c (packages_done now) (t_packages_update (\<lambda>rs. filter (\<lambda>r. prow_GigID r \<noteq> c) rs @ rows) d)"

definition packages_gig :: "GigPackage list \<Rightarrow> time \<Rightarrow> Gig \<Rightarrow> Gig" where
  "packages_gig ps now g = g\<lparr>gig_Packages := ps, gig_PackagesCompleted := True, gig_UpdatedAt := now\<rparr>"

lemma repo_ReplacePackages_outcome:
  assumes "repo_ReplacePackages gid ps e w = (r, w')"
  shows "w_db w' = w_db w \<or>
    (\<exists>c now rows. e_uuid_in e gid = Some c \<and> packages.rows_for e c 1 ps rows \<and>
       w_db w' = packages_replaced c now rows (w_db w))"
  using assms unfolding replace_methods
proof (cases rule: tx_then_read)
  case (Done w1)
  from packages.body_Ok [OF Done(1)] Done(2) show ?thesis
    unfolding packages_replaced_def by auto
qed simp

lemma view_packages_replaced:
  assumes "packages.rows_for e c 1 ps rows" and "int (length ps) < 2 ^ 31"
  shows "view (packages_replaced c now rows d) c' =
    (if c' = c then map_option (packages_gig (map package_of_row rows) now) (view d c) else view d c')"
proof -
  let ?d = "t_packages_update (\<lambda>rs. filter (\<lambda>r. prow_GigID r \<noteq> c) rs @ rows) d"
  have parts: "find_gig g ?d = find_gig g d" "questions_of g ?d = questions_of g d"
      "media_of g ?d = media_of g d" for g
    by (simp_all add: find_gig_def questions_of_def media_of_def)
  have pk: "packages_of g ?d = (if g = c then rows else packages_of g d)" for g
    using packages.rows_of_replaced [OF assms] by (simp add: rows_of_tables)
  have kid: "keeps_ID (packages_done now)" by (simp add: keeps_ID_def packages_done_def)
  show ?thesis
    by (auto simp: packages_replaced_def view_def find_gig_set_gig [OF kid] parts pk
        option.map_comp o_def MapGigRowToDomain_def packages_done_def packages_gig_def)
qed

end
