(* ===== verification/ServiceLaws.thy ===== *)
theory ServiceLaws
  imports ServiceRead PostgresReplace
begin

text \<open>
  What every use case of the service does to the tables. A gig is \<open>ready\<close> when its basic
  information and packages are complete and its packages pass validation; \<open>good\<close> relates two
  states of the tables when every ready gig stays ready, and published gigs stay ready if they
  were. Reads and events leave the tables alone; every write is \<open>good\<close> under any failure.
\<close>

section \<open>Frames of events and reads\<close>

lemma event_frames [frame_intros]:
  "steps e same_db (PublishGigNotificationOutcome g a b c d f r p)"
  "steps e same_redis (PublishGigNotificationOutcome g a b c d f r p)"
  "steps e same_rpc (PublishGigNotificationOutcome g a b c d f r p)"
  "steps e same_db (PublishGigNotification g a p)" "steps e same_redis (PublishGigNotification g a p)"
  "steps e same_rpc (PublishGigNotification g a p)"
  "steps e same_db realtimeNew" "steps e same_redis realtimeNew" "steps e same_rpc realtimeNew"
  "steps e same_log realtimeNew"
  "steps e same_db (publishPreviewProjection gig)" "steps e same_redis (publishPreviewProjection gig)"
  "steps e same_rpc (publishPreviewProjection gig)"
  "steps e same_db (publishPostWritePreview rec gig)" "steps e same_redis (publishPostWritePreview rec gig)"
  "steps e same_rpc (publishPostWritePreview rec gig)"
proof -
  have ask: "steps e same_db (\<lambda>e w. (Ok (h e w), w))" "steps e same_redis (\<lambda>e w. (Ok (h e w), w))"
    "steps e same_rpc (\<lambda>e w. (Ok (h e w), w))" for h :: "env \<Rightarrow> world \<Rightarrow> 'z"
    by (auto simp: steps_def same_db_def same_redis_def same_rpc_def)
  show outcome: "steps e same_db (PublishGigNotificationOutcome g a b c d f r p)"
    "steps e same_redis (PublishGigNotificationOutcome g a b c d f r p)"
    "steps e same_rpc (PublishGigNotificationOutcome g a b c d f r p)" for b c d f r
    unfolding PublishGigNotificationOutcome_def by (intro frame_intros ask)+
  then show "steps e same_db (PublishGigNotification g a p)"
    "steps e same_redis (PublishGigNotification g a p)" "steps e same_rpc (PublishGigNotification g a p)"
    unfolding PublishGigNotification_def by simp_all
  show "steps e same_db realtimeNew" "steps e same_redis realtimeNew" "steps e same_rpc realtimeNew"
    "steps e same_log realtimeNew"
    by (auto simp: steps_def realtimeNew_def same_db_def same_redis_def same_rpc_def same_log_def)
  show preview: "steps e same_db (publishPreviewProjection gig)"
    "steps e same_redis (publishPreviewProjection gig)" "steps e same_rpc (publishPreviewProjection gig)"
    unfolding publishPreviewProjection_def by (intro frame_intros)+
  then show "steps e same_db (publishPostWritePreview rec gig)"
    "steps e same_redis (publishPostWritePreview rec gig)"
    "steps e same_rpc (publishPostWritePreview rec gig)"
    unfolding publishPostWritePreview_def by simp_all
qed

lemma projection_frames [frame_intros]:
  "steps e same_db (publishPostWriteProjections gig)" "steps e same_redis (publishPostWriteProjections gig)"
  "steps e same_rpc (publishPostWriteProjections gig)"
  unfolding publishPostWriteProjections_def by (intro frame_intros)+

lemma owned_frames [frame_intros]:
  "steps e same_db (getOwnedGig g f)" "steps e same_redis (getOwnedGig g f)"
  "steps e same_log (getOwnedGig g f)" "steps e same_rpc (getOwnedGig g f)"
  unfolding getOwnedGig_def Let_def by (intro frame_intros)+

lemma check_frames [frame_intros]:
  "steps e same_db (checkP v)" "steps e same_redis (checkP v)" "steps e same_log (checkP v)"
  "steps e same_rpc (checkP v)"
  unfolding checkP_def by (intro frame_intros)+

lemma onboarding_frames [frame_intros]:
  "steps e same_db (checkOnboarding rec f)" "steps e same_redis (checkOnboarding rec f)"
  "steps e same_log (checkOnboarding rec f)" "steps e same_rpc (checkOnboarding rec f)"
  unfolding checkOnboarding_def by (intro frame_intros)+

lemma compensate_frames [frame_intros]:
  "steps e same_db (compensateUploadedFiles fs)" "steps e same_redis (compensateUploadedFiles fs)"
  "steps e same_log (compensateUploadedFiles fs)"
  unfolding compensateUploadedFiles_def by (intro frame_intros)+

lemma redis_frames [frame_intros]:
  "steps e same_db (read_Upsert g)" "steps e same_log (read_Upsert g)"
  "steps e same_db (read_GetByID i)" "steps e same_log (read_GetByID i)"
  "steps e same_db (read_UpsertPreviewWindow u n gs m t)"
  "steps e same_log (read_UpsertPreviewWindow u n gs m t)"
  "steps e same_db (read_UpsertOwnerPreview u p)" "steps e same_log (read_UpsertOwnerPreview u p)"
  "steps e same_db (read_ListPreviewWindow u n)" "steps e same_log (read_ListPreviewWindow u n)"
  "steps e same_db (read_ListOwnerPreviewGigs u)" "steps e same_log (read_ListOwnerPreviewGigs u)"
  "steps e same_db (read_GetPreviewByID i)" "steps e same_log (read_GetPreviewByID i)"
  "steps e same_db (read_GetUserLookup u)" "steps e same_log (read_GetUserLookup u)"
  "steps e same_db (read_SetPopularitySnapshot s)" "steps e same_log (read_SetPopularitySnapshot s)"
  "steps e same_db (read_GetPopularitySnapshot i)" "steps e same_log (read_GetPopularitySnapshot i)"
  "steps e same_db (read_ListPopularitySnapshotsByGigIDs is)"
  "steps e same_log (read_ListPopularitySnapshotsByGigIDs is)"
  unfolding read_Upsert_def read_GetByID_def read_UpsertPreviewWindow_def read_UpsertOwnerPreview_def
    read_ListPreviewWindow_def read_ListOwnerPreviewGigs_def read_GetPreviewByID_def
    read_GetUserLookup_def read_SetPopularitySnapshot_def read_GetPopularitySnapshot_def
    read_ListPopularitySnapshotsByGigIDs_def Let_def
  by (intro frame_intros)+

lemma deferP_steps:
  assumes "effect R" and "steps e R m" and "steps e R c"
  shows "steps e R (deferP c m)"
proof (rule stepsI)
  fix w
  note R_trans = effect.R_trans [OF assms(1)]
  obtain r w1 where m: "m e w = (r, w1)" by (cases "m e w")
  have "R w w1" using assms(2) m by (rule stepsD)
  moreover have "R w1 (snd (c e w1))" using assms(3) by (simp add: steps_def)
  ultimately show "R w (snd (deferP c m e w))" using m by (auto simp: deferP_def intro: R_trans)
qed

lemma append_frames [frame_intros]: "steps e same_db (read_AppendPreviewGig u g n t)"
proof -
  have walk: "steps e same_db (append_walk u p cap t tail ws)" for u p cap t tail ws
    by (induction ws) (simp_all, (intro frame_intros; assumption?)+)
  show ?thesis
    unfolding read_AppendPreviewGig_def previewWindowIndexes_def releasePreviewLease_def Let_def
    by (intro frame_intros deferP_steps walk same_db.effect_axioms)
qed

lemma project_frames [frame_intros]:
  "steps e same_db (Project g)" "steps e same_log (Project g)"
  unfolding Project_def by (intro frame_intros)+

lemma preview_frames [frame_intros]:
  "steps e same_db (UpsertPreviewGig rec g)" "steps e same_log (UpsertPreviewGig rec g)"
  unfolding UpsertPreviewGig_def preview_stats_def by (intro frame_intros)+

lemma rebuild_frames [frame_intros]:
  "steps e same_db (RebuildPopularitySnapshots gs)" "steps e same_log (RebuildPopularitySnapshots gs)"
  unfolding RebuildPopularitySnapshots_def by (intro frame_intros)+

lemma list_published_frames [frame_intros]:
  "steps e same_db (repo_ListPublishedBySellerUsername q)"
  "steps e same_log (repo_ListPublishedBySellerUsername q)"
  unfolding repo_ListPublishedBySellerUsername_def Let_def
  by (intro frame_intros reads_same_db reads_queries)+

lemma public_list_frames [frame_intros]:
  "steps e same_db (GetPreviewGigsByFreelancerUsername rec q)"
  "steps e same_log (GetPreviewGigsByFreelancerUsername rec q)"
  unfolding GetPreviewGigsByFreelancerUsername_def preview_item_def Let_def by (intro frame_intros)+

lemma readside_frames [frame_intros]:
  "steps e same_db (GetPublicByID g)"
  "steps e same_db (AppendPreviewGig rec gg)"
  "steps e same_db (RefreshPreviewRating rec g)"
  "steps e same_db (RefreshPreviewOrderCount rec g)"
  "steps e same_db (GetMyGigs rec q)" "steps e same_log (GetMyGigs rec q)"
proof -
  have viewed: "steps e same_db (publishViewed g)" for g
    unfolding publishViewed_def by (intro frame_intros) (auto intro: frame_intros split: res.splits)
  show "steps e same_db (GetPublicByID g)"
    unfolding GetPublicByID_def Let_def by (intro frame_intros viewed)
  show "steps e same_db (AppendPreviewGig rec gg)"
    unfolding AppendPreviewGig_def appendToEmpty_def appendToWindow_def window_filled_def
    by (intro frame_intros)
  show "steps e same_db (RefreshPreviewRating rec g)" "steps e same_db (RefreshPreviewOrderCount rec g)"
    unfolding RefreshPreviewRating_def RefreshPreviewOrderCount_def incrementPreviewOrderCount_def Let_def
    by (intro frame_intros)+
  show "steps e same_db (GetMyGigs rec q)" "steps e same_log (GetMyGigs rec q)"
    unfolding GetMyGigs_def buildMyGigsFromSource_def Let_def by (intro frame_intros)+
qed

section \<open>Readiness\<close>

definition gig_ready :: "Gig \<Rightarrow> bool" where
  "gig_ready g \<longleftrightarrow>
     gig_BasicInfoCompleted g \<and> gig_PackagesCompleted g \<and> validatePackages (gig_Packages g) = None"

definition published_ready :: "db \<Rightarrow> bool" where
  "published_ready d \<longleftrightarrow>
     list_all (\<lambda>r. case view d (grow_ID r) of
        None \<Rightarrow> True
      | Some g \<Rightarrow> gig_Status g = StatusPublished \<longrightarrow> gig_ready g) (t_gigs d)"

lemma find_gig_mem: "find_gig c d = Some r \<Longrightarrow> r \<in> set (t_gigs d) \<and> grow_ID r = c"
  by (auto simp: find_gig_def find_Some_iff)

lemma published_ready_iff:
  "published_ready d \<longleftrightarrow> (\<forall>c g. view d c = Some g \<longrightarrow> gig_Status g = StatusPublished \<longrightarrow> gig_ready g)"
proof
  assume pr: "published_ready d"
  show "\<forall>c g. view d c = Some g \<longrightarrow> gig_Status g = StatusPublished \<longrightarrow> gig_ready g"
  proof (intro allI impI)
    fix c g
    assume v: "view d c = Some g" and p: "gig_Status g = StatusPublished"
    then obtain r where "find_gig c d = Some r" by (auto simp: view_def)
    from find_gig_mem [OF this] pr v p show "gig_ready g"
      by (auto simp: published_ready_def list_all_iff)
  qed
qed (auto simp: published_ready_def list_all_iff split: option.splits)

definition good :: "db \<Rightarrow> db \<Rightarrow> bool" where
  "good d d' \<longleftrightarrow>
     (\<forall>c g. view d c = Some g \<longrightarrow> gig_ready g \<longrightarrow> (\<exists>g'. view d' c = Some g' \<and> gig_ready g')) \<and>
     (published_ready d \<longrightarrow> published_ready d')"

lemma good_preorder: "reflp good" "transp good"
  by (auto simp: good_def reflp_def transp_def) metis+

interpretation good: timeless_effect "db_rel good"
  by (rule db_rel_effect [OF good_preorder])

lemma same_db_good: "steps e same_db m \<Longrightarrow> steps e (db_rel good) m"
  by (rule steps_mono, assumption) (rule same_db_imp_db_rel [OF good_preorder(1)])

text \<open>An update of one aggregate is good if it keeps readiness and publishes only what is ready.\<close>

lemma good_update:
  assumes v: "\<And>c'. view d' c' = (if c' = c then map_option F (view d c) else view d c')"
    and ready: "\<And>g. view d c = Some g \<Longrightarrow> gig_ready g \<Longrightarrow> gig_ready (F g)"
    and status: "\<And>g. view d c = Some g \<Longrightarrow> gig_Status (F g) = StatusPublished \<Longrightarrow>
      gig_Status g = StatusPublished \<or> gig_ready (F g)"
  shows "good d d'"
  unfolding good_def published_ready_iff
proof (intro conjI allI impI)
  show "\<exists>g'. view d' x = Some g' \<and> gig_ready g'" if "view d x = Some g" "gig_ready g" for x g
    using that ready by (auto simp: v)
  show "gig_ready g"
    if "\<forall>c g. view d c = Some g \<longrightarrow> gig_Status g = StatusPublished \<longrightarrow> gig_ready g"
      and "view d' x = Some g" "gig_Status g = StatusPublished" for x g
    using that status ready by (auto simp: v split: if_splits)
qed

lemma good_row_updates:
  "good d (set_gig c (basic_info_row p now) d)"
  "good d (set_gig c (seller_row u now) d)"
  "good d (set_gig c (redraft_row f now) d)"
proof -
  show "good d (set_gig c (basic_info_row p now) d)"
    by (rule good_update [OF view_set_gig [OF lifts_rows(1)]])
      (auto simp: gig_ready_def basic_info_gig_def)
  show "good d (set_gig c (seller_row u now) d)"
    by (rule good_update [OF view_set_gig [OF lifts_rows(2)]])
      (auto simp: gig_ready_def seller_gig_def)
  show "good d (set_gig c (redraft_row f now) d)"
    by (rule good_update [OF view_set_gig [OF lifts_rows(4)]])
      (auto simp: gig_ready_def redraft_gig_def StatusDraft_def StatusPublished_def split: if_splits)
qed

lemma good_publish:
  assumes "\<And>g. view d c = Some g \<Longrightarrow> gig_ready g"
  shows "good d (set_gig c (published_row now) d)"
  by (rule good_update [OF view_set_gig [OF lifts_rows(3)]])
    (use assms in \<open>auto simp: gig_ready_def published_gig_def\<close>)

lemma find_append: "find P (xs @ ys) = (case find P xs of None \<Rightarrow> find P ys | Some x \<Rightarrow> Some x)"
  by (induction xs) auto

lemma good_new_row:
  assumes "find_gig c d = None" and "grow_ID r = c" and "grow_Status r \<noteq> StatusPublished"
  shows "good d (d\<lparr>t_gigs := t_gigs d @ [r]\<rparr>)"
proof -
  have "find_gig c' (d\<lparr>t_gigs := t_gigs d @ [r]\<rparr>) = (if c' = c then Some r else find_gig c' d)" for c'
    using assms(1,2) by (auto simp: find_gig_def find_append split: option.splits)
  then have v: "view (d\<lparr>t_gigs := t_gigs d @ [r]\<rparr>) c' =
      (if c' = c then Some (MapGigRowToDomain r (packages_of c d) (questions_of c d) (media_of c d))
       else view d c')" for c'
    by (simp add: view_def packages_of_def questions_of_def media_of_def)
  have "view d c = None" using assms(1) by (simp add: view_def)
  then show ?thesis
    using assms(3) by (auto simp: good_def published_ready_iff v split: if_splits)
qed

lemma validate_tiers_rows:
  "list_all2 package_row ps rows \<Longrightarrow> validate_tiers ts (map package_of_row rows) = validate_tiers ts ps"
proof (induction ps rows arbitrary: ts rule: list_all2_induct)
  case (Cons p ps r rs)
  then show ?case by (cases ts) (auto simp: package_row_def package_of_row_def)
qed simp

lemma validatePackages_rows:
  "list_all2 package_row ps rows \<Longrightarrow> validatePackages (map package_of_row rows) = validatePackages ps"
  by (simp add: validatePackages_def validate_tiers_rows list_all2_lengthD)

lemma validatePackages_length: "validatePackages ps = None \<Longrightarrow> 1 \<le> length ps \<and> length ps \<le> 3"
  by (cases "length ps < 1 \<or> length ps > 3") (auto simp: validatePackages_def Suc_le_eq)

lemma good_packages:
  assumes "packages.rows_for e c 1 ps rows" and "validatePackages ps = None"
  shows "good d (packages_replaced c now rows d)"
proof -
  have len: "int (length ps) < 2 ^ 31" using validatePackages_length [OF assms(2)] by auto
  have "validatePackages (map package_of_row rows) = None"
    using validatePackages_rows [OF packages.rows_for_carries [OF assms(1)]] assms(2) by simp
  then show ?thesis
    by (intro good_update [OF view_packages_replaced [OF assms(1) len]])
      (auto simp: gig_ready_def packages_gig_def)
qed

end
