(* ===== verification/WriteOutcomes.thy ===== *)
theory WriteOutcomes
  imports ServiceLaws
begin

text \<open>
  The outcome of every write of the repository as an update of one aggregate of the view, or
  none: \<open>updates_at c F d d'\<close> says that the view of \<open>d'\<close> is that of \<open>d\<close> with the aggregate
  of \<open>c\<close>, if there is one, replaced by its image under \<open>F\<close>.
\<close>

definition updates_at :: "string \<Rightarrow> (Gig \<Rightarrow> Gig) \<Rightarrow> db \<Rightarrow> db \<Rightarrow> bool" where
  "updates_at c F d d' \<longleftrightarrow> (\<forall>c'. view d' c' = (if c' = c then map_option F (view d c) else view d c'))"

lemma updates_at_only_at: "updates_at c F d d' \<Longrightarrow> only_at c d d'"
  by (simp add: updates_at_def only_at_def)

lemma updates_at_good:
  assumes "updates_at c F d d'" and "\<And>g. gig_ready g \<Longrightarrow> gig_ready (F g)"
    and "\<And>g. view d c = Some g \<Longrightarrow> gig_Status (F g) = StatusPublished \<Longrightarrow>
      gig_Status g = StatusPublished \<or> gig_ready (F g)"
  shows "good d d'"
  using assms by (intro good_update [of d' c F d]) (auto simp: updates_at_def)

lemma updates_at_view: "updates_at c F d d' \<Longrightarrow> view d c = Some g \<Longrightarrow> view d' c = Some (F g)"
  by (simp add: updates_at_def)

section \<open>The row updates\<close>

lemma updateRow_updates:
  assumes "row_update e gid q f" and "\<And>now. lifts (f now) (F now)"
    and "updateRow tr gid q e w = (r, w')"
  shows "w_db w' = w_db w \<or>
    (\<exists>c now. e_uuid_in e gid = Some c \<and> updates_at c (F now) (w_db w) (w_db w'))"
  using updateRow_db [OF assms(1,3)] view_set_gig [OF assms(2)] by (fastforce simp: updates_at_def)

lemma repo_UpdateBasicInfo_outcome:
  "repo_UpdateBasicInfo gid p e w = (r, w') \<Longrightarrow> w_db w' = w_db w \<or>
    (\<exists>c now. e_uuid_in e gid = Some c \<and> updates_at c (basic_info_gig p now) (w_db w) (w_db w'))"
  using updateRow_updates [OF row_updates(1) lifts_rows(1)] by (simp add: updateRow_methods)

lemma repo_UpdateSellerUsername_outcome:
  "repo_UpdateSellerUsername gid u e w = (r, w') \<Longrightarrow> w_db w' = w_db w \<or>
    (\<exists>c now. e_uuid_in e gid = Some c \<and> updates_at c (seller_gig u now) (w_db w) (w_db w'))"
  using updateRow_updates [OF row_updates(2) lifts_rows(2)] by (simp add: updateRow_methods)

lemma repo_Publish_outcome:
  "repo_Publish gid e w = (r, w') \<Longrightarrow> w_db w' = w_db w \<or>
    (\<exists>c now. e_uuid_in e gid = Some c \<and> updates_at c (published_gig now) (w_db w) (w_db w'))"
  using updateRow_updates [OF row_updates(3) lifts_rows(3)] by (simp add: updateRow_methods)

section \<open>The replacements\<close>

lemma repo_ReplacePackages_updates:
  assumes "repo_ReplacePackages gid ps e w = (r, w')" and "int (length ps) < 2 ^ 31"
  shows "w_db w' = w_db w \<or>
    (\<exists>c now rows. e_uuid_in e gid = Some c \<and> packages.rows_for e c 1 ps rows \<and>
       updates_at c (packages_gig (map package_of_row rows) now) (w_db w) (w_db w'))"
  using repo_ReplacePackages_outcome [OF assms(1)] view_packages_replaced [OF _ assms(2)]
  by (fastforce simp: updates_at_def)

definition questions_gig :: "GigQuestion list \<Rightarrow> time \<Rightarrow> Gig \<Rightarrow> Gig" where
  "questions_gig qs now g =
     g\<lparr>gig_Questions := qs, gig_RequirementsCompleted := True, gig_UpdatedAt := now\<rparr>"

lemma repo_ReplaceQuestions_updates:
  assumes "repo_ReplaceQuestions gid qs e w = (r, w')"
  shows "w_db w' = w_db w \<or>
    (\<exists>c now rows qs'. e_uuid_in e gid = Some c \<and> questions.rows_for e c 1 qs rows \<and>
       (int (length qs) < 2 ^ 31 \<longrightarrow> qs' = map question_of_row rows) \<and>
       updates_at c (questions_gig qs' now) (w_db w) (w_db w'))"
  using assms unfolding replace_methods
proof (cases rule: tx_then_read)
  case (Done w1)
  from questions.body_Ok [OF Done(1)] Done(2) obtain c now rows where c: "e_uuid_in e gid = Some c"
    and rows: "questions.rows_for e c 1 qs rows"
    and w': "w_db w' = set_gig c (questions_done now)
      (t_questions_update (\<lambda>rs. filter (\<lambda>r. qrow_GigID r \<noteq> c) rs @ rows) (w_db w))"
    by auto
  define d1 where "d1 = t_questions_update (\<lambda>rs. filter (\<lambda>r. qrow_GigID r \<noteq> c) rs @ rows) (w_db w)"
  have w': "w_db w' = set_gig c (questions_done now) d1" unfolding w' d1_def ..
  have parts: "find_gig g d1 = find_gig g (w_db w)" "packages_of g d1 = packages_of g (w_db w)"
      "media_of g d1 = media_of g (w_db w)" for g
    by (simp_all add: d1_def find_gig_def packages_of_def media_of_def)
  have qs: "questions_of g d1 = questions_of g (w_db w)" if "g \<noteq> c" for g
    using questions.rows_of_replaced_other [OF rows that] by (simp add: d1_def rows_of_tables)
  have "int (length qs) < 2 ^ 31 \<longrightarrow> questions_of c d1 = rows"
    using questions.rows_of_replaced [OF rows] by (simp add: d1_def rows_of_tables)
  moreover have "updates_at c (questions_gig (map question_of_row (questions_of c d1)) now) (w_db w) (w_db w')"
  proof -
    have kid: "keeps_ID (questions_done now)" by (simp add: keeps_ID_def questions_done_def)
    show ?thesis
      unfolding updates_at_def
    proof (intro allI)
      fix c'
      show "view (w_db w') c' = (if c' = c then map_option (questions_gig (map question_of_row (questions_of c d1)) now) (view (w_db w) c) else view (w_db w) c')"
        by (cases "c' = c"; cases "find_gig c' (w_db w)";
            simp add: w' view_def find_gig_set_gig [OF kid] parts qs MapGigRowToDomain_def questions_done_def questions_gig_def)
    qed
  qed
  ultimately show ?thesis using c rows by blast
qed simp

definition media_gig :: "string \<Rightarrow> GigMedia list \<Rightarrow> time \<Rightarrow> Gig \<Rightarrow> Gig" where
  "media_gig picture ms now g =
     g\<lparr>gig_PictureFileID := picture, gig_Media := ms, gig_MediaCompleted := True, gig_UpdatedAt := now\<rparr>"

lemma repo_ReplaceMedia_updates:
  assumes "repo_ReplaceMedia gid mp e w = (r, w')"
  shows "w_db w' = w_db w \<or>
    (\<exists>c now rows ms. e_uuid_in e gid = Some c \<and> media.rows_for e c 1 (rmp_Media mp) rows \<and>
       (int (length (rmp_Media mp)) < 2 ^ 31 \<longrightarrow> ms = map media_of_row rows) \<and>
       updates_at c (media_gig (rmp_PictureFileID mp) ms now) (w_db w) (w_db w'))"
  using assms unfolding replace_methods
proof (cases rule: tx_then_read)
  case (Done w1)
  from media.body_Ok [OF Done(1)] Done(2) obtain c now rows where c: "e_uuid_in e gid = Some c"
    and rows: "media.rows_for e c 1 (rmp_Media mp) rows"
    and w': "w_db w' = set_gig c (media_done (rmp_PictureFileID mp) now)
      (t_media_update (\<lambda>rs. filter (\<lambda>r. mrow_GigID r \<noteq> c) rs @ rows) (w_db w))"
    by auto
  define d1 where "d1 = t_media_update (\<lambda>rs. filter (\<lambda>r. mrow_GigID r \<noteq> c) rs @ rows) (w_db w)"
  have w': "w_db w' = set_gig c (media_done (rmp_PictureFileID mp) now) d1" unfolding w' d1_def ..
  have parts: "find_gig g d1 = find_gig g (w_db w)" "packages_of g d1 = packages_of g (w_db w)"
      "questions_of g d1 = questions_of g (w_db w)" for g
    by (simp_all add: d1_def find_gig_def packages_of_def questions_of_def)
  have ms: "media_of g d1 = media_of g (w_db w)" if "g \<noteq> c" for g
    using media.rows_of_replaced_other [OF rows that] by (simp add: d1_def rows_of_tables)
  have "int (length (rmp_Media mp)) < 2 ^ 31 \<longrightarrow> media_of c d1 = rows"
    using media.rows_of_replaced [OF rows] by (simp add: d1_def rows_of_tables)
  moreover have "updates_at c (media_gig (rmp_PictureFileID mp) (map media_of_row (media_of c d1)) now)
      (w_db w) (w_db w')"
  proof -
    have kid: "keeps_ID (media_done (rmp_PictureFileID mp) now)" by (simp add: keeps_ID_def media_done_def)
    show ?thesis
      unfolding updates_at_def
    proof (intro allI)
      fix c'
      show "view (w_db w') c' = (if c' = c then map_option (media_gig (rmp_PictureFileID mp) (map media_of_row (media_of c d1)) now) (view (w_db w) c) else view (w_db w) c')"
        by (cases "c' = c"; cases "find_gig c' (w_db w)";
            simp add: w' view_def find_gig_set_gig [OF kid] parts ms MapGigRowToDomain_def media_done_def media_gig_def)
    qed
  qed
  ultimately show ?thesis using c rows by blast
qed simp

section \<open>Creating a draft\<close>

text \<open>An upsert: the draft is new, or the row with its identifier changes hands.\<close>

definition new_draft :: "string \<Rightarrow> string \<Rightarrow> time \<Rightarrow> Gig" where
  "new_draft c f now = MapGigRowToDomain (new_draft_row c f now) [] [] []"

lemma createGigDraft_run:
  assumes "createGigDraftQuery gid fid e now d = Inr (v, d')"
  obtains c f where "e_uuid_in e gid = Some c" "e_uuid_in e fid = Some f"
    and "find_gig c d = None" "v = Some (new_draft_row c f now)"
      "d' = d\<lparr>t_gigs := t_gigs d @ [new_draft_row c f now]\<rparr>"
  | c f r where "e_uuid_in e gid = Some c" "e_uuid_in e fid = Some f"
    and "find_gig c d = Some r" "v = Some (redraft_row f now r)" "d' = set_gig c (redraft_row f now) d"
  using assms by (auto simp: createGigDraftQuery_def with_uuid_def update_gig_def Let_def
      split: option.splits)

lemma new_draft_row_ID [simp]:
  "grow_ID (new_draft_row c f now) = c" "grow_Status (new_draft_row c f now) = StatusDraft"
  by (simp_all add: new_draft_row_def)

lemma parts_gigs_update [simp]:
  "packages_of g (d\<lparr>t_gigs := rs\<rparr>) = packages_of g d"
  "questions_of g (d\<lparr>t_gigs := rs\<rparr>) = questions_of g d"
  "media_of g (d\<lparr>t_gigs := rs\<rparr>) = media_of g d"
  by (simp_all add: packages_of_def questions_of_def media_of_def)

lemma view_new_row:
  assumes "find_gig c d = None" and "grow_ID r = c"
  shows "view (d\<lparr>t_gigs := t_gigs d @ [r]\<rparr>) c' =
    (if c' = c then Some (MapGigRowToDomain r (packages_of c d) (questions_of c d) (media_of c d))
     else view d c')"
  using assms by (auto simp: view_def find_gig_def find_append packages_of_def questions_of_def
      media_of_def split: option.splits)

lemma createGigDraft_good: "createGigDraftQuery gid fid e now d = Inr (v, d') \<Longrightarrow> good d d'"
  by (erule createGigDraft_run) (auto intro: good_new_row good_row_updates simp: StatusDraft_def StatusPublished_def)

lemma createGigDraft_only_at:
  assumes "createGigDraftQuery gid fid e now d = Inr (v, d')" and "e_uuid_in e gid = Some c"
  shows "only_at c d d'"
  using assms(1)
proof (cases rule: createGigDraft_run)
  case (1 c' f)
  then show ?thesis using assms(2) by (simp add: only_at_def view_new_row)
qed (use assms(2) only_at_set_gig [OF lifts_rows(4)] in auto)

end
