(* ===== verification/OwnerWrites.thy ===== *)
theory OwnerWrites
  imports WriteOutcomes
begin

text \<open>
  What the write use cases of an owner do to the tables: nothing, or one update of the one gig
  they name, which must belong to the caller. \<open>owner_write\<close> says so for an update related to
  the old aggregate by \<open>P\<close>; there is one lemma for each use case.
\<close>

section \<open>Database effect of a sequence\<close>

lemma bindP_same_db_after:
  assumes "\<And>a. steps e same_db (f a)" and "bindP m f e w = (r, w')"
  shows "\<exists>r1 w1. m e w = (r1, w1) \<and> w_db w' = w_db w1"
  using assms(2)
proof (cases rule: bindP_cases)
  case (Ok a v)
  with assms(1) have "same_db v w'" by (blast dest: stepsD)
  with Ok show ?thesis by (auto simp: same_db_def)
qed auto

lemma bindP_same_db_before:
  assumes "steps e same_db m" and "bindP m f e w = (r, w')"
  shows "w_db w' = w_db w \<or> (\<exists>a v. m e w = (Ok a, v) \<and> f a e v = (r, w') \<and> w_db v = w_db w)"
  using assms(2)
proof (cases rule: bindP_cases)
  case (Ok a v)
  with assms(1) have "same_db w v" by (blast dest: stepsD)
  with Ok show ?thesis by (auto simp: same_db_def)
qed (use assms(1) in \<open>auto dest!: stepsD simp: same_db_def\<close>)

lemma with_projections_db:
  "with_projections m e w = (r, w') \<Longrightarrow> \<exists>r1 w1. m e w = (r1, w1) \<and> w_db w' = w_db w1"
  unfolding with_projections_def by (erule bindP_same_db_after [rotated]) (intro frame_intros)

section \<open>The caller's gig\<close>

lemma getOwnedGig_Ok:
  assumes "getOwnedGig gid f e w = (Ok gig, w')"
  shows "e_uuid_in e (TrimSpace gid) = Some (gig_ID gig)" and "view (w_db w) (gig_ID gig) = Some gig"
    and "gig_FreelancerID gig = TrimSpace f" and "TrimSpace f \<noteq> []" and "w_db w' = w_db w"
proof -
  have nonempty: "TrimSpace gid \<noteq> []" "TrimSpace f \<noteq> []"
    using assms by (auto simp: getOwnedGig_def Let_def split: if_splits)
  then obtain g v where get: "repo_GetByID (TrimSpace gid) e w = (Ok g, v)"
    and rest: "(if gig_FreelancerID g \<noteq> TrimSpace f then domP ErrInvalidFreelancerID else retP g) e v =
      (Ok gig, w')"
    using assms by (auto simp: getOwnedGig_def Let_def elim!: bindP_OkE)
  from rest have "g = gig" "v = w'" "gig_FreelancerID gig = TrimSpace f"
    by (auto split: if_splits)
  with repo_GetByID_Ok [OF get] nonempty
  show "e_uuid_in e (TrimSpace gid) = Some (gig_ID gig)" "view (w_db w) (gig_ID gig) = Some gig"
    "gig_FreelancerID gig = TrimSpace f" "TrimSpace f \<noteq> []" "w_db w' = w_db w"
    by simp_all
qed

definition owner_write ::
    "env \<Rightarrow> string \<Rightarrow> string \<Rightarrow> (Gig \<Rightarrow> Gig \<Rightarrow> bool) \<Rightarrow> world \<Rightarrow> world \<Rightarrow> bool" where
  "owner_write e gid f P w w' \<longleftrightarrow>
     w_db w' = w_db w \<or>
     (\<exists>c g F. e_uuid_in e (TrimSpace gid) = Some c \<and> view (w_db w) c = Some g \<and>
        gig_FreelancerID g = TrimSpace f \<and> P g (F g) \<and> updates_at c F (w_db w) (w_db w'))"

lemma updates_at_upd: "updates_at c F d d' \<Longrightarrow> view d c = Some g \<Longrightarrow> view d' = (view d)(c \<mapsto> F g)"
  by (rule ext) (simp add: updates_at_def)

lemma owner_write_upd:
  assumes "owner_write e gid f P w w'"
  shows "w_db w' = w_db w \<or>
    (\<exists>c g g'. e_uuid_in e (TrimSpace gid) = Some c \<and> view (w_db w) c = Some g \<and>
       gig_FreelancerID g = TrimSpace f \<and> P g g' \<and> view (w_db w') = (view (w_db w))(c \<mapsto> g'))"
  using assms updates_at_upd unfolding owner_write_def by blast

lemma owner_write_mono:
  "owner_write e gid f P w w' \<Longrightarrow> (\<And>g g'. P g g' \<Longrightarrow> Q g g') \<Longrightarrow> owner_write e gid f Q w w'"
  unfolding owner_write_def by blast

lemma owner_write_cong: "w_db w1 = w_db w \<Longrightarrow> owner_write e gid f P w1 w' \<Longrightarrow> owner_write e gid f P w w'"
  by (simp add: owner_write_def)

lemma owner_write_kept [simp]: "w_db w' = w_db w \<Longrightarrow> owner_write e gid f P w w'"
  by (simp add: owner_write_def)

text \<open>\<open>owned_by\<close>: the gig a call starts from; \<open>writes\<close>: what a call does that starts from it.\<close>

definition owned_by :: "env \<Rightarrow> string \<Rightarrow> string \<Rightarrow> Gig \<Rightarrow> world \<Rightarrow> bool" where
  "owned_by e gid f gig w \<longleftrightarrow>
     e_uuid_in e (TrimSpace gid) = Some (gig_ID gig) \<and> e_uuid_in e (gig_ID gig) = Some (gig_ID gig) \<and>
     view (w_db w) (gig_ID gig) = Some gig \<and> gig_FreelancerID gig = TrimSpace f"

definition writes ::
    "env \<Rightarrow> string \<Rightarrow> string \<Rightarrow> (Gig \<Rightarrow> Gig \<Rightarrow> bool) \<Rightarrow> Gig \<Rightarrow> 'a prog \<Rightarrow> bool" where
  "writes e gid f P gig m \<longleftrightarrow>
     (\<forall>w r w'. owned_by e gid f gig w \<longrightarrow> m e w = (r, w') \<longrightarrow> owner_write e gid f P w w')"

lemma writesD: "writes e gid f P gig m \<Longrightarrow> owned_by e gid f gig w \<Longrightarrow> m e w = (r, w') \<Longrightarrow> owner_write e gid f P w w'"
  by (simp add: writes_def)

lemma owned_cong: "w_db v = w_db w \<Longrightarrow> owned_by e gid f gig v = owned_by e gid f gig w"
  by (simp add: owned_by_def)

lemma writes_owned:
  assumes "uuid_ok e" and "bindP (getOwnedGig gid f) k e w = (r, w')" and "\<And>gig. writes e gid f P gig (k gig)"
  shows "owner_write e gid f P w w'"
  using bindP_same_db_before [OF owned_frames(1) assms(2)]
proof
  assume "\<exists>a v. getOwnedGig gid f e w = (Ok a, v) \<and> k a e v = (r, w') \<and> w_db v = w_db w"
  then obtain gig v where own: "getOwnedGig gid f e w = (Ok gig, v)" and k: "k gig e v = (r, w')"
    and v: "w_db v = w_db w" by blast
  have "owned_by e gid f gig v"
    using getOwnedGig_Ok [OF own] assms(1) by (auto simp: owned_by_def uuid_ok_def)
  from writesD [OF assms(3) this k] show ?thesis by (rule owner_write_cong [OF v])
qed simp

lemma writes_same_db: "steps e same_db m \<Longrightarrow> writes e gid f P gig m"
  unfolding writes_def by (auto dest!: stepsD simp: same_db_def)

lemma writes_before:
  assumes "steps e same_db m" and "\<And>a w v. m e w = (Ok a, v) \<Longrightarrow> writes e gid f P gig (k a)"
  shows "writes e gid f P gig (bindP m k)"
  unfolding writes_def
proof (intro allI impI)
  fix w r w'
  assume own: "owned_by e gid f gig w" and run: "bindP m k e w = (r, w')"
  from bindP_same_db_before [OF assms(1) run] show "owner_write e gid f P w w'"
  proof
    assume "\<exists>a v. m e w = (Ok a, v) \<and> k a e v = (r, w') \<and> w_db v = w_db w"
    then obtain a v where m: "m e w = (Ok a, v)" and k: "k a e v = (r, w')" and v: "w_db v = w_db w"
      by blast
    from own have "owned_by e gid f gig v" by (simp add: owned_cong [OF v])
    from writesD [OF assms(2) [OF m] this k] show ?thesis by (rule owner_write_cong [OF v])
  qed simp
qed

lemma writes_after:
  assumes "writes e gid f P gig m" and "\<And>a. steps e same_db (k a)"
  shows "writes e gid f P gig (bindP m k)"
  unfolding writes_def
proof (intro allI impI)
  fix w r w'
  assume own: "owned_by e gid f gig w" and run: "bindP m k e w = (r, w')"
  from bindP_same_db_after [OF assms(2) run] obtain r1 w1 where
    "m e w = (r1, w1)" and w': "w_db w' = w_db w1" by blast
  from writesD [OF assms(1) own this(1)] w' show "owner_write e gid f P w w'"
    by (simp add: owner_write_def)
qed

lemma writes_if: "(b \<Longrightarrow> writes e gid f P gig m) \<Longrightarrow> (\<not> b \<Longrightarrow> writes e gid f P gig n) \<Longrightarrow>
    writes e gid f P gig (if b then m else n)"
  by simp

lemma writes_domP: "writes e gid f P gig (domP d)"
  by (simp add: writes_def)

lemma writes_repo:
  assumes "\<And>w r w'. m e w = (r, w') \<Longrightarrow> w_db w' = w_db w \<or>
      (\<exists>c F. e_uuid_in e (gig_ID gig) = Some c \<and> P gig (F gig) \<and> updates_at c F (w_db w) (w_db w'))"
  shows "writes e gid f P gig m"
  unfolding writes_def
proof (intro allI impI)
  fix w r w'
  assume own: "owned_by e gid f gig w" and run: "m e w = (r, w')"
  from assms [OF run] own show "owner_write e gid f P w w'"
    unfolding owned_by_def owner_write_def by fastforce
qed

section \<open>The use cases\<close>

lemma checkP_Ok [simp]: "checkP v e w = (Ok (), w') \<longleftrightarrow> v = None \<and> w' = w"
  by (auto simp: checkP_def split: option.splits)

lemma writes_with_projections: "writes e gid f P gig m \<Longrightarrow> writes e gid f P gig (with_projections m)"
  unfolding with_projections_def by (erule writes_after) (intro frame_intros)

definition stored_basic_info :: "UpdateBasicInfoParams \<Rightarrow> string \<Rightarrow> UpdateBasicInfoParams" where
  "stored_basic_info params slug =
     \<lparr>ubi_Title = TrimSpace (ubi_Title params), ubi_Slug = slug,
      ubi_ShortInfo = TrimSpace (ubi_ShortInfo params),
      ubi_Description = TrimSpace (ubi_Description params),
      ubi_CategoryID = ubi_CategoryID params, ubi_Currency = TrimSpace (ubi_Currency params)\<rparr>"

definition basic_info_step :: "UpdateBasicInfoParams \<Rightarrow> Gig \<Rightarrow> Gig \<Rightarrow> bool" where
  "basic_info_step params g g' \<longleftrightarrow> validateBasicInfo params = None \<and>
     (\<exists>now slug. g' = basic_info_gig (stored_basic_info params slug) now g)"

lemma UpdateBasicInfo_write:
  assumes "uuid_ok e" and "UpdateBasicInfo gid f params e w = (r, w')"
  shows "owner_write e gid f (basic_info_step params) w w'"
proof (rule writes_owned [OF assms(1) assms(2) [unfolded UpdateBasicInfo_def stored_basic_info_def [symmetric]]])
  show "writes e gid f (basic_info_step params) gig (bindP (checkP (validateBasicInfo params)) (\<lambda>_.
      bindP (askP (\<lambda>e. Generate e (TrimSpace (ubi_Title params)) (gig_ID gig))) (\<lambda>slug.
      if slug = [] then domP ErrInvalidTitle
      else with_projections (repo_UpdateBasicInfo (gig_ID gig) (stored_basic_info params slug)))))" for gig
    by (intro writes_before writes_if writes_domP writes_with_projections writes_repo frame_intros)
      (auto simp: basic_info_step_def dest!: repo_UpdateBasicInfo_outcome)
qed

definition packages_step :: "bool \<Rightarrow> GigPackage list \<Rightarrow> Gig \<Rightarrow> Gig \<Rightarrow> bool" where
  "packages_step recovery packages g g' \<longleftrightarrow>
     (\<exists>ps now. normalizePackages recovery 1 packages = Ok ps \<and> validatePackages ps = None \<and>
        (\<exists>rows. list_all2 package_row ps rows \<and> g' = packages_gig (map package_of_row rows) now g))"

lemma ReplacePackages_write:
  assumes "uuid_ok e" and "ReplacePackages recovery gid f packages e w = (r, w')"
  shows "owner_write e gid f (packages_step recovery packages) w w'"
proof (rule writes_owned [OF assms(1) assms(2) [unfolded ReplacePackages_def]])
  have repo: "writes e gid f (packages_step recovery packages) gig (repo_ReplacePackages (gig_ID gig) ps)"
    if n: "normalizePackages recovery 1 packages = Ok ps" and v: "validatePackages ps = None" for gig ps
  proof (rule writes_repo)
    fix v r v'
    assume run: "repo_ReplacePackages (gig_ID gig) ps e v = (r, v')"
    have len: "int (length ps) < 2 ^ 31" using validatePackages_length [OF v] by auto
    from repo_ReplacePackages_updates [OF run len] n \<open>validatePackages ps = None\<close>
    show "w_db v' = w_db v \<or> (\<exists>c F. e_uuid_in e (gig_ID gig) = Some c \<and>
        packages_step recovery packages gig (F gig) \<and> updates_at c F (w_db v) (w_db v'))"
      unfolding packages_step_def using packages.rows_for_carries by blast
  qed
  show "writes e gid f (packages_step recovery packages) gig (bindP (liftP (normalizePackages recovery 1 packages))
      (\<lambda>normalized. bindP (checkP (validatePackages normalized)) (\<lambda>_.
      with_projections (repo_ReplacePackages (gig_ID gig) normalized))))" for gig
    by (intro writes_before writes_with_projections repo frame_intros) auto
qed

definition questions_step :: "bool \<Rightarrow> GigQuestion list \<Rightarrow> Gig \<Rightarrow> Gig \<Rightarrow> bool" where
  "questions_step recovery questions g g' \<longleftrightarrow> validateQuestions recovery questions = None \<and>
     (\<exists>qs now. g' = questions_gig qs now g \<and>
        (int (length questions) < 2 ^ 31 \<longrightarrow> map que_Content qs = map que_Content questions))"

lemma question_rows_content:
  "list_all2 question_row qs rows \<Longrightarrow> map que_Content (map question_of_row rows) = map que_Content qs"
  by (induction rule: list_all2_induct) (auto simp: question_row_def question_of_row_def)

lemma ReplaceQuestions_write:
  assumes "uuid_ok e" and "ReplaceQuestions recovery gid f questions e w = (r, w')"
  shows "owner_write e gid f (questions_step recovery questions) w w'"
proof (rule writes_owned [OF assms(1) assms(2) [unfolded ReplaceQuestions_def]])
  have repo: "writes e gid f (questions_step recovery questions) gig (repo_ReplaceQuestions (gig_ID gig) questions)"
    if "validateQuestions recovery questions = None" for gig
  proof (rule writes_repo)
    fix v r v'
    assume run: "repo_ReplaceQuestions (gig_ID gig) questions e v = (r, v')"
    from repo_ReplaceQuestions_updates [OF run] that question_rows_content [OF questions.rows_for_carries]
    show "w_db v' = w_db v \<or> (\<exists>c F. e_uuid_in e (gig_ID gig) = Some c \<and>
        questions_step recovery questions gig (F gig) \<and> updates_at c F (w_db v) (w_db v'))"
      unfolding questions_step_def by blast
  qed
  show "writes e gid f (questions_step recovery questions) gig
      (bindP (checkP (validateQuestions recovery questions)) (\<lambda>_.
       with_projections (repo_ReplaceQuestions (gig_ID gig) questions)))" for gig
    by (intro writes_before writes_with_projections repo frame_intros) auto
qed

definition media_step :: "MediaUpload list \<Rightarrow> Gig \<Rightarrow> Gig \<Rightarrow> bool" where
  "media_step files g g' \<longleftrightarrow> validateMediaUploads files = None \<and>
     (\<exists>picture ms now. g' = media_gig picture ms now g)"

lemma ReplaceMedia_write:
  assumes "uuid_ok e" and "ReplaceMedia gid f files e w = (r, w')"
  shows "owner_write e gid f (media_step files) w w'"
proof (rule writes_owned [OF assms(1) assms(2) [unfolded ReplaceMedia_def]])
  have repo: "writes e gid f (media_step files) gig (attemptP (repo_ReplaceMedia (gig_ID gig) mp))"
    if valid: "validateMediaUploads files = None" for gig mp
  proof (rule writes_repo)
    fix v r v'
    assume "attemptP (repo_ReplaceMedia (gig_ID gig) mp) e v = (r, v')"
    then obtain r1 where "repo_ReplaceMedia (gig_ID gig) mp e v = (r1, v')"
      by (auto simp: attemptP_def split: prod.splits res.splits)
    from repo_ReplaceMedia_updates [OF this] valid
    show "w_db v' = w_db v \<or> (\<exists>c F. e_uuid_in e (gig_ID gig) = Some c \<and>
        media_step files gig (F gig) \<and> updates_at c F (w_db v) (w_db v'))"
      unfolding media_step_def by blast
  qed
  show "writes e gid f (media_step files) gig
      (bindP (checkP (validateMediaUploads files)) (\<lambda>_.
       bindP (UploadFiles (gig_FreelancerID gig) (gigMediaPrefix (gig_ID gig)) files) (\<lambda>fileIDs.
       if length fileIDs = 0 \<or> length fileIDs \<noteq> length files then domP ErrInvalidMediaUpload
       else
         bindP (attemptP (repo_ReplaceMedia (gig_ID gig)
                  \<lparr>rmp_PictureFileID = hd fileIDs, rmp_Media = buildGigMedia (gig_ID gig) (tl fileIDs)\<rparr>)) (\<lambda>saved.
         case saved of
           Inl err \<Rightarrow> bindP (compensateUploadedFiles fileIDs) (\<lambda>_. failP err)
         | Inr gig \<Rightarrow> with_projections (retP gig)))))" for gig
    unfolding with_projections_def
    by (intro writes_before writes_if writes_domP writes_after [OF repo] frame_intros) auto
qed

text \<open>Publication: the status, and then perhaps the username of the seller.\<close>

definition publish_step :: "Gig \<Rightarrow> Gig \<Rightarrow> bool" where
  "publish_step g g' \<longleftrightarrow> validatePublishReady g = None \<and>
     (\<exists>now. g' = published_gig now g \<or> (\<exists>u now'. g' = seller_gig u now' (published_gig now g)))"

definition publishRows :: "string \<Rightarrow> Gig \<Rightarrow> Gig prog" where
  "publishRows username owned =
     bindP (repo_Publish (gig_ID owned)) (\<lambda>published.
     if TrimSpace username \<noteq> [] \<and> TrimSpace (gig_SellerUsername published) = []
     then repo_UpdateSellerUsername (gig_ID published) (TrimSpace username)
     else retP published)"

lemma bindP_assoc: "bindP (bindP m f) k = bindP m (\<lambda>a. bindP (f a) k)"
  by (auto simp: fun_eq_iff bindP_def split: prod.splits res.splits)

lemma updates_at_comp: "updates_at c F d d1 \<Longrightarrow> updates_at c G d1 d' \<Longrightarrow> updates_at c (\<lambda>g. G (F g)) d d'"
  by (simp add: updates_at_def option.map_comp o_def)

lemma repo_Publish_Ok:
  assumes "repo_Publish gid e w = (Ok g, w')" and "e_uuid_in e gid = Some gid"
  obtains now g0 where "view (w_db w) gid = Some g0" and "g = published_gig now g0" and "gig_ID g = gid"
    and "updates_at gid (published_gig now) (w_db w) (w_db w')"
proof -
  obtain c now g0 where "e_uuid_in e gid = Some c" and "view (w_db w) c = Some g0"
    and g: "g = published_gig now g0" and "view (w_db w') = (view (w_db w))(c \<mapsto> g)"
    by (rule updateRow_Ok [OF row_updates(3) lifts_rows(3) assms(1) [unfolded updateRow_methods]])
  then have v: "view (w_db w) gid = Some g0" and v': "view (w_db w') = (view (w_db w))(gid \<mapsto> g)"
    using assms(2) by auto
  have "gig_ID g = gig_ID g0" using g by (simp add: published_gig_def)
  also have "\<dots> = gid" using v by (rule view_ID)
  finally show ?thesis using that v g v' by (auto simp: updates_at_def)
qed

lemma publishRows_writes:
  assumes ready: "validatePublishReady gig = None"
  shows "writes e gid f publish_step gig (publishRows username gig)"
  unfolding writes_def
proof (intro allI impI)
  fix w r w'
  assume own: "owned_by e gid f gig w" and run: "publishRows username gig e w = (r, w')"
  have id: "e_uuid_in e (gig_ID gig) = Some (gig_ID gig)" using own by (simp add: owned_by_def)
  have "w_db w' = w_db w \<or> (\<exists>F. publish_step gig (F gig) \<and> updates_at (gig_ID gig) F (w_db w) (w_db w'))"
    using run unfolding publishRows_def
  proof (cases rule: bindP_cases)
    case (Ok p v)
    from repo_Publish_Ok [OF Ok(1) id] obtain now where pid: "gig_ID p = gig_ID gig"
      and up: "updates_at (gig_ID gig) (published_gig now) (w_db w) (w_db v)" by blast
    have plain: "publish_step gig (published_gig now gig)" and named: "publish_step gig (seller_gig u n (published_gig now gig))" for u n
      using ready by (auto simp: publish_step_def)
    show ?thesis
    proof (cases "w_db w' = w_db v")
      case True
      with up plain show ?thesis by auto
    next
      case False
      with Ok(2) have "repo_UpdateSellerUsername (gig_ID p) (TrimSpace username) e v = (r, w')"
        by (auto split: if_splits)
      from repo_UpdateSellerUsername_outcome [OF this] False id pid obtain n where
        "updates_at (gig_ID gig) (seller_gig (TrimSpace username) n) (w_db v) (w_db w')" by auto
      from updates_at_comp [OF up this] named show ?thesis
        by (intro disjI2 exI [of _ "\<lambda>g. seller_gig (TrimSpace username) n (published_gig now g)"]) simp
    qed
  next
    case (Err x)
    from repo_Publish_outcome [OF Err(1)] id ready show ?thesis
      by (auto simp: publish_step_def)
  next
    case Panic
    from repo_Publish_outcome [OF Panic(1)] id ready show ?thesis
      by (auto simp: publish_step_def)
  qed
  with own show "owner_write e gid f publish_step w w'"
    unfolding owner_write_def owned_by_def by blast
qed

lemma Publish_split:
  "Publish recovery gid f username =
     bindP (getOwnedGig gid f) (\<lambda>owned.
     bindP (checkP (validatePublishReady owned)) (\<lambda>_.
     bindP (checkOnboarding recovery (gig_FreelancerID owned)) (\<lambda>_.
     bindP (publishRows username owned) (\<lambda>gig.
     bindP (liftP (ToPublishedPayload gig)) (\<lambda>payload0.
     bindP realtimeNew (\<lambda>ids.
     bindP (liftP (with_ids payload0 ids)) (\<lambda>payload.
     bindP (publishP gigPublishedSubject payload) (\<lambda>_.
     bindP (ignoreP (PublishGigNotification (Some gig) ''gig.published'' (Some payload))) (\<lambda>_.
     bindP (publishPostWriteProjections gig) (\<lambda>_.
     retP gig))))))))))"
  unfolding Publish_def publishRows_def bindP_assoc ..

lemma Publish_write:
  assumes "uuid_ok e" and "Publish recovery gid f username e w = (r, w')"
  shows "owner_write e gid f publish_step w w'"
  by (rule writes_owned [OF assms(1) assms(2) [unfolded Publish_split]])
    (intro writes_before writes_after [OF publishRows_writes] frame_intros; simp)

end
