(* ===== verification/ServiceInvariant.thy ===== *)
theory ServiceInvariant
  imports OwnerWrites
begin

text \<open>
  The service as a system. \<open>request\<close> has one constructor for each method of the service
  interface (\<open>internal/domain/ports.go\<close>), \<open>serve\<close> runs it. \<open>reachable\<close> is the closure of an
  empty database under requests, with the publication of a gig split into its two phases, so
  that any number of other requests may come between the check and the commit. Two invariants:
  published gigs are complete, and a gig changes only by requests of its owner.
\<close>

section \<open>Requests\<close>

datatype request =
    ReqCreateDraft bool string
  | ReqCreateDraftWithID bool string string
  | ReqUpdateBasicInfo string string UpdateBasicInfoParams
  | ReqReplacePackages bool string string "GigPackage list"
  | ReqReplaceQuestions bool string string "GigQuestion list"
  | ReqReplaceMedia string string "MediaUpload list"
  | ReqPublish bool string string string
  | ReqGetByID string string
  | ReqGetPublicByID string
  | ReqGetOrderStartSnapshot string string
  | ReqGetMyGigs bool ListMyGigsQuery
  | ReqGetPreviewGigs bool ListPreviewGigsQuery
  | ReqProject "Gig option"
  | ReqUpsertPreviewGig bool "Gig option"
  | ReqAppendPreviewGig bool "Gig option"
  | ReqRefreshPreviewRating bool string
  | ReqRefreshPreviewOrderCount bool string
  | ReqRebuildPopularitySnapshots "Gig list"

definition doneP :: "'a prog \<Rightarrow> unit prog" where
  "doneP m = bindP m (\<lambda>_. retP ())"

fun serve :: "request \<Rightarrow> unit prog" where
  "serve (ReqCreateDraft rec f) = doneP (CreateDraft rec f)"
| "serve (ReqCreateDraftWithID rec gid f) = doneP (CreateDraftWithID rec gid f)"
| "serve (ReqUpdateBasicInfo gid f p) = doneP (UpdateBasicInfo gid f p)"
| "serve (ReqReplacePackages rec gid f ps) = doneP (ReplacePackages rec gid f ps)"
| "serve (ReqReplaceQuestions rec gid f qs) = doneP (ReplaceQuestions rec gid f qs)"
| "serve (ReqReplaceMedia gid f fs) = doneP (ReplaceMedia gid f fs)"
| "serve (ReqPublish rec gid f u) = doneP (Publish rec gid f u)"
| "serve (ReqGetByID gid f) = doneP (GetByID gid f)"
| "serve (ReqGetPublicByID gid) = doneP (GetPublicByID gid)"
| "serve (ReqGetOrderStartSnapshot gid p) = doneP (GetOrderStartSnapshot gid p)"
| "serve (ReqGetMyGigs rec q) = doneP (GetMyGigs rec q)"
| "serve (ReqGetPreviewGigs rec q) = doneP (GetPreviewGigsByFreelancerUsername rec q)"
| "serve (ReqProject g) = doneP (Project g)"
| "serve (ReqUpsertPreviewGig rec g) = doneP (UpsertPreviewGig rec g)"
| "serve (ReqAppendPreviewGig rec g) = doneP (AppendPreviewGig rec g)"
| "serve (ReqRefreshPreviewRating rec gid) = doneP (RefreshPreviewRating rec gid)"
| "serve (ReqRefreshPreviewOrderCount rec gid) = doneP (RefreshPreviewOrderCount rec gid)"
| "serve (ReqRebuildPopularitySnapshots gs) = doneP (RebuildPopularitySnapshots gs)"

text \<open>Publication in two phases: what is checked, and what is then done with the gig read.\<close>

definition publish_check :: "bool \<Rightarrow> string \<Rightarrow> string \<Rightarrow> Gig prog" where
  "publish_check recovery gid f =
     bindP (getOwnedGig gid f) (\<lambda>gig.
     bindP (checkP (validatePublishReady gig)) (\<lambda>_.
     bindP (checkOnboarding recovery (gig_FreelancerID gig)) (\<lambda>_. retP gig)))"

text \<open>The events of a publication.\<close>

definition publish_events :: "Gig \<Rightarrow> Gig prog" where
  "publish_events gig =
     bindP (liftP (ToPublishedPayload gig)) (\<lambda>payload0.
     bindP realtimeNew (\<lambda>ids.
     bindP (liftP (with_ids payload0 ids)) (\<lambda>payload.
     bindP (publishP gigPublishedSubject payload) (\<lambda>_.
     bindP (ignoreP (PublishGigNotification (Some gig) ''gig.published'' (Some payload))) (\<lambda>_.
     bindP (publishPostWriteProjections gig) (\<lambda>_.
     retP gig))))))"

definition publish_commit :: "string \<Rightarrow> Gig \<Rightarrow> Gig prog" where
  "publish_commit username gig = bindP (publishRows username gig) publish_events"

lemma publish_events_frames [frame_intros]: "steps e same_db (publish_events gig)"
  unfolding publish_events_def by (intro frame_intros)

lemma Publish_phases:
  "Publish recovery gid f username = bindP (publish_check recovery gid f) (publish_commit username)"
  unfolding Publish_split publish_check_def bindP_assoc bindP_simps publish_commit_def
    publish_events_def ..

lemma publish_check_Ok:
  assumes "publish_check recovery gid f e w = (Ok gig, w')"
  shows "e_uuid_in e (TrimSpace gid) = Some (gig_ID gig)" and "view (w_db w) (gig_ID gig) = Some gig"
    and "gig_FreelancerID gig = TrimSpace f" and "validatePublishReady gig = None"
    and "w_db w' = w_db w"
    and "\<exists>v v'. checkOnboarding recovery (gig_FreelancerID gig) e v = (Ok (), v')"
proof -
  from assms obtain v v' where own: "getOwnedGig gid f e w = (Ok gig, v)"
    and ready: "validatePublishReady gig = None"
    and onb: "checkOnboarding recovery (gig_FreelancerID gig) e v = (Ok (), v')" and w': "w' = v'"
    unfolding publish_check_def by (auto elim!: bindP_OkE)
  have "same_db v v'" using onboarding_frames(1) onb by (rule stepsD)
  with getOwnedGig_Ok [OF own] ready w' onb show "e_uuid_in e (TrimSpace gid) = Some (gig_ID gig)"
    "view (w_db w) (gig_ID gig) = Some gig" "gig_FreelancerID gig = TrimSpace f"
    "validatePublishReady gig = None" "w_db w' = w_db w"
    "\<exists>v v'. checkOnboarding recovery (gig_FreelancerID gig) e v = (Ok (), v')"
    by (auto simp: same_db_def)
qed

lemma publish_check_frames [frame_intros]: "steps e same_db (publish_check recovery gid f)"
  unfolding publish_check_def by (intro frame_intros)

section \<open>Completeness of published gigs\<close>

lemma validatePublishReady_ready: "validatePublishReady g = None \<Longrightarrow> gig_ready g"
  by (auto simp: validatePublishReady_def gig_ready_def split: if_splits)

lemma repo_good:
  "good d d' \<Longrightarrow> w_db w = d \<Longrightarrow> w_db w' = d' \<Longrightarrow> db_rel good w w'"
  by (simp add: db_rel_def)

lemma good_refl [simp]: "good d d"
  using good_preorder(1) by (simp add: reflpD)

lemma seller_good: "updates_at c (seller_gig u now) d d' \<Longrightarrow> good d d'"
  by (erule updates_at_good) (auto simp: gig_ready_def seller_gig_def)

text \<open>A write of the owner is good if the step it makes keeps readiness.\<close>

definition good_step :: "(Gig \<Rightarrow> Gig \<Rightarrow> bool) \<Rightarrow> bool" where
  "good_step P \<longleftrightarrow> (\<forall>g g'. P g g' \<longrightarrow>
     (gig_ready g \<longrightarrow> gig_ready g') \<and>
     (gig_Status g' = StatusPublished \<longrightarrow> gig_Status g = StatusPublished \<or> gig_ready g'))"

lemma owner_write_good:
  assumes "good_step P" and "owner_write e gid f P w w'"
  shows "db_rel good w w'"
  using assms(2) unfolding owner_write_def db_rel_def
proof (elim disjE exE conjE)
  fix c g F
  assume "view (w_db w) c = Some g" and "P g (F g)" and up: "updates_at c F (w_db w) (w_db w')"
  then have "\<And>c'. view (w_db w') c' =
      (if c' = c then map_option (\<lambda>_. F g) (view (w_db w) c) else view (w_db w) c')"
    by (simp add: updates_at_def)
  then show "good (w_db w) (w_db w')"
    by (rule good_update) (use assms(1) \<open>P g (F g)\<close> \<open>view (w_db w) c = Some g\<close> in
        \<open>auto simp: good_step_def\<close>)
qed simp

lemma good_steps:
  "good_step (basic_info_step params)" "good_step (packages_step recovery packages)"
  "good_step (questions_step recovery questions)" "good_step (media_step files)" "good_step publish_step"
proof -
  show "good_step (basic_info_step params)"
    by (auto simp: good_step_def basic_info_step_def basic_info_gig_def gig_ready_def)
  show "good_step (packages_step recovery packages)"
    using validatePackages_rows
    by (auto simp: good_step_def packages_step_def packages_gig_def gig_ready_def)
  show "good_step (questions_step recovery questions)"
    by (auto simp: good_step_def questions_step_def questions_gig_def gig_ready_def)
  show "good_step (media_step files)"
    by (auto simp: good_step_def media_step_def media_gig_def gig_ready_def)
  show "good_step publish_step"
    by (auto simp: good_step_def publish_step_def published_gig_def seller_gig_def gig_ready_def
        dest!: validatePublishReady_ready)
qed

lemmas owner_cases_good = owner_write_good [OF good_steps(1) UpdateBasicInfo_write]
  owner_write_good [OF good_steps(2) ReplacePackages_write]
  owner_write_good [OF good_steps(3) ReplaceQuestions_write]
  owner_write_good [OF good_steps(4) ReplaceMedia_write]
  owner_write_good [OF good_steps(5) Publish_write]

lemma steps_runI: "(\<And>w r w'. m e w = (r, w') \<Longrightarrow> R w w') \<Longrightarrow> steps e R m"
  by (rule stepsI) (metis prod.collapse)

lemma createDraft_good: "steps e (db_rel good) (createDraft recovery gid f)"
  unfolding createDraft_def repo_CreateDraft_def Let_def
  by (intro good.steps_rules good.tick_rules rowP_db_rel good_preorder same_db_good [OF load_frames(1)]
      same_db_good [OF event_frames(4)] same_db_good [OF event_frames(14)]; erule createGigDraft_good)

lemma GetOrderStartSnapshot_good: "steps e (db_rel good) (GetOrderStartSnapshot gid pid)"
proof -
  have upd: "steps e (db_rel good) (repo_UpdateSellerUsername g u)" for g u
    by (rule steps_runI) (auto dest!: repo_UpdateSellerUsername_outcome simp: db_rel_def dest: seller_good)
  have cached: "steps e same_db (cached_username g)" for g
    unfolding cached_username_def by (intro frame_intros)
  show ?thesis
    unfolding GetOrderStartSnapshot_def Let_def
    by (intro good.steps_rules upd same_db_good [OF cached] same_db_good [OF read_frames(1)])
qed

lemma serve_good:
  assumes "uuid_ok e"
  shows "steps e (db_rel good) (serve r)"
proof -
  have lift: "steps e (db_rel good) (doneP m)" if "steps e (db_rel good) m" for m :: "'z prog"
    unfolding doneP_def by (intro good.steps_rules that)
  show ?thesis
    by (cases r; simp only: serve.simps; rule lift)
      (auto simp: CreateDraft_def CreateDraftWithID_def GetByID_def
        intro: steps_runI owner_cases_good [OF assms] createDraft_good GetOrderStartSnapshot_good
          same_db_good frame_intros)
qed

section \<open>Reachable states\<close>

definition empty_db :: db where
  "empty_db = \<lparr>t_gigs = [], t_packages = [], t_questions = [], t_media = []\<rparr>"

inductive reachable :: "env \<Rightarrow> world \<Rightarrow> Gig list \<Rightarrow> bool" for e where
  start: "w_db w = empty_db \<Longrightarrow> reachable e w []"
| request: "reachable e w checked \<Longrightarrow> reachable e (snd (serve r e w)) checked"
| check: "reachable e w checked \<Longrightarrow> publish_check recovery gid f e w = (Ok gig, w') \<Longrightarrow>
    reachable e w' (gig # checked)"
| commit: "reachable e w checked \<Longrightarrow> gig \<in> set checked \<Longrightarrow>
    reachable e (snd (publish_commit username gig e w)) (remove1 gig checked)"

lemma publish_commit_good:
  assumes id: "e_uuid_in e (gig_ID gig) = Some (gig_ID gig)"
    and ready: "view (w_db w) (gig_ID gig) = Some g" "gig_ready g"
  shows "good (w_db w) (w_db (snd (publish_commit username gig e w)))"
proof -
  have rows: "good (w_db w) (w_db w1)" if "publishRows username gig e w = (r, w1)" for r w1
    using that unfolding publishRows_def
  proof (rule bindP_cases)
    have publish: "good (w_db w) (w_db v)" if "repo_Publish (gig_ID gig) e w = (s, v)" for s v
      using repo_Publish_outcome [OF that] id ready
      by (auto elim!: updates_at_good simp: gig_ready_def published_gig_def)
    then show "good (w_db w) (w_db w1)" if "repo_Publish (gig_ID gig) e w = (Err x, w1)" for x
      using that .
    show "good (w_db w) (w_db w1)" if "repo_Publish (gig_ID gig) e w = (Panic, w1)"
      using publish that .
    fix p v
    assume p: "repo_Publish (gig_ID gig) e w = (Ok p, v)"
      and rest: "(if TrimSpace username \<noteq> [] \<and> TrimSpace (gig_SellerUsername p) = []
          then repo_UpdateSellerUsername (gig_ID p) (TrimSpace username) else retP p) e v = (r, w1)"
    have "good (w_db v) (w_db w1)"
      using rest by (auto split: if_splits dest!: repo_UpdateSellerUsername_outcome dest: seller_good)
    with publish [OF p] show "good (w_db w) (w_db w1)" using good_preorder(2) by (blast dest: transpD)
  qed
  obtain r w' where run: "publish_commit username gig e w = (r, w')"
    by (cases "publish_commit username gig e w")
  have "\<exists>r1 w1. publishRows username gig e w = (r1, w1) \<and> w_db w' = w_db w1"
    using run unfolding publish_commit_def by (rule bindP_same_db_after [rotated]) (intro frame_intros)
  with rows run show ?thesis by auto
qed

text \<open>What is checked stays true until the commit, whatever comes between.\<close>

definition checked_ready :: "env \<Rightarrow> world \<Rightarrow> Gig list \<Rightarrow> bool" where
  "checked_ready e w checked \<longleftrightarrow> (\<forall>gig \<in> set checked.
     e_uuid_in e (gig_ID gig) = Some (gig_ID gig) \<and>
     (\<exists>g. view (w_db w) (gig_ID gig) = Some g \<and> gig_ready g))"

lemma checked_ready_good:
  "checked_ready e w checked \<Longrightarrow> good (w_db w) (w_db w') \<Longrightarrow> checked_ready e w' checked"
  unfolding checked_ready_def good_def by blast

lemma reachable_inv:
  assumes "uuid_ok e" and "reachable e w checked"
  shows "published_ready (w_db w) \<and> checked_ready e w checked"
  using assms(2)
proof (induction rule: reachable.induct)
  case (start w)
  then show ?case by (simp add: published_ready_def checked_ready_def empty_db_def)
next
  case (request w checked r)
  have "good (w_db w) (w_db (snd (serve r e w)))"
    using serve_good [OF assms(1)] by (simp add: steps_def db_rel_def)
  with request.IH show ?case using checked_ready_good by (blast dest: good_def [THEN iffD1])
next
  case (check w checked recovery gid f gig w')
  note ok = publish_check_Ok [OF check.hyps(2)]
  then have "checked_ready e w' [gig]"
    using assms(1) by (auto simp: checked_ready_def uuid_ok_def dest: validatePublishReady_ready)
  with check.IH ok(5) show ?case by (auto simp: checked_ready_def)
next
  case (commit w checked gig username)
  then obtain g where "e_uuid_in e (gig_ID gig) = Some (gig_ID gig)"
    and "view (w_db w) (gig_ID gig) = Some g" "gig_ready g"
    by (auto simp: checked_ready_def)
  note good = publish_commit_good [OF this]
  have "checked_ready e w (remove1 gig checked)"
    using commit.IH set_remove1_subset [of gig checked] by (auto simp: checked_ready_def)
  with commit.IH show ?case
    using checked_ready_good [OF _ good] good by (blast dest: good_def [THEN iffD1])
qed

section \<open>What a request can change\<close>

text \<open>The requests that act for the owner of a gig, and whose the gig must be.\<close>

fun acting :: "request \<Rightarrow> (string \<times> string) option" where
  "acting (ReqUpdateBasicInfo gid f p) = Some (gid, f)"
| "acting (ReqReplacePackages rec gid f ps) = Some (gid, f)"
| "acting (ReqReplaceQuestions rec gid f qs) = Some (gid, f)"
| "acting (ReqReplaceMedia gid f fs) = Some (gid, f)"
| "acting (ReqPublish rec gid f u) = Some (gid, f)"
| "acting (ReqGetByID gid f) = Some (gid, f)"
| "acting r = None"

fun creates :: "request \<Rightarrow> bool" where
  "creates (ReqCreateDraft rec f) = True"
| "creates (ReqCreateDraftWithID rec gid f) = True"
| "creates r = False"

text \<open>What no request of an owner changes: identity, owner and creation; and what only grows.\<close>

definition keeps_identity :: "Gig \<Rightarrow> Gig \<Rightarrow> bool" where
  "keeps_identity g g' \<longleftrightarrow>
     gig_ID g' = gig_ID g \<and> gig_FreelancerID g' = gig_FreelancerID g \<and>
     gig_CreatedAt g' = gig_CreatedAt g \<and>
     (gig_Status g = StatusPublished \<longrightarrow> gig_Status g' = StatusPublished \<and> gig_PublishedAt g' = gig_PublishedAt g) \<and>
     (gig_BasicInfoCompleted g \<longrightarrow> gig_BasicInfoCompleted g') \<and>
     (gig_PackagesCompleted g \<longrightarrow> gig_PackagesCompleted g') \<and>
     (gig_RequirementsCompleted g \<longrightarrow> gig_RequirementsCompleted g') \<and>
     (gig_MediaCompleted g \<longrightarrow> gig_MediaCompleted g')"

lemma keeps_identity_refl [simp]: "keeps_identity g g"
  by (simp add: keeps_identity_def)

lemma step_keeps_identity:
  "basic_info_step params g g' \<Longrightarrow> keeps_identity g g'"
  "packages_step recovery packages g g' \<Longrightarrow> keeps_identity g g'"
  "questions_step recovery questions g g' \<Longrightarrow> keeps_identity g g'"
  "media_step files g g' \<Longrightarrow> keeps_identity g g'"
  "publish_step g g' \<Longrightarrow> keeps_identity g g'"
proof -
  show "keeps_identity g g'" if "publish_step g g'"
  proof -
    have "gig_Status g \<noteq> StatusPublished"
      using that by (auto simp: publish_step_def validatePublishReady_def StatusDraft_def
          StatusPublished_def split: if_splits)
    with that show ?thesis
      by (auto simp: publish_step_def keeps_identity_def published_gig_def seller_gig_def)
  qed
qed (auto simp: keeps_identity_def basic_info_step_def basic_info_gig_def packages_step_def
    packages_gig_def questions_step_def questions_gig_def media_step_def media_gig_def)

lemma doneP_run: "doneP m e w = (r, w') \<Longrightarrow> \<exists>r1. m e w = (r1, w')"
  unfolding doneP_def by (auto elim: bindP_cases)

lemma acting_write:
  assumes "uuid_ok e" and "acting r = Some (gid, f)" and "serve r e w = (x, w')"
  shows "owner_write e gid f keeps_identity w w'"
  using assms(2,3)
  by (cases r)
    (auto dest!: doneP_run simp: GetByID_def
      intro: owner_write_mono [OF UpdateBasicInfo_write [OF assms(1)] step_keeps_identity(1)]
        owner_write_mono [OF ReplacePackages_write [OF assms(1)] step_keeps_identity(2)]
        owner_write_mono [OF ReplaceQuestions_write [OF assms(1)] step_keeps_identity(3)]
        owner_write_mono [OF ReplaceMedia_write [OF assms(1)] step_keeps_identity(4)]
        owner_write_mono [OF Publish_write [OF assms(1)] step_keeps_identity(5)]
        owner_write_kept stepsD [OF owned_frames(1), THEN same_db_def [THEN iffD1], THEN conjunct1])

lemma other_requests:
  assumes "acting r = None" and "\<not> creates r" and "serve r e w = (x, w')"
    and "\<And>gid pid. r \<noteq> ReqGetOrderStartSnapshot gid pid"
  shows "w_db w' = w_db w"
proof -
  have "steps e same_db (serve r)"
  proof -
    have lift: "steps e same_db (doneP m)" if "steps e same_db m" for m :: "'z prog"
      unfolding doneP_def by (intro frame_intros that)
    show ?thesis
      using assms(1,2,4) by (cases r; simp; intro lift frame_intros)
  qed
  with assms(3) show ?thesis by (auto dest!: stepsD simp: same_db_def)
qed

end
