(* ===== verification/ServiceResults.thy ===== *)
theory ServiceResults
  imports ServiceInvariant
begin

text \<open>
  The results of the write use cases that succeed: the aggregate returned, the tables it is read
  from, and the messages sent about it, decoded.
\<close>

section \<open>Messages\<close>

lemma publishP_Ok:
  "publishP s p e w = (Ok u, w') \<Longrightarrow> w_log w' = w_log w @ [(s, p)] \<and> w_db w' = w_db w"
  by (auto simp: publishP_def remoteP_def Let_def split: outcome.splits)

definition notifications :: "(string \<times> bytes) list \<Rightarrow> bool" where
  "notifications ms \<longleftrightarrow> length ms \<le> 1 \<and> list_all (\<lambda>m. fst m = realtimeSubject) ms"

lemma publishP_log:
  "publishP s p e w = (r, w') \<Longrightarrow> w_log w' = w_log w \<or> w_log w' = w_log w @ [(s, p)]"
  by (auto simp: publishP_def remoteP_def Let_def split: outcome.splits)

lemma notify_log:
  assumes "PublishGigNotificationOutcome g a b c d f s p e w = (r, w')"
  shows "\<exists>ms. w_log w' = w_log w @ ms \<and> notifications ms"
  using assms unfolding PublishGigNotificationOutcome_def
  by (cases g)
    (auto simp: bindP_def nowP_def notifications_def failP_def
      split: option.splits dest!: publishP_log)

lemma notify_ignored:
  assumes "ignoreP m e w = (r, w')" and "\<And>r v. m e w = (r, v) \<Longrightarrow> \<exists>ms. w_log v = w_log w @ ms \<and> notifications ms"
  shows "\<exists>ms. w_log w' = w_log w @ ms \<and> notifications ms"
  using assms by (auto simp: ignoreP_def bindP_def attemptP_def split: prod.splits res.splits)

text \<open>A payload of an event that tells of gig \<open>g\<close> under the identifiers of one operation.\<close>

definition tells :: "Gig \<Rightarrow> string \<times> string \<times> string \<Rightarrow> bytes \<Rightarrow> bool" where
  "tells g ids payload \<longleftrightarrow>
     (\<exists>ev. unmarshal_published payload = Ok ev \<and> pe_EventID ev = fst ids \<and>
        pe_OperationID ev = fst (snd ids) \<and> pe_CorrelationID ev = snd (snd ids)) \<and>
     FromPublishedPayload payload = Ok (wire_gig g)"

definition valid_ids :: "string \<times> string \<times> string \<Rightarrow> bool" where
  "valid_ids ids \<longleftrightarrow> valid_utf8 (fst ids) \<and> valid_utf8 (fst (snd ids)) \<and> valid_utf8 (snd (snd ids))"

definition ids_ok :: "env \<Rightarrow> bool" where
  "ids_ok e \<longleftrightarrow> (\<forall>n. valid_ids (e_realtime_ids e n))"

lemma with_ids_tells:
  assumes "utf8_gig g" and "ToPublishedPayload g = Ok p0" and "with_ids p0 ids = Ok p"
    and "valid_ids ids"
  shows "tells g ids p"
proof -
  obtain a b c where ids: "ids = (a, b, c)" by (cases ids)
  let ?ev = "published_event g\<lparr>pe_EventID := a, pe_OperationID := b, pe_CorrelationID := c\<rparr>"
  have "unmarshal_published p0 = Ok (published_event g)"
    using assms(1,2) by (auto simp: ToPublishedPayload_def marshal_published_def unmarshal_published_json
        published_event_facts split: if_splits)
  then have p: "p = Json (json_of_published ?ev)"
    using assms(3) by (auto simp: ids with_ids_def marshal_published_def split: if_splits)
  have "unmarshal_published p = Ok ?ev"
    unfolding p using assms by (intro unmarshal_published_json) (simp add: utf8_published_event ids valid_ids_def)
  moreover have "FromPublishedPayload p = Ok (gig_of_published ?ev)"
    using calculation by (simp add: FromPublishedPayload_def)
  ultimately show ?thesis
    by (auto simp: tells_def gig_of_published_event ids)
qed

lemma realtimeNew_Ok: "realtimeNew e w = (Ok ids, w') \<Longrightarrow> ids_ok e \<Longrightarrow>
    valid_ids ids \<and> w_log w' = w_log w \<and> w_db w' = w_db w"
  by (auto simp: realtimeNew_def ids_ok_def)

text \<open>The two projections after a write, with one payload, and at most one notification.\<close>

definition projected :: "Gig \<Rightarrow> (string \<times> bytes) list \<Rightarrow> bool" where
  "projected g ms \<longleftrightarrow> (\<exists>payload ids rest. tells g ids payload \<and> notifications rest \<and>
     ms = (gigProjectionRequestedSubject, payload) # (gigPreviewProjectionSubject, payload) # rest)"

lemma publishPostWriteProjections_Ok:
  assumes "publishPostWriteProjections g e w = (Ok (), w')" and "utf8_gig g" and "ids_ok e"
  shows "\<exists>ms. w_log w' = w_log w @ ms \<and> projected g ms"
proof -
  obtain p0 ids w1 p w2 w3 where p0: "ToPublishedPayload g = Ok p0"
    and ids: "realtimeNew e w = (Ok ids, w1)" and p: "with_ids p0 ids = Ok p"
    and a: "publishP gigProjectionRequestedSubject p e w1 = (Ok (), w2)"
    and b: "publishP gigPreviewProjectionSubject p e w2 = (Ok (), w3)"
    and n: "ignoreP (PublishGigNotificationOutcome (Some g) ''gig.updated'' StatusAccepted []
                (fst (snd ids)) (snd (snd ids)) None (Some p)) e w3 = (Ok (), w')"
    using assms(1) unfolding publishPostWriteProjections_def
    by (auto elim!: bindP_OkE)
  from realtimeNew_Ok [OF ids assms(3)] p with_ids_tells [OF assms(2) p0] have "tells g ids p"
    by simp
  moreover have "\<exists>rest. w_log w' = w_log w3 @ rest \<and> notifications rest"
    by (rule notify_ignored [OF n]) (rule notify_log)
  then obtain rest where rest: "w_log w' = w_log w3 @ rest" "notifications rest" by blast
  moreover have "w_log w' = w_log w @
      ((gigProjectionRequestedSubject, p) # (gigPreviewProjectionSubject, p) # rest)"
    using publishP_Ok [OF a] publishP_Ok [OF b] realtimeNew_Ok [OF ids assms(3)] rest by simp
  ultimately show ?thesis unfolding projected_def by blast
qed

lemma with_projections_Ok:
  assumes "with_projections m e w = (Ok g, w')" and "ids_ok e"
  obtains w1 where "m e w = (Ok g, w1)" and "w_db w' = w_db w1"
    and "utf8_gig g \<longrightarrow> (\<exists>ms. w_log w' = w_log w1 @ ms \<and> projected g ms)"
proof -
  from assms(1) obtain w1 where m: "m e w = (Ok g, w1)" and ev: "publishPostWriteProjections g e w1 = (Ok (), w')"
    unfolding with_projections_def by (auto elim!: bindP_OkE)
  have "same_db w1 w'" using projection_frames(1) ev by (rule stepsD)
  with that [OF m] publishPostWriteProjections_Ok [OF ev _ assms(2)] show thesis
    by (auto simp: same_db_def)
qed

section \<open>The use cases\<close>

lemma getOwnedGig_log: "getOwnedGig gid f e w = (r, w') \<Longrightarrow> w_log w' = w_log w"
  using owned_frames(3) by (metis same_log_def stepsD)

lemma updateRow_log: "updateRow tr gid q e w = (r, w') \<Longrightarrow> w_log w' = w_log w"
  using updateRow_frames(2) by (metis same_log_def stepsD)

lemma UpdateBasicInfo_Ok:
  assumes "uuid_ok e" and "ids_ok e" and "UpdateBasicInfo gid f params e w = (Ok g, w')"
  shows "validateBasicInfo params = None"
    and "\<exists>g0 now slug. view (w_db w) (gig_ID g) = Some g0 \<and> gig_FreelancerID g0 = TrimSpace f \<and>
      g = basic_info_gig (stored_basic_info params slug) now g0 \<and>
      slug = Generate e (TrimSpace (ubi_Title params)) (gig_ID g) \<and> slug \<noteq> []"
    and "view (w_db w') = (view (w_db w))(gig_ID g \<mapsto> g)"
    and "utf8_gig g \<Longrightarrow> \<exists>ms. w_log w' = w_log w @ ms \<and> projected g ms"
proof -
  obtain g0 v where own: "getOwnedGig gid f e w = (Ok g0, v)" and valid: "validateBasicInfo params = None"
    and rest: "(if Generate e (TrimSpace (ubi_Title params)) (gig_ID g0) = [] then domP ErrInvalidTitle
      else with_projections (repo_UpdateBasicInfo (gig_ID g0) (stored_basic_info params
        (Generate e (TrimSpace (ubi_Title params)) (gig_ID g0))))) e v = (Ok g, w')"
    using assms(3) unfolding UpdateBasicInfo_def stored_basic_info_def [symmetric]
    by (auto elim!: bindP_OkE)
  let ?slug = "Generate e (TrimSpace (ubi_Title params)) (gig_ID g0)"
  have slug: "?slug \<noteq> []" using rest by auto
  then have wp: "with_projections (repo_UpdateBasicInfo (gig_ID g0) (stored_basic_info params ?slug)) e v = (Ok g, w')"
    using rest by simp
  note o = getOwnedGig_Ok [OF own]
  obtain w1 where m: "repo_UpdateBasicInfo (gig_ID g0) (stored_basic_info params ?slug) e v = (Ok g, w1)"
    and db: "w_db w' = w_db w1" and log: "utf8_gig g \<longrightarrow> (\<exists>ms. w_log w' = w_log w1 @ ms \<and> projected g ms)"
    by (rule with_projections_Ok [OF wp assms(2)])
  obtain c now g1 where c: "e_uuid_in e (gig_ID g0) = Some c" "view (w_db v) c = Some g1"
    and g: "g = basic_info_gig (stored_basic_info params ?slug) now g1"
    and v': "view (w_db w1) = (view (w_db v))(c \<mapsto> g)"
    by (rule updateRow_Ok [OF row_updates(1) lifts_rows(1) m [unfolded updateRow_methods]])
  have "c = gig_ID g0" using c(1) o(1) assms(1) by (auto simp: uuid_ok_def)
  with c(2) o have g1: "g1 = g0" by simp
  then have id: "gig_ID g = gig_ID g0" using g by (simp add: basic_info_gig_def)
  show "validateBasicInfo params = None" by (rule valid)
  show "\<exists>g0 now slug. view (w_db w) (gig_ID g) = Some g0 \<and> gig_FreelancerID g0 = TrimSpace f \<and>
      g = basic_info_gig (stored_basic_info params slug) now g0 \<and>
      slug = Generate e (TrimSpace (ubi_Title params)) (gig_ID g) \<and> slug \<noteq> []"
    using o g g1 id slug by auto
  show "view (w_db w') = (view (w_db w))(gig_ID g \<mapsto> g)"
    using v' db \<open>c = gig_ID g0\<close> id o by simp
  have "w_log w1 = w_log w"
    using updateRow_log [OF m [unfolded updateRow_methods]] getOwnedGig_log [OF own] by simp
  then show "\<exists>ms. w_log w' = w_log w @ ms \<and> projected g ms" if "utf8_gig g"
    using log that by simp
qed

text \<open>A replacement of the packages returns the gig with exactly the packages asked for.\<close>

definition same_offer :: "GigPackage \<Rightarrow> GigPackage \<Rightarrow> bool" where
  "same_offer p q \<longleftrightarrow>
     pkg_Tier q = pkg_Tier p \<and> pkg_Description q = pkg_Description p \<and>
     pkg_DeliveryDays q = pkg_DeliveryDays p \<and> pkg_PriceCents q = pkg_PriceCents p"

lemma package_rows_offer:
  "list_all2 package_row ps rows \<Longrightarrow> list_all2 same_offer ps (map package_of_row rows)"
  by (induction rule: list_all2_induct) (auto simp: package_row_def package_of_row_def same_offer_def)

lemma replace_log:
  "repo_ReplacePackages gid ps e w = (r, w') \<Longrightarrow> w_log w' = w_log w"
  "repo_ReplaceQuestions gid qs e w = (r, w') \<Longrightarrow> w_log w' = w_log w"
  "repo_ReplaceMedia gid mp e w = (r, w') \<Longrightarrow> w_log w' = w_log w"
  using replace_frames(2,5,8) by (metis same_log_def stepsD)+

lemma repo_ReplacePackages_Ok:
  assumes run: "repo_ReplacePackages gid ps e w = (Ok g, w')" and id: "e_uuid_in e gid = Some gid"
    and old: "view (w_db w) gid = Some g0" and len: "int (length ps) < 2 ^ 31"
  obtains now rows where "list_all2 package_row ps rows" and "gig_ID g = gid"
    and "g = packages_gig (map package_of_row rows) now g0" and "view (w_db w') = (view (w_db w))(gid \<mapsto> g)"
proof -
  obtain w1 where body: "packages.body gid ps e (tx_start e w) = (Ok (), w1)" and db: "w_db w' = w_db w1"
    and "e_uuid_in e gid = Some (gig_ID g)" and g: "view (w_db w') (gig_ID g) = Some g"
    by (rule tx_then_read_Ok [OF run [unfolded replace_methods]])
  with id have gid: "gig_ID g = gid" by simp
  from packages.body_Ok [OF body] id obtain now rows where rows: "packages.rows_for e gid 1 ps rows"
    and w1: "w_db w1 = packages_replaced gid now rows (w_db w)"
    by (auto simp: packages_replaced_def)
  have v: "view (w_db w') c = (if c = gid then map_option (packages_gig (map package_of_row rows) now) (view (w_db w) gid)
      else view (w_db w) c)" for c
    unfolding db w1 by (rule view_packages_replaced [OF rows len])
  from v [of gid] g gid old have "g = packages_gig (map package_of_row rows) now g0" by simp
  moreover from v g gid have "view (w_db w') = (view (w_db w))(gid \<mapsto> g)" by (auto simp: fun_eq_iff)
  ultimately show thesis using that packages.rows_for_carries [OF rows] gid by blast
qed

lemma ReplacePackages_Ok:
  assumes "uuid_ok e" and "ids_ok e" and "ReplacePackages recovery gid f packages e w = (Ok g, w')"
  shows "\<exists>ps g0 qs now. normalizePackages recovery 1 packages = Ok ps \<and> validatePackages ps = None \<and>
      view (w_db w) (gig_ID g) = Some g0 \<and> gig_FreelancerID g0 = TrimSpace f \<and>
      list_all2 same_offer ps qs \<and> g = packages_gig qs now g0"
    and "view (w_db w') = (view (w_db w))(gig_ID g \<mapsto> g)"
    and "utf8_gig g \<Longrightarrow> \<exists>ms. w_log w' = w_log w @ ms \<and> projected g ms"
proof -
  obtain g0 v ps where own: "getOwnedGig gid f e w = (Ok g0, v)"
    and norm: "normalizePackages recovery 1 packages = Ok ps" and valid: "validatePackages ps = None"
    and wp: "with_projections (repo_ReplacePackages (gig_ID g0) ps) e v = (Ok g, w')"
    using assms(3) unfolding ReplacePackages_def by (auto elim!: bindP_OkE)
  note o = getOwnedGig_Ok [OF own]
  obtain w1 where m: "repo_ReplacePackages (gig_ID g0) ps e v = (Ok g, w1)"
    and db: "w_db w' = w_db w1" and log: "utf8_gig g \<longrightarrow> (\<exists>ms. w_log w' = w_log w1 @ ms \<and> projected g ms)"
    by (rule with_projections_Ok [OF wp assms(2)])
  have len: "int (length ps) < 2 ^ 31" using validatePackages_length [OF valid] by auto
  have id: "e_uuid_in e (gig_ID g0) = Some (gig_ID g0)" using o(1) assms(1) by (auto simp: uuid_ok_def)
  have old: "view (w_db v) (gig_ID g0) = Some g0" using o by simp
  obtain now rows where rows: "list_all2 package_row ps rows" and gid: "gig_ID g = gig_ID g0"
    and g: "g = packages_gig (map package_of_row rows) now g0"
    and v': "view (w_db w1) = (view (w_db v))(gig_ID g0 \<mapsto> g)"
    by (rule repo_ReplacePackages_Ok [OF m id old len])
  show "\<exists>ps g0 qs now. normalizePackages recovery 1 packages = Ok ps \<and> validatePackages ps = None \<and>
      view (w_db w) (gig_ID g) = Some g0 \<and> gig_FreelancerID g0 = TrimSpace f \<and>
      list_all2 same_offer ps qs \<and> g = packages_gig qs now g0"
    using norm valid o gid g package_rows_offer [OF rows] by metis
  show "view (w_db w') = (view (w_db w))(gig_ID g \<mapsto> g)" using v' db gid o by simp
  have "w_log w1 = w_log w" using replace_log(1) [OF m] getOwnedGig_log [OF own] by simp
  then show "\<exists>ms. w_log w' = w_log w @ ms \<and> projected g ms" if "utf8_gig g" using log that by simp
qed

section \<open>Publication\<close>

lemma checkOnboarding_Ok:
  assumes "checkOnboarding recovery f e w = (Ok u, w')"
  shows "recovery \<or> (\<exists>n s. e_connect e n f = Some s \<and> cs_Status s = ''completed'')"
  using assms
  by (auto simp: checkOnboarding_def GetConnectStatus_def mapErrP_def remoteP_def Let_def
      elim!: bindP_OkE split: if_splits option.splits outcome.splits prod.splits) blast

definition published_messages :: "Gig \<Rightarrow> (string \<times> bytes) list \<Rightarrow> bool" where
  "published_messages g ms \<longleftrightarrow> (\<exists>payload ids rest ms'. tells g ids payload \<and> notifications rest \<and>
     projected g ms' \<and> ms = (gigPublishedSubject, payload) # rest @ ms')"

text \<open>The gig published: with a seller's username, if it had none and the caller has one.\<close>

definition published_from :: "string \<Rightarrow> Gig \<Rightarrow> Gig \<Rightarrow> bool" where
  "published_from username g0 g \<longleftrightarrow> (\<exists>now now'. g =
     (if TrimSpace username \<noteq> [] \<and> TrimSpace (gig_SellerUsername g0) = []
      then seller_gig (TrimSpace username) now' (published_gig now g0) else published_gig now g0))"

lemma publishRows_Ok:
  assumes run: "publishRows username g0 e w = (Ok g, w')" and id: "e_uuid_in e (gig_ID g0) = Some (gig_ID g0)"
    and old: "view (w_db w) (gig_ID g0) = Some g0"
  shows "published_from username g0 g"
    and "view (w_db w') = (view (w_db w))(gig_ID g0 \<mapsto> g)" and "w_log w' = w_log w"
    and "gig_ID g = gig_ID g0"
proof -
  obtain p v where p: "repo_Publish (gig_ID g0) e w = (Ok p, v)"
    and rest: "(if TrimSpace username \<noteq> [] \<and> TrimSpace (gig_SellerUsername p) = []
      then repo_UpdateSellerUsername (gig_ID p) (TrimSpace username) else retP p) e v = (Ok g, w')"
    using run unfolding publishRows_def by (auto elim!: bindP_OkE)
  from repo_Publish_Ok [OF p id] old obtain now where pg: "p = published_gig now g0" and pid: "gig_ID p = gig_ID g0"
    and up: "updates_at (gig_ID g0) (published_gig now) (w_db w) (w_db v)" by auto
  have v: "view (w_db v) = (view (w_db w))(gig_ID g0 \<mapsto> p)"
    using up old pg by (auto simp: updates_at_def fun_eq_iff)
  have log: "w_log v = w_log w" using p updateRow_log by (simp add: updateRow_methods)
  have seller: "gig_SellerUsername p = gig_SellerUsername g0" by (simp add: pg published_gig_def)
  have "published_from username g0 g \<and>
    view (w_db w') = (view (w_db w))(gig_ID g0 \<mapsto> g) \<and> w_log w' = w_log w \<and> gig_ID g = gig_ID g0"
  proof (cases "TrimSpace username \<noteq> [] \<and> TrimSpace (gig_SellerUsername p) = []")
    case True
    with rest pid have m: "repo_UpdateSellerUsername (gig_ID g0) (TrimSpace username) e v = (Ok g, w')" by simp
    obtain c now' g1 where "e_uuid_in e (gig_ID g0) = Some c" "view (w_db v) c = Some g1"
      "g = seller_gig (TrimSpace username) now' g1" "view (w_db w') = (view (w_db v))(c \<mapsto> g)"
      by (rule updateRow_Ok [OF row_updates(2) lifts_rows(2) m [unfolded updateRow_methods]])
    moreover have "gig_ID (seller_gig (TrimSpace username) now' p) = gig_ID p" for now'
      by (simp add: seller_gig_def)
    moreover have "w_log w' = w_log v" using m updateRow_log by (simp add: updateRow_methods)
    ultimately show ?thesis using id v pg log pid True seller by (auto simp: published_from_def)
  next
    case False
    with rest have "g = p" "w' = v" by auto
    with pg v log pid False seller show ?thesis by (auto simp: published_from_def)
  qed
  then show "published_from username g0 g"
    "view (w_db w') = (view (w_db w))(gig_ID g0 \<mapsto> g)" "w_log w' = w_log w" "gig_ID g = gig_ID g0"
    by blast+
qed

lemma publish_events_Ok:
  assumes "ids_ok e" and "utf8_gig g"
    and "publish_events g e w = (Ok g', w')"
  shows "\<exists>ms. w_log w' = w_log w @ ms \<and> published_messages g ms"
proof -
  obtain p0 ids w1 p w2 w3 where p0: "ToPublishedPayload g = Ok p0"
    and ids: "realtimeNew e w = (Ok ids, w1)" and p: "with_ids p0 ids = Ok p"
    and a: "publishP gigPublishedSubject p e w1 = (Ok (), w2)"
    and n: "ignoreP (PublishGigNotification (Some g) ''gig.published'' (Some p)) e w2 = (Ok (), w3)"
    and proj: "publishPostWriteProjections g e w3 = (Ok (), w')"
    using assms(3) unfolding publish_events_def by (auto elim!: bindP_OkE)
  have "tells g ids p"
    using realtimeNew_Ok [OF ids assms(1)] p with_ids_tells [OF assms(2) p0] by simp
  moreover have "\<exists>rest. w_log w3 = w_log w2 @ rest \<and> notifications rest"
    by (rule notify_ignored [OF n]) (unfold PublishGigNotification_def, rule notify_log)
  then obtain rest where rest: "w_log w3 = w_log w2 @ rest" "notifications rest" by blast
  moreover obtain ms' where ms': "w_log w' = w_log w3 @ ms'" "projected g ms'"
    using publishPostWriteProjections_Ok [OF proj assms(2,1)] by blast
  moreover have "w_log w' = w_log w @ ((gigPublishedSubject, p) # rest @ ms')"
    using publishP_Ok [OF a] realtimeNew_Ok [OF ids assms(1)] rest ms' by simp
  ultimately show ?thesis unfolding published_messages_def by blast
qed

end
