(* ===== verification/Sample.thy ===== *)
theory Sample
  imports ServiceInvariant
begin

text \<open>
  A concrete environment and database on which the theorems are applied: every call succeeds,
  identifiers are read as they are, payments are onboarded; the database holds the complete
  draft \<open>g1\<close> of the freelancer \<open>f1\<close>.
\<close>

definition sample_env :: env where
  "sample_env =
     \<lparr>e_call = (\<lambda>n. Done), e_now = (\<lambda>n. 1000), e_uuid7 = (\<lambda>n. Some (CHR ''u'' # show_nat n)),
      e_uuid_in = Some, e_slug_make = to_lower, e_page_size = 10, e_window_size = 20,
      e_window_ttl = 3600, e_uploaded = (\<lambda>n own pre fs. Some (map up_Filename fs)),
      e_file_urls = (\<lambda>n fs. Some (map (\<lambda>f. Some (f, ''https://files/'' @ f)) fs)),
      e_connect = (\<lambda>n u. Some \<lparr>cs_UserID = u, cs_Status = ''completed'', cs_StripeAccountID = ''acct'',
        cs_DisabledReason = [], cs_OccurredAt = []\<rparr>),
      e_rating = (\<lambda>n g. None), e_orders = (\<lambda>n g. None), e_popularity = (\<lambda>n. []),
      e_user = (\<lambda>n u. None), e_realtime_ids = (\<lambda>n. (''ev'', ''op'', ''co'')),
      e_notification = (\<lambda>n a. None), e_json_text = (\<lambda>j. [])\<rparr>"

definition sample_row :: GigRow where
  "sample_row =
     \<lparr>grow_ID = ''g1'', grow_FreelancerID = ''f1'', grow_SellerUsername = [], grow_Slug = ''logo-g1'',
      grow_Title = ''Logo'', grow_ShortInfo = ''A logo'', grow_Description = ''I draw'',
      grow_CategoryID = 3, grow_Currency = ''EUR'', grow_Status = StatusDraft,
      grow_BasicInfoCompleted = True, grow_PackagesCompleted = True,
      grow_RequirementsCompleted = False, grow_MediaCompleted = False, grow_PictureFileID = [],
      grow_PublishedAt = None, grow_CreatedAt = 0, grow_UpdatedAt = 0\<rparr>"

definition sample_package :: GigPackageRow where
  "sample_package =
     \<lparr>prow_ID = ''p1'', prow_GigID = ''g1'', prow_Tier = TierBasic, prow_Description = ''One logo'',
      prow_DeliveryDays = 3, prow_PriceCents = 5000, prow_SortOrder = 1, prow_CreatedAt = 0,
      prow_UpdatedAt = 0\<rparr>"

definition sample_world :: world where
  "sample_world =
     \<lparr>w_db = \<lparr>t_gigs = [sample_row], t_packages = [sample_package], t_questions = [], t_media = []\<rparr>,
      w_txnow = None, w_redis = [], w_log = [], w_rpc = [], w_tick = 0\<rparr>"

lemma sample_uuid: "uuid_ok sample_env"
  by (simp add: uuid_ok_def sample_env_def)

lemma sample_publish: "is_ok (fst (Publish False ''g1'' ''f1'' ''ann'' sample_env sample_world))"
  by code_simp

end
