(* ===== verification/ServiceClaims.thy ===== *)
theory ServiceClaims
  imports ServiceResults Sample
begin

text \<open>
  The properties of the write side of the service, each applied to the sample database.
\<close>

section \<open>Invariants of the tables\<close>

text \<open>
  C1. In every state the service can reach from an empty database, with any number of requests in
  flight and publications split between their checks and their commit, every published gig has
  its basic information, its packages, and a list of packages that passes validation.
\<close>

theorem published_gigs_complete:
  assumes "uuid_ok e" and "reachable e w checked"
    and "view (w_db w) c = Some g" and "gig_Status g = StatusPublished"
  shows "gig_BasicInfoCompleted g \<and> gig_PackagesCompleted g \<and> validatePackages (gig_Packages g) = None"
  using reachable_inv [OF assms(1,2)] assms(3,4) by (auto simp: published_ready_iff gig_ready_def)

definition empty_world :: world where
  "empty_world = sample_world\<lparr>w_db := \<lparr>t_gigs = [], t_packages = [], t_questions = [], t_media = []\<rparr>\<rparr>"

definition sample_offer :: "GigPackage list" where
  "sample_offer = [\<lparr>pkg_ID = ''p1'', pkg_GigID = [], pkg_Tier = TierBasic,
     pkg_Description = ''One logo'', pkg_DeliveryDays = 3, pkg_PriceCents = 5000, pkg_SortOrder = 0\<rparr>]"

definition sample_info :: UpdateBasicInfoParams where
  "sample_info = \<lparr>ubi_Title = '' Logo '', ubi_Slug = [], ubi_ShortInfo = ''A logo'',
     ubi_Description = ''I draw'', ubi_CategoryID = 3, ubi_Currency = ''EUR''\<rparr>"

definition sample_run :: world where
  "sample_run = snd (serve (ReqPublish False ''g1'' ''f1'' ''ann'') sample_env
     (snd (serve (ReqReplacePackages False ''g1'' ''f1'' sample_offer) sample_env
     (snd (serve (ReqUpdateBasicInfo ''g1'' ''f1'' sample_info) sample_env
     (snd (serve (ReqCreateDraftWithID False ''g1'' ''f1'') sample_env empty_world)))))))"

lemma sample_run_reachable: "reachable sample_env sample_run []"
  unfolding sample_run_def
  by (intro reachable.request reachable.start) (simp add: empty_world_def empty_db_def)

lemma sample_run_published:
  "map_option gig_Status (view (w_db sample_run) ''g1'') = Some StatusPublished"
  by code_simp

lemma published_gigs_complete_witness:
  "\<exists>g. view (w_db sample_run) ''g1'' = Some g \<and> gig_Status g = StatusPublished \<and>
     gig_BasicInfoCompleted g \<and> gig_PackagesCompleted g \<and> validatePackages (gig_Packages g) = None"
  using published_gigs_complete [OF sample_uuid sample_run_reachable] sample_run_published by auto

text \<open>
  C2. A request made for an owner leaves the tables as they are or changes exactly one gig: the
  one it names, which belongs to the caller; it never changes the identity, the owner or the
  creation time of the gig, never takes a publication back and never clears a completed step.
  This holds for every result, errors and panics included.
\<close>

theorem only_the_owner_writes:
  assumes "uuid_ok e" and "acting r = Some (gid, f)" and "serve r e w = (x, w')"
  shows "w_db w' = w_db w \<or>
    (\<exists>c g g'. e_uuid_in e (TrimSpace gid) = Some c \<and> view (w_db w) c = Some g \<and>
       gig_FreelancerID g = TrimSpace f \<and> keeps_identity g g' \<and>
       view (w_db w') = (view (w_db w))(c \<mapsto> g'))"
  by (rule owner_write_upd [OF acting_write [OF assms]])

definition sample_edit :: world where
  "sample_edit = snd (serve (ReqUpdateBasicInfo ''g1'' ''f1'' sample_info) sample_env sample_world)"

lemma sample_edit_differs:
  "map_option gig_UpdatedAt (view (w_db sample_edit) ''g1'') \<noteq>
   map_option gig_UpdatedAt (view (w_db sample_world) ''g1'')"
  by code_simp

lemma only_the_owner_writes_witness:
  "\<exists>c g g'. e_uuid_in sample_env (TrimSpace ''g1'') = Some c \<and> view (w_db sample_world) c = Some g \<and>
     gig_FreelancerID g = TrimSpace ''f1'' \<and> keeps_identity g g' \<and>
     view (w_db sample_edit) = (view (w_db sample_world))(c \<mapsto> g')"
proof -
  let ?r = "ReqUpdateBasicInfo ''g1'' ''f1'' sample_info"
  have run: "serve ?r sample_env sample_world = (fst (serve ?r sample_env sample_world), sample_edit)"
    by (simp only: sample_edit_def prod.collapse)
  have act: "acting ?r = Some (''g1'', ''f1'')" by simp
  have "w_db sample_edit \<noteq> w_db sample_world" using sample_edit_differs by auto
  then show ?thesis using only_the_owner_writes [OF sample_uuid act run] by blast
qed

text \<open>
  C7. No request ever removes a gig or takes a publication back, whatever its result.
\<close>

definition stays :: "db \<Rightarrow> db \<Rightarrow> bool" where
  "stays d d' \<longleftrightarrow> (\<forall>c g. view d c = Some g \<longrightarrow> (\<exists>g'. view d' c = Some g' \<and>
     (gig_Status g = StatusPublished \<longrightarrow> gig_Status g' = StatusPublished)))"

lemma stays_preorder: "reflp stays" "transp stays"
  by (auto simp: stays_def reflp_def transp_def) metis

interpretation stays: timeless_effect "db_rel stays"
  by (rule db_rel_effect [OF stays_preorder])

lemma updates_at_stays:
  "updates_at c F d d' \<Longrightarrow> (\<And>g. gig_Status g = StatusPublished \<Longrightarrow> gig_Status (F g) = StatusPublished) \<Longrightarrow>
   stays d d'"
  by (auto simp: updates_at_def stays_def)

lemma createGigDraft_stays:
  assumes "createGigDraftQuery gid fid e now d = Inr (v, d')"
  shows "stays d d'"
  using assms
proof (cases rule: createGigDraft_run)
  case (1 c f)
  then have "view d c = None" and "view d' x = (if x = c then Some (MapGigRowToDomain (new_draft_row c f now)
      (packages_of c d) (questions_of c d) (media_of c d)) else view d x)" for x
    by (simp add: view_def) (simp add: 1 view_new_row)
  then show ?thesis by (auto simp: stays_def)
next
  case (2 c f r)
  then show ?thesis
    by (intro updates_at_stays [where c = c and F = "redraft_gig f now"])
      (auto simp: updates_at_def view_set_gig [OF lifts_rows(4)] redraft_gig_def)
qed

lemma serve_stays:
  assumes "uuid_ok e"
  shows "steps e (db_rel stays) (serve r)"
proof -
  have lift: "steps e (db_rel stays) (doneP m)" if "steps e (db_rel stays) m" for m :: "'z prog"
    unfolding doneP_def by (intro stays.steps_rules that)
  have same: "steps e (db_rel stays) m" if "steps e same_db m" for m :: "'z prog"
    using that by (rule steps_mono) (rule same_db_imp_db_rel [OF stays_preorder(1)])
  have create: "steps e (db_rel stays) (createDraft recovery gid f)" for recovery gid f
    unfolding createDraft_def repo_CreateDraft_def Let_def
    by (intro stays.steps_rules stays.tick_rules rowP_db_rel stays_preorder same [OF load_frames(1)]
        same [OF event_frames(4)] same [OF event_frames(14)]; erule createGigDraft_stays)
  have upd: "steps e (db_rel stays) (repo_UpdateSellerUsername g u)" for g u
    by (rule steps_runI) (auto dest!: repo_UpdateSellerUsername_outcome simp: db_rel_def
        intro: reflpD [OF stays_preorder(1)] elim!: updates_at_stays simp: seller_gig_def)
  have order_stays: "steps e (db_rel stays) (GetOrderStartSnapshot gid pid)" for gid pid
    unfolding GetOrderStartSnapshot_def cached_username_def Let_def
    by (intro stays.steps_rules upd same [OF read_frames(1)] same [OF redis_frames(3)])
  consider (acting) gid f where "acting r = Some (gid, f)" | (creates) "creates r"
    | (order) gid pid where "r = ReqGetOrderStartSnapshot gid pid"
    | (other) "acting r = None" "\<not> creates r" "\<And>gid pid. r \<noteq> ReqGetOrderStartSnapshot gid pid"
    by (cases "acting r") auto
  then show ?thesis
  proof cases
    case acting
    show ?thesis
    proof (rule steps_runI)
      fix w x w'
      assume "serve r e w = (x, w')"
      from acting_write [OF assms acting this] show "db_rel stays w w'"
        by (fastforce simp: owner_write_def db_rel_def updates_at_def stays_def keeps_identity_def)
    qed
  next
    case creates
    then show ?thesis by (cases r) (auto simp: CreateDraft_def CreateDraftWithID_def intro: lift create)
  next
    case order
    then show ?thesis by (simp add: lift [OF order_stays])
  next
    case other
    show ?thesis
      by (rule steps_runI) (use other_requests [OF other(1,2) _ other(3)] in
          \<open>auto simp: db_rel_def intro: reflpD [OF stays_preorder(1)]\<close>)
  qed
qed

theorem gigs_stay:
  assumes "uuid_ok e" and "view (w_db w) c = Some g"
  shows "\<exists>g'. view (w_db (snd (serve r e w))) c = Some g' \<and>
    (gig_Status g = StatusPublished \<longrightarrow> gig_Status g' = StatusPublished)"
  using serve_stays [OF assms(1), of r] assms(2) unfolding steps_def db_rel_def stays_def by blast

lemma gigs_stay_witness:
  "\<exists>g'. view (w_db (snd (serve (ReqCreateDraftWithID False ''g1'' ''f2'') sample_env sample_run))) ''g1'' = Some g' \<and>
     gig_Status g' = StatusPublished"
  using gigs_stay [OF sample_uuid, of sample_run "''g1''" _ "ReqCreateDraftWithID False ''g1'' ''f2''"]
    sample_run_published by auto

end
