(* ===== verification/UseCases.thy ===== *)
theory UseCases
  imports ServiceResults
begin

text \<open>
  The remaining use cases: creation and its replay, the compensation of a failed media
  replacement, and the snapshot an order starts from.
\<close>

section \<open>Publication\<close>

lemma check_phase_frames:
  "steps e same_db (publish_check rec gid f)" "steps e same_redis (publish_check rec gid f)"
  "steps e same_log (publish_check rec gid f)" "steps e same_rpc (publish_check rec gid f)"
  unfolding publish_check_def by (intro frame_intros)+

lemma Publish_Ok:
  assumes "uuid_ok e" and "ids_ok e" and "Publish recovery gid f username e w = (Ok g, w')"
  shows "\<exists>g0. view (w_db w) (gig_ID g) = Some g0 \<and> gig_FreelancerID g0 = TrimSpace f \<and>
      validatePublishReady g0 = None \<and> published_from username g0 g"
    and "recovery \<or> (\<exists>n s. e_connect e n (TrimSpace f) = Some s \<and> cs_Status s = ''completed'')"
    and "view (w_db w') = (view (w_db w))(gig_ID g \<mapsto> g)"
    and "utf8_gig g \<Longrightarrow> \<exists>ms. w_log w' = w_log w @ ms \<and> published_messages g ms"
proof -
  from assms(3) obtain g0 v where chk: "publish_check recovery gid f e w = (Ok g0, v)"
    and com: "publish_commit username g0 e v = (Ok g, w')"
    unfolding Publish_phases by (rule bindP_OkE)
  note o = publish_check_Ok [OF chk]
  have id: "e_uuid_in e (gig_ID g0) = Some (gig_ID g0)" using o(1) assms(1) by (auto simp: uuid_ok_def)
  from com obtain g1 v1 where rows: "publishRows username g0 e v = (Ok g1, v1)"
    and ev: "publish_events g1 e v1 = (Ok g, w')"
    unfolding publish_commit_def by (rule bindP_OkE)
  have g1: "g1 = g" using ev unfolding publish_events_def by (auto elim!: bindP_OkE)
  have "same_db v1 w'" using publish_events_frames ev by (rule stepsD)
  then have db: "w_db w' = w_db v1" by (simp add: same_db_def)
  have "view (w_db v) (gig_ID g0) = Some g0" using o(2,5) by simp
  note r = publishRows_Ok [OF rows id this]
  show "\<exists>g0. view (w_db w) (gig_ID g) = Some g0 \<and> gig_FreelancerID g0 = TrimSpace f \<and>
      validatePublishReady g0 = None \<and> published_from username g0 g"
    using o r g1 by auto
  show "recovery \<or> (\<exists>n s. e_connect e n (TrimSpace f) = Some s \<and> cs_Status s = ''completed'')"
    using o(3,6) checkOnboarding_Ok by fastforce
  show "view (w_db w') = (view (w_db w))(gig_ID g \<mapsto> g)" using r(2,4) db g1 o(5) by simp
  have "w_log v = w_log w" using check_phase_frames(3) chk by (metis same_log_def stepsD)
  then show "\<exists>ms. w_log w' = w_log w @ ms \<and> published_messages g ms" if "utf8_gig g"
    using publish_events_Ok [OF assms(2) _ ev] that g1 r(3) by simp
qed

definition never_onboarded :: "env \<Rightarrow> string \<Rightarrow> bool" where
  "never_onboarded e f \<longleftrightarrow>
     (\<forall>n s. e_connect e n f = Some s \<longrightarrow> cs_Status s \<noteq> ''completed'')"

lemma Publish_not_onboarded:
  assumes "never_onboarded e (TrimSpace f)"
    and "Publish False gid f username e w = (r, w')"
  shows "\<not> is_ok r" and "w_db w' = w_db w" and "w_log w' = w_log w" and "w_redis w' = w_redis w"
    and "w_rpc w' = w_rpc w"
proof -
  obtain s v where chk: "publish_check False gid f e w = (s, v)" by (cases "publish_check False gid f e w")
  have "\<not> is_ok s"
  proof
    assume "is_ok s"
    then obtain g where "s = Ok g" by (auto simp: is_ok_iff)
    from publish_check_Ok(3,6) [OF chk [unfolded this]] show False
      using checkOnboarding_Ok assms(1) by (fastforce simp: never_onboarded_def)
  qed
  with assms(2) chk have "\<not> is_ok r" "w' = v"
    unfolding Publish_phases by (cases s; auto simp: bindP_def)+
  with chk check_phase_frames [THEN stepsD, OF chk]
  show "\<not> is_ok r" "w_db w' = w_db w" "w_log w' = w_log w" "w_redis w' = w_redis w" "w_rpc w' = w_rpc w"
    by (simp_all add: same_db_def same_log_def same_redis_def same_rpc_def)
qed

section \<open>Creation\<close>

lemma repo_CreateDraft_Ok:
  assumes "uuid_ok e" and "repo_CreateDraft \<lparr>cdp_GigID = gid, cdp_FreelancerID = f\<rparr> e w = (Ok g, w')"
  obtains fid now where "e_uuid_in e f = Some fid" and "view (w_db w') = (view (w_db w))(gig_ID g \<mapsto> g)"
    and "gid \<noteq> [] \<longrightarrow> e_uuid_in e gid = Some (gig_ID g)"
    and "g = (case view (w_db w) (gig_ID g) of
        Some g0 \<Rightarrow> redraft_gig fid now g0
      | None \<Rightarrow> MapGigRowToDomain (new_draft_row (gig_ID g) fid now)
          (packages_of (gig_ID g) (w_db w)) (questions_of (gig_ID g) (w_db w)) (media_of (gig_ID g) (w_db w)))"
proof -
  obtain k w0 row w1 where k: "(if gid = [] then uuid7P else retP gid) e w = (Ok k, w0)"
    and row: "rowP (createGigDraftQuery k f) e w0 = (Ok row, w1)" and load: "loadGig (grow_ID row) row e w1 = (Ok g, w')"
    using assms(2) unfolding repo_CreateDraft_def CreateDraftParams.simps
    by (auto elim!: bindP_OkE simp: mapErrP_Ok)
  have w0: "w_db w0 = w_db w" and kgid: "gid \<noteq> [] \<longrightarrow> k = gid"
    using k by (auto simp: uuid7P_def split: if_splits option.splits)
  from rowP_Ok [OF row] w0 obtain now where "createGigDraftQuery k f e now (w_db w) = Inr (Some row, w_db w1)"
    by auto
  moreover obtain c where c: "e_uuid_in e (grow_ID row) = Some c" and g: "g = MapGigRowToDomain row
      (packages_of c (w_db w1)) (questions_of c (w_db w1)) (media_of c (w_db w1))" and w': "w_db w' = w_db w1"
    by (rule loadGig_Ok [OF load])
  ultimately show thesis
  proof (cases rule: createGigDraft_run)
    case (1 c' fid)
    then have "c = c'" using c assms(1) by (auto simp: uuid_ok_def)
    with 1 g have g': "g = MapGigRowToDomain (new_draft_row c fid now)
        (packages_of c (w_db w)) (questions_of c (w_db w)) (media_of c (w_db w))" by simp
    have "view (w_db w') = (view (w_db w))(c \<mapsto> g)"
      by (rule ext) (use 1 \<open>c = c'\<close> in \<open>simp add: w' view_new_row g'\<close>)
    moreover have "view (w_db w) c = None" using 1 \<open>c = c'\<close> by (simp add: view_def)
    moreover have "gig_ID g = c" by (simp add: g')
    ultimately show thesis
      using that [of fid now] 1 \<open>c = c'\<close> kgid g' by auto
  next
    case (2 c' fid r)
    then have rid: "grow_ID r = c'" by (auto dest: find_gig_ID)
    then have id: "grow_ID row = c'" using 2 by (simp add: redraft_row_def)
    then have cc: "c = c'" using c 2 assms(1) by (auto simp: uuid_ok_def)
    let ?g0 = "MapGigRowToDomain r (packages_of c (w_db w)) (questions_of c (w_db w)) (media_of c (w_db w))"
    have g0: "view (w_db w) c = Some ?g0" using 2 cc by (simp add: view_def)
    have g': "g = redraft_gig fid now ?g0"
      using 2 g cc lifts_rows(4) by (simp add: lifts_def)
    have gid: "gig_ID g = c" using rid cc by (simp add: g' redraft_gig_def)
    have "view (w_db w') = (view (w_db w))(c \<mapsto> g)"
      by (rule ext) (use 2 cc g0 in \<open>simp add: w' view_set_gig [OF lifts_rows(4)] g'\<close>)
    then show thesis
      using that [of fid now] 2 cc kgid g' g0 gid by auto
  qed
qed

text \<open>One preview event and at most one notification.\<close>

definition announced :: "Gig \<Rightarrow> (string \<times> bytes) list \<Rightarrow> bool" where
  "announced g ms \<longleftrightarrow> (\<exists>payload rest. FromPublishedPayload payload = Ok (wire_gig g) \<and>
     notifications rest \<and> ms = (gigPreviewProjectionSubject, payload) # rest)"

lemma createDraft_Ok:
  assumes "uuid_ok e" and "createDraft recovery gid f e w = (Ok g, w')"
  obtains fid now where "e_uuid_in e (TrimSpace f) = Some fid" and "view (w_db w') = (view (w_db w))(gig_ID g \<mapsto> g)"
    and "gid \<noteq> [] \<longrightarrow> e_uuid_in e gid = Some (gig_ID g)"
    and "g = (case view (w_db w) (gig_ID g) of
        Some g0 \<Rightarrow> redraft_gig fid now g0
      | None \<Rightarrow> MapGigRowToDomain (new_draft_row (gig_ID g) fid now)
          (packages_of (gig_ID g) (w_db w)) (questions_of (gig_ID g) (w_db w)) (media_of (gig_ID g) (w_db w)))"
    and "utf8_gig g \<longrightarrow> (\<exists>ms. w_log w' = w_log w @ ms \<and> announced g ms)"
proof -
  obtain v v1 where repo: "repo_CreateDraft \<lparr>cdp_GigID = gid, cdp_FreelancerID = TrimSpace f\<rparr> e w = (Ok g, v)"
    and ev: "publishPostWritePreview recovery g e v = (Ok (), v1)"
    and no: "ignoreP (PublishGigNotification (Some g) ''gig.created'' None) e v1 = (Ok (), w')"
    using assms(2) by (auto simp: createDraft_def Let_def elim!: bindP_OkE split: if_splits)
  have prev: "publishPreviewProjection g e v = (Ok (), v1)"
    using ev by (simp add: publishPostWritePreview_def)
  obtain p where p: "ToPublishedPayload g = Ok p" and pub: "publishP gigPreviewProjectionSubject p e v = (Ok (), v1)"
    using prev unfolding publishPreviewProjection_def by (auto elim!: bindP_OkE)
  have "steps e same_log (repo_CreateDraft \<lparr>cdp_GigID = gid, cdp_FreelancerID = TrimSpace f\<rparr>)"
    unfolding repo_CreateDraft_def by (intro frame_intros)
  from stepsD [OF this repo] have log: "w_log v = w_log w" by (simp add: same_log_def)
  have "\<exists>rest. w_log w' = w_log v1 @ rest \<and> notifications rest"
    by (rule notify_ignored [OF no]) (unfold PublishGigNotification_def, rule notify_log)
  moreover have "utf8_gig g \<Longrightarrow> FromPublishedPayload p = Ok (wire_gig g)"
    using p by (rule published.decode_encode [rotated])
  ultimately have msgs: "utf8_gig g \<longrightarrow> (\<exists>ms. w_log w' = w_log w @ ms \<and> announced g ms)"
    using publishP_Ok [OF pub] log by (fastforce simp: announced_def)
  have "steps e same_db (ignoreP (PublishGigNotification (Some g) ''gig.created'' None))"
    by (intro frame_intros)
  from stepsD [OF this no] publishP_Ok [OF pub] have db: "w_db w' = w_db v" by (simp add: same_db_def)
  show thesis
    by (rule repo_CreateDraft_Ok [OF assms(1) repo]) (rule that; simp add: db msgs)
qed

section \<open>Media\<close>

lemma DeleteFile_Done:
  "e_call e (w_tick w) = Done \<Longrightarrow>
   ignoreP (DeleteFile f) e w = (Ok (), w\<lparr>w_tick := Suc (w_tick w), w_rpc := w_rpc w @ [RpcDelete f]\<rparr>)"
  by (simp add: ignoreP_def DeleteFile_def bindP_def attemptP_def mapErrP_def remoteP_def Let_def)

lemma compensate_Done:
  assumes "\<And>n. w_tick w \<le> n \<Longrightarrow> e_call e n = Done"
  shows "\<exists>n. compensateUploadedFiles fs e w = (Ok (), w\<lparr>w_tick := n, w_rpc := w_rpc w @ map RpcDelete (rev fs)\<rparr>)"
proof -
  have "\<exists>n. iterP (\<lambda>f. ignoreP (DeleteFile f)) gs e w =
      (Ok (), w\<lparr>w_tick := n, w_rpc := w_rpc w @ map RpcDelete gs\<rparr>)"
    if "\<And>n. w_tick w \<le> n \<Longrightarrow> e_call e n = Done" for gs w
    using that
  proof (induction gs arbitrary: w)
    case Nil
    show ?case by (intro exI [of _ "w_tick w"]) (cases w, simp)
  next
    case (Cons g gs)
    let ?w = "w\<lparr>w_tick := Suc (w_tick w), w_rpc := w_rpc w @ [RpcDelete g]\<rparr>"
    have head: "ignoreP (DeleteFile g) e w = (Ok (), ?w)"
      by (rule DeleteFile_Done) (rule Cons.prems, simp)
    obtain n where "iterP (\<lambda>f. ignoreP (DeleteFile f)) gs e ?w =
        (Ok (), ?w\<lparr>w_tick := n, w_rpc := w_rpc ?w @ map RpcDelete gs\<rparr>)"
      using Cons.IH [of ?w] Cons.prems by auto
    then show ?case by (auto simp: bindP_def head)
  qed
  from this [of w "rev fs"] assms show ?thesis by (simp add: compensateUploadedFiles_def)
qed

text \<open>What was uploaded is deleted again, last first, when the files cannot be recorded.\<close>

lemma ReplaceMedia_compensates:
  assumes own: "getOwnedGig gid f e w = (Ok gig, w1)" and valid: "validateMediaUploads files = None"
    and up: "UploadFiles (gig_FreelancerID gig) (gigMediaPrefix (gig_ID gig)) files e w1 = (Ok ids, w2)"
    and len: "length ids = length files"
    and fail: "repo_ReplaceMedia (gig_ID gig)
      \<lparr>rmp_PictureFileID = hd ids, rmp_Media = buildGigMedia (gig_ID gig) (tl ids)\<rparr> e w2 = (Err x, w3)"
    and calls: "\<And>n. w_tick w3 \<le> n \<Longrightarrow> e_call e n = Done"
  shows "\<exists>n. ReplaceMedia gid f files e w =
    (Err x, w3\<lparr>w_tick := n, w_rpc := w_rpc w3 @ map RpcDelete (rev ids)\<rparr>)"
proof -
  have "files \<noteq> []" using valid by (auto simp: validateMediaUploads_def)
  with len have "ids \<noteq> []" by auto
  obtain n where comp: "compensateUploadedFiles ids e w3 =
      (Ok (), w3\<lparr>w_tick := n, w_rpc := w_rpc w3 @ map RpcDelete (rev ids)\<rparr>)"
    using compensate_Done [OF calls] by blast
  have att: "attemptP (repo_ReplaceMedia (gig_ID gig)
      \<lparr>rmp_PictureFileID = hd ids, rmp_Media = buildGigMedia (gig_ID gig) (tl ids)\<rparr>) e w2 = (Ok (Inl x), w3)"
    by (simp add: attemptP_def fail)
  have chk: "checkP (validateMediaUploads files) e w1 = (Ok (), w1)" using valid by simp
  show ?thesis
    unfolding ReplaceMedia_def
    by (rule exI [of _ n]) (use len \<open>ids \<noteq> []\<close> in \<open>simp add: bindP_def own chk up att comp\<close>)
qed

section \<open>The snapshot an order starts from\<close>

lemma order_snapshot_seller:
  "order_snapshot (seller_gig u now g) pkg username = order_snapshot g pkg username"
  by (simp add: order_snapshot_def seller_gig_def)

lemma GetOrderStartSnapshot_Ok:
  assumes "uuid_ok e" and "GetOrderStartSnapshot gid pid e w = (Ok s, w')"
  obtains g pkg username where "e_uuid_in e (TrimSpace gid) = Some (gig_ID g)"
    and "view (w_db w) (gig_ID g) = Some g" and "gig_Status g = StatusPublished"
    and "pkg \<in> set (gig_Packages g)" and "TrimSpace (pkg_ID pkg) = TrimSpace pid"
    and "s = order_snapshot g pkg username"
    and "TrimSpace (gig_SellerUsername g) \<noteq> [] \<longrightarrow> username = TrimSpace (gig_SellerUsername g) \<and> w_db w' = w_db w"
proof -
  obtain g v where get: "repo_GetByID (TrimSpace gid) e w = (Ok g, v)" and pub: "gig_Status g = StatusPublished"
    and rest: "(case find (\<lambda>p. TrimSpace (pkg_ID p) = TrimSpace pid) (gig_Packages g) of
             None \<Rightarrow> domP ErrInvalidPackageTier
           | Some pkg \<Rightarrow>
               bindP (if TrimSpace (gig_SellerUsername g) = [] then cached_username (gig_ID g)
                      else retP (TrimSpace (gig_SellerUsername g))) (\<lambda>username.
               bindP (if username \<noteq> [] \<and> TrimSpace (gig_SellerUsername g) = []
                      then attemptP (repo_UpdateSellerUsername (gig_ID g) username)
                      else retP (Inr g)) (\<lambda>updated.
               retP (order_snapshot (case updated of Inl _ \<Rightarrow> g | Inr g \<Rightarrow> g) pkg username)))) e v = (Ok s, w')"
    using assms(2) unfolding GetOrderStartSnapshot_def Let_def
    by (auto elim!: bindP_OkE split: if_splits)
  note o = repo_GetByID_Ok [OF get]
  have id: "e_uuid_in e (gig_ID g) = Some (gig_ID g)" using o(1) assms(1) by (auto simp: uuid_ok_def)
  obtain pkg where find: "find (\<lambda>p. TrimSpace (pkg_ID p) = TrimSpace pid) (gig_Packages g) = Some pkg"
    using rest by (auto split: option.splits)
  then have pkg: "pkg \<in> set (gig_Packages g)" "TrimSpace (pkg_ID pkg) = TrimSpace pid"
    by (auto simp: find_Some_iff)
  obtain username v1 upd where u: "(if TrimSpace (gig_SellerUsername g) = [] then cached_username (gig_ID g)
                      else retP (TrimSpace (gig_SellerUsername g))) e v = (Ok username, v1)"
    and upd: "(if username \<noteq> [] \<and> TrimSpace (gig_SellerUsername g) = []
                      then attemptP (repo_UpdateSellerUsername (gig_ID g) username) else retP (Inr g)) e v1 = (Ok upd, w')"
    and s: "s = order_snapshot (case upd of Inl _ \<Rightarrow> g | Inr g \<Rightarrow> g) pkg username"
    using rest unfolding find option.case by (elim bindP_OkE) auto
  show thesis
  proof (cases "username \<noteq> [] \<and> TrimSpace (gig_SellerUsername g) = []")
    case False
    with upd s have "s = order_snapshot g pkg username" "w' = v1" by auto
    then show thesis
      by (intro that [OF o(1,2) pub pkg, of username]) (use u o(3) in auto)
  next
    case True
    have "steps e same_db (cached_username (gig_ID g))"
      unfolding cached_username_def by (intro frame_intros)
    from stepsD [OF this] u True have v1: "w_db v1 = w_db v" by (auto simp: same_db_def)
    have "s = order_snapshot g pkg username"
    proof (cases upd)
      case (Inr g2)
      with upd True have m: "repo_UpdateSellerUsername (gig_ID g) username e v1 = (Ok g2, w')"
        by (auto simp: attemptP_def split: prod.splits res.splits)
      obtain c now g1 where "e_uuid_in e (gig_ID g) = Some c" "view (w_db v1) c = Some g1" "g2 = seller_gig username now g1"
        by (rule updateRow_Ok [OF row_updates(2) lifts_rows(2) m [unfolded updateRow_methods]])
      with id v1 o(2,3) have "g2 = seller_gig username now g" by simp
      with s Inr show ?thesis by (simp add: order_snapshot_seller)
    qed (use s in simp)
    then show thesis by (intro that [OF o(1,2) pub pkg, of username]) (use True in auto)
  qed
qed

end
