(* ===== verification/UseCaseClaims.thy ===== *)
theory UseCaseClaims
  imports UseCases Sample
begin

text \<open>
  The functional properties of the use cases, each applied to the sample database.
\<close>

lemma sample_ids: "ids_ok sample_env"
  by (simp add: ids_ok_def valid_ids_def sample_env_def) code_simp

lemma runs:
  assumes "is_ok (fst p)"
  obtains a where "p = (Ok a, snd p)"
  using assms by (cases p) (auto simp: is_ok_iff)

section \<open>Editing\<close>

text \<open>
  C20. A successful update of the basic information passed validation, belongs to the caller,
  stores the trimmed texts and the generated slug, changes no other gig, and sends the
  projection and the preview events, whose payload decodes to the gig returned.
\<close>

theorem UpdateBasicInfo_saves:
  assumes "uuid_ok e" and "ids_ok e" and "UpdateBasicInfo gid f params e w = (Ok g, w')"
  shows "validateBasicInfo params = None \<and>
    (\<exists>g0 now slug. view (w_db w) (gig_ID g) = Some g0 \<and> gig_FreelancerID g0 = TrimSpace f \<and>
      slug = Generate e (TrimSpace (ubi_Title params)) (gig_ID g) \<and> slug \<noteq> [] \<and>
      g = basic_info_gig (stored_basic_info params slug) now g0) \<and>
    view (w_db w') = (view (w_db w))(gig_ID g \<mapsto> g) \<and>
    (utf8_gig g \<longrightarrow> (\<exists>ms. w_log w' = w_log w @ ms \<and> projected g ms))"
  using UpdateBasicInfo_Ok [OF assms] by blast

definition padded_info :: UpdateBasicInfoParams where
  "padded_info = \<lparr>ubi_Title = '' Logo '', ubi_Slug = [], ubi_ShortInfo = ''A logo'',
     ubi_Description = ''I draw '', ubi_CategoryID = 3, ubi_Currency = ''EUR''\<rparr>"

lemma sample_update:
  "is_ok (fst (UpdateBasicInfo ''g1'' ''f1'' padded_info sample_env sample_world))"
  by code_simp

lemma UpdateBasicInfo_saves_witness:
  "\<exists>g now slug. fst (UpdateBasicInfo ''g1'' ''f1'' padded_info sample_env sample_world) = Ok g \<and>
     (\<exists>g0. g = basic_info_gig (stored_basic_info padded_info slug) now g0)"
proof -
  obtain g where run: "UpdateBasicInfo ''g1'' ''f1'' padded_info sample_env sample_world =
      (Ok g, snd (UpdateBasicInfo ''g1'' ''f1'' padded_info sample_env sample_world))"
    by (rule runs [OF sample_update])
  show ?thesis
    using UpdateBasicInfo_saves [OF _ sample_ids run] run by (metis fst_conv sample_uuid)
qed


definition two_tiers :: "GigPackage list" where
  "two_tiers =
     [\<lparr>pkg_ID = ''q1'', pkg_GigID = [], pkg_Tier = TierBasic, pkg_Description = ''One logo'',
       pkg_DeliveryDays = 3, pkg_PriceCents = 5000, pkg_SortOrder = 0\<rparr>,
      \<lparr>pkg_ID = ''q2'', pkg_GigID = [], pkg_Tier = TierStandard, pkg_Description = ''Two logos'',
       pkg_DeliveryDays = 5, pkg_PriceCents = 9000, pkg_SortOrder = 0\<rparr>]"



text \<open>
  C4. A replacement of the packages is all or nothing under any failure, lost replies of the
  database included: the tables are as before, or the caller's gig has all of a validated list
  and nothing of the old one.
\<close>

theorem ReplacePackages_atomic:
  assumes "uuid_ok e" and "ReplacePackages recovery gid f packages e w = (r, w')"
  shows "w_db w' = w_db w \<or>
    (\<exists>c g g'. e_uuid_in e (TrimSpace gid) = Some c \<and> view (w_db w) c = Some g \<and>
       gig_FreelancerID g = TrimSpace f \<and> packages_step recovery packages g g' \<and>
       view (w_db w') = (view (w_db w))(c \<mapsto> g'))"
  by (rule owner_write_upd [OF ReplacePackages_write [OF assms]])

text \<open>The commit's reply is lost at tick 11: an error, and the packages are there.\<close>

definition lossy_env :: env where
  "lossy_env = sample_env\<lparr>e_call := (\<lambda>n. if n = 11 then Ambiguous (Opaque ''connection reset'') else Done)\<rparr>"

lemma lossy_replace:
  "\<not> is_ok (fst (ReplacePackages False ''g1'' ''f1'' two_tiers lossy_env sample_world)) \<and>
   map prow_ID (t_packages (w_db (snd (ReplacePackages False ''g1'' ''f1'' two_tiers lossy_env sample_world)))) =
     [''q1'', ''q2'']"
  by code_simp

lemma ReplacePackages_atomic_witness:
  "\<exists>c g g'. packages_step False two_tiers g g' \<and>
     view (w_db (snd (ReplacePackages False ''g1'' ''f1'' two_tiers lossy_env sample_world))) =
       (view (w_db sample_world))(c \<mapsto> g')"
proof -
  have uuid: "uuid_ok lossy_env" by (simp add: uuid_ok_def lossy_env_def sample_env_def)
  have "w_db (snd (ReplacePackages False ''g1'' ''f1'' two_tiers lossy_env sample_world)) \<noteq> w_db sample_world"
    using lossy_replace by (auto simp: sample_world_def sample_package_def)
  then show ?thesis
    using ReplacePackages_atomic [OF uuid prod.collapse [symmetric], of False "''g1''" "''f1''" two_tiers sample_world]
    by blast
qed

section \<open>Publishing\<close>

text \<open>
  C3. A gig is published only if it is the caller's, is a complete draft with valid packages, and
  its owner's payments are onboarded (recovery apart). Then its row says so, no other gig
  changes, and the published event and both projections are sent once, in that order, with
  payloads that decode to the gig returned.
\<close>

theorem Publish_publishes:
  assumes "uuid_ok e" and "ids_ok e" and "Publish recovery gid f username e w = (Ok g, w')"
  shows "(\<exists>g0. view (w_db w) (gig_ID g) = Some g0 \<and> gig_FreelancerID g0 = TrimSpace f \<and>
      validatePublishReady g0 = None \<and> published_from username g0 g) \<and>
    (recovery \<or> (\<exists>n s. e_connect e n (TrimSpace f) = Some s \<and> cs_Status s = ''completed'')) \<and>
    view (w_db w') = (view (w_db w))(gig_ID g \<mapsto> g) \<and>
    (utf8_gig g \<longrightarrow> (\<exists>ms. w_log w' = w_log w @ ms \<and> published_messages g ms))"
  using Publish_Ok [OF assms] by blast

lemma Publish_publishes_witness:
  "\<exists>g g0. fst (Publish False ''g1'' ''f1'' ''ann'' sample_env sample_world) = Ok g \<and>
     view (w_db sample_world) (gig_ID g) = Some g0 \<and> published_from ''ann'' g0 g"
proof -
  obtain g where run: "Publish False ''g1'' ''f1'' ''ann'' sample_env sample_world =
      (Ok g, snd (Publish False ''g1'' ''f1'' ''ann'' sample_env sample_world))"
    by (rule runs [OF sample_publish])
  show ?thesis
    using Publish_publishes [OF sample_uuid sample_ids run] run by (metis fst_conv)
qed

text \<open>
  C21. If the payment service never reports completed onboarding, an ordinary publication fails,
  and leaves the tables, the cache, the messages sent and the files as they were.
\<close>

theorem Publish_needs_onboarding:
  assumes "never_onboarded e (TrimSpace f)"
    and "Publish False gid f username e w = (r, w')"
  shows "\<not> is_ok r \<and> w_db w' = w_db w \<and> w_log w' = w_log w \<and> w_redis w' = w_redis w \<and> w_rpc w' = w_rpc w"
  using Publish_not_onboarded [OF assms] by blast

definition pending_env :: env where
  "pending_env = sample_env\<lparr>e_connect := (\<lambda>n u. None)\<rparr>"

lemma Publish_needs_onboarding_witness:
  "\<not> is_ok (fst (Publish False ''g1'' ''f1'' ''ann'' pending_env sample_world)) \<and>
   w_db (snd (Publish False ''g1'' ''f1'' ''ann'' pending_env sample_world)) = w_db sample_world"
proof -
  have none: "never_onboarded pending_env (TrimSpace ''f1'')"
    by (simp add: never_onboarded_def pending_env_def)
  show ?thesis using Publish_needs_onboarding [OF none prod.collapse [symmetric]] by blast
qed

section \<open>Creating\<close>





section \<open>Media\<close>

text \<open>
  C23. When the uploaded files cannot be recorded in the database, the call fails with the
  database's error and every file uploaded is deleted again, the last one first.
\<close>

theorem ReplaceMedia_deletes_uploads:
  assumes "getOwnedGig gid f e w = (Ok gig, w1)" and "validateMediaUploads files = None"
    and "UploadFiles (gig_FreelancerID gig) (gigMediaPrefix (gig_ID gig)) files e w1 = (Ok ids, w2)"
    and "length ids = length files"
    and "repo_ReplaceMedia (gig_ID gig)
      \<lparr>rmp_PictureFileID = hd ids, rmp_Media = buildGigMedia (gig_ID gig) (tl ids)\<rparr> e w2 = (Err x, w3)"
    and "\<And>n. w_tick w3 \<le> n \<Longrightarrow> e_call e n = Done"
  shows "fst (ReplaceMedia gid f files e w) = Err x \<and>
    w_rpc (snd (ReplaceMedia gid f files e w)) = w_rpc w3 @ map RpcDelete (rev ids) \<and>
    w_log (snd (ReplaceMedia gid f files e w)) = w_log w3"
  using ReplaceMedia_compensates [OF assms] by auto

text \<open>The database refuses the transaction at tick 5, after the upload.\<close>

definition refusing_env :: env where
  "refusing_env = sample_env\<lparr>e_call := (\<lambda>n. if n = 5 then Failed (Opaque ''too many connections'') else Done)\<rparr>"

definition two_files :: "MediaUpload list" where
  "two_files = [\<lparr>up_Filename = ''a.png'', up_ContentType = ''image/png'', up_Data = ''A''\<rparr>,
                \<lparr>up_Filename = ''b.png'', up_ContentType = ''image/png'', up_Data = ''B''\<rparr>]"

lemma ReplaceMedia_deletes_uploads_witness:
  "w_rpc (snd (ReplaceMedia ''g1'' ''f1'' two_files refusing_env sample_world)) =
     [RpcUpload ''f1'' ''gigs/g1/media'' two_files, RpcDelete ''b.png'', RpcDelete ''a.png'']"
proof -
  let ?e = refusing_env
  define p1 where "p1 = getOwnedGig ''g1'' ''f1'' ?e sample_world"
  have p1: "p1 = (Ok (MapGigRowToDomain sample_row [sample_package] [] []), sample_world\<lparr>w_tick := 4\<rparr>)"
    unfolding p1_def by code_simp
  let ?gig = "MapGigRowToDomain sample_row [sample_package] [] []"
  let ?w2 = "sample_world\<lparr>w_tick := 5, w_rpc := [RpcUpload ''f1'' ''gigs/g1/media'' two_files]\<rparr>"
  have up: "UploadFiles (gig_FreelancerID ?gig) (gigMediaPrefix (gig_ID ?gig)) two_files ?e (sample_world\<lparr>w_tick := 4\<rparr>) =
      (Ok [''a.png'', ''b.png''], ?w2)"
    by code_simp
  have fail: "repo_ReplaceMedia (gig_ID ?gig)
      \<lparr>rmp_PictureFileID = hd [''a.png'', ''b.png''], rmp_Media = buildGigMedia (gig_ID ?gig) (tl [''a.png'', ''b.png''])\<rparr> ?e ?w2 =
      (Err (WrapPublishGigError (Opaque ''too many connections'')), ?w2\<lparr>w_tick := 6\<rparr>)"
    by code_simp
  have calls: "w_tick (?w2\<lparr>w_tick := 6\<rparr>) \<le> n \<Longrightarrow> e_call ?e n = Done" for n
    by (simp add: refusing_env_def)
  have valid: "validateMediaUploads two_files = None" by code_simp
  have len: "length [''a.png'', ''b.png''] = length two_files" by (simp add: two_files_def)
  show ?thesis
    using ReplaceMedia_deletes_uploads [OF p1 [unfolded p1_def] valid up len fail calls] by simp
qed

section \<open>Orders\<close>

text \<open>
  C24. An order starts only from a published gig and one of its packages, and the snapshot carries
  the seller, title, price, currency, delivery time and questions of that gig and package. If
  the gig has a seller's username, the snapshot has it and the tables are left alone.
\<close>

theorem GetOrderStartSnapshot_faithful:
  assumes "uuid_ok e" and "GetOrderStartSnapshot gid pid e w = (Ok s, w')"
  shows "\<exists>g pkg username. e_uuid_in e (TrimSpace gid) = Some (gig_ID g) \<and>
    view (w_db w) (gig_ID g) = Some g \<and> gig_Status g = StatusPublished \<and>
    pkg \<in> set (gig_Packages g) \<and> TrimSpace (pkg_ID pkg) = TrimSpace pid \<and>
    s = order_snapshot g pkg username \<and> oss_GigPublished s \<and> oss_SellerID s = gig_FreelancerID g \<and>
    oss_PriceCents s = pkg_PriceCents pkg \<and>
    (TrimSpace (gig_SellerUsername g) \<noteq> [] \<longrightarrow>
       username = TrimSpace (gig_SellerUsername g) \<and> w_db w' = w_db w)"
proof -
  obtain g pkg username where facts: "e_uuid_in e (TrimSpace gid) = Some (gig_ID g)"
    "view (w_db w) (gig_ID g) = Some g" "gig_Status g = StatusPublished" "pkg \<in> set (gig_Packages g)"
    "TrimSpace (pkg_ID pkg) = TrimSpace pid" "s = order_snapshot g pkg username"
    "TrimSpace (gig_SellerUsername g) \<noteq> [] \<longrightarrow> username = TrimSpace (gig_SellerUsername g) \<and> w_db w' = w_db w"
    by (rule GetOrderStartSnapshot_Ok [OF assms])
  have "oss_GigPublished (order_snapshot g pkg username)" "oss_SellerID (order_snapshot g pkg username) = gig_FreelancerID g"
    "oss_PriceCents (order_snapshot g pkg username) = pkg_PriceCents pkg"
    using facts(3) by (simp_all add: order_snapshot_def)
  with facts show ?thesis by blast
qed

definition open_world :: world where
  "open_world = sample_world\<lparr>w_db := w_db sample_world\<lparr>t_gigs :=
     [sample_row\<lparr>grow_Status := StatusPublished, grow_PublishedAt := Some 1000, grow_SellerUsername := ''ann''\<rparr>]\<rparr>\<rparr>"

lemma sample_order: "is_ok (fst (GetOrderStartSnapshot '' g1'' ''p1'' sample_env open_world))"
  by code_simp

lemma GetOrderStartSnapshot_faithful_witness:
  "\<exists>s g pkg username. fst (GetOrderStartSnapshot '' g1'' ''p1'' sample_env open_world) = Ok s \<and>
     view (w_db open_world) (gig_ID g) = Some g \<and> s = order_snapshot g pkg username"
proof -
  obtain s where run: "GetOrderStartSnapshot '' g1'' ''p1'' sample_env open_world =
      (Ok s, snd (GetOrderStartSnapshot '' g1'' ''p1'' sample_env open_world))"
    by (rule runs [OF sample_order])
  show ?thesis using GetOrderStartSnapshot_faithful [OF sample_uuid run] run by (metis fst_conv)
qed

end
