(* ===== verification/ListClaims.thy ===== *)
theory ListClaims
  imports ServiceRead
begin

text \<open>
  The properties of the lists: what a page of the owner's list and of a seller's public list
  holds, for the page numbers and limits a gRPC request can carry.
\<close>

definition sample_preview :: "string \<Rightarrow> int64 \<Rightarrow> GigPreview" where
  "sample_preview i n =
     \<lparr>pv_ID = i, pv_FreelancerID = ''f1'', pv_SellerUsername = ''ann'', pv_Slug = i, pv_Title = i,
      pv_ShortInfo = i, pv_MinimumPriceCents = 500, pv_PictureURL = [], pv_PopularityScore = n,
      pv_Status = StatusPublished, pv_PublishedAt = None, pv_UpdatedAt = 0, pv_RatingAvg = 0,
      pv_TotalReviews = n, pv_OrderCount = n, pv_CreatedAt = 0\<rparr>"

definition three_previews :: "GigPreview list" where
  "three_previews = [sample_preview ''a'' 1, sample_preview ''b'' 2, sample_preview ''c'' 2]"

text \<open>
  C14. A page of the owner's list is the page of one list that does not depend on the page: the
  previews with the status asked for, sorted by the sort key in the direction asked for, equal
  ranks by descending identifier, equal previews in the order of the cache. The pages of that
  list put together are the whole list, once.
\<close>

theorem owner_list_pages:
  assumes "list_all rating_ok previews"
    and "\<forall>P \<in> {1..page_count (filterOwnerGigs previews status) (nat (sint limit))}.
      page_args_ok (filterOwnerGigs previews status) (page P) limit \<and> nat (sint (page P)) = P"
    and "0 < sint limit"
  shows "\<exists>items. mset items = mset (filterOwnerGigs previews status) \<and>
    sorted_wrt (\<lambda>a b. \<not> owner_less sortKey order b a) items \<and>
    (\<forall>P \<in> {1..page_count (filterOwnerGigs previews status) (nat (sint limit))}.
       list_page previews status sortKey order (page P) limit = Ok (exact_page items (page P) limit)) \<and>
    concat (map (\<lambda>P. lr_Gigs (exact_page items (page P) limit)) [1..<Suc (page_count items (nat (sint limit)))]) = items"
proof -
  let ?items = "sortOwnerGigs (filterOwnerGigs previews status) sortKey order"
  let ?n = "page_count (filterOwnerGigs previews status) (nat (sint limit))"
  have count: "page_count ?items (nat (sint limit)) = ?n"
    by (simp add: page_count_def sortOwnerGigs_def)
  have args: "page_args_ok ?items p limit \<longleftrightarrow> page_args_ok (filterOwnerGigs previews status) p limit" for p
    by (simp add: page_args_ok_def sortOwnerGigs_def)
  have "list_all rating_ok (filterOwnerGigs previews status)"
    using assms(1) by (auto simp: filterOwnerGigs_def list_all_iff)
  then have sorted: "sorted_wrt (\<lambda>a b. \<not> owner_less sortKey order b a) ?items"
    unfolding sortOwnerGigs_def by (rule owner_order.sorted_sort_stable)
  have pages: "\<forall>P \<in> {1..?n}. list_page previews status sortKey order (page P) limit = Ok (exact_page ?items (page P) limit)"
    using assms(2) by (auto simp: list_page_def args intro: paginateOwnerGigs_exact)
  have "map (\<lambda>P. lr_Gigs (exact_page ?items (page P) limit)) [1..<Suc ?n] =
      map (\<lambda>P. page_of ?items P (nat (sint limit))) [1..<Suc ?n]"
    using assms(2) by (auto simp: exact_page_def Let_def)
  then have "concat (map (\<lambda>P. lr_Gigs (exact_page ?items (page P) limit))
      [1..<Suc (page_count ?items (nat (sint limit)))]) = ?items"
    using pages_concat [of "nat (sint limit)" ?items] assms(3) by (simp only: count)
  with sorted pages show ?thesis by (intro exI [of _ ?items]) (simp add: sortOwnerGigs_def)
qed

lemma owner_list_pages_witness:
  "\<exists>items. mset items = mset (map Some three_previews) \<and>
     list_page (map Some three_previews) [] gigListSortOrderCount gigListOrderDesc (word_of_nat 2) 2 =
       Ok (exact_page items (word_of_nat 2) 2)"
proof -
  have ok: "list_all rating_ok (map Some three_previews)"
    by (simp add: three_previews_def sample_preview_def rating_ok_def f64_is_nan_def f64_fraction_def)
  have filter: "filterOwnerGigs (map Some three_previews) [] = map Some three_previews"
    by (simp add: filterOwnerGigs_def)
  have count: "page_count (filterOwnerGigs (map Some three_previews) []) (nat (sint (2 :: int64))) = 2"
    unfolding filter by (simp add: page_count_def three_previews_def)
  have words: "sint (word_of_nat 1 :: int64) = 1" "sint (word_of_nat 2 :: int64) = 2" "sint (2 :: int64) = 2"
    by code_simp+
  have len: "length (map Some three_previews) = 3" by (simp add: three_previews_def)
  have "page_args_ok (filterOwnerGigs (map Some three_previews) []) (word_of_nat P) 2 \<and>
      nat (sint (word_of_nat P :: int64)) = P" if "P \<in> {1..2}" for P
  proof -
    from that have "P = 1 \<or> P = 2" by auto
    then show ?thesis
      unfolding page_args_ok_def filter len by (elim disjE) (simp_all only: words, simp_all)
  qed
  then have args: "\<forall>P \<in> {1..page_count (filterOwnerGigs (map Some three_previews) []) (nat (sint (2 :: int64)))}.
      page_args_ok (filterOwnerGigs (map Some three_previews) []) (word_of_nat P) 2 \<and>
      nat (sint (word_of_nat P :: int64)) = P"
    by (simp only: count) blast
  have pos: "0 < sint (2 :: int64)" by simp
  obtain items where "mset items = mset (filterOwnerGigs (map Some three_previews) [])"
    and "\<forall>P \<in> {1..page_count (filterOwnerGigs (map Some three_previews) []) (nat (sint (2 :: int64)))}.
      list_page (map Some three_previews) [] gigListSortOrderCount gigListOrderDesc (word_of_nat P) 2 =
      Ok (exact_page items (word_of_nat P) 2)"
    using owner_list_pages [OF ok args pos, of gigListSortOrderCount gigListOrderDesc]
    by (elim exE conjE) (rule that)
  then have m: "mset items = mset (map Some three_previews)" and pages: "\<forall>P \<in> {1..2}.
      list_page (map Some three_previews) [] gigListSortOrderCount gigListOrderDesc (word_of_nat P) 2 =
      Ok (exact_page items (word_of_nat P) 2)"
    unfolding count by (simp_all only: filter)
  from pages have "list_page (map Some three_previews) [] gigListSortOrderCount gigListOrderDesc (word_of_nat 2) 2 =
      Ok (exact_page items (word_of_nat 2) 2)" by (rule bspec) simp
  with m show ?thesis by blast
qed



section \<open>The parameters of the owner's list\<close>

definition known_statuses :: "string list" where
  "known_statuses = [[], StatusDraft, StatusPublished, StatusPaused, StatusArchived]"

definition known_sorts :: "string list" where
  "known_sorts = [gigListSortCreatedAt, gigListSortUpdatedAt, gigListSortPublishedAt,
     gigListSortRatingAvg, gigListSortTotalReviews, gigListSortOrderCount]"

definition known_orders :: "string list" where
  "known_orders = [gigListOrderAsc, gigListOrderDesc]"

lemma status_cases:
  "normalizeGigListStatus raw = (if TrimSpace raw \<in> set known_statuses then TrimSpace raw else gigListStatusInvalid)"
  by (simp add: normalizeGigListStatus_def known_statuses_def Let_def)

lemma sort_cases:
  "normalizeGigListSort raw = (if TrimSpace raw = [] then gigListSortUpdatedAt
     else if TrimSpace raw \<in> set known_sorts then TrimSpace raw else gigListSortInvalid)"
  by (simp add: normalizeGigListSort_def known_sorts_def Let_def)

lemma order_cases:
  "normalizeGigListOrder raw = (if TrimSpace raw = [] then gigListOrderDesc
     else if TrimSpace raw \<in> set known_orders then TrimSpace raw else gigListOrderInvalid)"
  by (auto simp: normalizeGigListOrder_def known_orders_def Let_def)

lemma invalid_markers:
  "gigListStatusInvalid \<notin> set known_statuses" "gigListSortInvalid \<notin> set known_sorts"
  "gigListOrderInvalid \<notin> set known_orders" "gigListSortUpdatedAt \<in> set known_sorts"
  "gigListOrderDesc \<in> set known_orders" "[] \<in> set known_statuses"
  by code_simp+

text \<open>
  The three parameters of the owner's list: a known value is taken as it is, surrounding
  blanks apart; a blank one means any status, the update time, descending order; and everything
  else is the marker the service refuses, which no known value is.
\<close>

theorem list_parameters:
  "(normalizeGigListStatus raw = gigListStatusInvalid \<longleftrightarrow> TrimSpace raw \<notin> set known_statuses) \<and>
   (normalizeGigListSort raw = gigListSortInvalid \<longleftrightarrow> TrimSpace raw \<notin> set ([] # known_sorts)) \<and>
   (normalizeGigListOrder raw = gigListOrderInvalid \<longleftrightarrow> TrimSpace raw \<notin> set ([] # known_orders)) \<and>
   normalizeGigListStatus raw \<in> set (gigListStatusInvalid # known_statuses) \<and>
   normalizeGigListSort raw \<in> set (gigListSortInvalid # known_sorts) \<and>
   normalizeGigListOrder raw \<in> set (gigListOrderInvalid # known_orders)"
  using invalid_markers by (auto simp: status_cases sort_cases order_cases)

end
