(* ===== verification/RedisLaws.thy ===== *)
theory RedisLaws
  imports Redis
begin

text \<open>
  What the read repository promises about the cache: what was stored is read back by any later
  read that reaches Redis, the keys of its families do not meet, and appending to a seller's
  windows happens under the seller's lease.
\<close>

section \<open>Keys\<close>

text \<open>Identifiers as PostgreSQL prints them: hexadecimal digits and hyphens.\<close>

definition id_char :: "char \<Rightarrow> bool" where
  "id_char c \<longleftrightarrow> (let n = (of_char c :: nat) in n = 45 \<or> 48 \<le> n \<and> n \<le> 57 \<or> 97 \<le> n \<and> n \<le> 102)"

lemma id_char_bounds: "id_char c \<Longrightarrow> 0x20 < (of_char c :: nat) \<and> (of_char c :: nat) < 0x7F"
  by (auto simp: id_char_def Let_def)

lemma id_char_not: "id_char c \<Longrightarrow> c \<noteq> CHR '':'' \<and> c \<noteq> CHR ''o''"
  by (auto simp: id_char_def)

definition plain_id :: "string \<Rightarrow> bool" where
  "plain_id s \<longleftrightarrow> s \<noteq> [] \<and> list_all id_char s"

lemma plain_id_visible: "plain_id s \<Longrightarrow> visible s"
  by (simp add: plain_id_def visible_def list_all_iff id_char_bounds)

lemma plain_id_trim [simp]: "plain_id s \<Longrightarrow> TrimSpace s = s"
  by (rule TrimSpace_visible [OF plain_id_visible])

definition colons :: "string \<Rightarrow> nat" where "colons s = length (filter (\<lambda>c. c = CHR '':'') s)"

lemma colons_simps [simp]:
  "colons [] = 0" "colons (c # s) = (if c = CHR '':'' then Suc (colons s) else colons s)"
  "colons (s @ t) = colons s + colons t"
  by (simp_all add: colons_def)

lemma colons_plain [simp]: "plain_id s \<Longrightarrow> colons s = 0"
  by (auto simp: colons_def plain_id_def list_all_iff filter_empty_conv dest: id_char_not)

lemma plain_head: "plain_id s \<Longrightarrow> \<exists>c cs. s = c # cs \<and> id_char c"
  by (cases s) (auto simp: plain_id_def)

lemma show_nat_chars: "c \<in> set (show_nat n) \<Longrightarrow> c \<noteq> CHR '':'' \<and> c \<noteq> CHR ''-''"
  using set_show_nat by fastforce

lemma show_int_colons [simp]: "colons (show_int i) = 0"
  by (auto simp: colons_def show_int_def filter_empty_conv dest: show_nat_chars)

lemma key_colons:
  assumes "plain_id u"
  shows "colons (GigCacheKey u) = 1" "colons (GigPreviewPayloadKey u) = 2" "colons (GigPreviewWindowKey u n) = 4"
    "colons (GigOwnerPreviewIndexKey u) = 3" "colons (GigPreviewLeaseKey u) = 3" "colons (GigPopularityKey u) = 0"
  using assms
  by (simp_all add: GigCacheKey_def GigPreviewPayloadKey_def GigPreviewWindowKey_def
      GigOwnerPreviewIndexKey_def GigPreviewLeaseKey_def GigPopularityKey_def)

lemma lease_owner_distinct:
  assumes "plain_id u" and "plain_id v"
  shows "GigPreviewLeaseKey u \<noteq> GigOwnerPreviewIndexKey v"
proof -
  obtain c cs where "u = c # cs" "c \<noteq> CHR ''o''" using plain_head [OF assms(1)] id_char_not by blast
  then show ?thesis using assms by (simp add: GigPreviewLeaseKey_def GigOwnerPreviewIndexKey_def)
qed

lemma append_separator:
  assumes "c \<notin> set a" and "c \<notin> set b" and "a @ c # s = b @ c # t"
  shows "a = b \<and> s = t"
  using assms by (induction a arbitrary: b) (auto simp: Cons_eq_append_conv)

lemma show_int_inj: "show_int i = show_int j \<Longrightarrow> i = j"
proof -
  assume a: "show_int i = show_int j"
  have neg: "show_nat n \<noteq> CHR ''-'' # s" for n s
    using show_nat_chars [of "CHR ''-''" n] by auto
  show ?thesis
    using a neg neg [symmetric]
    by (auto simp: show_int_def dest!: show_nat_inj split: if_splits)
qed

lemma window_key_inj:
  assumes "plain_id u" and "plain_id v" and "GigPreviewWindowKey u m = GigPreviewWindowKey v n"
  shows "u = v \<and> m = n"
proof -
  have "u @ CHR '':'' # (''window:'' @ show_int (sint m)) = v @ CHR '':'' # (''window:'' @ show_int (sint n))"
    using assms by (simp add: GigPreviewWindowKey_def)
  moreover have "CHR '':'' \<notin> set u" "CHR '':'' \<notin> set v"
    using assms(1,2) id_char_not [of "CHR '':''"] unfolding plain_id_def list_all_iff by blast+
  ultimately have "u = v \<and> ''window:'' @ show_int (sint m) = ''window:'' @ show_int (sint n)"
    by (intro append_separator)
  then have "u = v" "show_int (sint m) = show_int (sint n)" by simp_all
  then show ?thesis using show_int_inj signed_word_eqI by blast
qed

section \<open>Reading back\<close>

lemma cmdP_Ok:
  assumes "cmdP c e w = (Ok a, w')"
  shows "\<exists>now. c now (w_redis w) = (Inr a, w_redis w')"
  using assms by (auto simp: cmdP_def Let_def split: outcome.splits sum.splits prod.splits)

lemma cmdP_Done:
  assumes "e_call e (w_tick w) = Done" and "c (e_now e (w_tick w)) (w_redis w) = (Inr a, r)"
  shows "fst (cmdP c e w) = Ok a"
  using assms by (simp add: cmdP_def Let_def)

lemma cmd_set_run: "cmd_set k b ttl now r = (Inr (), snd (cmd_set k b ttl now r))"
  by (simp add: cmd_set_def Let_def)

lemma fst_bindP_Ok: "fst (m e w) = Ok a \<Longrightarrow> fst (bindP m (\<lambda>a. liftP (f a)) e w) = f a"
  by (cases "m e w") (simp add: bindP_def)

lemma fst_mapErrP: "fst (mapErrP f m e w) = map_err f (fst (m e w))"
  by (cases "m e w") (simp add: mapErrP_def)

text \<open>A string stored without expiry is there for every later command until its key is written.\<close>

lemma stored_forever:
  assumes "cmdP (cmd_set k b 0) e w = (Ok (), w1)" and "w_redis w2 = w_redis w1"
    and "e_call e (w_tick w2) = Done"
  shows "fst (cmdP (cmd_get k) e w2) = Ok b"
proof -
  obtain now where "cmd_set k b 0 now (w_redis w) = (Inr (), w_redis w1)"
    using cmdP_Ok [OF assms(1)] by blast
  then have "w_redis w1 = snd (cmd_set k b 0 now (w_redis w))" by simp
  then have "string_at (e_now e (w_tick w2)) (w_redis w2) k = Some b"
    using redis_strings.fetch_put_forever assms(2) by simp
  then show ?thesis by (intro cmdP_Done [OF assms(3)]) (rule cmd_get_string)
qed

lemma read_Upsert_then_GetByID:
  assumes "utf8_gig g" and "read_Upsert (Some g) e w = (Ok (), w1)" and "w_redis w2 = w_redis w1"
    and "e_call e (w_tick w2) = Done"
  shows "fst (read_GetByID (gig_ID g) e w2) = Ok (wire_gig g)"
proof -
  obtain b where b: "ToReadModelPayload g = Ok b"
    and set: "cmdP (cmd_set (GigCacheKey (gig_ID g)) b 0) e w = (Ok (), w1)"
    using assms(2) by (auto simp: read_Upsert_def mapErrP_Ok liftP_def elim!: bindP_OkE)
  have "fst (mapErrP (nil_not_found (WrapGetGigCacheError (GigCacheKey (gig_ID g))))
      (cmdP (cmd_get (GigCacheKey (gig_ID g)))) e w2) = Ok b"
    using stored_forever [OF set assms(3,4)] by (simp add: fst_mapErrP)
  moreover have "FromReadModelPayload b = Ok (wire_gig g)"
    using read_model.decode_encode [OF assms(1) b] .
  ultimately show ?thesis
    unfolding read_GetByID_def by (cases "mapErrP (nil_not_found (WrapGetGigCacheError (GigCacheKey (gig_ID g))))
      (cmdP (cmd_get (GigCacheKey (gig_ID g)))) e w2") (simp add: bindP_def mapErrP_def liftP_def)
qed

text \<open>The preview of a gig: stored with the owner's index, read back by the gig.\<close>

lemma cmdP_redis:
  assumes "cmdP c e w = (r, w')"
  shows "w_redis w' = w_redis w \<or> (\<exists>now. w_redis w' = snd (c now (w_redis w)))"
proof -
  have "w_redis w' = w_redis w \<or> w_redis w' = snd (c (e_now e (w_tick w)) (w_redis w))"
    using assms by (auto simp: cmdP_def Let_def split: outcome.splits sum.splits prod.splits)
  then show ?thesis by blast
qed

lemma zadd_other: "k \<noteq> k' \<Longrightarrow> string_at later (snd (cmd_zadd k sc m now r)) k' = string_at later r k'"
  by (auto simp: cmd_zadd_def string_at_def live_update split: option.splits rvalue.splits)

lemma payload_owner_distinct: "plain_id i \<Longrightarrow> GigPreviewPayloadKey i \<noteq> GigOwnerPreviewIndexKey u"
proof -
  assume "plain_id i"
  then have "colons (GigPreviewPayloadKey i) = 2" by (rule key_colons)
  moreover have "3 \<le> colons (GigOwnerPreviewIndexKey u)" by (simp add: GigOwnerPreviewIndexKey_def)
  ultimately show ?thesis by auto
qed

lemma UpsertOwnerPreview_then_Get:
  assumes "utf8_preview p" and "plain_id (pv_ID p)" and "read_UpsertOwnerPreview u (Some p) e w = (Ok (), w1)"
    and "w_redis w2 = w_redis w1" and "e_call e (w_tick w2) = Done"
  shows "fst (read_GetPreviewByID (pv_ID p) e w2) = Ok p"
proof -
  let ?k = "GigPreviewPayloadKey (pv_ID p)" and ?o = "GigOwnerPreviewIndexKey (TrimSpace u)"
  let ?z = "cmd_zadd ?o (f64_of_int (unix_milli (pv_UpdatedAt p))) (pv_ID p)"
  obtain b where b: "marshal_preview p = Ok b" and pipe: "pipeP [cmd_set ?k b 0, ?z] e w = (Ok (), w1)"
    using assms(3) by (auto simp: read_UpsertOwnerPreview_def Let_def elim!: bindP_OkE split: if_splits)
  obtain r1 v r2 where c1: "cmdP (cmd_set ?k b 0) e w = (r1, v)" and c2: "cmdP ?z e v = (r2, w1)"
    and ok: "r1 = Ok () \<and> r2 = Ok ()"
    using pipe
    by (auto simp: pipeP_def bindP_def attemptP_def retP_def failP_def
        split: prod.splits res.splits option.splits sum.splits)
  from c1 ok have "cmdP (cmd_set ?k b 0) e w = (Ok (), v)" by simp
  from cmdP_Ok [OF this] obtain now where "cmd_set ?k b 0 now (w_redis w) = (Inr (), w_redis v)" by blast
  then have v: "w_redis v = snd (cmd_set ?k b 0 now (w_redis w))" by simp
  have other: "?o \<noteq> ?k" using payload_owner_distinct [OF assms(2)] by metis
  have "string_at later (w_redis w1) ?k = Some b" for later
    using cmdP_redis [OF c2] zadd_other [OF other] redis_strings.fetch_put_forever v by metis
  then have "string_at (e_now e (w_tick w2)) (w_redis w2) ?k = Some b" using assms(4) by simp
  then have get: "fst (cmdP (cmd_get ?k) e w2) = Ok b"
    by (intro cmdP_Done [OF assms(5)]) (rule cmd_get_string)
  have "pv_ID p \<noteq> []" using assms(2) by (simp add: plain_id_def)
  moreover have "unmarshal_preview b = Ok p" by (rule preview_doc.unmarshal_marshal [OF assms(1) b])
  ultimately show ?thesis
    using get assms(2) by (simp add: read_GetPreviewByID_def fst_bindP_Ok fst_mapErrP)
qed

lemma SetPopularity_then_Get:
  assumes "valid_utf8 (ps_GigID s)" and "plain_id (ps_GigID s)"
    and "read_SetPopularitySnapshot (Some s) e w = (Ok (), w1)" and "w_redis w2 = w_redis w1"
    and "e_call e (w_tick w2) = Done"
  shows "fst (read_GetPopularitySnapshot (ps_GigID s) e w2) = Ok s"
proof -
  obtain b where b: "marshal_snapshot s = Ok b"
    and set: "cmdP (cmd_set (GigPopularityKey (ps_GigID s)) b 0) e w = (Ok (), w1)"
    using assms(3) by (auto simp: read_SetPopularitySnapshot_def elim!: bindP_OkE split: if_splits)
  have "ps_GigID s \<noteq> []" using assms(2) by (simp add: plain_id_def)
  with stored_forever [OF set assms(4,5)] snapshot_doc.unmarshal_marshal [OF assms(1) b] assms(2)
  show ?thesis by (simp add: read_GetPopularitySnapshot_def fst_bindP_Ok fst_mapErrP)
qed

section \<open>The seller's lease\<close>

text \<open>While somebody holds the lease, an append is refused and Redis is left as it was.\<close>

lemma lease_excludes:
  assumes "TrimSpace u \<noteq> []" and "TrimSpace (pv_ID p) \<noteq> []"
    and "e_call e (Suc (w_tick w)) = Done"
    and "live (e_now e (Suc (w_tick w))) (w_redis w) (GigPreviewLeaseKey (TrimSpace u)) \<noteq> None"
  shows "read_AppendPreviewGig u (Some p) cap ttl e w = (Err ErrPreviewLeaseBusy, w\<lparr>w_tick := w_tick w + 2\<rparr>)"
  using assms
  by (auto simp: read_AppendPreviewGig_def Let_def bindP_def nowP_def mapErrP_def cmdP_def cmd_set_nx_def)

text \<open>A release takes away the holder's own lease only.\<close>

lemma release_own:
  "live now r k \<noteq> Some (RStr (Raw token)) \<Longrightarrow> snd (script_release k token now r) = r"
  "live now r k = Some (RStr (Raw token)) \<Longrightarrow>
   script_release k token now r = (Inr True, AList.delete k r)"
  by (auto simp: script_release_def split: option.splits rvalue.splits)

end
