(* ===== verification/ReadClaims.thy ===== *)
theory ReadClaims
  imports RedisLaws UseCases Sample
begin

text \<open>
  The properties of the read side: the cache, the previews, the lease, the public read.
\<close>

section \<open>The cache\<close>

text \<open>
  C28. A gig stored in the cache is read back as it was stored, up to what its JSON form does not
  carry, by every later read that reaches Redis before the key is written again.
\<close>

theorem cached_gig_roundtrip:
  assumes "utf8_gig g" and "read_Upsert (Some g) e w = (Ok (), w1)" and "w_redis w2 = w_redis w1"
    and "e_call e (w_tick w2) = Done"
  shows "fst (read_GetByID (gig_ID g) e w2) = Ok (wire_gig g)"
  using assms by (rule read_Upsert_then_GetByID)

definition sample_cached :: Gig where
  "sample_cached = MapGigRowToDomain sample_row [sample_package] [] []"

lemma sample_cached_ok: "utf8_gig sample_cached"
  by code_simp

lemma sample_cached_run: "fst (read_Upsert (Some sample_cached) sample_env sample_world) = Ok ()"
  by code_simp

lemma cached_gig_roundtrip_witness:
  "fst (read_GetByID ''g1'' sample_env (snd (read_Upsert (Some sample_cached) sample_env sample_world))) =
     Ok sample_cached"
proof -
  have run: "read_Upsert (Some sample_cached) sample_env sample_world =
      (Ok (), snd (read_Upsert (Some sample_cached) sample_env sample_world))"
    using sample_cached_run by (metis prod.collapse)
  have id: "gig_ID sample_cached = ''g1''" "wire_gig sample_cached = sample_cached"
    by (simp_all add: sample_cached_def sample_row_def wire_gig_def MapGigRowToDomain_def)
  show ?thesis
    using cached_gig_roundtrip [OF sample_cached_ok run refl] by (simp add: id sample_env_def)
qed

text \<open>
  The preview written for an owner is read back by the gig's identifier, whatever the index
  update beside it does to Redis.
\<close>

theorem preview_roundtrip:
  assumes "utf8_preview p" and "plain_id (pv_ID p)" and "read_UpsertOwnerPreview u (Some p) e w = (Ok (), w1)"
    and "w_redis w2 = w_redis w1" and "e_call e (w_tick w2) = Done"
  shows "fst (read_GetPreviewByID (pv_ID p) e w2) = Ok p"
  using assms by (rule UpsertOwnerPreview_then_Get)

definition sample_pv :: GigPreview where
  "sample_pv = toPreview (sample_cached\<lparr>gig_ID := ''a1''\<rparr>) None None (Some 2)"

lemma sample_pv_ok: "utf8_preview sample_pv" "plain_id (pv_ID sample_pv)"
  by code_simp+

lemma sample_pv_json: "preview_json_ok sample_pv"
proof -
  have "pv_PublishedAt sample_pv = None" "pv_RatingAvg sample_pv = 0"
    "json_time_ok (pv_UpdatedAt sample_pv)" "json_time_ok (pv_CreatedAt sample_pv)"
    by code_simp+
  then show ?thesis by (simp add: preview_json_ok_def time_ptr_ok_def f64_finite_def f64_exponent_def)
qed

lemma sample_pv_run: "fst (read_UpsertOwnerPreview ''f1'' (Some sample_pv) sample_env sample_world) = Ok ()"
proof -
  have "TrimSpace ''f1'' \<noteq> []" "TrimSpace (pv_ID sample_pv) \<noteq> []" by code_simp+
  moreover have "GigOwnerPreviewIndexKey u \<noteq> GigPreviewPayloadKey (pv_ID sample_pv)" for u
    using payload_owner_distinct [OF sample_pv_ok(2)] by metis
  ultimately show ?thesis
    by (simp add: read_UpsertOwnerPreview_def marshal_preview_def sample_pv_json pipeP_def bindP_def
        attemptP_def retP_def cmdP_def sample_env_def sample_world_def cmd_set_def cmd_zadd_def live_update live_def)
qed

lemma preview_roundtrip_witness:
  "fst (read_GetPreviewByID ''a1'' sample_env (snd (read_UpsertOwnerPreview ''f1'' (Some sample_pv) sample_env sample_world))) =
     Ok sample_pv"
proof -
  have run: "read_UpsertOwnerPreview ''f1'' (Some sample_pv) sample_env sample_world =
      (Ok (), snd (read_UpsertOwnerPreview ''f1'' (Some sample_pv) sample_env sample_world))"
    using sample_pv_run by (metis prod.collapse)
  have id: "pv_ID sample_pv = ''a1''" by (simp add: sample_pv_def toPreview_def)
  show ?thesis
    using preview_roundtrip [OF sample_pv_ok(1,2) run refl] by (simp add: id sample_env_def)
qed

text \<open>
  C29. For identifiers as PostgreSQL prints them the keys of the cache, the previews, the windows,
  the owner index, the lease and the popularity of any gigs and users are all different, and a
  window key determines its seller and its number.
\<close>

theorem keys_apart:
  assumes "plain_id g" and "plain_id h" and "plain_id u" and "plain_id v"
  shows "distinct [GigCacheKey g, GigPreviewPayloadKey h, GigPreviewWindowKey u n,
      GigOwnerPreviewIndexKey v, GigPreviewLeaseKey u, GigPopularityKey g] \<and>
    (GigCacheKey g = GigCacheKey h \<longleftrightarrow> g = h) \<and>
    (GigPreviewPayloadKey g = GigPreviewPayloadKey h \<longleftrightarrow> g = h) \<and>
    (GigPreviewWindowKey u m = GigPreviewWindowKey v n \<longleftrightarrow> u = v \<and> m = n)"
proof -
  have "GigPreviewLeaseKey u \<noteq> GigOwnerPreviewIndexKey v" using assms(3,4) by (rule lease_owner_distinct)
  moreover have "distinct (map colons [GigCacheKey g, GigPreviewPayloadKey h, GigPreviewWindowKey u n,
      GigOwnerPreviewIndexKey v, GigPopularityKey g])"
    using assms by (simp add: key_colons)
  then have "distinct [GigCacheKey g, GigPreviewPayloadKey h, GigPreviewWindowKey u n,
      GigOwnerPreviewIndexKey v, GigPopularityKey g]" by (auto simp: distinct_map)
  moreover have "GigPreviewLeaseKey u \<notin> {GigCacheKey g, GigPreviewPayloadKey h, GigPreviewWindowKey u n,
      GigPopularityKey g}"
    using key_colons assms by (metis emptyE insertE numeral_eq_iff num.distinct(1,3,5) numeral_eq_one_iff
        semiring_norm(85,87,90) zero_neq_numeral)
  ultimately show ?thesis
    using assms window_key_inj [of u v m n] by (auto simp: GigCacheKey_def GigPreviewPayloadKey_def)
qed

lemma keys_apart_witness:
  "distinct [GigCacheKey ''0a-1'', GigPreviewPayloadKey ''b2'', GigPreviewWindowKey ''c3'' 0,
     GigOwnerPreviewIndexKey ''d4'', GigPreviewLeaseKey ''c3'', GigPopularityKey ''0a-1'']"
proof -
  have "plain_id ''0a-1''" "plain_id ''b2''" "plain_id ''c3''" "plain_id ''d4''" by code_simp+
  then show ?thesis using keys_apart by blast
qed

section \<open>The lease\<close>

text \<open>
  C30. While a seller's lease is held, every append to the seller's windows is refused and Redis
  stays as it was; and the script that gives the lease back takes away only the holder's own.
\<close>

theorem lease_is_exclusive:
  assumes "TrimSpace u \<noteq> []" and "TrimSpace (pv_ID p) \<noteq> []"
    and "e_call e (Suc (w_tick w)) = Done"
    and "live (e_now e (Suc (w_tick w))) (w_redis w) (GigPreviewLeaseKey (TrimSpace u)) = Some v"
  shows "fst (read_AppendPreviewGig u (Some p) cap ttl e w) = Err ErrPreviewLeaseBusy \<and>
    w_redis (snd (read_AppendPreviewGig u (Some p) cap ttl e w)) = w_redis w \<and>
    (v \<noteq> RStr (Raw token) \<longrightarrow>
       snd (script_release (GigPreviewLeaseKey (TrimSpace u)) token (e_now e (Suc (w_tick w))) (w_redis w)) = w_redis w)"
  using assms release_own(1) by (auto simp: lease_excludes)

definition leased_world :: world where
  "leased_world = sample_world\<lparr>w_redis := [(''gig:preview:f1:lease'', RStr (Raw ''other''), None)]\<rparr>"

lemma lease_is_exclusive_witness:
  "fst (read_AppendPreviewGig ''f1'' (Some sample_pv) 20 0 sample_env leased_world) = Err ErrPreviewLeaseBusy"
proof -
  have "TrimSpace ''f1'' \<noteq> []" "TrimSpace (pv_ID sample_pv) \<noteq> []"
    "e_call sample_env (Suc (w_tick leased_world)) = Done"
    "live (e_now sample_env (Suc (w_tick leased_world))) (w_redis leased_world) (GigPreviewLeaseKey (TrimSpace ''f1'')) =
       Some (RStr (Raw ''other''))"
    by code_simp+
  from lease_is_exclusive [OF this] show ?thesis by blast
qed

section \<open>The public read\<close>

text \<open>
  C31. A gig that is not in the cache is shown to the public only if its row is published: a draft
  is not found, and nothing is cached or announced for it.
\<close>

theorem public_read_hides_drafts:
  assumes "TrimSpace gid \<noteq> []" and "read_GetByID (TrimSpace gid) e w = (Err x, w1)" and "errors_is x ErrGigNotFound"
    and "repo_GetByID (TrimSpace gid) e w1 = (Ok g, w2)" and "gig_Status g \<noteq> StatusPublished"
  shows "GetPublicByID gid e w = (Err (Dom ErrGigNotFound), w2) \<and> w_log w2 = w_log w \<and> w_db w2 = w_db w"
proof -
  have "GetPublicByID gid e w = (Err (Dom ErrGigNotFound), w2)"
    using assms by (simp add: GetPublicByID_def Let_def bindP_def attemptP_def)
  moreover have "same_log w w1" "same_db w w1"
    using assms(2) redis_frames(3,4) by (blast dest: stepsD)+
  moreover have "same_log w1 w2" "same_db w1 w2"
    using assms(4) read_frames(1,3) by (blast dest: stepsD)+
  ultimately show ?thesis by (simp add: same_log_def same_db_def)
qed

lemma public_read_hides_drafts_witness:
  "fst (GetPublicByID '' g1'' sample_env sample_world) = Err (Dom ErrGigNotFound)"
proof -
  have get: "read_GetByID (TrimSpace '' g1'') sample_env sample_world = (Err (Dom ErrGigNotFound), sample_world\<lparr>w_tick := 1\<rparr>)"
    by code_simp
  have repo: "repo_GetByID (TrimSpace '' g1'') sample_env (sample_world\<lparr>w_tick := 1\<rparr>) =
      (Ok sample_cached, sample_world\<lparr>w_tick := 5\<rparr>)"
    by code_simp
  have "TrimSpace '' g1'' \<noteq> []" "gig_Status sample_cached \<noteq> StatusPublished" by code_simp+
  then show ?thesis using public_read_hides_drafts [OF _ get _ repo] by simp
qed

text \<open>
  A gig in the cache is shown as it is there, whatever its status: the cached copy is not
  checked, and the view is announced.
\<close>

theorem public_read_trusts_cache:
  assumes "TrimSpace gid \<noteq> []" and "read_GetByID (TrimSpace gid) e w = (Ok g, w1)"
    and "\<And>n. w_tick w1 \<le> n \<Longrightarrow> e_call e n = Done"
  shows "fst (GetPublicByID gid e w) = Ok g \<and> w_db (snd (GetPublicByID gid e w)) = w_db w1"
  using assms
  by (auto simp: GetPublicByID_def Let_def bindP_def attemptP_def publishViewed_def nowP_def ignoreP_def
      publishP_def remoteP_def split: res.splits)

lemma public_read_trusts_cache_witness:
  "\<exists>g. fst (GetPublicByID ''g1'' sample_env (snd (read_Upsert (Some sample_cached) sample_env sample_world))) = Ok g \<and>
     gig_Status g = StatusDraft"
proof -
  define w where "w = snd (read_Upsert (Some sample_cached) sample_env sample_world)"
  have run: "read_Upsert (Some sample_cached) sample_env sample_world = (Ok (), w)"
    using sample_cached_run unfolding w_def by (metis prod.collapse)
  have id: "gig_ID sample_cached = ''g1''" "wire_gig sample_cached = sample_cached"
    by (simp_all add: sample_cached_def sample_row_def wire_gig_def MapGigRowToDomain_def)
  have calls: "e_call sample_env n = Done" for n by (simp add: sample_env_def)
  have "fst (read_GetByID (TrimSpace ''g1'') sample_env w) = Ok sample_cached"
    using read_Upsert_then_GetByID [OF sample_cached_ok run refl calls] id by (simp add: TrimSpace_visible visible_def)
  then have get: "read_GetByID (TrimSpace ''g1'') sample_env w =
      (Ok sample_cached, snd (read_GetByID (TrimSpace ''g1'') sample_env w))" by (metis prod.collapse)
  have ne: "TrimSpace ''g1'' \<noteq> []" by code_simp
  have "gig_Status sample_cached = StatusDraft" by code_simp
  then show ?thesis
    using public_read_trusts_cache [OF ne get calls] unfolding w_def by blast
qed

end
