(* ===== verification/Grpc.thy ===== *)
theory Grpc
  imports ServiceRead
begin

text \<open>
  The gRPC adapter: \<open>internal/presentation/grpc/mapper.go\<close> (messages from and to the domain, errors
  to status codes) and \<open>server.go\<close> (one handler for each call). The message types are generated
  from the shared protocol; the records below hold the fields the mapper sets or reads, each a
  pointer that may be nil where the code returns one. Whether a text is a UUID and of which
  version is the parameter \<open>ver\<close> (\<open>uuid.Parse\<close>).
\<close>

section \<open>Messages\<close>

record PbPackage =
  pbp_Id :: string
  pbp_GigId :: string
  pbp_Tier :: string
  pbp_Description :: string
  pbp_DeliveryDays :: int32
  pbp_PriceCents :: int64
  pbp_SortOrder :: int32

record PbQuestion =
  pbq_Id :: string
  pbq_GigId :: string
  pbq_Content :: string
  pbq_SortOrder :: int32

record PbMedia =
  pbm_Id :: string
  pbm_GigId :: string
  pbm_FileId :: string
  pbm_Url :: string
  pbm_SortOrder :: int32

record PbFile =
  pbf_Filename :: string
  pbf_ContentType :: string
  pbf_Data :: string

record PbGig =
  pbg_GigId :: string
  pbg_FreelancerId :: string
  pbg_SellerUsername :: string
  pbg_Slug :: string
  pbg_Title :: string
  pbg_ShortInfo :: string
  pbg_Description :: string
  pbg_CategoryId :: int64
  pbg_Currency :: string
  pbg_Status :: string
  pbg_BasicInfoCompleted :: bool
  pbg_PackagesCompleted :: bool
  pbg_RequirementsCompleted :: bool
  pbg_MediaCompleted :: bool
  pbg_PictureFileId :: string
  pbg_PictureUrl :: string
  pbg_PublishedAt :: string
  pbg_CreatedAt :: string
  pbg_UpdatedAt :: string
  pbg_Packages :: "PbPackage list"
  pbg_Questions :: "PbQuestion list"
  pbg_Media :: "PbMedia list"

record PbOrderStartSnapshot =
  pbs_GigId :: string
  pbs_PackageId :: string
  pbs_SellerUserId :: string
  pbs_SellerUsername :: string
  pbs_GigTitle :: string
  pbs_PictureFileId :: string
  pbs_PackageTitle :: string
  pbs_PackageDescription :: string
  pbs_PriceCents :: int64
  pbs_Currency :: string
  pbs_DeliveryDays :: int32
  pbs_RevisionCount :: int32
  pbs_GigPublished :: bool
  pbs_PackageAvailable :: bool
  pbs_Questions :: "PbQuestion list"

record PbPreview =
  pbv_GigId :: string
  pbv_Slug :: string
  pbv_Title :: string
  pbv_ShortInfo :: string
  pbv_MinimumPriceCents :: int64
  pbv_PictureUrl :: string
  pbv_CreatedAt :: string
  pbv_Status :: string
  pbv_PublishedAt :: string
  pbv_UpdatedAt :: string
  pbv_RatingAvg :: float64
  pbv_TotalReviews :: int64
  pbv_OrderCount :: int64

record PbPreviewPage =
  pbl_Gigs :: "PbPreview list"
  pbl_Page :: int32
  pbl_Limit :: int32
  pbl_TotalPages :: int32

record PbUpdateBasicInfo =
  pbu_GigId :: string
  pbu_FreelancerId :: string
  pbu_Title :: string
  pbu_ShortInfo :: string
  pbu_Description :: string
  pbu_CategoryId :: int64
  pbu_Currency :: string

record PbMyGigs =
  pbmy_UserId :: string
  pbmy_Status :: string
  pbmy_Sort :: string
  pbmy_Order :: string
  pbmy_Page :: int32
  pbmy_Limit :: int32

section \<open>From the domain\<close>

fun formatTimePtr :: "time option \<Rightarrow> string" where
  "formatTimePtr None = []"
| "formatTimePtr (Some t) = rfc3339_nano t"

definition pb_package :: "GigPackage \<Rightarrow> PbPackage" where
  "pb_package pkg =
     \<lparr>pbp_Id = pkg_ID pkg, pbp_GigId = pkg_GigID pkg, pbp_Tier = pkg_Tier pkg,
      pbp_Description = pkg_Description pkg, pbp_DeliveryDays = pkg_DeliveryDays pkg,
      pbp_PriceCents = pkg_PriceCents pkg, pbp_SortOrder = pkg_SortOrder pkg\<rparr>"

definition pb_question :: "GigQuestion \<Rightarrow> PbQuestion" where
  "pb_question q =
     \<lparr>pbq_Id = que_ID q, pbq_GigId = que_GigID q, pbq_Content = que_Content q,
      pbq_SortOrder = que_SortOrder q\<rparr>"

text \<open>The owner sees the file of each picture, under both names; the public does not.\<close>

definition pb_media :: "GigMedia \<Rightarrow> PbMedia" where
  "pb_media item =
     \<lparr>pbm_Id = med_FileID item, pbm_GigId = med_GigID item, pbm_FileId = med_FileID item,
      pbm_Url = med_URL item, pbm_SortOrder = med_SortOrder item\<rparr>"

definition pb_public_media :: "GigMedia \<Rightarrow> PbMedia" where
  "pb_public_media item =
     \<lparr>pbm_Id = [], pbm_GigId = med_GigID item, pbm_FileId = [], pbm_Url = med_URL item,
      pbm_SortOrder = med_SortOrder item\<rparr>"

definition ToGigResponse :: "Gig option \<Rightarrow> PbGig option" where
  "ToGigResponse = map_option (\<lambda>gig.
     \<lparr>pbg_GigId = gig_ID gig, pbg_FreelancerId = gig_FreelancerID gig,
      pbg_SellerUsername = gig_SellerUsername gig, pbg_Slug = gig_Slug gig,
      pbg_Title = gig_Title gig, pbg_ShortInfo = gig_ShortInfo gig,
      pbg_Description = gig_Description gig, pbg_CategoryId = gig_CategoryID gig,
      pbg_Currency = gig_Currency gig, pbg_Status = gig_Status gig,
      pbg_BasicInfoCompleted = gig_BasicInfoCompleted gig,
      pbg_PackagesCompleted = gig_PackagesCompleted gig,
      pbg_RequirementsCompleted = gig_RequirementsCompleted gig,
      pbg_MediaCompleted = gig_MediaCompleted gig, pbg_PictureFileId = gig_PictureFileID gig,
      pbg_PictureUrl = gig_PictureURL gig, pbg_PublishedAt = formatTimePtr (gig_PublishedAt gig),
      pbg_CreatedAt = rfc3339_nano (gig_CreatedAt gig), pbg_UpdatedAt = rfc3339_nano (gig_UpdatedAt gig),
      pbg_Packages = map pb_package (gig_Packages gig),
      pbg_Questions = map pb_question (gig_Questions gig), pbg_Media = map pb_media (gig_Media gig)\<rparr>)"

definition toPublicGigResponse :: "Gig option \<Rightarrow> PbGig option" where
  "toPublicGigResponse = map_option (\<lambda>gig.
     \<lparr>pbg_GigId = gig_ID gig, pbg_FreelancerId = gig_FreelancerID gig,
      pbg_SellerUsername = gig_SellerUsername gig, pbg_Slug = gig_Slug gig,
      pbg_Title = gig_Title gig, pbg_ShortInfo = gig_ShortInfo gig,
      pbg_Description = gig_Description gig, pbg_CategoryId = gig_CategoryID gig,
      pbg_Currency = gig_Currency gig, pbg_Status = gig_Status gig,
      pbg_BasicInfoCompleted = gig_BasicInfoCompleted gig,
      pbg_PackagesCompleted = gig_PackagesCompleted gig,
      pbg_RequirementsCompleted = gig_RequirementsCompleted gig,
      pbg_MediaCompleted = gig_MediaCompleted gig, pbg_PictureFileId = [],
      pbg_PictureUrl = gig_PictureURL gig, pbg_PublishedAt = formatTimePtr (gig_PublishedAt gig),
      pbg_CreatedAt = rfc3339_nano (gig_CreatedAt gig), pbg_UpdatedAt = rfc3339_nano (gig_UpdatedAt gig),
      pbg_Packages = map pb_package (gig_Packages gig),
      pbg_Questions = map pb_question (gig_Questions gig),
      pbg_Media = map pb_public_media (gig_Media gig)\<rparr>)"

definition pb_order_question :: "OrderStartQuestion \<Rightarrow> PbQuestion" where
  "pb_order_question q =
     \<lparr>pbq_Id = osq_ID q, pbq_GigId = [], pbq_Content = osq_Text q, pbq_SortOrder = osq_SortOrder q\<rparr>"

definition ToOrderStartSnapshot :: "OrderStartSnapshot option \<Rightarrow> PbOrderStartSnapshot option" where
  "ToOrderStartSnapshot = map_option (\<lambda>s.
     \<lparr>pbs_GigId = oss_GigID s, pbs_PackageId = oss_PackageID s, pbs_SellerUserId = oss_SellerID s,
      pbs_SellerUsername = oss_SellerUsername s, pbs_GigTitle = oss_GigTitle s,
      pbs_PictureFileId = oss_PictureFileID s, pbs_PackageTitle = oss_PackageTitle s,
      pbs_PackageDescription = oss_PackageDescription s, pbs_PriceCents = oss_PriceCents s,
      pbs_Currency = oss_Currency s, pbs_DeliveryDays = oss_DeliveryDays s,
      pbs_RevisionCount = oss_RevisionCount s, pbs_GigPublished = oss_GigPublished s,
      pbs_PackageAvailable = oss_PackageAvailable s,
      pbs_Questions = map pb_order_question (oss_Questions s)\<rparr>)"

definition pb_preview :: "GigPreview \<Rightarrow> PbPreview" where
  "pb_preview gig =
     \<lparr>pbv_GigId = pv_ID gig, pbv_Slug = pv_Slug gig, pbv_Title = pv_Title gig,
      pbv_ShortInfo = pv_ShortInfo gig, pbv_MinimumPriceCents = pv_MinimumPriceCents gig,
      pbv_PictureUrl = pv_PictureURL gig, pbv_CreatedAt = rfc3339_nano (pv_CreatedAt gig),
      pbv_Status = pv_Status gig, pbv_PublishedAt = formatTimePtr (pv_PublishedAt gig),
      pbv_UpdatedAt = rfc3339_nano (pv_UpdatedAt gig), pbv_RatingAvg = pv_RatingAvg gig,
      pbv_TotalReviews = pv_TotalReviews gig, pbv_OrderCount = pv_OrderCount gig\<rparr>"

text \<open>A nil element of a list is passed over; page numbers are cut to 32 bits.\<close>

fun pb_previews :: "GigPreview option list \<Rightarrow> PbPreview list" where
  "pb_previews [] = []"
| "pb_previews (None # gigs) = pb_previews gigs"
| "pb_previews (Some gig # gigs) = pb_preview gig # pb_previews gigs"

definition ToGetPreviewGigsByFreelancerUsernameResponse ::
    "GigPreview option ListResult option \<Rightarrow> PbPreviewPage option" where
  "ToGetPreviewGigsByFreelancerUsernameResponse = map_option (\<lambda>result.
     \<lparr>pbl_Gigs = pb_previews (lr_Gigs result), pbl_Page = ucast (lr_Page result),
      pbl_Limit = ucast (lr_Limit result), pbl_TotalPages = ucast (lr_TotalPages result)\<rparr>)"

definition ToGetMyGigsResponse :: "GigPreview option ListResult option \<Rightarrow> PbPreviewPage option" where
  "ToGetMyGigsResponse = map_option (\<lambda>result.
     \<lparr>pbl_Gigs = pb_previews (lr_Gigs result), pbl_Page = ucast (lr_Page result),
      pbl_Limit = ucast (lr_Limit result), pbl_TotalPages = ucast (lr_TotalPages result)\<rparr>)"

section \<open>To the domain\<close>

definition ToUpdateBasicInfoParams :: "PbUpdateBasicInfo \<Rightarrow> UpdateBasicInfoParams" where
  "ToUpdateBasicInfoParams req =
     \<lparr>ubi_Title = pbu_Title req, ubi_Slug = [], ubi_ShortInfo = pbu_ShortInfo req,
      ubi_Description = pbu_Description req, ubi_CategoryID = pbu_CategoryId req,
      ubi_Currency = pbu_Currency req\<rparr>"

definition ToReplacePackagesParams :: "PbPackage list \<Rightarrow> GigPackage list" where
  "ToReplacePackagesParams = map (\<lambda>pkg.
     \<lparr>pkg_ID = pbp_Id pkg, pkg_GigID = pbp_GigId pkg, pkg_Tier = pbp_Tier pkg,
      pkg_Description = pbp_Description pkg, pkg_DeliveryDays = pbp_DeliveryDays pkg,
      pkg_PriceCents = pbp_PriceCents pkg, pkg_SortOrder = pbp_SortOrder pkg\<rparr>)"

definition ToReplaceQuestionsParams :: "PbQuestion list \<Rightarrow> GigQuestion list" where
  "ToReplaceQuestionsParams = map (\<lambda>q.
     \<lparr>que_ID = pbq_Id q, que_GigID = pbq_GigId q, que_Content = pbq_Content q,
      que_SortOrder = pbq_SortOrder q\<rparr>)"

definition ToReplaceMediaParams :: "PbFile list \<Rightarrow> MediaUpload list" where
  "ToReplaceMediaParams = map (\<lambda>item.
     \<lparr>up_Filename = pbf_Filename item, up_ContentType = pbf_ContentType item,
      up_Data = pbf_Data item\<rparr>)"

section \<open>Errors\<close>

definition invalid_argument_errors :: "domain_error list" where
  "invalid_argument_errors =
     [ErrInvalidGigID, ErrInvalidGigSlug, ErrInvalidFreelancerID, ErrInvalidTitle,
      ErrInvalidShortInfo, ErrInvalidDescription, ErrInvalidCategoryID, ErrInvalidCurrency,
      ErrInvalidPackageTier, ErrInvalidPackageDescription, ErrInvalidPackageDeliveryDays,
      ErrInvalidPackagePriceCents, ErrInvalidQuestionContent, ErrInvalidMediaUpload,
      ErrInvalidMediaRef, ErrInvalidFileID, ErrInvalidPackageCount]"

definition precondition_errors :: "domain_error list" where
  "precondition_errors =
     [ErrGigDraftIncomplete, ErrGigAlreadyPublished, ErrInvalidGigState,
      ErrConnectOnboardingIncomplete]"

text \<open>A nil error stays nil; the handlers call this with an error only.\<close>

definition ToError :: "gerr \<Rightarrow> gerr" where
  "ToError err =
     (if list_ex (errors_is err) invalid_argument_errors
      then Status CodeInvalidArgument (error_text err)
      else if errors_is err ErrGigNotFound then Status CodeNotFound ''gig not found''
      else if list_ex (errors_is err) precondition_errors
      then Status CodeFailedPrecondition (error_text err)
      else Status CodeInternal ''internal server error'')"

section \<open>Handlers\<close>

definition parseGigIDFromSlug :: "(string \<Rightarrow> nat option) \<Rightarrow> string \<Rightarrow> string res" where
  "parseGigIDFromSlug ver slug =
     (let slug = TrimSpace slug
      in if slug = [] then Err (Dom ErrInvalidGigSlug)
         else if length slug \<le> 37 then Err (Dom ErrInvalidGigSlug)
         else if slug ! (length slug - 37) \<noteq> CHR ''-'' then Err (Dom ErrInvalidGigSlug)
         else let gigID = drop (length slug - 36) slug
              in case ver gigID of
                   None \<Rightarrow> Err (Dom ErrInvalidGigSlug)
                 | Some v \<Rightarrow> if v \<noteq> 7 then Err (Dom ErrInvalidGigSlug) else Ok gigID)"

text \<open>A handler calls the service, maps an error to a status and a value to a message.\<close>

definition handlerP :: "'a prog \<Rightarrow> ('a \<Rightarrow> 'b) \<Rightarrow> 'b prog" where
  "handlerP call reply = mapErrP ToError (bindP call (\<lambda>a. retP (reply a)))"

definition grpc_CreateDraft :: "string \<Rightarrow> PbGig option prog" where
  "grpc_CreateDraft freelancerID = handlerP (CreateDraft False freelancerID) (\<lambda>gig. ToGigResponse (Some gig))"

definition grpc_UpdateBasicInfo :: "PbUpdateBasicInfo \<Rightarrow> PbGig option prog" where
  "grpc_UpdateBasicInfo req =
     handlerP (UpdateBasicInfo (pbu_GigId req) (pbu_FreelancerId req) (ToUpdateBasicInfoParams req))
       (\<lambda>gig. ToGigResponse (Some gig))"

definition grpc_ReplacePackages :: "string \<Rightarrow> string \<Rightarrow> PbPackage list \<Rightarrow> PbGig option prog" where
  "grpc_ReplacePackages gigID freelancerID packages =
     handlerP (ReplacePackages False gigID freelancerID (ToReplacePackagesParams packages))
       (\<lambda>gig. ToGigResponse (Some gig))"

definition grpc_ReplaceQuestions :: "string \<Rightarrow> string \<Rightarrow> PbQuestion list \<Rightarrow> PbGig option prog" where
  "grpc_ReplaceQuestions gigID freelancerID questions =
     handlerP (ReplaceQuestions False gigID freelancerID (ToReplaceQuestionsParams questions))
       (\<lambda>gig. ToGigResponse (Some gig))"

definition grpc_ReplaceMedia :: "string \<Rightarrow> string \<Rightarrow> PbFile list \<Rightarrow> PbGig option prog" where
  "grpc_ReplaceMedia gigID freelancerID files =
     handlerP (ReplaceMedia gigID freelancerID (ToReplaceMediaParams files))
       (\<lambda>gig. ToGigResponse (Some gig))"

definition grpc_GetDraft :: "string \<Rightarrow> string \<Rightarrow> PbGig option prog" where
  "grpc_GetDraft gigID freelancerID =
     handlerP (GetByID gigID freelancerID) (\<lambda>gig. ToGigResponse (Some gig))"

definition grpc_GetOrderStartSnapshot :: "string \<Rightarrow> string \<Rightarrow> PbOrderStartSnapshot option prog" where
  "grpc_GetOrderStartSnapshot gigID packageID =
     handlerP (GetOrderStartSnapshot gigID packageID) (\<lambda>s. ToOrderStartSnapshot (Some s))"

definition grpc_GetGigBySlug :: "(string \<Rightarrow> nat option) \<Rightarrow> string \<Rightarrow> PbGig option prog" where
  "grpc_GetGigBySlug ver slug =
     handlerP (bindP (liftP (parseGigIDFromSlug ver slug)) GetPublicByID)
       (\<lambda>gig. toPublicGigResponse (Some gig))"

text \<open>The elements of this list are pointers, none of them nil.\<close>

definition pointer_page :: "'a ListResult \<Rightarrow> 'a option ListResult" where
  "pointer_page r = \<lparr>lr_Gigs = map Some (lr_Gigs r), lr_Page = lr_Page r, lr_Limit = lr_Limit r,
     lr_TotalPages = lr_TotalPages r, lr_HasMore = lr_HasMore r\<rparr>"

definition grpc_GetPreviewGigs :: "string \<Rightarrow> int32 \<Rightarrow> int32 \<Rightarrow> PbPreviewPage option prog" where
  "grpc_GetPreviewGigs username page limit =
     handlerP (GetPreviewGigsByFreelancerUsername False
         \<lparr>lpq_SellerUsername = username, lpq_Page = scast page, lpq_Limit = scast limit\<rparr>)
       (\<lambda>result. ToGetPreviewGigsByFreelancerUsernameResponse (Some (pointer_page result)))"

definition grpc_GetMyGigs :: "PbMyGigs \<Rightarrow> PbPreviewPage option prog" where
  "grpc_GetMyGigs req =
     handlerP (GetMyGigs False
         \<lparr>lmq_UserID = pbmy_UserId req, lmq_Status = pbmy_Status req, lmq_Sort = pbmy_Sort req,
          lmq_Order = pbmy_Order req, lmq_Page = scast (pbmy_Page req),
          lmq_Limit = scast (pbmy_Limit req)\<rparr>)
       (\<lambda>result. ToGetMyGigsResponse (Some result))"

definition grpc_Publish :: "string \<Rightarrow> string \<Rightarrow> string \<Rightarrow> PbGig option prog" where
  "grpc_Publish gigID freelancerID username =
     handlerP (Publish False gigID freelancerID username) (\<lambda>gig. ToGigResponse (Some gig))"

section \<open>Facts\<close>

lemma handlerP_Ok: "handlerP m f e w = (Ok b, w') \<longleftrightarrow> (\<exists>a. m e w = (Ok a, w') \<and> b = f a)"
  by (auto simp: handlerP_def mapErrP_Ok bindP_def split: prod.splits res.splits)

lemma handlerP_Err: "handlerP m f e w = (Err x, w') \<longleftrightarrow> (\<exists>y. m e w = (Err y, w') \<and> x = ToError y)"
  by (auto simp: handlerP_def mapErrP_def bindP_def split: prod.splits res.splits)

lemma handlerP_world: "snd (handlerP m f e w) = snd (m e w)"
  by (auto simp: handlerP_def mapErrP_def bindP_def split: prod.splits res.splits)

lemma pb_previews_Some [simp]: "pb_previews (map Some gs) = map pb_preview gs"
  by (induction gs) simp_all

lemma ToReplacePackagesParams_back: "ToReplacePackagesParams (map pb_package ps) = ps"
  by (induction ps) (simp_all add: ToReplacePackagesParams_def pb_package_def)

lemma ToReplaceQuestionsParams_back: "ToReplaceQuestionsParams (map pb_question qs) = qs"
  by (induction qs) (simp_all add: ToReplaceQuestionsParams_def pb_question_def)

lemma ToError_shape:
  "ToError x \<in> {Status CodeInvalidArgument (error_text x), Status CodeNotFound ''gig not found'',
     Status CodeFailedPrecondition (error_text x), Status CodeInternal ''internal server error''}"
  by (simp add: ToError_def)

end
