(* ===== verification/GrpcClaims.thy ===== *)
theory GrpcClaims
  imports Grpc ServiceInvariant Sample
begin

text \<open>
  The properties of the gRPC adapter: links, error replies, what the public is shown, the
  editing forms, and that a handler does to the world what the service does.
\<close>

section \<open>Links\<close>

lemma split_last37:
  assumes "37 < length s"
  shows "s = take (length s - 37) s @ s ! (length s - 37) # drop (length s - 36) s"
  using assms Cons_nth_drop_Suc [of "length s - 37" s] by (simp add: Suc_diff_le flip: Suc_diff_Suc)

lemma parse_Ok_iff:
  "parseGigIDFromSlug ver slug = Ok c \<longleftrightarrow>
     (\<exists>base. base \<noteq> [] \<and> TrimSpace slug = base @ ''-'' @ c) \<and> length c = 36 \<and> ver c = Some 7"
    (is "?l = ?r")
proof
  define s where "s = TrimSpace slug"
  assume ?l
  then have len: "37 < length s" and dash: "s ! (length s - 37) = CHR ''-''"
    and c: "c = drop (length s - 36) s" and "ver c = Some 7"
    by (auto simp: parseGigIDFromSlug_def Let_def s_def split: if_splits option.splits)
  moreover from split_last37 [OF len] dash c have "s = take (length s - 37) s @ ''-'' @ c" by simp
  ultimately show ?r using len by (auto simp: s_def intro!: exI [of _ "take (length s - 37) s"])
next
  assume ?r
  then obtain base where "base \<noteq> []" "TrimSpace slug = base @ ''-'' @ c" "length c = 36" "ver c = Some 7"
    by blast
  then show ?l by (simp add: parseGigIDFromSlug_def Let_def nth_append)
qed

lemma parse_not_Ok:
  "parseGigIDFromSlug ver slug = Err (Dom ErrInvalidGigSlug) \<or> (\<exists>c. parseGigIDFromSlug ver slug = Ok c)"
  by (simp add: parseGigIDFromSlug_def Let_def split: option.splits)

text \<open>
  A link names a gig exactly if, white space at its ends apart, it is a non-empty text, a
  hyphen and a version 7 UUID of 36 bytes, and then it names that UUID; any other link is an
  invalid slug.
\<close>

lemma slug_names_gig:
  "(parseGigIDFromSlug ver slug = Ok c \<longleftrightarrow>
      (\<exists>base. base \<noteq> [] \<and> TrimSpace slug = base @ ''-'' @ c) \<and> length c = 36 \<and> ver c = Some 7) \<and>
   (parseGigIDFromSlug ver slug = Err (Dom ErrInvalidGigSlug) \<or> (\<exists>c. parseGigIDFromSlug ver slug = Ok c))"
  by (intro conjI parse_Ok_iff parse_not_Ok)

text \<open>
  C36. The link the service stores for a gig opens that gig: for every title with a slug, the
  handler of the link is the public read of the gig's identifier.
\<close>

theorem gig_link_opens:
  assumes "visible (e_slug_make e title)" and "e_slug_make e title \<noteq> []"
    and "visible c" and "length c = 36" and "ver c = Some 7"
  shows "parseGigIDFromSlug ver (Generate e title c) = Ok c \<and>
    grpc_GetGigBySlug ver (Generate e title c) e w =
      handlerP (GetPublicByID c) (\<lambda>gig. toPublicGigResponse (Some gig)) e w"
proof -
  have gen: "Generate e title c = e_slug_make e title @ ''-'' @ c"
    using assms by (auto simp: Generate_def Let_def)
  with assms(1,3) have "visible (Generate e title c)" by (simp add: visible_def)
  then have trim: "TrimSpace (Generate e title c) = e_slug_make e title @ ''-'' @ c"
    by (simp only: TrimSpace_visible gen)
  with assms have parse: "parseGigIDFromSlug ver (Generate e title c) = Ok c"
    by (auto simp: parse_Ok_iff)
  then show ?thesis by (simp add: grpc_GetGigBySlug_def handlerP_def mapErrP_def bindP_def)
qed

definition sample_gig_id :: string where
  "sample_gig_id = ''01890a5d-ac96-774b-bcce-b302099a8057''"

lemma gig_link_opens_witness:
  "parseGigIDFromSlug (\<lambda>s. if length s = 36 then Some 7 else None)
     (Generate sample_env ''Logo'' sample_gig_id) = Ok sample_gig_id"
proof -
  have make: "e_slug_make sample_env ''Logo'' = ''logo''"
    by (simp add: sample_env_def) code_simp
  have "visible sample_gig_id" and "visible ''logo''" and len: "length sample_gig_id = 36"
    by (simp_all add: sample_gig_id_def visible_def)
  then show ?thesis
    using gig_link_opens [of sample_env "''Logo''" sample_gig_id "\<lambda>s. if length s = 36 then Some 7 else None"]
    by (simp add: make)
qed

section \<open>Error replies\<close>

text \<open>
  Which of the service's errors a caller can tell apart: an error of the domain is answered
  with the code Internal, and none of its text, exactly for the sentinels listed. Among them
  are five faults of the caller's own list parameters and the invalid username, package and
  question identifiers.
\<close>

theorem internal_domain_errors:
  "ToError (Dom d) = Status CodeInternal ''internal server error'' \<longleftrightarrow>
     d \<in> {ErrInvalidUsername, ErrInvalidPackageID, ErrInvalidQuestionID, ErrInvalidGigListStatus,
          ErrInvalidGigListSort, ErrInvalidGigListOrder, ErrInvalidGigListPage, ErrInvalidGigListLimit,
          ErrGigAlreadyExists, ErrFailedToCreateGig, ErrFailedToUpdateGig, ErrFailedToPublishGig,
          ErrFailedToFindGig, ErrFailedToReplaceGigPackages, ErrFailedToReplaceGigQuestions,
          ErrFailedToReplaceGigMedia}"
  by (cases d) (simp_all add: ToError_def invalid_argument_errors_def precondition_errors_def)

text \<open>
  An owner who lists gigs with an unknown status, sort key or order is told that the server
  failed, although the request was at fault; nothing is read or written.
\<close>

definition bad_list_parameter :: "PbMyGigs \<Rightarrow> bool" where
  "bad_list_parameter req \<longleftrightarrow>
     normalizeGigListStatus (pbmy_Status req) = gigListStatusInvalid \<or>
     normalizeGigListSort (pbmy_Sort req) = gigListSortInvalid \<or>
     normalizeGigListOrder (pbmy_Order req) = gigListOrderInvalid"

theorem bad_list_parameter_is_internal:
  assumes "bad_list_parameter req" and "TrimSpace (pbmy_UserId req) \<noteq> []"
  shows "grpc_GetMyGigs req e w = (Err (Status CodeInternal ''internal server error''), w)"
  using assms
  by (auto simp: grpc_GetMyGigs_def handlerP_def mapErrP_def GetMyGigs_def Let_def bad_list_parameter_def
      ToError_def invalid_argument_errors_def precondition_errors_def)

lemma bad_list_parameter_is_internal_witness:
  "grpc_GetMyGigs \<lparr>pbmy_UserId = ''f1'', pbmy_Status = ''deleted'', pbmy_Sort = [], pbmy_Order = [],
     pbmy_Page = 1, pbmy_Limit = 10\<rparr> sample_env sample_world =
   (Err (Status CodeInternal ''internal server error''), sample_world)"
  by (rule bad_list_parameter_is_internal) (simp_all add: bad_list_parameter_def, code_simp+)

section \<open>What a caller is shown\<close>

text \<open>
  The public view of a gig does not depend on the file identifiers of its pictures: gigs
  that differ in nothing else look the same.
\<close>

theorem public_view_hides_files:
  "toPublicGigResponse (Some (gig\<lparr>gig_PictureFileID := f,
      gig_Media := map (\<lambda>m. m\<lparr>med_FileID := h m, med_ID := k m\<rparr>) (gig_Media gig)\<rparr>)) =
   toPublicGigResponse (Some gig)"
  by (simp add: toPublicGigResponse_def pb_public_media_def)

text \<open>
  C37. The packages and the questions of the draft a caller is shown, sent back unchanged, are
  those stored, field by field; and the draft shown is the caller's own.
\<close>

theorem draft_form_roundtrip:
  assumes "grpc_GetDraft gid f e w = (Ok m, w')"
  shows "\<exists>c g pb. e_uuid_in e (TrimSpace gid) = Some c \<and> view (w_db w) c = Some g \<and>
    gig_FreelancerID g = TrimSpace f \<and> m = Some pb \<and>
    ToReplacePackagesParams (pbg_Packages pb) = gig_Packages g \<and>
    ToReplaceQuestionsParams (pbg_Questions pb) = gig_Questions g"
proof -
  from assms obtain g where own: "getOwnedGig gid f e w = (Ok g, w')" and m: "m = ToGigResponse (Some g)"
    by (auto simp: grpc_GetDraft_def GetByID_def handlerP_Ok)
  from getOwnedGig_Ok [OF own] m show ?thesis
    by (auto simp: ToGigResponse_def ToReplacePackagesParams_back ToReplaceQuestionsParams_back)
qed

lemma sample_draft: "is_ok (fst (grpc_GetDraft ''g1'' ''f1'' sample_env sample_world))"
  by code_simp

lemma draft_form_roundtrip_witness:
  "\<exists>c g pb. view (w_db sample_world) c = Some g \<and>
     fst (grpc_GetDraft ''g1'' ''f1'' sample_env sample_world) = Ok (Some pb) \<and>
     ToReplacePackagesParams (pbg_Packages pb) = gig_Packages g"
proof -
  obtain m where "fst (grpc_GetDraft ''g1'' ''f1'' sample_env sample_world) = Ok m"
    using sample_draft by (auto simp: is_ok_iff)
  then have "grpc_GetDraft ''g1'' ''f1'' sample_env sample_world =
      (Ok m, snd (grpc_GetDraft ''g1'' ''f1'' sample_env sample_world))"
    by (metis prod.collapse)
  from draft_form_roundtrip [OF this] \<open>fst _ = Ok m\<close> show ?thesis by blast
qed

section \<open>The adapter and the service\<close>








end
