(* ===== verification/Subscribers.thy ===== *)
theory Subscribers
  imports ServiceResults RedisLaws
begin

text \<open>
  The event handlers of \<open>internal/presentation/event_broker/kafka/subscribers.go\<close> and of the NATS
  subscribers beside it: the projection of a gig into the cache, the preview of a gig, the
  rating and the order count. A handler is given the payload of a message and returns the error
  the broker acts on. \<open>osr\<close> is the protobuf library's reading of an order result: the gig and
  the status, or nothing when it is malformed.
\<close>

section \<open>Kafka handlers\<close>

definition kafka_ErrInvalidGigPayload :: gerr where
  "kafka_ErrInvalidGigPayload = Opaque ''gig event payload is invalid''"

definition unexpected_json :: gerr where
  "unexpected_json = Opaque ''json: cannot unmarshal''"

record rating_event =
  re_GigID :: string

definition rating_fields :: "(string \<times> rating_event decoder) list" where
  "rating_fields = [(''gig_id'', field re_GigID re_GigID_update dec_str)]"

definition rating_handle :: "bytes \<Rightarrow> unit prog" where
  "rating_handle payload =
     (case unmarshal (dec_struct rating_fields) payload \<lparr>re_GigID = []\<rparr> of (ok, ev) \<Rightarrow>
        if \<not> ok then failP unexpected_json
        else if TrimSpace (re_GigID ev) = [] then failP kafka_ErrInvalidGigPayload
        else RefreshPreviewRating False (re_GigID ev))"

definition order_funded_handle :: "(bytes \<Rightarrow> (string \<times> string) option) \<Rightarrow> bytes \<Rightarrow> unit prog" where
  "order_funded_handle osr payload =
     (case osr payload of
        None \<Rightarrow> retP ()
      | Some (gigID, status) \<Rightarrow>
          if TrimSpace gigID = [] \<or> TrimSpace status \<noteq> ''success'' then retP ()
          else RefreshPreviewOrderCount False gigID)"

record event_metadata =
  em_OperationID :: string
  em_CorrelationID :: string

definition metadata_fields :: "(string \<times> event_metadata decoder) list" where
  "metadata_fields =
     [(''operation_id'', field em_OperationID em_OperationID_update dec_str),
      (''correlation_id'', field em_CorrelationID em_CorrelationID_update dec_str)]"

text \<open>The identifiers of the operation, as far as the payload has them.\<close>

definition event_metadata_of :: "bytes \<Rightarrow> event_metadata" where
  "event_metadata_of payload =
     snd (unmarshal (dec_struct metadata_fields) payload \<lparr>em_OperationID = [], em_CorrelationID = []\<rparr>)"

definition projection_failed :: "Gig \<Rightarrow> string \<Rightarrow> event_metadata \<Rightarrow> gerr \<Rightarrow> unit prog" where
  "projection_failed gig code meta err =
     bindP (ignoreP (PublishGigNotificationOutcome (Some gig) ''gig.operation_failed'' StatusFailed code
              (em_OperationID meta) (em_CorrelationID meta) (Some True) None)) (\<lambda>_. failP err)"

definition projection_handle :: "bytes \<Rightarrow> unit prog" where
  "projection_handle payload =
     (let meta = event_metadata_of payload
      in bindP (liftP (FromPublishedPayload payload)) (\<lambda>gig.
         if TrimSpace (gig_ID gig) = [] then failP kafka_ErrInvalidGigPayload
         else bindP (attemptP (Project (Some gig))) (\<lambda>projected.
              case projected of
                Inl err \<Rightarrow> projection_failed gig ''projection_failed'' meta err
              | Inr p \<Rightarrow>
                  bindP (attemptP (read_Upsert (Some p))) (\<lambda>written.
                  case written of
                    Inl err \<Rightarrow> projection_failed gig ''projection_write_failed'' meta err
                  | Inr _ \<Rightarrow>
                      ignoreP (PublishGigNotificationOutcome (Some p) ''gig.projection_completed''
                        StatusCompleted [] (em_OperationID meta) (em_CorrelationID meta) None None)))))"

definition preview_handle :: "bytes \<Rightarrow> unit prog" where
  "preview_handle payload =
     bindP (liftP (FromPublishedPayload payload)) (\<lambda>gig.
     if TrimSpace (gig_ID gig) = [] then failP kafka_ErrInvalidGigPayload
     else bindP (Project (Some gig)) (\<lambda>projected. AppendPreviewGig False (Some projected)))"

section \<open>NATS handlers\<close>

definition nats_ErrInvalidGigPayload :: gerr where
  "nats_ErrInvalidGigPayload = Opaque ''invalid gig payload''"

definition handleGigReviewRatingRequestedEvent :: "bytes \<Rightarrow> unit prog" where
  "handleGigReviewRatingRequestedEvent payload =
     (case unmarshal (dec_struct rating_fields) payload \<lparr>re_GigID = []\<rparr> of (ok, ev) \<Rightarrow>
        if \<not> ok then failP unexpected_json
        else if re_GigID ev = [] then failP nats_ErrInvalidGigPayload
        else RefreshPreviewRating False (re_GigID ev))"

definition handleGigProjectionRequestedEvent :: "bytes \<Rightarrow> unit prog" where
  "handleGigProjectionRequestedEvent payload =
     bindP (liftP (FromPublishedPayload payload)) (\<lambda>gig.
     if gig_ID gig = [] then failP nats_ErrInvalidGigPayload
     else bindP (Project (Some gig)) (\<lambda>projected. read_Upsert (Some projected)))"

definition handleGigPreviewProjectionRequestedEvent :: "bytes \<Rightarrow> unit prog" where
  "handleGigPreviewProjectionRequestedEvent payload =
     bindP (liftP (FromPublishedPayload payload)) (\<lambda>gig.
     if gig_ID gig = [] then failP nats_ErrInvalidGigPayload
     else bindP (Project (Some gig)) (\<lambda>projected. AppendPreviewGig False (Some projected)))"

definition nats_order_funded_handle :: "(bytes \<Rightarrow> (string \<times> string) option) \<Rightarrow> bytes \<Rightarrow> unit prog" where
  "nats_order_funded_handle osr payload =
     (case osr payload of
        None \<Rightarrow> retP ()
      | Some (gigID, status) \<Rightarrow>
          if TrimSpace gigID = [] then retP ()
          else if TrimSpace status \<noteq> ''success'' then retP ()
          else RefreshPreviewOrderCount False gigID)"

section \<open>The handlers leave the tables alone\<close>

lemma failed_frames [frame_intros]: "steps e same_db (projection_failed gig code meta err)"
  unfolding projection_failed_def by (intro frame_intros)

lemma projection_handle_frames [frame_intros]: "steps e same_db (projection_handle payload)"
  unfolding projection_handle_def Let_def by (intro frame_intros)

lemma preview_handle_frames [frame_intros]: "steps e same_db (preview_handle payload)"
  unfolding preview_handle_def by (intro frame_intros)

lemma rating_frames [frame_intros]: "steps e same_db (rating_handle payload)"
  unfolding rating_handle_def by (intro frame_intros)

lemma order_frames [frame_intros]: "steps e same_db (order_funded_handle osr payload)"
  unfolding order_funded_handle_def by (intro frame_intros)

lemma nats_frames [frame_intros]:
  "steps e same_db (handleGigReviewRatingRequestedEvent payload)"
  "steps e same_db (handleGigProjectionRequestedEvent payload)"
  "steps e same_db (handleGigPreviewProjectionRequestedEvent payload)"
  "steps e same_db (nats_order_funded_handle osr payload)"
  unfolding handleGigReviewRatingRequestedEvent_def handleGigProjectionRequestedEvent_def
    handleGigPreviewProjectionRequestedEvent_def nats_order_funded_handle_def
  by (intro frame_intros)+

section \<open>Projection\<close>

text \<open>The file service's URLs are texts of a protobuf message, hence valid UTF-8.\<close>

definition urls_ok :: "env \<Rightarrow> bool" where
  "urls_ok e \<longleftrightarrow> (\<forall>n fs items f u. e_file_urls e n fs = Some items \<longrightarrow> Some (f, u) \<in> set items \<longrightarrow> valid_utf8 u)"

definition valid_urls :: "(string \<rightharpoonup> string) \<Rightarrow> bool" where
  "valid_urls urls \<longleftrightarrow> (\<forall>f u. urls f = Some u \<longrightarrow> valid_utf8 u)"

lemma valid_urls_empty [simp]: "valid_urls Map.empty"
  by (simp add: valid_urls_def)

lemma valid_urls_upd: "valid_urls urls \<Longrightarrow> valid_utf8 u \<Longrightarrow> valid_urls (urls(f \<mapsto> u))"
  by (simp add: valid_urls_def)

lemma collect_urls_valid:
  assumes "valid_urls urls" and "\<And>f u. Some (f, u) \<in> set items \<Longrightarrow> valid_utf8 u"
  shows "valid_urls (collect_urls items urls)"
  using assms
proof (induction items urls rule: collect_urls.induct)
  case (3 fid url items urls)
  from 3(3) have "valid_utf8 url" by (metis list.set_intros(1))
  with 3(2) have "valid_urls (urls(fid \<mapsto> url))" by (rule valid_urls_upd)
  then show ?case using 3(1,3) by (metis collect_urls.simps(3) list.set_intros(2))
qed (auto dest: meta_spec)

lemma GetFileURLs_valid:
  assumes "urls_ok e" and "GetFileURLs fs e w = (Ok urls, w')"
  shows "valid_urls urls"
  using assms
  by (auto simp: GetFileURLs_def mapErrP_Ok remoteP_def Let_def ToGetFileURLsResponse_def urls_ok_def
      elim!: bindP_OkE split: outcome.splits option.splits intro!: collect_urls_valid)

lemma url_of_valid: "valid_urls urls \<Longrightarrow> valid_utf8 (url_of urls f)"
  by (auto simp: url_of_def valid_urls_def split: option.splits)

lemma project_with_utf8: "utf8_gig g \<Longrightarrow> valid_urls urls \<Longrightarrow> utf8_gig (project_with urls g)"
  by (auto simp: utf8_gig_def project_with_def list_all_iff url_of_valid)

lemma project_with_wire [simp]:
  "project_with urls (wire_gig g) = project_with urls g" "wire_gig (project_with urls g) = project_with urls g"
  "gig_ID (project_with urls g) = gig_ID g" "gig_Status (project_with urls g) = gig_Status g"
  by (simp_all add: project_with_def wire_gig_def)

lemma Project_Ok:
  assumes "urls_ok e" and "Project (Some g) e w = (Ok p, w')"
  shows "\<exists>urls. p = project_with urls g \<and> valid_urls urls"
proof -
  have "\<exists>v. (if projection_file_ids g = [] then retP (Inr Map.empty)
        else attemptP (GetFileURLs (projection_file_ids g))) e w = (Ok v, w') \<and>
      p = project_with (case v of Inl _ \<Rightarrow> Map.empty | Inr urls \<Rightarrow> urls) g"
    using assms(2) by (auto simp: Project_def elim!: bindP_OkE)
  then obtain v where v: "(if projection_file_ids g = [] then retP (Inr Map.empty)
        else attemptP (GetFileURLs (projection_file_ids g))) e w = (Ok v, w')"
    and p: "p = project_with (case v of Inl _ \<Rightarrow> Map.empty | Inr urls \<Rightarrow> urls) g" by blast
  from v GetFileURLs_valid [OF assms(1)] have "valid_urls (case v of Inl _ \<Rightarrow> Map.empty | Inr urls \<Rightarrow> urls)"
    by (auto simp: attemptP_def split: if_splits prod.splits res.splits)
  with p show ?thesis by blast
qed

lemma notification_keeps_redis:
  assumes "ignoreP (PublishGigNotificationOutcome g a b c d f s p) e w = (r, w')"
  shows "w_redis w' = w_redis w"
proof -
  have "steps e same_redis (ignoreP (PublishGigNotificationOutcome g a b c d f s p))"
    by (intro frame_intros)
  from stepsD [OF this assms] show ?thesis by (simp add: same_redis_def)
qed

text \<open>What a projection that succeeds leaves in the cache, with either broker.\<close>

lemma projection_handle_Ok:
  assumes "urls_ok e" and "utf8_gig g" and "FromPublishedPayload payload = Ok (wire_gig g)"
    and "projection_handle payload e v = (Ok (), v')"
    and "w_redis v2 = w_redis v'" and "e_call e (w_tick v2) = Done"
  shows "\<exists>urls. fst (read_GetByID (gig_ID g) e v2) = Ok (project_with urls g)"
proof -
  let ?m = "event_metadata_of payload"
  obtain p v0 v1 where p: "Project (Some (wire_gig g)) e v = (Ok p, v0)"
    and up: "read_Upsert (Some p) e v0 = (Ok (), v1)"
    and n: "ignoreP (PublishGigNotificationOutcome (Some p) ''gig.projection_completed'' StatusCompleted []
        (em_OperationID ?m) (em_CorrelationID ?m) None None) e v1 = (Ok (), v')"
    using assms(3,4)
    by (auto simp: projection_handle_def Let_def projection_failed_def attemptP_def bindP_def failP_def
        split: if_splits prod.splits res.splits sum.splits)
  from Project_Ok [OF assms(1) p] obtain urls where urls: "p = project_with urls g" "valid_urls urls" by auto
  with assms(2) have "utf8_gig p" by (simp add: project_with_utf8)
  moreover have "w_redis v2 = w_redis v1" using assms(5) notification_keeps_redis [OF n] by simp
  ultimately have "fst (read_GetByID (gig_ID p) e v2) = Ok (wire_gig p)"
    using up assms(6) by (intro read_Upsert_then_GetByID)
  with urls show ?thesis by auto
qed

lemma nats_projection_Ok:
  assumes "urls_ok e" and "utf8_gig g" and "FromPublishedPayload payload = Ok (wire_gig g)"
    and "handleGigProjectionRequestedEvent payload e v = (Ok (), v')"
    and "w_redis v2 = w_redis v'" and "e_call e (w_tick v2) = Done"
  shows "\<exists>urls. fst (read_GetByID (gig_ID g) e v2) = Ok (project_with urls g)"
proof -
  obtain p v0 where p: "Project (Some (wire_gig g)) e v = (Ok p, v0)"
    and up: "read_Upsert (Some p) e v0 = (Ok (), v')"
    using assms(3,4) by (auto simp: handleGigProjectionRequestedEvent_def elim!: bindP_OkE split: if_splits)
  from Project_Ok [OF assms(1) p] obtain urls where urls: "p = project_with urls g" "valid_urls urls" by auto
  with assms(2) have "utf8_gig p" by (simp add: project_with_utf8)
  then have "fst (read_GetByID (gig_ID p) e v2) = Ok (wire_gig p)"
    using up assms(5,6) by (intro read_Upsert_then_GetByID)
  with urls show ?thesis by auto
qed

section \<open>Order counts\<close>

lemma RefreshPreviewOrderCount_cached:
  assumes "read_GetPreviewByID (TrimSpace gid) e w = (Ok p, v)"
  shows "RefreshPreviewOrderCount recovery gid e w = incrementPreviewOrderCount (Some p) e v"
proof -
  have "TrimSpace gid \<noteq> []"
    using assms by (auto simp: read_GetPreviewByID_def Let_def domP_def failP_def split: if_splits)
  then show ?thesis
    using assms by (simp add: RefreshPreviewOrderCount_def Let_def bindP_def attemptP_def)
qed

end
