(* ===== verification/SubscriberClaims.thy ===== *)
theory SubscriberClaims
  imports Subscribers ReadClaims
begin

text \<open>
  The properties of the event handlers: from a publication to the cache, and the order count.
\<close>

section \<open>From the write to the cache\<close>

lemma published_messages_projection:
  assumes "published_messages g ms"
  shows "\<exists>payload. (gigProjectionRequestedSubject, payload) \<in> set ms \<and> FromPublishedPayload payload = Ok (wire_gig g)"
proof -
  from assms obtain a rest ms' where "projected g ms'" and ms: "ms = (gigPublishedSubject, a) # rest @ ms'"
    unfolding published_messages_def by blast
  then obtain payload ids b where "tells g ids payload" "ms' = (gigProjectionRequestedSubject, payload) # b"
    unfolding projected_def by blast
  with ms show ?thesis by (intro exI [of _ payload]) (simp add: tells_def)
qed

text \<open>
  C9. Write side, broker and read side together: a successful publication sends a message on the
  projection topic whose consumption, by either broker's handler, in any later state, leaves
  the published gig in the cache under its identifier, with the URLs the file service gives its
  pictures; every read that reaches Redis before the key is written again returns it.
\<close>

theorem publication_reaches_cache:
  assumes "uuid_ok e" and "ids_ok e" and "urls_ok e" and "utf8_gig g"
    and "Publish recovery gid f username e w = (Ok g, w')"
  shows "\<exists>payload ms. w_log w' = w_log w @ ms \<and> (gigProjectionRequestedSubject, payload) \<in> set ms \<and>
    (\<forall>handler\<in>{projection_handle, handleGigProjectionRequestedEvent}. \<forall>v v' later.
      handler payload e v = (Ok (), v') \<and> w_redis later = w_redis v' \<and> e_call e (w_tick later) = Done \<longrightarrow>
      (\<exists>urls. fst (read_GetByID (gig_ID g) e later) = Ok (project_with urls g)))"
proof -
  from Publish_Ok [OF assms(1,2,5)] assms(4)
  obtain ms where ms: "w_log w' = w_log w @ ms" "published_messages g ms" by blast
  then obtain payload where payload: "(gigProjectionRequestedSubject, payload) \<in> set ms"
    and "FromPublishedPayload payload = Ok (wire_gig g)" using published_messages_projection by blast
  with ms(1) payload show ?thesis
    using projection_handle_Ok [OF assms(3,4)] nats_projection_Ok [OF assms(3,4)] by blast
qed

text \<open>The sample environment with a file service that knows one URL.\<close>

definition files_env :: env where
  "files_env = sample_env\<lparr>e_file_urls := (\<lambda>n fs. Some (map (\<lambda>f. Some (f, ''https://files/1'')) fs))\<rparr>"

lemma files_env_ok: "uuid_ok files_env" "ids_ok files_env" "urls_ok files_env"
proof -
  have "valid_ids (''ev'', ''op'', ''co'')" by code_simp
  then show "ids_ok files_env" by (simp add: ids_ok_def files_env_def sample_env_def)
  have "valid_utf8 ''https://files/1''" by code_simp
  then show "urls_ok files_env" by (auto simp: urls_ok_def files_env_def)
qed (simp add: uuid_ok_def files_env_def sample_env_def)

definition published_world :: world where
  "published_world = snd (Publish False ''g1'' ''f1'' ''ann'' files_env sample_world)"

definition result_all :: "('a \<Rightarrow> bool) \<Rightarrow> 'a res \<Rightarrow> bool" where
  "result_all P r = (case r of Ok a \<Rightarrow> P a | _ \<Rightarrow> False)"

lemma result_allE: "result_all P r \<Longrightarrow> (\<And>a. r = Ok a \<Longrightarrow> P a \<Longrightarrow> thesis) \<Longrightarrow> thesis"
  by (cases r) (auto simp: result_all_def)

lemma sample_published: "result_all (\<lambda>g. utf8_gig g \<and> gig_ID g = ''g1'') (fst (Publish False ''g1'' ''f1'' ''ann'' files_env sample_world))"
  by code_simp

lemma sample_projected:
  "list_all (\<lambda>(s, payload). s = gigProjectionRequestedSubject \<longrightarrow>
     result_all (\<lambda>_. True) (fst (projection_handle payload files_env published_world))) (w_log published_world)"
  by code_simp

lemma publication_reaches_cache_witness:
  "\<exists>g payload urls. fst (Publish False ''g1'' ''f1'' ''ann'' files_env sample_world) = Ok g \<and>
     fst (read_GetByID ''g1'' files_env (snd (projection_handle payload files_env published_world))) =
       Ok (project_with urls g)"
proof -
  obtain g where g: "fst (Publish False ''g1'' ''f1'' ''ann'' files_env sample_world) = Ok g"
    and utf8: "utf8_gig g" "gig_ID g = ''g1''"
    using sample_published by (auto elim: result_allE)
  then have run: "Publish False ''g1'' ''f1'' ''ann'' files_env sample_world = (Ok g, published_world)"
    by (metis prod.collapse published_world_def)
  from publication_reaches_cache [OF files_env_ok utf8(1) run] obtain payload ms
    where ms: "w_log published_world = w_log sample_world @ ms" "(gigProjectionRequestedSubject, payload) \<in> set ms"
    and cached: "\<And>v v' later. projection_handle payload files_env v = (Ok (), v') \<Longrightarrow> w_redis later = w_redis v' \<Longrightarrow>
      e_call files_env (w_tick later) = Done \<Longrightarrow>
      \<exists>urls. fst (read_GetByID (gig_ID g) files_env later) = Ok (project_with urls g)"
    by blast
  from ms sample_projected have "result_all (\<lambda>_. True) (fst (projection_handle payload files_env published_world))"
    by (auto simp: list_all_iff)
  then have "projection_handle payload files_env published_world =
      (Ok (), snd (projection_handle payload files_env published_world))"
    by (auto elim!: result_allE simp: prod_eq_iff)
  from cached [OF this refl] g utf8(2) show ?thesis by (auto simp: files_env_def sample_env_def)
qed

section \<open>Order counts\<close>








end
