(* ===== verification/Kafka.thy ===== *)
theory Kafka
  imports Subscribers
begin

unbundle bit_operations_syntax

text \<open>
  The consumers of \<open>internal/presentation/event_broker/kafka/broker.go\<close>: the plain consumer with its
  retry topic and dead-letter topic, the projection batches, and the recovery batches with their
  lanes. A handler is a program over the world of the service; around it, a consumer claims the
  event in the shared idempotency table, releases the claim when the handler fails, writes to
  Kafka and commits offsets. The shared packages (envelopes, claims, retries, dead-letter
  records) and the replies of Kafka are the parameters \<open>klib\<close>, by tick where they may differ from
  call to call; what a consumer did is its trace. The steps of one message are taken together:
  the messages of a batch may come in any of the orders its workers allow.
\<close>

section \<open>Messages and parameters\<close>

record message =
  msg_Key :: string
  msg_Value :: bytes
  msg_Headers :: "(string \<times> string) list"
  msg_Partition :: int64
  msg_Offset :: int64

text \<open>The fields of the migration envelope the consumers and the recovery handler read.\<close>

record envelope =
  ev_EventID :: string
  ev_CommandID :: string
  ev_CorrelationID :: string
  ev_IdempotencyKey :: string
  ev_TestRunID :: string
  ev_Operation :: string
  ev_CommandPath :: string
  ev_AggregateType :: string
  ev_AggregateID :: string
  ev_RecoveryPrincipalID :: string
  ev_RecoveryUsername :: string
  ev_RecoveryAccessToken :: string
  ev_Payload :: bytes

text \<open>Where a message is in its topic: its partition and its offset.\<close>

definition msg_place :: "message \<Rightarrow> int64 \<times> int64" where
  "msg_place m = (msg_Partition m, msg_Offset m)"

datatype action =
    Claimed string bool
  | Released string
  | Handled string "int64 \<times> int64" bool
  | Skipped "int64 \<times> int64"
  | Retried "int64 \<times> int64" int
  | Dead "int64 \<times> int64"
  | Committed "(int64 \<times> int64) list"

record kstate =
  ks_world :: world
  ks_tick :: nat
  ks_attempts :: nat
  ks_trace :: "action list"

type_synonym kstep = "kstate \<Rightarrow> unit res \<times> kstate"

text \<open>
  \<open>kl_db\<close>: the broker has a database for claims. \<open>kl_retry\<close> is \<open>resilience.Retry\<close> with at most one
  attempt; \<open>kl_release\<close> says whether a release took effect, its error being ignored.
\<close>

record klib =
  kl_db :: bool
  kl_unwrap :: "bytes \<Rightarrow> gerr + bytes"
  kl_envelope :: "bytes \<Rightarrow> envelope option"
  kl_event_id :: "string \<Rightarrow> bytes \<Rightarrow> string"
  kl_scoped :: "string \<Rightarrow> string \<Rightarrow> string"
  kl_claim :: "nat \<Rightarrow> string \<Rightarrow> gerr + bool"
  kl_release :: "nat \<Rightarrow> bool"
  kl_retry :: "(nat \<Rightarrow> kstep) \<Rightarrow> kstep"
  kl_dlq_record :: "message \<Rightarrow> nat \<Rightarrow> gerr \<Rightarrow> gerr + bytes"
  kl_write :: "nat \<Rightarrow> gerr option"
  kl_commit :: "nat \<Rightarrow> outcome"
  kl_max_attempts :: int
  kl_group :: string
  kl_dead_letter :: string

record consumer_config =
  cc_Subject :: string
  cc_GroupID :: string

section \<open>Which consumer runs\<close>

datatype consumer_kind = ProjectionBatch | ExplicitGroup | PlainReader

definition consumer_kind_of :: "consumer_config \<Rightarrow> consumer_kind" where
  "consumer_kind_of cfg =
     (if str_contains (cc_Subject cfg) ''projection.requested'' then ProjectionBatch
      else if TrimSpace (cc_GroupID cfg) \<noteq> [] then ExplicitGroup else PlainReader)"

definition consumer_group :: "string \<Rightarrow> consumer_config \<Rightarrow> string" where
  "consumer_group broker_group cfg =
     (let groupID = TrimSpace (cc_GroupID cfg)
      in if groupID = [] then TrimSpace broker_group @ ''-'' @ TrimSpace (cc_Subject cfg) else groupID)"

section \<open>The steps of a consumer\<close>

fun retryAttempt :: "(string \<times> string) list \<Rightarrow> int" where
  "retryAttempt [] = 1"
| "retryAttempt ((k, v) # headers) =
     (if k = ''x-ofm-retry-attempt''
      then (case atoi v of
              Some n \<Rightarrow> if 0 < n then n else retryAttempt headers
            | None \<Rightarrow> retryAttempt headers)
      else retryAttempt headers)"

definition record_act :: "action \<Rightarrow> kstate \<Rightarrow> kstate" where
  "record_act a s = s\<lparr>ks_trace := ks_trace s @ [a]\<rparr>"

definition ticked :: "kstate \<Rightarrow> kstate" where
  "ticked s = s\<lparr>ks_tick := Suc (ks_tick s)\<rparr>"

text \<open>The identity of an event: the command's, when the message has one, within its subject.\<close>

definition event_identity :: "klib \<Rightarrow> string \<Rightarrow> bytes \<Rightarrow> string" where
  "event_identity L subject value =
     kl_scoped L subject
       (case kl_envelope L value of
          Some env \<Rightarrow> if ev_CommandID env \<noteq> [] then ev_CommandID env else kl_event_id L subject value
        | None \<Rightarrow> kl_event_id L subject value)"

definition claim_event :: "klib \<Rightarrow> string \<Rightarrow> message \<Rightarrow> kstate \<Rightarrow> (gerr + bool) \<times> kstate" where
  "claim_event L subject m s =
     (if \<not> kl_db L then (Inr True, s)
      else let eid = event_identity L subject (msg_Value m)
           in case kl_claim L (ks_tick s) eid of
                Inl err \<Rightarrow> (Inl err, ticked s)
              | Inr claimed \<Rightarrow> (Inr claimed, record_act (Claimed eid claimed) (ticked s)))"

definition release_event :: "klib \<Rightarrow> string \<Rightarrow> message \<Rightarrow> kstate \<Rightarrow> kstate" where
  "release_event L subject m s =
     (if \<not> kl_db L then s
      else if kl_release L (ks_tick s)
      then record_act (Released (event_identity L subject (msg_Value m))) (ticked s)
      else ticked s)"

definition call_handler :: "klib \<Rightarrow> env \<Rightarrow> (bytes \<Rightarrow> unit prog) \<Rightarrow> string \<Rightarrow> message \<Rightarrow> bytes \<Rightarrow> kstep" where
  "call_handler L e handler subject m payload s =
     (case handler payload e (ks_world s) of
        (r, w) \<Rightarrow> (r, record_act (Handled (event_identity L subject (msg_Value m)) (msg_place m) (is_ok r))
                     (s\<lparr>ks_world := w\<rparr>)))"

text \<open>The dead-letter topic: the error is that of the record or of the write.\<close>

definition deadLetterMessage :: "klib \<Rightarrow> message \<Rightarrow> nat \<Rightarrow> gerr \<Rightarrow> kstate \<Rightarrow> gerr option \<times> kstate" where
  "deadLetterMessage L m attempts cause s =
     (case kl_dlq_record L m attempts cause of
        Inl err \<Rightarrow> (Some err, s)
      | Inr _ \<Rightarrow>
          (case kl_write L (ks_tick s) of
             Some err \<Rightarrow> (Some err, ticked s)
           | None \<Rightarrow> (None, record_act (Dead (msg_place m)) (ticked s))))"

text \<open>A commit names, for each message's partition, the offset after the message.\<close>

definition commit_messages :: "klib \<Rightarrow> message list \<Rightarrow> kstate \<Rightarrow> gerr option \<times> kstate" where
  "commit_messages L ms s =
     (let s' = record_act (Committed (map (\<lambda>m. (msg_Partition m, msg_Offset m + 1)) ms)) (ticked s)
      in case kl_commit L (ks_tick s) of
           Done \<Rightarrow> (None, s')
         | Failed err \<Rightarrow> (Some err, ticked s)
         | Ambiguous err \<Rightarrow> (Some err, s'))"

section \<open>The plain consumer\<close>

text \<open>How the consumer's loop goes on: to the next message, or out, with an error or with nil.\<close>

datatype flow = Next | Stop "gerr option" | Crash

definition consume :: "klib \<Rightarrow> env \<Rightarrow> (bytes \<Rightarrow> unit prog) \<Rightarrow> consumer_config \<Rightarrow> message \<Rightarrow> kstate \<Rightarrow> flow \<times> kstate" where
  "consume L e handler cfg m s =
     (let subject = cc_Subject cfg; attempts = retryAttempt (msg_Headers m)
      in case claim_event L subject m s of
           (Inl err, s) \<Rightarrow> (Stop (Some err), s)
         | (Inr False, s) \<Rightarrow> (Next, record_act (Skipped (msg_place m)) s)
         | (Inr True, s) \<Rightarrow>
             (case kl_unwrap L (msg_Value m) of
                Inl err \<Rightarrow>
                  (case deadLetterMessage L m (nat attempts) err s of (r, s) \<Rightarrow> (Stop r, s))
              | Inr payload \<Rightarrow>
                  (case call_handler L e handler subject m payload s of
                     (Panic, s) \<Rightarrow> (Crash, s)
                   | (Err err, s) \<Rightarrow>
                       (let s = release_event L subject m s
                        in if \<not> is_permanent err \<and> attempts < kl_max_attempts L
                           then (case kl_write L (ks_tick s) of
                                   Some qerr \<Rightarrow> (Stop (Some qerr), ticked s)
                                 | None \<Rightarrow> (Next, record_act (Retried (msg_place m) (attempts + 1)) (ticked s)))
                           else (case deadLetterMessage L m (nat attempts) err s of (r, s) \<Rightarrow> (Stop r, s)))
                   | (Ok _, s) \<Rightarrow>
                       (case commit_messages L [m] s of
                          (Some err, s) \<Rightarrow> (Stop (Some err), s)
                        | (None, s) \<Rightarrow> (Next, s)))))"

text \<open>
  The loop over the messages fetched, until the loop is left; when there are no more, the fetch
  ends with the error given.
\<close>

fun run_consumer :: "klib \<Rightarrow> env \<Rightarrow> (bytes \<Rightarrow> unit prog) \<Rightarrow> consumer_config \<Rightarrow> gerr \<Rightarrow> message list \<Rightarrow> kstate \<Rightarrow> flow \<times> kstate" where
  "run_consumer L e handler cfg fetch_err [] s =
     (Stop (Some (Wrap (''fetch Kafka message topic='' @ cc_Subject cfg @ '' group='' @
        consumer_group (kl_group L) cfg) fetch_err)), s)"
| "run_consumer L e handler cfg fetch_err (m # ms) s =
     (case consume L e handler cfg m s of
        (Next, s) \<Rightarrow> run_consumer L e handler cfg fetch_err ms s
      | (f, s) \<Rightarrow> (f, s))"

section \<open>Projection batches\<close>

definition project_attempt :: "klib \<Rightarrow> env \<Rightarrow> (bytes \<Rightarrow> unit prog) \<Rightarrow> consumer_config \<Rightarrow> message \<Rightarrow> kstep" where
  "project_attempt L e handler cfg m s =
     (let subject = cc_Subject cfg; s = s\<lparr>ks_attempts := Suc (ks_attempts s)\<rparr>
      in case claim_event L subject m s of
           (Inl err, s) \<Rightarrow> (Err err, s)
         | (Inr False, s) \<Rightarrow> (Ok (), record_act (Skipped (msg_place m)) s)
         | (Inr True, s) \<Rightarrow>
             (case kl_unwrap L (msg_Value m) of
                Inl err \<Rightarrow> (Err err, s)
              | Inr payload \<Rightarrow>
                  (case call_handler L e handler subject m payload s of
                     (Err err, s) \<Rightarrow> (Err err, release_event L subject m s)
                   | (r, s) \<Rightarrow> (r, s))))"

definition project_message :: "klib \<Rightarrow> env \<Rightarrow> (bytes \<Rightarrow> unit prog) \<Rightarrow> consumer_config \<Rightarrow> message \<Rightarrow> kstep" where
  "project_message L e handler cfg m s =
     (case kl_retry L (\<lambda>_. project_attempt L e handler cfg m) (s\<lparr>ks_attempts := 0\<rparr>) of
        (Err err, s) \<Rightarrow>
          (case deadLetterMessage L m (ks_attempts s) err s of
             (Some dlq_err, s) \<Rightarrow> (Err dlq_err, s)
           | (None, s) \<Rightarrow> (Ok (), s))
      | (r, s) \<Rightarrow> (r, s))"

text \<open>The messages of a batch in the order the workers take; every error is kept.\<close>

fun each_message :: "(message \<Rightarrow> kstep) \<Rightarrow> message list \<Rightarrow> kstate \<Rightarrow> gerr list res \<times> kstate" where
  "each_message f [] s = (Ok [], s)"
| "each_message f (m # ms) s =
     (case f m s of
        (Panic, s) \<Rightarrow> (Panic, s)
      | (Err err, s) \<Rightarrow>
          (case each_message f ms s of (Ok errs, s) \<Rightarrow> (Ok (err # errs), s) | (r, s) \<Rightarrow> (r, s))
      | (Ok _, s) \<Rightarrow> each_message f ms s)"

text \<open>The first error ends the batch; without one the messages named are committed.\<close>

definition finish_batch ::
    "klib \<Rightarrow> string \<Rightarrow> (gerr \<Rightarrow> gerr) \<Rightarrow> message list \<Rightarrow> gerr list res \<times> kstate \<Rightarrow> flow \<times> kstate" where
  "finish_batch L what commit_error ms p =
     (case p of
        (Ok [], s) \<Rightarrow>
          (case commit_messages L ms s of
             (Some err, s) \<Rightarrow> (Stop (Some (commit_error err)), s)
           | (None, s) \<Rightarrow> (Next, s))
      | (Ok (err # _), s) \<Rightarrow> (Stop (Some (Wrap what err)), s)
      | (_, s) \<Rightarrow> (Crash, s))"

definition projection_batch ::
    "klib \<Rightarrow> env \<Rightarrow> (bytes \<Rightarrow> unit prog) \<Rightarrow> consumer_config \<Rightarrow> message list \<Rightarrow> message list \<Rightarrow> kstate \<Rightarrow> flow \<times> kstate" where
  "projection_batch L e handler cfg batch order s =
     finish_batch L (''projection batch failed topic='' @ cc_Subject cfg)
       (Wrap (''commit projection batch topic='' @ cc_Subject cfg)) batch
       (each_message (project_message L e handler cfg) order s)"

section \<open>Recovery batches\<close>

text \<open>\<open>hash/fnv\<close>: the 32-bit FNV-1a hash.\<close>

definition fnv1a :: "string \<Rightarrow> int32" where
  "fnv1a s = foldl (\<lambda>h c. (h XOR of_nat (of_char c)) * 16777619) 2166136261 s"

definition recoveryLaneKey :: "klib \<Rightarrow> message \<Rightarrow> string" where
  "recoveryLaneKey L m =
     (case kl_envelope L (msg_Value m) of
        None \<Rightarrow> msg_Key m
      | Some env \<Rightarrow>
          let path = TrimSpace (ev_CommandPath env);
              aggregate = (if TrimSpace (ev_AggregateID env) \<noteq> [] then ev_AggregateID env else msg_Key m)
          in if has_suffix path ''/gigs/drafts'' \<and> TrimSpace (ev_CommandID env) \<noteq> [] then ev_CommandID env
             else case str_index path ''/gigs/'' of
               None \<Rightarrow> aggregate
             | Some marker \<Rightarrow>
                 (let value = before_byte (CHR ''/'') (drop (marker + length ''/gigs/'') path)
                  in if value \<noteq> [] \<and> value \<noteq> ''drafts'' then value else aggregate))"

definition lane_count :: nat where "lane_count = 16"

definition lane_of :: "klib \<Rightarrow> message \<Rightarrow> nat" where
  "lane_of L m = unat (fnv1a (recoveryLaneKey L m)) mod lane_count"

definition permanent_recovery_errors :: "domain_error list" where
  "permanent_recovery_errors =
     [ErrInvalidGigID, ErrInvalidFreelancerID, ErrInvalidPackageID, ErrInvalidQuestionID,
      ErrInvalidUsername, ErrInvalidTitle, ErrInvalidShortInfo, ErrInvalidDescription,
      ErrInvalidCategoryID, ErrInvalidCurrency, ErrInvalidPackageCount, ErrInvalidPackageTier,
      ErrInvalidPackageDescription, ErrInvalidPackageDeliveryDays, ErrInvalidPackagePriceCents,
      ErrInvalidQuestionContent, ErrInvalidFileID]"

definition isPermanentRecoveryError :: "gerr \<Rightarrow> bool" where
  "isPermanentRecoveryError err = list_ex (errors_is err) permanent_recovery_errors"

text \<open>One attempt at a recovery message: the handler is given the whole envelope.\<close>

definition recovery_attempt :: "klib \<Rightarrow> env \<Rightarrow> (bytes \<Rightarrow> unit prog) \<Rightarrow> consumer_config \<Rightarrow> message \<Rightarrow> nat \<Rightarrow> kstep" where
  "recovery_attempt L e handler cfg m attempt s =
     (let subject = cc_Subject cfg; s = s\<lparr>ks_attempts := attempt\<rparr>
      in case claim_event L subject m s of
           (Inl err, s) \<Rightarrow> (Err err, s)
         | (Inr False, s) \<Rightarrow> (Ok (), record_act (Skipped (msg_place m)) s)
         | (Inr True, s) \<Rightarrow>
             (case call_handler L e handler subject m (msg_Value m) s of
                (Err err, s) \<Rightarrow>
                  (Err (if isPermanentRecoveryError err then Permanent err else err),
                   release_event L subject m s)
              | (r, s) \<Rightarrow> (r, s)))"

text \<open>What is said of a dead-letter record that could not be built or not be written.\<close>

definition recovery_dlq_text :: "klib \<Rightarrow> consumer_config \<Rightarrow> message \<Rightarrow> nat \<Rightarrow> gerr \<Rightarrow> string" where
  "recovery_dlq_text L cfg m attempts cause =
     (let place = '' partition='' @ show_int (sint (msg_Partition m)) @ '' offset='' @ show_int (sint (msg_Offset m)) @
                  '' command_id='' @ (case kl_envelope L (msg_Value m) of None \<Rightarrow> [] | Some env \<Rightarrow> ev_CommandID env)
      in case kl_dlq_record L m attempts cause of
           Inl _ \<Rightarrow> ''marshal recovery DLQ record topic='' @ cc_Subject cfg @ place
         | Inr _ \<Rightarrow> ''publish recovery DLQ topic='' @ kl_dead_letter L @ place)"

definition handleRecoveryMessage :: "klib \<Rightarrow> env \<Rightarrow> (bytes \<Rightarrow> unit prog) \<Rightarrow> consumer_config \<Rightarrow> message \<Rightarrow> kstep" where
  "handleRecoveryMessage L e handler cfg m s =
     (case kl_retry L (recovery_attempt L e handler cfg m) (s\<lparr>ks_attempts := 0\<rparr>) of
        (Err err, s) \<Rightarrow>
          (case deadLetterMessage L m (ks_attempts s) err s of
             (Some dlq_err, s) \<Rightarrow> (Err (Wrap (recovery_dlq_text L cfg m (ks_attempts s) err) dlq_err), s)
           | (None, s) \<Rightarrow> (Ok (), s))
      | (r, s) \<Rightarrow> (r, s))"

text \<open>
  The orders the 16 lanes allow: all the messages, those of a lane in the order of the batch.
\<close>

definition lane_order :: "klib \<Rightarrow> message list \<Rightarrow> message list \<Rightarrow> bool" where
  "lane_order L batch order \<longleftrightarrow>
     length order = length batch \<and>
     list_all (\<lambda>i. filter (\<lambda>m. lane_of L m = i) order = filter (\<lambda>m. lane_of L m = i) batch) [0..<lane_count]"

definition runRecoveryBatch ::
    "klib \<Rightarrow> env \<Rightarrow> (bytes \<Rightarrow> unit prog) \<Rightarrow> consumer_config \<Rightarrow> message list \<Rightarrow> message list \<Rightarrow> kstate \<Rightarrow> flow \<times> kstate" where
  "runRecoveryBatch L e handler cfg batch order s =
     finish_batch L ''recovery batch was not committed'' id [last batch]
       (each_message (handleRecoveryMessage L e handler cfg) order s)"

end
