(* ===== verification/Recovery.thy ===== *)
theory Recovery
  imports Kafka
begin

text \<open>
  \<open>internal/presentation/event_broker/kafka/recovery_subscriber.go\<close>: the commands the monolith has
  recorded while the service was away are decoded and carried out by the same use cases, in
  the recovery context, and completed with an event. The envelope's codec and the JSON text of
  a token are parameters (\<open>rlib\<close>); \<open>encoding/base64\<close> is modelled. Texts of errors that quote a
  value are shortened to their fixed part.
\<close>

section \<open>Base64\<close>

text \<open>The value of a character in the standard alphabet and in the URL alphabet.\<close>

definition b64_value :: "char \<Rightarrow> char \<Rightarrow> char \<Rightarrow> nat option" where
  "b64_value c62 c63 c =
     (let n = (of_char c :: nat)
      in if 65 \<le> n \<and> n \<le> 90 then Some (n - 65)
         else if 97 \<le> n \<and> n \<le> 122 then Some (n - 71)
         else if 48 \<le> n \<and> n \<le> 57 then Some (n + 4)
         else if c = c62 then Some 62 else if c = c63 then Some 63 else None)"

definition byte_of :: "nat \<Rightarrow> char" where "byte_of n = char_of (n mod 256)"

definition b64_quad :: "nat \<Rightarrow> nat \<Rightarrow> nat \<Rightarrow> nat \<Rightarrow> string" where
  "b64_quad a b c d =
     [byte_of (a * 4 + b div 16), byte_of (b mod 16 * 16 + c div 4), byte_of (c mod 4 * 64 + d)]"

text \<open>
  Groups of four values; the last group may be cut to two or three. With padding the group must
  be filled up with equals signs and nothing may follow; without it they are not allowed.
  Bits left over in a short group are ignored. Line breaks are skipped anywhere.
\<close>

fun b64_groups :: "(char \<Rightarrow> nat option) \<Rightarrow> bool \<Rightarrow> string \<Rightarrow> string option" where
  "b64_groups v padded [] = Some []"
| "b64_groups v padded [a] = None"
| "b64_groups v padded [a, b] =
     (if padded then None
      else case (v a, v b) of (Some x, Some y) \<Rightarrow> Some (take 1 (b64_quad x y 0 0)) | _ \<Rightarrow> None)"
| "b64_groups v padded [a, b, c] =
     (if padded then None
      else case (v a, v b, v c) of
             (Some x, Some y, Some z) \<Rightarrow> Some (take 2 (b64_quad x y z 0)) | _ \<Rightarrow> None)"
| "b64_groups v padded (a # b # c # d # s) =
     (case (v a, v b) of
        (Some x, Some y) \<Rightarrow>
          if padded \<and> d = CHR ''='' \<and> c = CHR ''='' then
            (if s = [] then Some (take 1 (b64_quad x y 0 0)) else None)
          else (case v c of
             None \<Rightarrow> None
           | Some z \<Rightarrow>
               if padded \<and> d = CHR ''='' then (if s = [] then Some (take 2 (b64_quad x y z 0)) else None)
               else (case v d of
                  None \<Rightarrow> None
                | Some u \<Rightarrow> map_option (\<lambda>t. b64_quad x y z u @ t) (b64_groups v padded s)))
      | _ \<Rightarrow> None)"

definition unbroken :: "string \<Rightarrow> string" where
  "unbroken s = filter (\<lambda>c. c \<noteq> CHR 0x0A \<and> c \<noteq> CHR 0x0D) s"

definition b64_std_decode :: "string \<Rightarrow> string option" where
  "b64_std_decode s = b64_groups (b64_value (CHR ''+'') (CHR ''/'')) True (unbroken s)"

definition b64_rawurl_decode :: "string \<Rightarrow> string option" where
  "b64_rawurl_decode s = b64_groups (b64_value (CHR ''-'') (CHR ''_'')) False (unbroken s)"

section \<open>Identities of a command\<close>

record completion =
  cp_EventID :: string
  cp_CommandID :: string
  cp_CorrelationID :: string
  cp_CausationID :: string
  cp_IdempotencyKey :: string
  cp_TestRunID :: string
  cp_Operation :: string
  cp_AggregateID :: string
  cp_OccurredAt :: time
  cp_Payload :: json

record rlib =
  rl_decode :: "bytes \<Rightarrow> envelope option"
  rl_encode :: "completion \<Rightarrow> bytes res"
  rl_parse :: "string \<Rightarrow> json option"
  rl_completed_topic :: string

fun split_dots :: "string \<Rightarrow> string list" where
  "split_dots [] = [[]]"
| "split_dots (c # s) =
     (if c = CHR ''.'' then [] # split_dots s
      else case split_dots s of [] \<Rightarrow> [[c]] | p # ps \<Rightarrow> (c # p) # ps)"

text \<open>The members of the payload of a token of three parts; later members replace earlier ones.\<close>

definition recoveryTokenClaims :: "rlib \<Rightarrow> string \<Rightarrow> (string \<rightharpoonup> json)" where
  "recoveryTokenClaims R token =
     (case split_dots token of
        [_, part, _] \<Rightarrow>
          (case b64_rawurl_decode part of
             None \<Rightarrow> Map.empty
           | Some text \<Rightarrow>
               (case rl_parse R text of Some (JObj kvs) \<Rightarrow> map_of (rev kvs) | _ \<Rightarrow> Map.empty))
      | _ \<Rightarrow> Map.empty)"

definition string_claim :: "(string \<rightharpoonup> json) \<Rightarrow> string \<Rightarrow> string option" where
  "string_claim claims k =
     (case claims k of Some (JStr s) \<Rightarrow> Some s | Some (JTime t) \<Rightarrow> Some (rfc3339_nano t) | _ \<Rightarrow> None)"

definition recoveryFreelancerID :: "rlib \<Rightarrow> string \<Rightarrow> envelope \<Rightarrow> string" where
  "recoveryFreelancerID R candidate command =
     (if TrimSpace candidate \<noteq> [] then TrimSpace candidate
      else if TrimSpace (ev_RecoveryPrincipalID command) \<noteq> [] then TrimSpace (ev_RecoveryPrincipalID command)
      else case string_claim (recoveryTokenClaims R (ev_RecoveryAccessToken command)) ''sub'' of
             Some s \<Rightarrow> TrimSpace s
           | None \<Rightarrow> [])"

definition recoveryGigID :: "envelope \<Rightarrow> string \<Rightarrow> string" where
  "recoveryGigID command fallback =
     (let path = TrimSpace (ev_CommandPath command)
      in case str_index (to_lower path) ''/gigs/'' of
           None \<Rightarrow> TrimSpace fallback
         | Some index \<Rightarrow>
             (let value = before_byte (CHR ''/'') (drop (index + length ''/gigs/'') path)
              in if value \<noteq> [] \<and> value \<noteq> ''drafts'' then value else TrimSpace fallback))"

section \<open>The bodies of the commands\<close>

record body_draft =
  bd_FreelancerID :: string
  bd_FreelancerIDCamel :: string
  bd_GigID :: string

definition draft_fields :: "(string \<times> body_draft decoder) list" where
  "draft_fields = [(''freelancer_id'', field bd_FreelancerID bd_FreelancerID_update dec_str),
     (''freelancerid'', field bd_FreelancerIDCamel bd_FreelancerIDCamel_update dec_str)]"

definition draft_id_fields :: "(string \<times> body_draft decoder) list" where
  "draft_id_fields = [(''gig_id'', field bd_GigID bd_GigID_update dec_str)]"

definition no_draft :: body_draft where
  "no_draft = \<lparr>bd_FreelancerID = [], bd_FreelancerIDCamel = [], bd_GigID = []\<rparr>"

record body_package =
  bp_ID :: string
  bp_Tier :: string
  bp_Description :: string
  bp_DeliveryDays :: int32
  bp_PriceCents :: int64
  bp_SortOrder :: int32

definition package_fields :: "(string \<times> body_package decoder) list" where
  "package_fields =
     [(''id'', field bp_ID bp_ID_update dec_str), (''tier'', field bp_Tier bp_Tier_update dec_str),
      (''description'', field bp_Description bp_Description_update dec_str),
      (''delivery_days'', field bp_DeliveryDays bp_DeliveryDays_update dec_int),
      (''price_cents'', field bp_PriceCents bp_PriceCents_update dec_int),
      (''sort_order'', field bp_SortOrder bp_SortOrder_update dec_int)]"

definition no_package :: body_package where
  "no_package = \<lparr>bp_ID = [], bp_Tier = [], bp_Description = [], bp_DeliveryDays = 0, bp_PriceCents = 0, bp_SortOrder = 0\<rparr>"

text \<open>A question is decoded into the domain's struct, which has no tags.\<close>

definition question_fields :: "(string \<times> GigQuestion decoder) list" where
  "question_fields =
     [(''id'', field que_ID que_ID_update dec_str), (''gigid'', field que_GigID que_GigID_update dec_str),
      (''content'', field que_Content que_Content_update dec_str),
      (''sortorder'', field que_SortOrder que_SortOrder_update dec_int)]"

definition no_question :: GigQuestion where
  "no_question = \<lparr>que_ID = [], que_GigID = [], que_Content = [], que_SortOrder = 0\<rparr>"

record body_file =
  bf_Filename :: string
  bf_ContentType :: string
  bf_Data :: string

definition file_fields :: "(string \<times> body_file decoder) list" where
  "file_fields =
     [(''filename'', field bf_Filename bf_Filename_update dec_str),
      (''content_type'', field bf_ContentType bf_ContentType_update dec_str),
      (''data'', field bf_Data bf_Data_update dec_str)]"

definition no_file :: body_file where
  "no_file = \<lparr>bf_Filename = [], bf_ContentType = [], bf_Data = []\<rparr>"

text \<open>The fields of the other bodies; each command decodes those it declares.\<close>

record body =
  bo_GigID :: string
  bo_FreelancerID :: string
  bo_Title :: string
  bo_ShortInfo :: string
  bo_Description :: string
  bo_CategoryID :: int64
  bo_Currency :: string
  bo_Packages :: "body_package list"
  bo_Questions :: "GigQuestion list"
  bo_Files :: "body_file list"
  bo_Username :: string

definition no_body :: body where
  "no_body = \<lparr>bo_GigID = [], bo_FreelancerID = [], bo_Title = [], bo_ShortInfo = [], bo_Description = [],
     bo_CategoryID = 0, bo_Currency = [], bo_Packages = [], bo_Questions = [], bo_Files = [], bo_Username = []\<rparr>"

definition identity_fields :: "(string \<times> body decoder) list" where
  "identity_fields = [(''gig_id'', field bo_GigID bo_GigID_update dec_str),
     (''freelancer_id'', field bo_FreelancerID bo_FreelancerID_update dec_str)]"

definition basic_info_fields :: "(string \<times> body decoder) list" where
  "basic_info_fields = identity_fields @
     [(''title'', field bo_Title bo_Title_update dec_str),
      (''short_info'', field bo_ShortInfo bo_ShortInfo_update dec_str),
      (''description'', field bo_Description bo_Description_update dec_str),
      (''category_id'', field bo_CategoryID bo_CategoryID_update dec_int),
      (''currency'', field bo_Currency bo_Currency_update dec_str)]"

definition packages_fields :: "(string \<times> body decoder) list" where
  "packages_fields = identity_fields @
     [(''packages'', field bo_Packages bo_Packages_update (dec_slice no_package (dec_struct package_fields)))]"

definition requirements_fields :: "(string \<times> body decoder) list" where
  "requirements_fields = identity_fields @
     [(''questions'', field bo_Questions bo_Questions_update (dec_slice no_question (dec_struct question_fields)))]"

definition media_fields :: "(string \<times> body decoder) list" where
  "media_fields = identity_fields @
     [(''files'', field bo_Files bo_Files_update (dec_slice no_file (dec_struct file_fields)))]"

definition publish_fields :: "(string \<times> body decoder) list" where
  "publish_fields = identity_fields @ [(''username'', field bo_Username bo_Username_update dec_str)]"

section \<open>The commands\<close>

text \<open>What a command leaves: the aggregate, the result of its completion, and the gig it published.\<close>

type_synonym outcome_of = "string \<times> json \<times> Gig option"

definition decodeP :: "string \<Rightarrow> (string \<times> body decoder) list \<Rightarrow> bytes \<Rightarrow> body prog" where
  "decodeP what fs payload =
     (case unmarshal (dec_struct fs) payload no_body of
        (ok, b) \<Rightarrow> if ok then retP b else failP (Wrap what unexpected_json))"

definition body_gig :: "envelope \<Rightarrow> body \<Rightarrow> string" where
  "body_gig c b = (if bo_GigID b = [] then recoveryGigID c (ev_AggregateID c) else bo_GigID b)"

definition status_result :: "Gig \<Rightarrow> json" where
  "status_result gig = JObj [(''gig_id'', enc_str (gig_ID gig)), (''status'', enc_str (gig_Status gig))]"

definition updatedP :: "Gig prog \<Rightarrow> outcome_of prog" where
  "updatedP call = bindP call (\<lambda>gig. retP (gig_ID gig, status_result gig, None))"

definition missing :: "string \<Rightarrow> gerr" where
  "missing what = Permanent (Opaque (''gig recovery command '' @ what))"

definition draft_owner :: "envelope \<Rightarrow> body_draft \<Rightarrow> string" where
  "draft_owner c b =
     (if TrimSpace (bd_FreelancerID b) \<noteq> [] then TrimSpace (bd_FreelancerID b)
      else if TrimSpace (bd_FreelancerIDCamel b) \<noteq> [] then TrimSpace (bd_FreelancerIDCamel b)
      else TrimSpace (ev_RecoveryPrincipalID c))"

text \<open>The row of the command in the shared table of events is given the gig's identifier.\<close>

definition ledgerP :: "unit prog" where
  "ledgerP = mapErrP (Wrap ''persist gig recovery result'') (remoteP (\<lambda>w. w) (\<lambda>_ _ _. ()))"

definition recover_draft :: "envelope \<Rightarrow> outcome_of prog" where
  "recover_draft c =
     (case unmarshal (dec_struct draft_fields) (ev_Payload c) no_draft of (ok, b) \<Rightarrow>
        if \<not> ok then failP (Wrap ''decode create gig recovery payload'' unexpected_json)
        else if draft_owner c b = [] then failP (missing ''is missing freelancer_id'')
        else
          let requested = TrimSpace (bd_GigID (snd (unmarshal (dec_struct draft_id_fields) (ev_Payload c) no_draft)))
          in bindP (if requested \<noteq> [] then CreateDraftWithID True requested (draft_owner c b)
                    else CreateDraft True (draft_owner c b)) (\<lambda>gig.
             bindP ledgerP (\<lambda>_.
             retP (gig_ID gig,
                   JObj [(''freelancer_id'', enc_str (gig_FreelancerID gig)), (''gig_id'', enc_str (gig_ID gig)),
                         (''status'', enc_str (gig_Status gig))], None))))"

definition recover_basic_info :: "rlib \<Rightarrow> envelope \<Rightarrow> outcome_of prog" where
  "recover_basic_info R c =
     bindP (decodeP ''decode basic info recovery payload'' basic_info_fields (ev_Payload c)) (\<lambda>b.
     updatedP (UpdateBasicInfo (body_gig c b) (recoveryFreelancerID R (bo_FreelancerID b) c)
       \<lparr>ubi_Title = bo_Title b, ubi_Slug = [], ubi_ShortInfo = bo_ShortInfo b, ubi_Description = bo_Description b,
        ubi_CategoryID = bo_CategoryID b, ubi_Currency = bo_Currency b\<rparr>))"

definition recover_packages :: "rlib \<Rightarrow> envelope \<Rightarrow> outcome_of prog" where
  "recover_packages R c =
     bindP (decodeP ''decode packages recovery payload'' packages_fields (ev_Payload c)) (\<lambda>b.
     if list_ex (\<lambda>p. TrimSpace (bp_ID p) = []) (bo_Packages b) then failP (missing ''contains package without id'')
     else updatedP (ReplacePackages True (body_gig c b) (recoveryFreelancerID R (bo_FreelancerID b) c)
       (map (\<lambda>p. \<lparr>pkg_ID = bp_ID p, pkg_GigID = [], pkg_Tier = bp_Tier p, pkg_Description = bp_Description p,
                  pkg_DeliveryDays = bp_DeliveryDays p, pkg_PriceCents = bp_PriceCents p,
                  pkg_SortOrder = bp_SortOrder p\<rparr>) (bo_Packages b))))"

definition recover_requirements :: "rlib \<Rightarrow> envelope \<Rightarrow> outcome_of prog" where
  "recover_requirements R c =
     bindP (decodeP ''decode questions recovery payload'' requirements_fields (ev_Payload c)) (\<lambda>b.
     updatedP (ReplaceQuestions True (body_gig c b) (recoveryFreelancerID R (bo_FreelancerID b) c) (bo_Questions b)))"

fun decode_files :: "body_file list \<Rightarrow> MediaUpload list option" where
  "decode_files [] = Some []"
| "decode_files (f # fs) =
     (case b64_std_decode (bf_Data f) of
        None \<Rightarrow> None
      | Some data \<Rightarrow>
          map_option (\<lambda>us. \<lparr>up_Filename = bf_Filename f, up_ContentType = bf_ContentType f, up_Data = data\<rparr> # us)
            (decode_files fs))"

definition recover_media :: "rlib \<Rightarrow> envelope \<Rightarrow> outcome_of prog" where
  "recover_media R c =
     bindP (decodeP ''decode media recovery payload'' media_fields (ev_Payload c)) (\<lambda>b.
     case decode_files (bo_Files b) of
       None \<Rightarrow> failP (Wrap ''decode media file'' (Opaque ''illegal base64 data''))
     | Some files \<Rightarrow>
         updatedP (ReplaceMedia (body_gig c b) (recoveryFreelancerID R (bo_FreelancerID b) c) files))"

definition publish_username :: "rlib \<Rightarrow> envelope \<Rightarrow> body \<Rightarrow> string" where
  "publish_username R c b =
     (if bo_Username b \<noteq> [] then bo_Username b
      else if ev_RecoveryUsername c \<noteq> [] then ev_RecoveryUsername c
      else case string_claim (recoveryTokenClaims R (ev_RecoveryAccessToken c)) ''username'' of
             Some u \<Rightarrow> TrimSpace u
           | None \<Rightarrow> [])"

text \<open>A gig that is published already is read instead: the command has been carried out before.\<close>

definition publish_or_read :: "string \<Rightarrow> string \<Rightarrow> string \<Rightarrow> Gig prog" where
  "publish_or_read gid f username =
     bindP (attemptP (Publish True gid f username)) (\<lambda>r.
     case r of
       Inr gig \<Rightarrow> retP gig
     | Inl err \<Rightarrow> if errors_is err ErrGigAlreadyPublished then GetByID gid f else failP err)"

definition recover_publish :: "rlib \<Rightarrow> envelope \<Rightarrow> outcome_of prog" where
  "recover_publish R c =
     bindP (if ev_Payload c = Raw [] then retP no_body
            else decodeP ''decode publish recovery payload'' publish_fields (ev_Payload c)) (\<lambda>b.
     bindP (publish_or_read (body_gig c b) (recoveryFreelancerID R (bo_FreelancerID b) c) (publish_username R c b)) (\<lambda>gig.
     retP (gig_ID gig, status_result gig, Some gig)))"

definition recover_dispatch :: "rlib \<Rightarrow> envelope \<Rightarrow> outcome_of prog" where
  "recover_dispatch R c =
     (if ev_Operation c = ''post'' \<and> has_suffix (ev_CommandPath c) ''/gigs/drafts'' then recover_draft c
      else if ev_Operation c = ''patch'' \<and> has_suffix (ev_CommandPath c) ''/basic-info'' then recover_basic_info R c
      else if ev_Operation c = ''put'' \<and> has_suffix (ev_CommandPath c) ''/packages'' then recover_packages R c
      else if ev_Operation c = ''put'' \<and> has_suffix (ev_CommandPath c) ''/requirements'' then recover_requirements R c
      else if ev_Operation c = ''put'' \<and> has_suffix (ev_CommandPath c) ''/media'' then recover_media R c
      else if ev_Operation c = ''post'' \<and> has_suffix (ev_CommandPath c) ''/publish'' then recover_publish R c
      else failP (Opaque (''unsupported gig recovery command operation='' @ ev_Operation c @ '' path='' @ ev_CommandPath c)))"

section \<open>The handler\<close>

definition completion_of :: "envelope \<Rightarrow> string \<Rightarrow> json \<Rightarrow> time \<Rightarrow> completion" where
  "completion_of c aggregate result now =
     \<lparr>cp_EventID = ev_EventID c @ ''.completed'', cp_CommandID = ev_CommandID c,
      cp_CorrelationID = ev_CorrelationID c, cp_CausationID = ev_EventID c,
      cp_IdempotencyKey = ev_IdempotencyKey c, cp_TestRunID = ev_TestRunID c,
      cp_Operation = ev_Operation c, cp_AggregateID = aggregate, cp_OccurredAt = now, cp_Payload = result\<rparr>"

definition completeP :: "rlib \<Rightarrow> envelope \<Rightarrow> outcome_of \<Rightarrow> unit prog" where
  "completeP R c out =
     (case out of (aggregate, result, published) \<Rightarrow>
        bindP nowP (\<lambda>now.
        bindP (mapErrP (Wrap ''encode gig recovery completion'') (liftP (rl_encode R (completion_of c aggregate result now)))) (\<lambda>data.
        bindP (publishP (rl_completed_topic R) data) (\<lambda>_.
        case published of
          None \<Rightarrow> retP ()
        | Some gig \<Rightarrow>
            ignoreP (PublishGigNotificationOutcome (Some gig) ''gig.published'' StatusCompleted []
              (if TrimSpace (ev_IdempotencyKey c) = [] then ev_CommandID c else TrimSpace (ev_IdempotencyKey c))
              (ev_CorrelationID c) None None)))))"

definition recovery_handle :: "rlib \<Rightarrow> bytes \<Rightarrow> unit prog" where
  "recovery_handle R payload =
     (case rl_decode R payload of
        None \<Rightarrow> failP (Wrap ''decode gig recovery command'' unexpected_json)
      | Some c \<Rightarrow>
          if ev_AggregateType c \<noteq> ''gig'' \<and> ev_AggregateType c \<noteq> ''gigs''
          then failP (Opaque ''unsupported gig recovery aggregate type'')
          else if TrimSpace (ev_AggregateID c) = [] then failP (missing ''is missing aggregate_id'')
          else bindP (recover_dispatch R c) (completeP R c))"

end
