(* ===== verification/KafkaLaws.thy ===== *)
theory KafkaLaws
  imports Kafka
begin

text \<open>
  What the consumers do to their trace: the shape of the actions of one message, when a message
  counts as settled, and that an event is applied at most once as long as the claims exclude
  each other.
\<close>

section \<open>Claims on a trace\<close>

text \<open>Whether an event is claimed after a trace, and how often its handler has succeeded.\<close>

fun held_step :: "string \<Rightarrow> bool \<Rightarrow> action \<Rightarrow> bool" where
  "held_step i h (Claimed j ok) = (h \<or> j = i \<and> ok)"
| "held_step i h (Released j) = (h \<and> j \<noteq> i)"
| "held_step i h _ = h"

definition held :: "string \<Rightarrow> action list \<Rightarrow> bool" where
  "held i t = foldl (held_step i) False t"

fun succeeds :: "string \<Rightarrow> action \<Rightarrow> bool" where
  "succeeds i (Handled j _ ok) = (j = i \<and> ok)"
| "succeeds i _ = False"

definition applied :: "string \<Rightarrow> action list \<Rightarrow> nat" where
  "applied i t = length (filter (succeeds i) t)"

text \<open>The claims exclude each other: a claim is granted only while the event is not claimed.\<close>

definition exclusive :: "action list \<Rightarrow> bool" where
  "exclusive t \<longleftrightarrow> (\<forall>p i q. t = p @ Claimed i True # q \<longrightarrow> \<not> held i p)"

lemma exclusive_prefix: "exclusive (t @ u) \<Longrightarrow> exclusive t"
  unfolding exclusive_def by (metis append.assoc append_Cons)

lemma exclusive_claim: "exclusive (t @ Claimed i True # u) \<Longrightarrow> \<not> held i t"
  by (auto simp: exclusive_def)

lemma held_Nil [simp]: "\<not> held i []" by (simp add: held_def)

lemma held_append: "held i (t @ u) = foldl (held_step i) (held i t) u"
  by (simp add: held_def)

lemma applied_simps [simp]:
  "applied i [] = 0" "applied i (a # t) = (if succeeds i a then Suc (applied i t) else applied i t)"
  "applied i (t @ u) = applied i t + applied i u"
  by (simp_all add: applied_def)

text \<open>Actions that neither touch a claim nor apply an event.\<close>

fun neutral :: "action \<Rightarrow> bool" where
  "neutral (Claimed _ ok) = (\<not> ok)"
| "neutral (Released _) = False"
| "neutral (Handled _ _ _) = False"
| "neutral _ = True"

lemma neutral_held: "list_all neutral n \<Longrightarrow> foldl (held_step i) h n = h"
proof (induction n arbitrary: h)
  case (Cons a n)
  then show ?case by (cases a) auto
qed simp

lemma neutral_applied: "list_all neutral n \<Longrightarrow> applied i n = 0"
  by (auto simp: applied_def filter_empty_conv list_all_iff elim!: succeeds.elims)

text \<open>
  The actions of one message: none of consequence, or a claim, after it at most one call of the
  handler, and a release only after a failed one.
\<close>

definition segment :: "string \<Rightarrow> action list \<Rightarrow> bool" where
  "segment i tr \<longleftrightarrow> (\<exists>n. list_all neutral n \<and>
     (tr = n \<or> tr = Claimed i True # n \<or> (\<exists>off. tr = Claimed i True # Handled i off True # n) \<or>
      (\<exists>off r. r \<in> {[], [Released i]} \<and> tr = Claimed i True # Handled i off False # r @ n)))"

definition once :: "action list \<Rightarrow> bool" where
  "once t \<longleftrightarrow> (\<forall>i. applied i t \<le> (if held i t then 1 else 0))"

lemma once_segment:
  assumes "once t" and "segment i tr" and "exclusive (t @ tr)"
  shows "once (t @ tr)"
proof -
  obtain n where n: "list_all neutral n" and tr: "tr = n \<or> tr = Claimed i True # n \<or>
      (\<exists>off. tr = Claimed i True # Handled i off True # n) \<or>
      (\<exists>off r. r \<in> {[], [Released i]} \<and> tr = Claimed i True # Handled i off False # r @ n)"
    using assms(2) unfolding segment_def by blast
  have free: "tr = Claimed i True # u \<Longrightarrow> \<not> held i t" for u
    using assms(3) exclusive_claim by auto
  have "applied j (t @ tr) \<le> (if held j (t @ tr) then 1 else 0)" for j
    using assms(1) [unfolded once_def, rule_format, of j] tr free n
    by (auto simp: held_append neutral_held neutral_applied split: if_splits)
  then show ?thesis by (simp add: once_def)
qed

section \<open>The actions of one message\<close>

text \<open>\<open>m\<close> is settled: its handler succeeded, another consumer has its event, or it is dead-lettered.\<close>

definition settled :: "message \<Rightarrow> action list \<Rightarrow> bool" where
  "settled m tr \<longleftrightarrow> (\<exists>i. Handled i (msg_place m) True \<in> set tr) \<or> Skipped (msg_place m) \<in> set tr \<or>
     Dead (msg_place m) \<in> set tr"

definition commits :: "action list \<Rightarrow> bool" where
  "commits tr \<longleftrightarrow> (\<exists>c. Committed c \<in> set tr)"

definition retry_once :: "klib \<Rightarrow> bool" where
  "retry_once L \<longleftrightarrow> (\<forall>f s. kl_retry L f s = f 1 s)"

lemmas kstep_defs = record_act_def ticked_def claim_event_def release_event_def call_handler_def
  deadLetterMessage_def commit_messages_def

text \<open>What the steps of one message add, when the broker has its claims table.\<close>

definition adds :: "klib \<Rightarrow> consumer_config \<Rightarrow> message \<Rightarrow> kstate \<Rightarrow> kstate \<Rightarrow> (action list \<Rightarrow> bool) \<Rightarrow> bool" where
  "adds L cfg m s s' P \<longleftrightarrow> (\<exists>tr. ks_trace s' = ks_trace s @ tr \<and>
     (kl_db L \<longrightarrow> segment (event_identity L (cc_Subject cfg) (msg_Value m)) tr) \<and> P tr)"

lemma segment_forms:
  "list_all neutral n \<Longrightarrow> segment i n"
  "list_all neutral n \<Longrightarrow> segment i (Claimed i True # n)"
  "list_all neutral n \<Longrightarrow> segment i (Claimed i True # Handled i off True # n)"
  "list_all neutral n \<Longrightarrow> segment i (Claimed i True # Handled i off False # n)"
  "list_all neutral n \<Longrightarrow> segment i (Claimed i True # Handled i off False # Released i # n)"
  unfolding segment_def by fastforce+

lemma recovery_attempt_adds:
  assumes "recovery_attempt L e handler cfg m a s = (r, s')"
  shows "\<exists>tr. ks_trace s' = ks_trace s @ tr \<and> \<not> commits tr \<and> (r = Ok () \<longrightarrow> settled m tr) \<and>
    (kl_db L \<longrightarrow> (\<forall>n. list_all neutral n \<longrightarrow> segment (event_identity L (cc_Subject cfg) (msg_Value m)) (tr @ n)))"
  using assms
  by (auto simp: recovery_attempt_def Let_def kstep_defs commits_def settled_def segment_forms
      split: if_splits sum.splits prod.splits res.splits bool.splits)

lemma handleRecoveryMessage_adds:
  assumes "retry_once L" and "handleRecoveryMessage L e handler cfg m s = (r, s')"
  shows "adds L cfg m s s' (\<lambda>tr. \<not> commits tr \<and> (r = Ok () \<longrightarrow> settled m tr))"
proof -
  obtain a s1 where run: "recovery_attempt L e handler cfg m 1 (s\<lparr>ks_attempts := 0\<rparr>) = (a, s1)"
    by (cases "recovery_attempt L e handler cfg m 1 (s\<lparr>ks_attempts := 0\<rparr>)")
  from recovery_attempt_adds [OF run] obtain tr where tr: "ks_trace s1 = ks_trace s @ tr" "\<not> commits tr"
    "a = Ok () \<longrightarrow> settled m tr"
    "kl_db L \<longrightarrow> (\<forall>n. list_all neutral n \<longrightarrow> segment (event_identity L (cc_Subject cfg) (msg_Value m)) (tr @ n))"
    by auto
  have "\<exists>n. list_all neutral n \<and> \<not> commits n \<and> ks_trace s' = ks_trace s @ tr @ n \<and>
      (r = Ok () \<longrightarrow> a = Ok () \<or> settled m n)"
    using assms(2) tr(1) unfolding handleRecoveryMessage_def assms(1) [unfolded retry_once_def, rule_format] run
    by (auto simp: deadLetterMessage_def record_act_def ticked_def commits_def settled_def
        split: res.splits sum.splits option.splits prod.splits)
  with tr show ?thesis
    by (auto simp: adds_def commits_def settled_def)
qed

lemma project_attempt_adds:
  assumes "project_attempt L e handler cfg m s = (r, s')"
  shows "\<exists>tr. ks_trace s' = ks_trace s @ tr \<and> \<not> commits tr \<and> (r = Ok () \<longrightarrow> settled m tr) \<and>
    (kl_db L \<longrightarrow> (\<forall>n. list_all neutral n \<longrightarrow> segment (event_identity L (cc_Subject cfg) (msg_Value m)) (tr @ n)))"
  using assms
  by (auto simp: project_attempt_def Let_def kstep_defs commits_def settled_def segment_forms
      split: if_splits sum.splits prod.splits res.splits bool.splits)

lemma project_message_adds:
  assumes "retry_once L" and "project_message L e handler cfg m s = (r, s')"
  shows "adds L cfg m s s' (\<lambda>tr. \<not> commits tr \<and> (r = Ok () \<longrightarrow> settled m tr))"
proof -
  obtain a s1 where run: "project_attempt L e handler cfg m (s\<lparr>ks_attempts := 0\<rparr>) = (a, s1)"
    by (cases "project_attempt L e handler cfg m (s\<lparr>ks_attempts := 0\<rparr>)")
  from project_attempt_adds [OF run] obtain tr where tr: "ks_trace s1 = ks_trace s @ tr" "\<not> commits tr"
    "a = Ok () \<longrightarrow> settled m tr"
    "kl_db L \<longrightarrow> (\<forall>n. list_all neutral n \<longrightarrow> segment (event_identity L (cc_Subject cfg) (msg_Value m)) (tr @ n))"
    by auto
  have "\<exists>n. list_all neutral n \<and> \<not> commits n \<and> ks_trace s' = ks_trace s @ tr @ n \<and>
      (r = Ok () \<longrightarrow> a = Ok () \<or> settled m n)"
    using assms(2) tr(1) unfolding project_message_def assms(1) [unfolded retry_once_def, rule_format] run
    by (auto simp: deadLetterMessage_def record_act_def ticked_def commits_def settled_def
        split: res.splits sum.splits option.splits prod.splits)
  with tr show ?thesis
    by (auto simp: adds_def commits_def settled_def)
qed

text \<open>The plain consumer; a retry is asked for only below the limit, and never after a permanent error.\<close>

definition bounded_retries :: "klib \<Rightarrow> message \<Rightarrow> action list \<Rightarrow> bool" where
  "bounded_retries L m tr \<longleftrightarrow> list_all (\<lambda>a. case a of
     Retried off n \<Rightarrow> off = msg_place m \<and> n = retryAttempt (msg_Headers m) + 1 \<and> n \<le> kl_max_attempts L
   | _ \<Rightarrow> True) tr"

lemma consume_adds:
  assumes "consume L e handler cfg m s = (f, s')"
  shows "adds L cfg m s s' (\<lambda>tr. bounded_retries L m tr \<and>
    (commits tr \<longrightarrow> settled m tr) \<and> (Dead (msg_place m) \<in> set tr \<longrightarrow> f = Stop None \<and> \<not> commits tr))"
  using assms
  by (auto simp: adds_def consume_def Let_def kstep_defs commits_def settled_def bounded_retries_def segment_forms
      split: if_splits sum.splits prod.splits res.splits bool.splits option.splits outcome.splits)

section \<open>Batches\<close>

text \<open>
  What a batch relies on of the step it takes each message through, when a retry is one attempt: the
  step commits nothing, and one that returns without an error has settled its message.
\<close>

locale message_step =
  fixes L :: klib and cfg :: consumer_config and f :: "message \<Rightarrow> kstep"
  assumes step_adds: "retry_once L \<Longrightarrow> f m s = (r, s') \<Longrightarrow>
    adds L cfg m s s' (\<lambda>tr. \<not> commits tr \<and> (r = Ok () \<longrightarrow> settled m tr))"
begin

lemma each_message_adds:
  assumes "retry_once L" and "each_message f ms s = (r, s')"
  shows "\<exists>tr. ks_trace s' = ks_trace s @ tr \<and> \<not> commits tr \<and> (r = Ok [] \<longrightarrow> (\<forall>m\<in>set ms. settled m tr))"
  using assms(2)
proof (induction ms arbitrary: s r)
  case (Cons m ms)
  obtain q s1 where q: "f m s = (q, s1)" by (cases "f m s")
  from step_adds [OF assms(1) q] obtain t where t: "ks_trace s1 = ks_trace s @ t" "\<not> commits t" "q = Ok () \<longrightarrow> settled m t"
    unfolding adds_def by blast
  show ?case
  proof (cases "q = Panic")
    case True
    with Cons.prems q t show ?thesis by auto
  next
    case False
    obtain r2 where rest: "each_message f ms s1 = (r2, s')" and r: "r = Ok [] \<longrightarrow> q = Ok () \<and> r2 = Ok []"
      using Cons.prems q False by (cases q) (auto split: prod.splits res.splits)
    from Cons.IH [OF rest] obtain t2 where t2: "ks_trace s' = ks_trace s1 @ t2" "\<not> commits t2"
      "r2 = Ok [] \<longrightarrow> (\<forall>m\<in>set ms. settled m t2)" by blast
    have "settled m t \<Longrightarrow> settled m (t @ t2)" "settled m' t2 \<Longrightarrow> settled m' (t @ t2)" for m'
      by (auto simp: settled_def)
    with t t2 r show ?thesis
      by (intro exI [of _ "t @ t2"]) (auto simp: commits_def)
  qed
qed (auto simp: commits_def)

text \<open>
  A batch ends with at most one commit, of what it was asked to commit, and only when it has
  settled all its messages; one after which the consumer goes on has committed.
\<close>

lemma finish_batch_log:
  assumes "retry_once L" and "each_message f order s = (r, s1)" and "finish_batch L what ce ms (r, s1) = (fl, s')"
  obtains t u where "ks_trace s' = ks_trace s @ t @ u" and "\<not> commits t"
    and "u = [] \<or> u = [Committed (map (\<lambda>m. (msg_Partition m, msg_Offset m + 1)) ms)]"
    and "u \<noteq> [] \<Longrightarrow> \<forall>m\<in>set order. settled m t" and "fl = Next \<Longrightarrow> u \<noteq> []"
proof -
  from each_message_adds [OF assms(1,2)] obtain t where t: "ks_trace s1 = ks_trace s @ t" "\<not> commits t"
    "r = Ok [] \<longrightarrow> (\<forall>m\<in>set order. settled m t)" by blast
  have "\<exists>u. ks_trace s' = ks_trace s @ t @ u \<and>
      (u = [] \<or> u = [Committed (map (\<lambda>m. (msg_Partition m, msg_Offset m + 1)) ms)]) \<and>
      (u \<noteq> [] \<longrightarrow> r = Ok []) \<and> (fl = Next \<longrightarrow> u \<noteq> [])"
    using assms(3) t(1)
    by (auto simp: finish_batch_def commit_messages_def Let_def record_act_def ticked_def
        split: res.splits list.splits prod.splits option.splits outcome.splits)
  with t that show thesis by blast
qed

text \<open>A batch that commits has settled all its messages, and commits what it was asked to.\<close>

lemma finish_batch_commits:
  assumes "retry_once L" and "each_message f order s = (r, s1)" and "finish_batch L what ce ms (r, s1) = (fl, s')"
  shows "\<exists>tr. ks_trace s' = ks_trace s @ tr \<and>
    (commits tr \<or> fl = Next \<longrightarrow> (\<forall>m\<in>set order. settled m tr)) \<and>
    (\<forall>c. Committed c \<in> set tr \<longrightarrow> c = map (\<lambda>m. (msg_Partition m, msg_Offset m + 1)) ms)"
proof -
  from finish_batch_log [OF assms] obtain t u where run: "ks_trace s' = ks_trace s @ t @ u" "\<not> commits t"
    "u = [] \<or> u = [Committed (map (\<lambda>m. (msg_Partition m, msg_Offset m + 1)) ms)]"
    "u \<noteq> [] \<Longrightarrow> \<forall>m\<in>set order. settled m t" "fl = Next \<Longrightarrow> u \<noteq> []" by blast
  moreover have "settled m t \<Longrightarrow> settled m (t @ u)" for m by (auto simp: settled_def)
  ultimately show ?thesis by (intro exI [of _ "t @ u"]) (auto simp: commits_def)
qed

end

interpretation recovery_step: message_step L cfg "handleRecoveryMessage L e handler cfg" for L e handler cfg
  by unfold_locales (rule handleRecoveryMessage_adds)

interpretation projection_step: message_step L cfg "project_message L e handler cfg" for L e handler cfg
  by unfold_locales (rule project_message_adds)

section \<open>All consumers on one table of claims\<close>

text \<open>
  Messages of any consumers, handlers and topics, one after the other, retries, redeliveries and
  restarts included.
\<close>

inductive kafka_reachable :: "klib \<Rightarrow> env \<Rightarrow> kstate \<Rightarrow> bool" for L e where
  start: "ks_trace s = [] \<Longrightarrow> kafka_reachable L e s"
| plain: "kafka_reachable L e s \<Longrightarrow> kafka_reachable L e (snd (consume L e handler cfg m s))"
| projection: "kafka_reachable L e s \<Longrightarrow> kafka_reachable L e (snd (project_message L e handler cfg m s))"
| recovery: "kafka_reachable L e s \<Longrightarrow> kafka_reachable L e (snd (handleRecoveryMessage L e handler cfg m s))"

lemma once_adds:
  assumes "adds L cfg m s s' P" and "kl_db L" and "exclusive (ks_trace s) \<Longrightarrow> once (ks_trace s)"
    and "exclusive (ks_trace s')"
  shows "once (ks_trace s')"
  using assms exclusive_prefix once_segment unfolding adds_def by metis

lemma reachable_once:
  assumes "kl_db L" and "retry_once L" and "kafka_reachable L e s" and "exclusive (ks_trace s)"
  shows "once (ks_trace s)"
  using assms(3,4)
proof (induction rule: kafka_reachable.induct)
  case (start s)
  then show ?case by (simp add: once_def)
next
  case (plain s handler cfg m)
  from once_adds [OF consume_adds [OF prod.collapse [symmetric]] assms(1) plain.IH plain.prems] show ?case .
next
  case (projection s handler cfg m)
  from once_adds [OF project_message_adds [OF assms(2) prod.collapse [symmetric]] assms(1) projection.IH projection.prems]
  show ?case .
next
  case (recovery s handler cfg m)
  from once_adds [OF handleRecoveryMessage_adds [OF assms(2) prod.collapse [symmetric]] assms(1) recovery.IH recovery.prems]
  show ?case .
qed

section \<open>Lanes\<close>

lemma lane_of_less: "lane_of L m < lane_count"
  by (simp add: lane_of_def lane_count_def)

lemma lane_order_key:
  assumes "lane_order L batch order"
  shows "filter (\<lambda>m. recoveryLaneKey L m = k) order = filter (\<lambda>m. recoveryLaneKey L m = k) batch"
proof -
  define i where "i = unat (fnv1a k) mod lane_count"
  have lane: "recoveryLaneKey L m = k \<Longrightarrow> lane_of L m = i" for m by (simp add: lane_of_def i_def)
  have split: "filter (\<lambda>m. recoveryLaneKey L m = k) xs =
      filter (\<lambda>m. recoveryLaneKey L m = k) (filter (\<lambda>m. lane_of L m = i) xs)" for xs
    using lane by (auto simp: filter_filter intro!: filter_cong)
  have "i < lane_count" by (simp add: i_def lane_count_def)
  then have "filter (\<lambda>m. lane_of L m = i) order = filter (\<lambda>m. lane_of L m = i) batch"
    using assms by (simp add: lane_order_def list_all_iff)
  then show ?thesis by (metis split)
qed

lemma lane_order_mset:
  assumes "lane_order L batch order"
  shows "mset order = mset batch"
proof (rule multiset_eqI)
  fix m
  let ?k = "recoveryLaneKey L m"
  have "count (mset xs) m = count (mset (filter (\<lambda>x. recoveryLaneKey L x = ?k) xs)) m" for xs by simp
  then show "count (mset order) m = count (mset batch) m" using lane_order_key [OF assms, of ?k] by metis
qed

end
