(* ===== verification/KafkaClaims.thy ===== *)
theory KafkaClaims
  imports KafkaLaws Sample
begin

text \<open>
  The properties of the consumers, each applied to a concrete Kafka and a few messages.
\<close>

section \<open>A concrete Kafka\<close>

text \<open>Every write and commit succeeds, every claim is granted, a retry is one attempt.\<close>

definition sample_klib :: klib where
  "sample_klib =
     \<lparr>kl_db = True, kl_unwrap = Inr, kl_envelope = (\<lambda>b. None), kl_event_id = (\<lambda>subject b. ''e1''),
      kl_scoped = (\<lambda>subject i. subject @ i), kl_claim = (\<lambda>n i. Inr True), kl_release = (\<lambda>n. True),
      kl_retry = (\<lambda>f. f 1), kl_dlq_record = (\<lambda>m a err. Inr (Raw [])), kl_write = (\<lambda>n. None),
      kl_commit = (\<lambda>n. Done), kl_max_attempts = 5, kl_group = ''gig'', kl_dead_letter = ''dlq''\<rparr>"

definition sample_message :: "string \<Rightarrow> int64 \<Rightarrow> message" where
  "sample_message key off = \<lparr>msg_Key = key, msg_Value = Raw key, msg_Headers = [], msg_Partition = 0, msg_Offset = off\<rparr>"

definition sample_kstate :: kstate where
  "sample_kstate = \<lparr>ks_world = sample_world, ks_tick = 0, ks_attempts = 0, ks_trace = []\<rparr>"

definition sample_topic :: consumer_config where
  "sample_topic = \<lparr>cc_Subject = ''review.rating.gig'', cc_GroupID = []\<rparr>"

lemma sample_retry: "retry_once sample_klib"
  by (simp add: retry_once_def sample_klib_def)

section \<open>Recovery batches\<close>


definition three_commands :: "message list" where
  "three_commands = [sample_message ''g1'' 1, sample_message ''g2'' 2, sample_message ''g1'' 3]"

definition three_reordered :: "message list" where
  "three_reordered = [sample_message ''g2'' 2, sample_message ''g1'' 1, sample_message ''g1'' 3]"



text \<open>
  A batch, of recovery commands or of projections, commits its offset only if every message of
  the batch was settled before: its handler succeeded, or its event is claimed elsewhere, or
  it was written to the dead-letter topic; and what a recovery batch commits is the offset
  after its last message.
\<close>

lemma batches_commit_settled:
  assumes "retry_once L" and "set order = set batch"
    and "runRecoveryBatch L e handler cfg batch order s = (f, s') \<or>
      projection_batch L e handler cfg batch order s = (f, s')"
  shows "\<exists>tr. ks_trace s' = ks_trace s @ tr \<and> (commits tr \<or> f = Next \<longrightarrow> (\<forall>m\<in>set batch. settled m tr)) \<and>
    (runRecoveryBatch L e handler cfg batch order s = (f, s') \<longrightarrow>
      (\<forall>c. Committed c \<in> set tr \<longrightarrow> c = [(msg_Partition (last batch), msg_Offset (last batch) + 1)]))"
proof (cases "runRecoveryBatch L e handler cfg batch order s = (f, s')")
  case True
  obtain r s1 where run: "each_message (handleRecoveryMessage L e handler cfg) order s = (r, s1)"
    by (cases "each_message (handleRecoveryMessage L e handler cfg) order s")
  from True have fin: "finish_batch L ''recovery batch was not committed'' id [last batch] (r, s1) = (f, s')"
    by (simp add: runRecoveryBatch_def run)
  from recovery_step.finish_batch_commits [OF assms(1) run fin] assms(2) show ?thesis by auto
next
  case False
  obtain r s1 where run: "each_message (project_message L e handler cfg) order s = (r, s1)"
    by (cases "each_message (project_message L e handler cfg) order s")
  from False assms(3) have fin: "finish_batch L (''projection batch failed topic='' @ cc_Subject cfg)
       (Wrap (''commit projection batch topic='' @ cc_Subject cfg)) batch (r, s1) = (f, s')"
    by (simp add: projection_batch_def run)
  from projection_step.finish_batch_commits [OF assms(1) run fin] assms(2) False show ?thesis by auto
qed

text \<open>A handler that rejects everything: the batch is committed, each message dead-lettered.\<close>

definition rejecting :: "bytes \<Rightarrow> unit prog" where
  "rejecting payload = domP ErrInvalidGigID"

lemma sample_batch_run:
  "fst (runRecoveryBatch sample_klib sample_env rejecting sample_topic three_commands three_reordered sample_kstate) = Next"
  by (simp add: three_commands_def three_reordered_def sample_message_def runRecoveryBatch_def finish_batch_def
      handleRecoveryMessage_def recovery_attempt_def kstep_defs sample_klib_def sample_kstate_def rejecting_def
      domP_def failP_def Let_def event_identity_def)

lemma batches_commit_settled_witness:
  "list_all (\<lambda>m. settled m
     (ks_trace (snd (runRecoveryBatch sample_klib sample_env rejecting sample_topic three_commands three_reordered sample_kstate))))
     three_commands"
proof -
  let ?p = "runRecoveryBatch sample_klib sample_env rejecting sample_topic three_commands three_reordered sample_kstate"
  have run: "?p = (Next, snd ?p)" using sample_batch_run by (metis prod.collapse)
  have "set three_reordered = set three_commands" by (auto simp: three_commands_def three_reordered_def)
  from batches_commit_settled [OF sample_retry this disjI1 [OF run]]
  show ?thesis by (auto simp: sample_kstate_def list_all_iff)
qed

section \<open>Claims\<close>

text \<open>
  C12. Over any sequence of messages of any consumers, with retries, redeliveries and restarts, as
  long as the shared table grants a claim only while the event is not claimed, the handler of
  an event succeeds at most once.
\<close>

theorem events_apply_once:
  assumes "kl_db L" and "retry_once L" and "kafka_reachable L e s" and "exclusive (ks_trace s)"
  shows "applied i (ks_trace s) \<le> 1"
  using reachable_once [OF assms] by (auto simp: once_def split: if_splits)

definition accepting :: "bytes \<Rightarrow> unit prog" where
  "accepting payload = retP ()"

text \<open>The table of claims of one event: granted until it is claimed.\<close>

definition first_claim :: klib where
  "first_claim = sample_klib\<lparr>kl_claim := \<lambda>n i. Inr (n = 0)\<rparr>"

definition delivered_twice :: kstate where
  "delivered_twice = snd (handleRecoveryMessage first_claim sample_env accepting sample_topic (sample_message ''g1'' 2)
     (snd (handleRecoveryMessage first_claim sample_env accepting sample_topic (sample_message ''g1'' 1) sample_kstate)))"

lemma delivered_twice_trace:
  "ks_trace delivered_twice = [Claimed ''review.rating.gige1'' True, Handled ''review.rating.gige1'' (0, 1) True,
     Claimed ''review.rating.gige1'' False, Skipped (0, 2)]"
  by code_simp

lemma events_apply_once_witness: "applied ''review.rating.gige1'' (ks_trace delivered_twice) \<le> 1"
proof -
  have "kafka_reachable first_claim sample_env delivered_twice"
    unfolding delivered_twice_def by (intro kafka_reachable.intros) (simp add: sample_kstate_def)
  moreover have "exclusive (ks_trace delivered_twice)"
    by (auto simp: exclusive_def delivered_twice_trace Cons_eq_append_conv append_eq_Cons_conv)
  moreover have "kl_db first_claim" "retry_once first_claim"
    by (simp_all add: first_claim_def sample_klib_def retry_once_def)
  ultimately show ?thesis by (intro events_apply_once)
qed

section \<open>The plain consumer\<close>

text \<open>
  The plain consumer asks for a retry only of the message at hand, with its attempt number
  plus one, and never beyond the limit; it commits a message only after its handler succeeded;
  and after a message is dead-lettered it commits nothing and ends, with no error.
\<close>

theorem plain_consumer_step:
  assumes "consume L e handler cfg m s = (f, s')"
  shows "\<exists>tr. ks_trace s' = ks_trace s @ tr \<and> bounded_retries L m tr \<and> (commits tr \<longrightarrow> settled m tr) \<and>
    (Dead (msg_place m) \<in> set tr \<longrightarrow> f = Stop None \<and> \<not> commits tr)"
  using consume_adds [OF assms] unfolding adds_def by blast

lemma plain_consumer_step_witness:
  "bounded_retries sample_klib (sample_message ''g1'' 7)
     (ks_trace (snd (consume sample_klib sample_env rejecting sample_topic (sample_message ''g1'' 7) sample_kstate)))"
  using plain_consumer_step [OF prod.collapse [symmetric], of sample_klib sample_env rejecting sample_topic
    "sample_message ''g1'' 7" sample_kstate]
  by (auto simp: sample_kstate_def)

text \<open>Sessions of a consumer that is started again and again on what is not committed.\<close>

fun sessions ::
    "klib \<Rightarrow> env \<Rightarrow> (bytes \<Rightarrow> unit prog) \<Rightarrow> consumer_config \<Rightarrow> gerr \<Rightarrow> message list \<Rightarrow> nat \<Rightarrow> kstate \<Rightarrow> kstate" where
  "sessions L e handler cfg err ms 0 s = s"
| "sessions L e handler cfg err ms (Suc n) s =
     sessions L e handler cfg err ms n (snd (run_consumer L e handler cfg err ms s))"

definition hopeless :: "klib \<Rightarrow> env \<Rightarrow> (bytes \<Rightarrow> unit prog) \<Rightarrow> message \<Rightarrow> bool" where
  "hopeless L e handler m \<longleftrightarrow>
     (\<exists>payload. kl_unwrap L (msg_Value m) = Inr payload \<and>
       (\<forall>w. \<exists>x w'. handler payload e w = (Err x, w') \<and>
          (is_permanent x \<or> kl_max_attempts L \<le> retryAttempt (msg_Headers m))))"

definition all_granted :: "klib \<Rightarrow> bool" where
  "all_granted L \<longleftrightarrow> (\<forall>n i. kl_claim L n i = Inr True) \<and> (\<forall>n. kl_write L n = None) \<and>
     (\<forall>m a x. \<exists>b. kl_dlq_record L m a x = Inr b)"

definition deads :: "message \<Rightarrow> action list \<Rightarrow> nat" where
  "deads m tr = length (filter (\<lambda>a. a = Dead (msg_place m)) tr)"

definition only_about :: "message \<Rightarrow> action list \<Rightarrow> bool" where
  "only_about m tr \<longleftrightarrow> (\<forall>i off ok. Handled i off ok \<in> set tr \<longrightarrow> off = msg_place m)"

lemma trace_append [simp]:
  "commits (t @ u) \<longleftrightarrow> commits t \<or> commits u" "deads m (t @ u) = deads m t + deads m u"
  "only_about m (t @ u) \<longleftrightarrow> only_about m t \<and> only_about m u"
proof -
  show "commits (t @ u) \<longleftrightarrow> commits t \<or> commits u" "deads m (t @ u) = deads m t + deads m u"
    by (auto simp: commits_def deads_def)
  show "only_about m (t @ u) \<longleftrightarrow> only_about m t \<and> only_about m u"
    unfolding only_about_def set_append by blast
qed

lemma granted_claim:
  assumes "all_granted L"
  shows "\<exists>s1 t1. claim_event L subject m s = (Inr True, s1) \<and> ks_trace s1 = ks_trace s @ t1 \<and>
    list_all (\<lambda>a. \<exists>i ok. a = Claimed i ok) t1"
  using assms by (cases "kl_db L") (auto simp: claim_event_def Let_def all_granted_def record_act_def ticked_def)

lemma hopeless_session:
  assumes "all_granted L" and "hopeless L e handler m"
  shows "\<exists>s' tr. run_consumer L e handler cfg err (m # ms) s = (Stop None, s') \<and>
    ks_trace s' = ks_trace s @ tr \<and> \<not> commits tr \<and> deads m tr = 1 \<and> only_about m tr"
proof -
  obtain s1 t1 where claim: "claim_event L (cc_Subject cfg) m s = (Inr True, s1)" "ks_trace s1 = ks_trace s @ t1"
    "list_all (\<lambda>a. \<exists>i ok. a = Claimed i ok) t1"
    using granted_claim [OF assms(1)] by blast
  obtain payload where unwrap: "kl_unwrap L (msg_Value m) = Inr payload"
    and "\<exists>x w'. handler payload e (ks_world s1) = (Err x, w') \<and>
          (is_permanent x \<or> kl_max_attempts L \<le> retryAttempt (msg_Headers m))"
    using assms(2) by (auto simp: hopeless_def)
  then obtain x w' where run: "handler payload e (ks_world s1) = (Err x, w')"
    and final: "is_permanent x \<or> kl_max_attempts L \<le> retryAttempt (msg_Headers m)" by blast
  obtain b where dlq: "kl_dlq_record L m (nat (retryAttempt (msg_Headers m))) x = Inr b"
    using assms(1) unfolding all_granted_def by blast
  have writes: "kl_write L n = None" for n using assms(1) by (simp add: all_granted_def)
  define i where "i = event_identity L (cc_Subject cfg) (msg_Value m)"
  have "\<exists>s' r. run_consumer L e handler cfg err (m # ms) s = (Stop None, s') \<and>
      ks_trace s' = ks_trace s1 @ Handled i (msg_place m) False # r @ [Dead (msg_place m)] \<and> r \<in> {[], [Released i]}"
    using final
    by (auto simp: consume_def Let_def claim unwrap call_handler_def run deadLetterMessage_def dlq writes
        release_event_def record_act_def ticked_def i_def)
  then obtain s' r where "run_consumer L e handler cfg err (m # ms) s = (Stop None, s')"
    "ks_trace s' = ks_trace s1 @ Handled i (msg_place m) False # r @ [Dead (msg_place m)]" "r \<in> {[], [Released i]}" by blast
  with claim(2,3) show ?thesis
    by (intro exI [of _ s'] exI [of _ "t1 @ Handled i (msg_place m) False # r @ [Dead (msg_place m)]"])
      (auto simp: commits_def deads_def only_about_def list_all_iff filter_empty_conv)
qed

text \<open>
  C34. A message the plain consumer cannot handle, at its last attempt or with a permanent error,
  stops the consumer: the loop ends without an error, so its supervisor does not start it
  again; and however often the process is, every session handles that message again, writes it
  to the dead-letter topic once more, commits nothing, and handles no message behind it.
\<close>

theorem hopeless_message_blocks:
  assumes "all_granted L" and "hopeless L e handler m"
  shows "fst (run_consumer L e handler cfg err (m # ms) s) = Stop None \<and>
    (\<exists>tr. ks_trace (sessions L e handler cfg err (m # ms) n s) = ks_trace s @ tr \<and> \<not> commits tr \<and>
      deads m tr = n \<and> only_about m tr)"
proof
  show "fst (run_consumer L e handler cfg err (m # ms) s) = Stop None"
    using hopeless_session [OF assms] by (metis fst_conv)
  show "\<exists>tr. ks_trace (sessions L e handler cfg err (m # ms) n s) = ks_trace s @ tr \<and> \<not> commits tr \<and>
      deads m tr = n \<and> only_about m tr"
  proof (induction n arbitrary: s)
    case 0
    then show ?case by (simp add: commits_def deads_def only_about_def)
  next
    case (Suc n)
    obtain s' t1 where one: "run_consumer L e handler cfg err (m # ms) s = (Stop None, s')"
      "ks_trace s' = ks_trace s @ t1" "\<not> commits t1" "deads m t1 = 1" "only_about m t1"
      using hopeless_session [OF assms] by blast
    from Suc obtain t2 where "ks_trace (sessions L e handler cfg err (m # ms) n s') = ks_trace s' @ t2"
      "\<not> commits t2" "deads m t2 = n" "only_about m t2" by blast
    with one show ?case by (intro exI [of _ "t1 @ t2"]) (simp del: run_consumer.simps)
  qed
qed

definition last_attempt :: message where
  "last_attempt = \<lparr>msg_Key = [], msg_Value = Raw ''{'', msg_Headers = [(''x-ofm-retry-attempt'', ''5'')],
     msg_Partition = 0, msg_Offset = 4\<rparr>"

lemma hopeless_message_blocks_witness:
  "\<exists>tr. ks_trace (sessions sample_klib sample_env rating_handle sample_topic RedisNil
      [last_attempt, sample_message ''g1'' 5] 3 sample_kstate) = tr \<and> \<not> commits tr \<and> deads last_attempt tr = 3"
proof -
  have "retryAttempt (msg_Headers last_attempt) = 5" by code_simp
  then have "hopeless sample_klib sample_env rating_handle last_attempt"
    by (simp add: hopeless_def sample_klib_def last_attempt_def rating_handle_def failP_def)
  moreover have "all_granted sample_klib" by (simp add: all_granted_def sample_klib_def)
  ultimately show ?thesis
    using hopeless_message_blocks [of sample_klib sample_env rating_handle last_attempt sample_topic RedisNil
      "[sample_message ''g1'' 5]" sample_kstate 3] by (auto simp: sample_kstate_def)
qed

end
