(* ===== verification/RecoveryClaims.thy ===== *)
theory RecoveryClaims
  imports Recovery UseCases KafkaClaims
begin

text \<open>
  The properties of the recovery of commands: what it may do to the tables, how it names the gig
  and its owner, and that a publication may be replayed.
\<close>

section \<open>Recovery and the service\<close>


lemma ledgerP_frames [frame_intros]: "steps e same_db ledgerP"
  unfolding ledgerP_def
  by (intro frame_intros same_db.steps_remoteP) (simp add: same_db_def)
















section \<open>Two commands of one gig\<close>

text \<open>The creation of the gig \<open>g7\<close> and, after it in the log, the edit of its basic information.\<close>

definition create_env :: envelope where
  "create_env = \<lparr>ev_EventID = ''e1'', ev_CommandID = ''c1'', ev_CorrelationID = [], ev_IdempotencyKey = [],
     ev_TestRunID = [], ev_Operation = ''post'', ev_CommandPath = ''/api/gigs/drafts'', ev_AggregateType = ''gig'',
     ev_AggregateID = ''g7'', ev_RecoveryPrincipalID = ''f1'', ev_RecoveryUsername = [], ev_RecoveryAccessToken = [],
     ev_Payload = Json (JObj [(''gig_id'', JStr ''g7'')])\<rparr>"

definition edit_env :: envelope where
  "edit_env = \<lparr>ev_EventID = ''e2'', ev_CommandID = ''c2'', ev_CorrelationID = [], ev_IdempotencyKey = [],
     ev_TestRunID = [], ev_Operation = ''patch'', ev_CommandPath = ''/api/gigs/g7/basic-info'', ev_AggregateType = ''gig'',
     ev_AggregateID = ''g7'', ev_RecoveryPrincipalID = ''f1'', ev_RecoveryUsername = [], ev_RecoveryAccessToken = [],
     ev_Payload = Json (JObj [(''title'', JStr ''Logo''), (''short_info'', JStr ''A logo''),
       (''description'', JStr ''I draw''), (''category_id'', JNum 3), (''currency'', JStr ''EUR'')])\<rparr>"

definition two_envelopes :: "bytes \<Rightarrow> envelope option" where
  "two_envelopes b = (if b = Raw ''create'' then Some create_env else if b = Raw ''edit'' then Some edit_env else None)"

definition recovery_klib :: klib where
  "recovery_klib = sample_klib\<lparr>kl_envelope := two_envelopes\<rparr>"

definition recovery_rlib :: rlib where
  "recovery_rlib = \<lparr>rl_decode = two_envelopes, rl_encode = (\<lambda>c. Ok (Raw (cp_EventID c))), rl_parse = (\<lambda>s. None),
     rl_completed_topic = ''migration.recovery.completed''\<rparr>"

definition create_message :: message where "create_message = (sample_message [] 1)\<lparr>msg_Value := Raw ''create''\<rparr>"
definition edit_message :: message where "edit_message = (sample_message [] 2)\<lparr>msg_Value := Raw ''edit''\<rparr>"

text \<open>A batch, handled in the order given: how it ends, and the trace.\<close>

definition recovery_run :: "message list \<Rightarrow> message list \<Rightarrow> flow \<times> action list" where
  "recovery_run batch order =
     map_prod id ks_trace (runRecoveryBatch recovery_klib sample_env (recovery_handle recovery_rlib) sample_topic
       batch order sample_kstate)"

lemma edit_overtakes: "lane_order recovery_klib [create_message, edit_message] [edit_message, create_message]"
proof -
  have "recoveryLaneKey recovery_klib create_message = ''c1''" "recoveryLaneKey recovery_klib edit_message = ''g7''"
    by code_simp+
  then have "lane_of recovery_klib create_message \<noteq> lane_of recovery_klib edit_message"
    by (simp add: lane_of_def fnv1a_def lane_count_def)
  then show ?thesis by (auto simp: lane_order_def list_all_iff)
qed

lemma runs_of_two:
  "fst (recovery_run [create_message, edit_message] [create_message, edit_message]) = Next \<and>
   deads edit_message (snd (recovery_run [create_message, edit_message] [create_message, edit_message])) = 0"
  "fst (recovery_run [create_message, edit_message] [edit_message, create_message]) = Next \<and>
   deads edit_message (snd (recovery_run [create_message, edit_message] [edit_message, create_message])) = 1"
  by code_simp+

text \<open>
  The lanes keep the order of the edits of a gig, but not that of its creation: the creation
  goes to the lane of its command, the edits to the lane of the gig. In one of the orders the
  lanes allow, the edit that follows the creation in the log is handled first, fails because
  there is no such gig, is dead-lettered and committed; in the order of the log it succeeds.
\<close>

theorem creation_may_be_overtaken:
  "\<exists>order. lane_order recovery_klib [create_message, edit_message] order \<and>
     fst (recovery_run [create_message, edit_message] order) = Next \<and>
     deads edit_message (snd (recovery_run [create_message, edit_message] order)) = 1 \<and>
     deads edit_message (snd (recovery_run [create_message, edit_message] [create_message, edit_message])) = 0"
  using edit_overtakes runs_of_two by blast

section \<open>The gig and the lane of a command\<close>



section \<open>Replays\<close>






end
