(* ===== verification/Nats.thy ===== *)
theory Nats
  imports Subscribers
begin

text \<open>
  The NATS adapter, \<open>internal/presentation/event_broker/nats\<close>: the configuration of a pull consumer
  (\<open>config/pull_consumer.go\<close>, \<open>config/nats.go\<close>), its validation, the adaptive fetch plan, the
  worker that acknowledges messages, the reasons of failures, and the subjects of the stream
  (\<open>pkg/messaging/nats/bootstrap.go\<close>). JetStream itself is a parameter. A duration is a 64-bit
  number of nanoseconds.
\<close>

section \<open>Configuration\<close>

type_synonym duration = int64

definition milliseconds :: "int \<Rightarrow> duration" where "milliseconds n = word_of_int (n * 1000000)"

record PullAdaptiveConfig =
  pa_Enabled :: bool
  pa_CheckInterval :: duration
  pa_MediumPending :: int64
  pa_HighPending :: int64
  pa_LowBatchSize :: int64
  pa_LowMaxWait :: duration
  pa_MediumBatchSize :: int64
  pa_MediumMaxWait :: duration
  pa_HighBatchSize :: int64
  pa_HighMaxWait :: duration

record PullConsumerConfig =
  pc_Stream :: string
  pc_Subject :: string
  pc_Durable :: string
  pc_GroupID :: string
  pc_BatchSize :: int64
  pc_MaxWait :: duration
  pc_Workers :: int64
  pc_QueueSize :: int64
  pc_AckWait :: duration
  pc_MaxDeliver :: int64
  pc_Adaptive :: PullAdaptiveConfig

record NATSConfig =
  nc_GigEventsStream :: string
  nc_OrderEventsStream :: string
  nc_GigPublishedSubject :: string
  nc_GigProjectionSubject :: string
  nc_GigPreviewProjectionSubject :: string
  nc_GigViewedSubject :: string
  nc_ReviewEventsStream :: string
  nc_ReviewGigRatingSubject :: string
  nc_OrderFundedSubject :: string
  nc_GigProjectionDurable :: string
  nc_GigPreviewProjectionDurable :: string
  nc_ReviewGigRatingDurable :: string
  nc_OrderFundedDurable :: string
  nc_BatchSize :: int64
  nc_MaxWait :: duration
  nc_Workers :: int64
  nc_QueueSize :: int64
  nc_AckWait :: duration
  nc_MaxDeliver :: int64
  nc_AdaptiveEnabled :: bool
  nc_AdaptiveCheckInterval :: duration
  nc_AdaptiveMediumPending :: int64
  nc_AdaptiveHighPending :: int64
  nc_AdaptiveLowBatchSize :: int64
  nc_AdaptiveLowMaxWait :: duration
  nc_AdaptiveMediumBatchSize :: int64
  nc_AdaptiveMediumMaxWait :: duration
  nc_AdaptiveHighBatchSize :: int64
  nc_AdaptiveHighMaxWait :: duration

text \<open>The defaults of the environment variables.\<close>

definition default_nats :: NATSConfig where
  "default_nats =
     \<lparr>nc_GigEventsStream = ''GIG_EVENTS'', nc_OrderEventsStream = ''ORDER_EVENTS'',
      nc_GigPublishedSubject = ''gig.published'', nc_GigProjectionSubject = ''gig.projection.requested'',
      nc_GigPreviewProjectionSubject = ''gig.preview.projection.requested'',
      nc_GigViewedSubject = ''gig.viewed'', nc_ReviewEventsStream = ''REVIEW_EVENTS'',
      nc_ReviewGigRatingSubject = ''review.rating.gig'', nc_OrderFundedSubject = ''order.funded'',
      nc_GigProjectionDurable = ''gig_service_gig_projection'',
      nc_GigPreviewProjectionDurable = ''gig_service_gig_preview_projection'',
      nc_ReviewGigRatingDurable = ''gig_service_review_gig_rating'',
      nc_OrderFundedDurable = ''gig_service_order_funded'',
      nc_BatchSize = 100, nc_MaxWait = milliseconds 500, nc_Workers = 4, nc_QueueSize = 200,
      nc_AckWait = milliseconds 30000, nc_MaxDeliver = 5, nc_AdaptiveEnabled = False,
      nc_AdaptiveCheckInterval = milliseconds 2000, nc_AdaptiveMediumPending = 200,
      nc_AdaptiveHighPending = 1000, nc_AdaptiveLowBatchSize = 25,
      nc_AdaptiveLowMaxWait = milliseconds 1000, nc_AdaptiveMediumBatchSize = 100,
      nc_AdaptiveMediumMaxWait = milliseconds 500, nc_AdaptiveHighBatchSize = 300,
      nc_AdaptiveHighMaxWait = milliseconds 100\<rparr>"

definition adaptive_config :: "NATSConfig \<Rightarrow> PullAdaptiveConfig" where
  "adaptive_config cfg =
     \<lparr>pa_Enabled = nc_AdaptiveEnabled cfg, pa_CheckInterval = nc_AdaptiveCheckInterval cfg,
      pa_MediumPending = nc_AdaptiveMediumPending cfg, pa_HighPending = nc_AdaptiveHighPending cfg,
      pa_LowBatchSize = nc_AdaptiveLowBatchSize cfg, pa_LowMaxWait = nc_AdaptiveLowMaxWait cfg,
      pa_MediumBatchSize = nc_AdaptiveMediumBatchSize cfg, pa_MediumMaxWait = nc_AdaptiveMediumMaxWait cfg,
      pa_HighBatchSize = nc_AdaptiveHighBatchSize cfg, pa_HighMaxWait = nc_AdaptiveHighMaxWait cfg\<rparr>"

definition pull_config :: "NATSConfig \<Rightarrow> string \<Rightarrow> string \<Rightarrow> string \<Rightarrow> PullConsumerConfig" where
  "pull_config cfg stream subject durable =
     \<lparr>pc_Stream = stream, pc_Subject = subject, pc_Durable = durable, pc_GroupID = [],
      pc_BatchSize = nc_BatchSize cfg, pc_MaxWait = nc_MaxWait cfg, pc_Workers = nc_Workers cfg,
      pc_QueueSize = nc_QueueSize cfg, pc_AckWait = nc_AckWait cfg, pc_MaxDeliver = nc_MaxDeliver cfg,
      pc_Adaptive = adaptive_config cfg\<rparr>"

definition or_default :: "string \<Rightarrow> string \<Rightarrow> string" where
  "or_default s d = (if s = [] then d else s)"

text \<open>The consumers of the four subscribers.\<close>

definition projection_consumer :: "NATSConfig \<Rightarrow> PullConsumerConfig" where
  "projection_consumer cfg =
     pull_config cfg (nc_GigEventsStream cfg) (nc_GigProjectionSubject cfg) (nc_GigProjectionDurable cfg)"

definition preview_consumer :: "NATSConfig \<Rightarrow> PullConsumerConfig" where
  "preview_consumer cfg =
     pull_config cfg (nc_GigEventsStream cfg)
       (or_default (nc_GigPreviewProjectionSubject cfg) ''gig.preview.projection.requested'')
       (or_default (nc_GigPreviewProjectionDurable cfg) ''gig_service_gig_preview_projection'')"

definition rating_consumer :: "NATSConfig \<Rightarrow> PullConsumerConfig" where
  "rating_consumer cfg =
     pull_config cfg (nc_ReviewEventsStream cfg)
       (or_default (nc_ReviewGigRatingSubject cfg) ''review.rating.gig'')
       (or_default (nc_ReviewGigRatingDurable cfg) ''gig_service_review_gig_rating'')"

definition order_consumer :: "NATSConfig \<Rightarrow> PullConsumerConfig" where
  "order_consumer cfg =
     pull_config cfg (nc_OrderEventsStream cfg)
       (or_default (nc_OrderFundedSubject cfg) ''order.funded'')
       (or_default (nc_OrderFundedDurable cfg) ''gig_service_order_funded'')"

text \<open>The subjects of the stream that holds the service's own events.\<close>

definition stream_subjects :: "NATSConfig \<Rightarrow> string list" where
  "stream_subjects cfg =
     [or_default (nc_GigPublishedSubject cfg) ''gig.published'',
      or_default (nc_GigProjectionSubject cfg) ''gig.projection.requested'',
      or_default (nc_GigPreviewProjectionSubject cfg) ''gig.preview.projection.requested'',
      or_default (nc_GigViewedSubject cfg) ''gig.viewed'']"

section \<open>Validation\<close>

datatype pull_error =
    ErrEmptyStreamName | ErrEmptySubject | ErrEmptyDurableName | ErrInvalidBatchSize | ErrInvalidMaxWait
  | ErrInvalidWorkerCount | ErrInvalidQueueSize | ErrInvalidAckWait | ErrInvalidMaxDeliver
  | ErrInvalidAdaptiveCheckInterval | ErrInvalidAdaptiveThresholds | ErrInvalidAdaptivePlan

definition Validate :: "PullConsumerConfig \<Rightarrow> pull_error option" where
  "Validate cfg =
     (let a = pc_Adaptive cfg
      in if pc_Stream cfg = [] then Some ErrEmptyStreamName
         else if pc_Subject cfg = [] then Some ErrEmptySubject
         else if pc_Durable cfg = [] then Some ErrEmptyDurableName
         else if \<not> positive (pc_BatchSize cfg) then Some ErrInvalidBatchSize
         else if \<not> positive (pc_MaxWait cfg) then Some ErrInvalidMaxWait
         else if \<not> positive (pc_Workers cfg) then Some ErrInvalidWorkerCount
         else if \<not> positive (pc_QueueSize cfg) then Some ErrInvalidQueueSize
         else if \<not> positive (pc_AckWait cfg) then Some ErrInvalidAckWait
         else if \<not> positive (pc_MaxDeliver cfg) then Some ErrInvalidMaxDeliver
         else if \<not> pa_Enabled a then None
         else if \<not> positive (pa_CheckInterval a) then Some ErrInvalidAdaptiveCheckInterval
         else if sint (pa_MediumPending a) < 0 \<or> sint (pa_HighPending a) \<le> sint (pa_MediumPending a)
         then Some ErrInvalidAdaptiveThresholds
         else if \<not> (positive (pa_LowBatchSize a) \<and> positive (pa_LowMaxWait a) \<and>
                    positive (pa_MediumBatchSize a) \<and> positive (pa_MediumMaxWait a) \<and>
                    positive (pa_HighBatchSize a) \<and> positive (pa_HighMaxWait a))
         then Some ErrInvalidAdaptivePlan
         else None)"

section \<open>The adaptive plan\<close>

definition ResolvePullPlan :: "PullConsumerConfig \<Rightarrow> int64 \<Rightarrow> string \<times> int64 \<times> duration" where
  "ResolvePullPlan cfg pending =
     (let a = pc_Adaptive cfg
      in if \<not> pa_Enabled a then (''base'', pc_BatchSize cfg, pc_MaxWait cfg)
         else if sint (pa_HighPending a) \<le> sint pending then (''high'', pa_HighBatchSize a, pa_HighMaxWait a)
         else if sint (pa_MediumPending a) \<le> sint pending then (''medium'', pa_MediumBatchSize a, pa_MediumMaxWait a)
         else (''low'', pa_LowBatchSize a, pa_LowMaxWait a))"

record fetch_state =
  fs_batch :: int64
  fs_wait :: duration
  fs_tier :: string
  fs_lastAdaptiveCheck :: time

definition initial_fetch :: "PullConsumerConfig \<Rightarrow> time \<Rightarrow> fetch_state" where
  "initial_fetch cfg now =
     \<lparr>fs_batch = pc_BatchSize cfg, fs_wait = pc_MaxWait cfg, fs_tier = ''base'', fs_lastAdaptiveCheck = now\<rparr>"

text \<open>
  One round of the fetcher: \<open>now\<close> is the clock, \<open>info\<close> the number of pending messages the server
  reports, or nothing when it does not answer.
\<close>

definition maybeUpdateAdaptivePlan :: "PullConsumerConfig \<Rightarrow> time \<Rightarrow> int64 option \<Rightarrow> fetch_state \<Rightarrow> fetch_state" where
  "maybeUpdateAdaptivePlan cfg now info s =
     (if \<not> pa_Enabled (pc_Adaptive cfg) \<or>
         now - fs_lastAdaptiveCheck s < sint (pa_CheckInterval (pc_Adaptive cfg)) then s
      else let s = s\<lparr>fs_lastAdaptiveCheck := now\<rparr>
           in case info of
                None \<Rightarrow> s
              | Some pending \<Rightarrow>
                  (case ResolvePullPlan cfg pending of (tier, batch, wait) \<Rightarrow>
                     if tier = fs_tier s \<and> batch = fs_batch s \<and> wait = fs_wait s then s
                     else s\<lparr>fs_tier := tier, fs_batch := batch, fs_wait := wait\<rparr>))"

section \<open>The worker\<close>

datatype reply = Ack | Nak

text \<open>What a worker does with the messages it takes, until a handler panics.\<close>

fun run_worker :: "env \<Rightarrow> (bytes \<Rightarrow> unit prog) \<Rightarrow> bytes list \<Rightarrow> world \<Rightarrow> reply list \<times> world" where
  "run_worker e handler [] w = ([], w)"
| "run_worker e handler (data # msgs) w =
     (case handler data e w of
        (Panic, w) \<Rightarrow> ([], w)
      | (Err _, w) \<Rightarrow> (case run_worker e handler msgs w of (rs, w) \<Rightarrow> (Nak # rs, w))
      | (Ok _, w) \<Rightarrow> (case run_worker e handler msgs w of (rs, w) \<Rightarrow> (Ack # rs, w)))"

section \<open>Reasons of failures\<close>

definition CreateGigFailureReason :: "gerr \<Rightarrow> string" where
  "CreateGigFailureReason err =
     (if errors_is err ErrInvalidGigID then ''invalid gig id''
      else if errors_is err ErrInvalidFreelancerID then ''invalid freelancer id''
      else if errors_is err ErrInvalidPackageCount then ''invalid package count''
      else if errors_is err ErrInvalidPackageTier then ''invalid package tier''
      else ''failed to create gig'')"

definition PublishGigFailureReason :: "gerr \<Rightarrow> string" where
  "PublishGigFailureReason err =
     (if errors_is err ErrGigDraftIncomplete then ''gig draft is incomplete''
      else if errors_is err ErrGigAlreadyPublished then ''gig already published''
      else ''failed to publish gig'')"

section \<open>Facts\<close>

lemma Validate_None:
  assumes "Validate cfg = None"
  shows "positive (pc_BatchSize cfg)" and "positive (pc_MaxWait cfg)"
    and "pa_Enabled (pc_Adaptive cfg) \<Longrightarrow> 0 \<le> sint (pa_MediumPending (pc_Adaptive cfg)) \<and>
      sint (pa_MediumPending (pc_Adaptive cfg)) < sint (pa_HighPending (pc_Adaptive cfg)) \<and>
      (\<forall>w\<in>{pa_LowBatchSize (pc_Adaptive cfg), pa_LowMaxWait (pc_Adaptive cfg), pa_MediumBatchSize (pc_Adaptive cfg),
        pa_MediumMaxWait (pc_Adaptive cfg), pa_HighBatchSize (pc_Adaptive cfg), pa_HighMaxWait (pc_Adaptive cfg)}. positive w)"
  using assms by (auto simp: Validate_def Let_def split: if_splits)

lemma ResolvePullPlan_positive:
  assumes "Validate cfg = None" and "ResolvePullPlan cfg pending = (tier, batch, wait)"
  shows "positive batch \<and> positive wait"
  using assms(2) Validate_None [OF assms(1)]
  by (cases "pa_Enabled (pc_Adaptive cfg)") (auto simp: ResolvePullPlan_def Let_def split: if_splits)

text \<open>The rank of a tier: the plans of a longer backlog are those of a higher tier.\<close>

definition tier_rank :: "string \<Rightarrow> nat" where
  "tier_rank tier = (if tier = ''high'' then 2 else if tier = ''medium'' then 1 else 0)"

lemma ResolvePullPlan_mono:
  assumes "Validate cfg = None" and "sint p \<le> sint q"
  shows "tier_rank (fst (ResolvePullPlan cfg p)) \<le> tier_rank (fst (ResolvePullPlan cfg q))"
  using assms(2) Validate_None(3) [OF assms(1)] by (auto simp: ResolvePullPlan_def Let_def tier_rank_def)

text \<open>The states a fetcher reaches.\<close>

inductive fetch_reachable :: "PullConsumerConfig \<Rightarrow> fetch_state \<Rightarrow> bool" for cfg where
  start: "fetch_reachable cfg (initial_fetch cfg now)"
| update: "fetch_reachable cfg s \<Longrightarrow> fetch_reachable cfg (maybeUpdateAdaptivePlan cfg now info s)"

definition planned :: "PullConsumerConfig \<Rightarrow> fetch_state \<Rightarrow> bool" where
  "planned cfg s \<longleftrightarrow>
     (fs_tier s, fs_batch s, fs_wait s) = (''base'', pc_BatchSize cfg, pc_MaxWait cfg) \<or>
     pa_Enabled (pc_Adaptive cfg) \<and> (\<exists>pending. (fs_tier s, fs_batch s, fs_wait s) = ResolvePullPlan cfg pending)"

lemma fetch_planned: "fetch_reachable cfg s \<Longrightarrow> planned cfg s"
proof (induction rule: fetch_reachable.induct)
  case (start now)
  then show ?case by (simp add: planned_def initial_fetch_def)
next
  case (update s now info)
  show ?case
  proof (cases "maybeUpdateAdaptivePlan cfg now info s = s \<or> fs_tier (maybeUpdateAdaptivePlan cfg now info s) = fs_tier s \<and>
      fs_batch (maybeUpdateAdaptivePlan cfg now info s) = fs_batch s \<and> fs_wait (maybeUpdateAdaptivePlan cfg now info s) = fs_wait s")
    case True
    with update.IH show ?thesis by (auto simp: planned_def)
  next
    case False
    then show ?thesis
      by (auto simp: planned_def maybeUpdateAdaptivePlan_def Let_def split: if_splits option.splits prod.splits)
        (metis)+
  qed
qed

end
