(* ===== verification/NatsBroker.thy ===== *)
theory NatsBroker
  imports Nats
begin

text \<open>
  The broker of the NATS adapter and what its subscribers ask of it: \<open>broker.go\<close>, the constructors and
  \<open>Subscribe\<close> methods of the four subscribers, \<open>Create\<close> of \<open>pull_consumer_runtime.go\<close> and
  \<open>EnsureStream\<close> of \<open>pkg/messaging/nats/bootstrap.go\<close>. The replies of the server are the
  parameter \<open>jetstream\<close>; what is asked of it is a list of calls. Errors that join two texts are
  kept as texts, no caller looking into them.
\<close>

section \<open>The server\<close>

datatype ack_policy = AckExplicit | AckAll | AckNone
datatype storage_kind = FileStorage | MemoryStorage
datatype retention_policy = LimitsPolicy | InterestPolicy | WorkQueuePolicy

record durable_config =
  dc_Durable :: string
  dc_FilterSubject :: string
  dc_AckPolicy :: ack_policy
  dc_AckWait :: duration
  dc_MaxDeliver :: int64

record stream_config =
  sc_Name :: string
  sc_Subjects :: "string list"
  sc_Storage :: storage_kind
  sc_Retention :: retention_policy
  sc_Replicas :: int64
  sc_MaxAge :: duration

text \<open>The error of each call, when it fails.\<close>

record jetstream =
  js_connect :: "gerr option"
  js_context :: "gerr option"
  js_add_consumer :: "gerr option"
  js_update_consumer :: "gerr option"
  js_pull_subscribe :: "gerr option"
  js_add_stream :: "gerr option"
  js_update_stream :: "gerr option"
  js_publish :: "gerr option"
  js_push_subscribe :: "gerr option"
  js_flush :: "gerr option"

datatype js_call =
    AddConsumer string durable_config
  | UpdateConsumer string durable_config
  | PullSubscribe string string string
  | AddStream stream_config
  | UpdateStream stream_config
  | Started PullConsumerConfig

fun pull_error_text :: "pull_error \<Rightarrow> string" where
  "pull_error_text ErrEmptyStreamName = ''stream name is empty''"
| "pull_error_text ErrEmptySubject = ''subject is empty''"
| "pull_error_text ErrEmptyDurableName = ''durable name is empty''"
| "pull_error_text ErrInvalidBatchSize = ''batch size must be greater than zero''"
| "pull_error_text ErrInvalidMaxWait = ''max wait must be greater than zero''"
| "pull_error_text ErrInvalidWorkerCount = ''worker count must be greater than zero''"
| "pull_error_text ErrInvalidQueueSize = ''queue size must be greater than zero''"
| "pull_error_text ErrInvalidAckWait = ''ack wait must be greater than zero''"
| "pull_error_text ErrInvalidMaxDeliver = ''max deliver must be greater than zero''"
| "pull_error_text ErrInvalidAdaptiveCheckInterval = ''adaptive check interval must be greater than zero''"
| "pull_error_text ErrInvalidAdaptiveThresholds = ''adaptive thresholds must satisfy: high > medium >= 0''"
| "pull_error_text ErrInvalidAdaptivePlan = ''adaptive plan batch size and max wait must be greater than zero''"

definition in_quotes :: "string \<Rightarrow> string" where
  "in_quotes s = [CHR 0x22] @ s @ [CHR 0x22]"

definition WrapConnectToNATSError :: "gerr \<Rightarrow> gerr" where
  "WrapConnectToNATSError = Wrap ''connect to nats''"

definition WrapPublishToNATSError :: "string \<Rightarrow> gerr \<Rightarrow> gerr" where
  "WrapPublishToNATSError subject = Wrap (''publish to nats ('' @ subject @ '')'')"

definition WrapSubscribeToNATSError :: "string \<Rightarrow> gerr \<Rightarrow> gerr" where
  "WrapSubscribeToNATSError subject = Wrap (''subscribe to nats ('' @ subject @ '')'')"

definition WrapFlushNATSPublisherError :: "gerr \<Rightarrow> gerr" where
  "WrapFlushNATSPublisherError = Wrap ''flush nats publisher''"

definition WrapInitJetStreamContextError :: "gerr \<Rightarrow> gerr" where
  "WrapInitJetStreamContextError = Wrap ''init jetstream context''"

definition WrapEnsureConsumerError :: "string \<Rightarrow> string \<Rightarrow> gerr \<Rightarrow> gerr \<Rightarrow> gerr" where
  "WrapEnsureConsumerError stream durable add_err update_err =
     Opaque (''ensure consumer '' @ in_quotes durable @ '' in stream '' @ in_quotes stream @
       '': add err='' @ error_text add_err @ '', update err='' @ error_text update_err)"

definition WrapCreatePullSubscriberError :: "string \<Rightarrow> string \<Rightarrow> gerr \<Rightarrow> gerr" where
  "WrapCreatePullSubscriberError subject durable =
     Wrap (''create pull subscriber subject='' @ in_quotes subject @ '' durable='' @ in_quotes durable)"

section \<open>The broker\<close>

text \<open>The constructor: the options of the connection, or the error.\<close>

definition nats_options :: "string \<Rightarrow> string \<Rightarrow> (string \<times> string) list" where
  "nats_options user password =
     [(''name'', ''gig-service''), (''max_reconnects'', ''-1'')] @
     (if user \<noteq> [] then [(''user'', user), (''password'', password)] else [])"

definition nats_NewBroker :: "jetstream \<Rightarrow> string \<Rightarrow> bool \<Rightarrow> gerr option" where
  "nats_NewBroker J url nil_log =
     (if url = [] then Some (Opaque ''nats url is empty'')
      else if nil_log then Some (Opaque ''logger is nil'')
      else map_option WrapConnectToNATSError (js_connect J))"

text \<open>The deadline of a flush: the context's own, or five seconds.\<close>

definition flush_deadline :: "duration option \<Rightarrow> duration" where
  "flush_deadline deadline = (case deadline of Some d \<Rightarrow> d | None \<Rightarrow> milliseconds 5000)"

definition nats_Publish :: "jetstream \<Rightarrow> string \<Rightarrow> gerr option" where
  "nats_Publish J subject =
     (case js_publish J of
        Some err \<Rightarrow> Some (WrapPublishToNATSError subject err)
      | None \<Rightarrow> map_option WrapFlushNATSPublisherError (js_flush J))"

definition nats_Subscribe :: "jetstream \<Rightarrow> string \<Rightarrow> gerr option" where
  "nats_Subscribe J subject =
     (case js_push_subscribe J of
        Some err \<Rightarrow> Some (WrapSubscribeToNATSError subject err)
      | None \<Rightarrow> map_option WrapFlushNATSPublisherError (js_flush J))"

text \<open>A message pushed to a subscription: an error of the handler is logged and forgotten.\<close>

definition nats_callback :: "(bytes \<Rightarrow> unit prog) \<Rightarrow> bytes \<Rightarrow> unit prog" where
  "nats_callback handler data = ignoreP (handler data)"

section \<open>Pull consumers\<close>

definition durable_of :: "PullConsumerConfig \<Rightarrow> durable_config" where
  "durable_of cfg =
     \<lparr>dc_Durable = pc_Durable cfg, dc_FilterSubject = pc_Subject cfg, dc_AckPolicy = AckExplicit,
      dc_AckWait = pc_AckWait cfg, dc_MaxDeliver = pc_MaxDeliver cfg\<rparr>"

definition create_runtime :: "jetstream \<Rightarrow> PullConsumerConfig \<Rightarrow> gerr option \<times> js_call list" where
  "create_runtime J cfg =
     (let stream = pc_Stream cfg; add = AddConsumer stream (durable_of cfg);
          update = UpdateConsumer stream (durable_of cfg);
          subscribe = (\<lambda>calls. (map_option (WrapCreatePullSubscriberError (pc_Subject cfg) (pc_Durable cfg))
            (js_pull_subscribe J), calls @ [PullSubscribe (pc_Subject cfg) (pc_Durable cfg) stream]))
      in case js_context J of
           Some err \<Rightarrow> (Some (WrapInitJetStreamContextError err), [])
         | None \<Rightarrow>
             (case js_add_consumer J of
                None \<Rightarrow> subscribe [add]
              | Some add_err \<Rightarrow>
                  (case js_update_consumer J of
                     Some update_err \<Rightarrow>
                       (Some (WrapEnsureConsumerError stream (pc_Durable cfg) add_err update_err), [add, update])
                   | None \<Rightarrow> subscribe [add, update])))"

definition nats_RunPullConsumer :: "jetstream \<Rightarrow> PullConsumerConfig \<Rightarrow> gerr option \<times> js_call list" where
  "nats_RunPullConsumer J cfg =
     (case Validate cfg of
        Some err \<Rightarrow> (Some (Opaque (pull_error_text err)), [])
      | None \<Rightarrow>
          (case create_runtime J cfg of
             (Some err, calls) \<Rightarrow> (Some err, calls)
           | (None, calls) \<Rightarrow> (None, calls @ [Started cfg])))"

section \<open>Subscribers\<close>

text \<open>\<open>nils\<close> are the dependencies that are nil; a constructor reports the first it checks.\<close>

datatype nats_dependency = ErrNilBroker | ErrNilGigService | ErrNilProjectionWriter | ErrNilMessageMapper | ErrNilNatsLogger

definition first_nil :: "nats_dependency set \<Rightarrow> nats_dependency list \<Rightarrow> nats_dependency option" where
  "first_nil nils checked = find (\<lambda>d. d \<in> nils) checked"

definition nats_NewGigProjectionSubscriber :: "nats_dependency set \<Rightarrow> nats_dependency option" where
  "nats_NewGigProjectionSubscriber nils =
     first_nil nils [ErrNilBroker, ErrNilGigService, ErrNilProjectionWriter, ErrNilNatsLogger]"

definition nats_NewGigPreviewProjectionSubscriber :: "nats_dependency set \<Rightarrow> nats_dependency option" where
  "nats_NewGigPreviewProjectionSubscriber nils =
     first_nil nils [ErrNilBroker, ErrNilGigService, ErrNilMessageMapper, ErrNilNatsLogger]"

definition nats_NewGigReviewRatingSubscriber :: "nats_dependency set \<Rightarrow> nats_dependency option" where
  "nats_NewGigReviewRatingSubscriber nils = first_nil nils [ErrNilBroker, ErrNilGigService, ErrNilNatsLogger]"

definition nats_NewGigOrderFundedSubscriber :: "nats_dependency set \<Rightarrow> nats_dependency option" where
  "nats_NewGigOrderFundedSubscriber nils = first_nil nils [ErrNilBroker, ErrNilGigService, ErrNilNatsLogger]"

definition nats_projection_Subscribe :: "jetstream \<Rightarrow> NATSConfig \<Rightarrow> gerr option \<times> js_call list" where
  "nats_projection_Subscribe J cfg = nats_RunPullConsumer J (projection_consumer cfg)"

definition nats_preview_Subscribe :: "jetstream \<Rightarrow> NATSConfig \<Rightarrow> gerr option \<times> js_call list" where
  "nats_preview_Subscribe J cfg = nats_RunPullConsumer J (preview_consumer cfg)"

definition nats_rating_Subscribe :: "jetstream \<Rightarrow> NATSConfig \<Rightarrow> gerr option \<times> js_call list" where
  "nats_rating_Subscribe J cfg = nats_RunPullConsumer J (rating_consumer cfg)"

definition nats_order_Subscribe :: "jetstream \<Rightarrow> NATSConfig \<Rightarrow> gerr option \<times> js_call list" where
  "nats_order_Subscribe J cfg = nats_RunPullConsumer J (order_consumer cfg)"

section \<open>The stream\<close>

definition stream_of :: "NATSConfig \<Rightarrow> stream_config" where
  "stream_of cfg =
     \<lparr>sc_Name = nc_GigEventsStream cfg, sc_Subjects = stream_subjects cfg, sc_Storage = FileStorage,
      sc_Retention = LimitsPolicy, sc_Replicas = 1, sc_MaxAge = milliseconds (7 * 24 * 3600 * 1000)\<rparr>"

definition WrapEnsureStreamError :: "string \<Rightarrow> gerr \<Rightarrow> gerr \<Rightarrow> gerr" where
  "WrapEnsureStreamError stream add_err update_err =
     Opaque (''ensure stream '' @ in_quotes stream @ '': add err='' @ error_text add_err @
       '', update err='' @ error_text update_err)"

text \<open>\<open>Connect\<close>: the connection of the bootstrap, with its user when there is one.\<close>

definition bootstrap_WrapConnectToNATSError :: "gerr \<Rightarrow> gerr" where
  "bootstrap_WrapConnectToNATSError = Wrap ''connect to nats''"

definition bootstrap_WrapInitJetStreamContextError :: "gerr \<Rightarrow> gerr" where
  "bootstrap_WrapInitJetStreamContextError = Wrap ''init jetstream context''"

definition bootstrap_options :: "string \<Rightarrow> string \<Rightarrow> (string \<times> string) list" where
  "bootstrap_options user password =
     [(''name'', ''gig-service''), (''max_reconnects'', ''-1'')] @
     (if user \<noteq> [] then [(''user'', user), (''password'', password)] else [])"

definition bootstrap_Connect :: "jetstream \<Rightarrow> gerr option" where
  "bootstrap_Connect J = map_option bootstrap_WrapConnectToNATSError (js_connect J)"

definition EnsureStream :: "jetstream \<Rightarrow> NATSConfig \<Rightarrow> bool \<Rightarrow> gerr option \<times> js_call list" where
  "EnsureStream J cfg nil_log =
     (let stream = stream_of cfg
      in if nil_log then (Some (Opaque ''logger is nil''), [])
         else case bootstrap_Connect J of
           Some err \<Rightarrow> (Some err, [])
         | None \<Rightarrow>
             (case js_context J of
                Some err \<Rightarrow> (Some (bootstrap_WrapInitJetStreamContextError err), [])
              | None \<Rightarrow>
                  (case js_add_stream J of
                     None \<Rightarrow> (None, [AddStream stream])
                   | Some add_err \<Rightarrow>
                       (case js_update_stream J of
                          Some update_err \<Rightarrow>
                            (Some (WrapEnsureStreamError (sc_Name stream) add_err update_err), [AddStream stream, UpdateStream stream])
                        | None \<Rightarrow> (None, [AddStream stream, UpdateStream stream])))))"

section \<open>Facts\<close>

lemma create_runtime_ok:
  "fst (create_runtime J cfg) = None \<longleftrightarrow>
     js_context J = None \<and> (js_add_consumer J = None \<or> js_update_consumer J = None) \<and> js_pull_subscribe J = None"
  by (auto simp: create_runtime_def Let_def split: option.splits)

text \<open>The consumer the server has after the calls: the one added, or updated after that was refused.\<close>

definition ensured :: "jetstream \<Rightarrow> js_call list \<Rightarrow> (string \<times> durable_config) option" where
  "ensured J calls =
     (if js_add_consumer J = None then (case calls of AddConsumer s d # _ \<Rightarrow> Some (s, d) | _ \<Rightarrow> None)
      else (case calls of _ # UpdateConsumer s d # _ \<Rightarrow> Some (s, d) | _ \<Rightarrow> None))"

lemma create_runtime_ensures:
  "fst (create_runtime J cfg) = None \<Longrightarrow>
     ensured J (snd (create_runtime J cfg) @ calls) = Some (pc_Stream cfg, durable_of cfg)"
  by (auto simp: create_runtime_def ensured_def Let_def split: option.splits)

lemma consumers_in_stream:
  assumes "nc_GigProjectionSubject cfg \<noteq> []"
  shows "pc_Subject (projection_consumer cfg) \<in> set (sc_Subjects (stream_of cfg))"
    and "pc_Subject (preview_consumer cfg) \<in> set (sc_Subjects (stream_of cfg))"
    and "pc_Stream (projection_consumer cfg) = sc_Name (stream_of cfg)"
    and "pc_Stream (preview_consumer cfg) = sc_Name (stream_of cfg)"
  using assms by (simp_all add: projection_consumer_def preview_consumer_def pull_config_def stream_of_def
      stream_subjects_def or_default_def)

end
