(* ===== verification/NatsRuntime.thy ===== *)
theory NatsRuntime
  imports NatsBroker "HOL-Library.Multiset"
begin

text \<open>
  The runtime of a pull consumer, \<open>pull_consumer_runtime.go\<close>: one fetcher and a number of workers
  around a bounded queue, all running concurrently, as a machine whose steps are one action of
  one goroutine. The clock, the replies of the server and the time of cancellation are inputs.
  Once the context is done a worker may leave or still take a message, as a \<open>select\<close> with two
  ready cases may. A panic of a handler ends the process.
\<close>

section \<open>The machine\<close>

text \<open>A delivery: its number tells redeliveries of one message apart.\<close>

record delivery =
  dl_Seq :: nat
  dl_Data :: bytes

datatype worker = Waiting | Busy delivery | Left

text \<open>The fetcher: about to fetch, handing over what it fetched, waiting for the workers, or done.\<close>

datatype fetcher = Polling | Dispatching "delivery list" | Draining "delivery list" | FetcherDone "delivery list"

record runtime =
  rt_fetch :: fetch_state
  rt_fetcher :: fetcher
  rt_jobs :: "delivery list"
  rt_workers :: "worker list"
  rt_cancelled :: bool
  rt_crashed :: bool
  rt_world :: world
  rt_received :: "delivery list"
  rt_answers :: "(delivery \<times> reply) list"

datatype fetch_reply = Fetched_msgs "delivery list" | Fetch_timeout | Fetch_failed gerr

datatype rt_event =
    Poll time "int64 option" fetch_reply
  | Dispatch
  | GiveUp
  | Take nat
  | Handle nat
  | Leave nat
  | Finish
  | Cancel

definition Start :: "PullConsumerConfig \<Rightarrow> time \<Rightarrow> world \<Rightarrow> runtime" where
  "Start cfg now w =
     \<lparr>rt_fetch = initial_fetch cfg now, rt_fetcher = Polling, rt_jobs = [],
      rt_workers = replicate (nat (sint (pc_Workers cfg))) Waiting, rt_cancelled = False, rt_crashed = False,
      rt_world = w, rt_received = [], rt_answers = []\<rparr>"

text \<open>
  One round of the fetcher: stopped when the context is done; else the plan is updated, and what
  the server returns, never more than was asked for, is handed over. A failed fetch is tried again.
\<close>

definition poll :: "PullConsumerConfig \<Rightarrow> time \<Rightarrow> int64 option \<Rightarrow> fetch_reply \<Rightarrow> runtime \<Rightarrow> runtime" where
  "poll cfg now info r s =
     (if rt_fetcher s \<noteq> Polling then s
      else if rt_cancelled s then s\<lparr>rt_fetcher := Draining []\<rparr>
      else let fetch = maybeUpdateAdaptivePlan cfg now info (rt_fetch s)
           in case r of
                Fetched_msgs msgs \<Rightarrow>
                  if int (length msgs) \<le> sint (fs_batch fetch)
                  then s\<lparr>rt_fetch := fetch, rt_fetcher := Dispatching msgs, rt_received := rt_received s @ msgs\<rparr>
                  else s
              | _ \<Rightarrow> s\<lparr>rt_fetch := fetch\<rparr>)"

text \<open>The next message goes into the queue when there is room; after the last one the fetcher polls again.\<close>

definition dispatch :: "PullConsumerConfig \<Rightarrow> runtime \<Rightarrow> runtime" where
  "dispatch cfg s =
     (case rt_fetcher s of
        Dispatching [] \<Rightarrow> s\<lparr>rt_fetcher := Polling\<rparr>
      | Dispatching (m # ms) \<Rightarrow>
          if int (length (rt_jobs s)) < sint (pc_QueueSize cfg)
          then s\<lparr>rt_fetcher := Dispatching ms, rt_jobs := rt_jobs s @ [m]\<rparr> else s
      | _ \<Rightarrow> s)"

text \<open>When the context is done, the fetcher may leave the rest of what it fetched.\<close>

definition give_up :: "runtime \<Rightarrow> runtime" where
  "give_up s =
     (case rt_fetcher s of
        Dispatching (m # ms) \<Rightarrow> if rt_cancelled s then s\<lparr>rt_fetcher := Draining (m # ms)\<rparr> else s
      | _ \<Rightarrow> s)"

definition take_job :: "nat \<Rightarrow> runtime \<Rightarrow> runtime" where
  "take_job i s =
     (case rt_jobs s of
        m # ms \<Rightarrow> if i < length (rt_workers s) \<and> rt_workers s ! i = Waiting
                  then s\<lparr>rt_jobs := ms, rt_workers := (rt_workers s)[i := Busy m]\<rparr> else s
      | [] \<Rightarrow> s)"

definition handle_job :: "env \<Rightarrow> (bytes \<Rightarrow> unit prog) \<Rightarrow> nat \<Rightarrow> runtime \<Rightarrow> runtime" where
  "handle_job e handler i s =
     (if i < length (rt_workers s) then
        (case rt_workers s ! i of
           Busy m \<Rightarrow>
             (case handler (dl_Data m) e (rt_world s) of
                (Panic, w) \<Rightarrow> s\<lparr>rt_world := w, rt_crashed := True\<rparr>
              | (Err _, w) \<Rightarrow> s\<lparr>rt_world := w, rt_workers := (rt_workers s)[i := Waiting],
                                rt_answers := rt_answers s @ [(m, Nak)]\<rparr>
              | (Ok _, w) \<Rightarrow> s\<lparr>rt_world := w, rt_workers := (rt_workers s)[i := Waiting],
                               rt_answers := rt_answers s @ [(m, Ack)]\<rparr>)
         | _ \<Rightarrow> s)
      else s)"

definition leave :: "nat \<Rightarrow> runtime \<Rightarrow> runtime" where
  "leave i s =
     (if i < length (rt_workers s) \<and> rt_workers s ! i = Waiting \<and> rt_cancelled s
      then s\<lparr>rt_workers := (rt_workers s)[i := Left]\<rparr> else s)"

text \<open>The queue is closed when the fetcher has stopped and every worker has left.\<close>

definition finish :: "runtime \<Rightarrow> runtime" where
  "finish s =
     (case rt_fetcher s of
        Draining ms \<Rightarrow> if list_all (\<lambda>w. w = Left) (rt_workers s) then s\<lparr>rt_fetcher := FetcherDone ms\<rparr> else s
      | _ \<Rightarrow> s)"

fun rt_step :: "env \<Rightarrow> (bytes \<Rightarrow> unit prog) \<Rightarrow> PullConsumerConfig \<Rightarrow> rt_event \<Rightarrow> runtime \<Rightarrow> runtime" where
  "rt_step e handler cfg (Poll now info r) s = (if rt_crashed s then s else poll cfg now info r s)"
| "rt_step e handler cfg Dispatch s = (if rt_crashed s then s else dispatch cfg s)"
| "rt_step e handler cfg GiveUp s = (if rt_crashed s then s else give_up s)"
| "rt_step e handler cfg (Take i) s = (if rt_crashed s then s else take_job i s)"
| "rt_step e handler cfg (Handle i) s = (if rt_crashed s then s else handle_job e handler i s)"
| "rt_step e handler cfg (Leave i) s = (if rt_crashed s then s else leave i s)"
| "rt_step e handler cfg Finish s = (if rt_crashed s then s else finish s)"
| "rt_step e handler cfg Cancel s = s\<lparr>rt_cancelled := True\<rparr>"

definition rt_run :: "env \<Rightarrow> (bytes \<Rightarrow> unit prog) \<Rightarrow> PullConsumerConfig \<Rightarrow> rt_event list \<Rightarrow> runtime \<Rightarrow> runtime" where
  "rt_run e handler cfg evs s = foldl (\<lambda>s ev. rt_step e handler cfg ev s) s evs"

section \<open>Where a message is\<close>

fun in_hand :: "worker \<Rightarrow> delivery list" where
  "in_hand (Busy m) = [m]"
| "in_hand _ = []"

fun undelivered :: "fetcher \<Rightarrow> delivery list" where
  "undelivered Polling = []"
| "undelivered (Dispatching ms) = ms"
| "undelivered (Draining ms) = ms"
| "undelivered (FetcherDone ms) = ms"

definition held_by_workers :: "runtime \<Rightarrow> delivery list" where
  "held_by_workers s = concat (map in_hand (rt_workers s))"

definition answered :: "runtime \<Rightarrow> delivery list" where
  "answered s = map fst (rt_answers s)"

definition conserved :: "runtime \<Rightarrow> bool" where
  "conserved s \<longleftrightarrow> mset (rt_received s) =
     mset (undelivered (rt_fetcher s)) + mset (rt_jobs s) + mset (held_by_workers s) + mset (answered s)"

definition within_bounds :: "PullConsumerConfig \<Rightarrow> runtime \<Rightarrow> bool" where
  "within_bounds cfg s \<longleftrightarrow> int (length (rt_jobs s)) \<le> sint (pc_QueueSize cfg) \<and>
     int (length (rt_workers s)) = sint (pc_Workers cfg) \<and> fetch_reachable cfg (rt_fetch s)"

lemma held_update:
  assumes "i < length (rt_workers s)"
  shows "mset (concat (map in_hand ((rt_workers s)[i := x]))) + mset (in_hand (rt_workers s ! i)) =
    mset (held_by_workers s) + mset (in_hand x)"
proof -
  have split: "rt_workers s = take i (rt_workers s) @ rt_workers s ! i # drop (Suc i) (rt_workers s)"
    using assms by (rule id_take_nth_drop)
  have "(rt_workers s)[i := x] = take i (rt_workers s) @ x # drop (Suc i) (rt_workers s)"
    using assms by (rule upd_conv_take_nth_drop)
  then show ?thesis
    unfolding held_by_workers_def by (subst (3) split) simp
qed

lemma held_take:
  assumes "i < length (rt_workers s)" and "rt_workers s ! i = Waiting"
  shows "mset (concat (map in_hand ((rt_workers s)[i := Busy m]))) = add_mset m (mset (held_by_workers s))"
    and "mset (concat (map in_hand ((rt_workers s)[i := Left]))) = mset (held_by_workers s)"
  using held_update [OF assms(1)] assms(2) by simp_all

lemma held_answer:
  assumes "i < length (rt_workers s)" and "rt_workers s ! i = Busy m"
  shows "mset (held_by_workers s) = add_mset m (mset (concat (map in_hand ((rt_workers s)[i := Waiting]))))"
  using held_update [OF assms(1), of Waiting] assms(2) by simp

lemma rt_step_conserved:
  assumes "conserved s"
  shows "conserved (rt_step e handler cfg ev s)"
  using assms
proof (cases ev)
  case (Take i)
  then show ?thesis
    using assms held_take(1) [of i s]
    by (auto simp: take_job_def conserved_def held_by_workers_def answered_def split: list.splits)
next
  case (Handle i)
  then show ?thesis
    using assms held_answer [of i s]
    by (auto simp: handle_job_def conserved_def held_by_workers_def answered_def
        split: worker.splits prod.splits res.splits)
next
  case (Leave i)
  then show ?thesis
    using assms held_take(2) [of i s] by (auto simp: leave_def conserved_def held_by_workers_def answered_def)
qed (auto simp: poll_def dispatch_def give_up_def finish_def conserved_def held_by_workers_def answered_def Let_def
    split: fetcher.splits list.splits fetch_reply.splits)

lemma rt_step_bounds:
  assumes "within_bounds cfg s"
  shows "within_bounds cfg (rt_step e handler cfg ev s)"
  using assms
  by (cases ev) (auto simp: within_bounds_def poll_def dispatch_def give_up_def take_job_def handle_job_def leave_def
      finish_def Let_def intro: fetch_reachable.update
      split: fetcher.splits list.splits fetch_reply.splits worker.splits prod.splits res.splits)

lemma Start_inv:
  assumes "Validate cfg = None"
  shows "conserved (Start cfg now w)" and "within_bounds cfg (Start cfg now w)"
proof -
  have "sint (pc_Workers cfg) > 0" "sint (pc_QueueSize cfg) > 0"
    using assms by (auto simp: Validate_def Let_def positive_def split: if_splits)
  then show "within_bounds cfg (Start cfg now w)"
    by (simp add: within_bounds_def Start_def fetch_reachable.start)
  have "concat (map in_hand (replicate n Waiting)) = []" for n by (induction n) simp_all
  then show "conserved (Start cfg now w)"
    by (simp add: conserved_def Start_def held_by_workers_def answered_def)
qed

lemma rt_run_inv:
  assumes "conserved s" and "within_bounds cfg s"
  shows "conserved (rt_run e handler cfg evs s) \<and> within_bounds cfg (rt_run e handler cfg evs s)"
  using assms
proof (induction evs arbitrary: s)
  case (Cons ev evs)
  then show ?case using rt_step_conserved rt_step_bounds by (simp add: rt_run_def)
qed (simp add: rt_run_def)

text \<open>Nothing stops before the context is done.\<close>

definition running :: "runtime \<Rightarrow> bool" where
  "running s \<longleftrightarrow> (case rt_fetcher s of Polling \<Rightarrow> True | Dispatching ms \<Rightarrow> True | _ \<Rightarrow> False) \<and>
     Left \<notin> set (rt_workers s)"

lemma running_until_cancelled:
  assumes "rt_cancelled s \<or> running s"
  shows "rt_cancelled (rt_step e handler cfg ev s) \<or> running (rt_step e handler cfg ev s)"
  using assms
  by (cases ev) (auto simp: running_def poll_def dispatch_def give_up_def take_job_def handle_job_def leave_def
      finish_def Let_def dest!: set_update_subset_insert [THEN subsetD]
      split: fetcher.splits list.splits fetch_reply.splits worker.splits prod.splits res.splits)

lemma rt_run_running:
  "rt_cancelled s \<or> running s \<Longrightarrow> rt_cancelled (rt_run e handler cfg evs s) \<or> running (rt_run e handler cfg evs s)"
proof (induction evs arbitrary: s)
  case (Cons ev evs)
  from Cons.IH [OF running_until_cancelled [OF Cons.prems]] show ?case by (simp add: rt_run_def)
qed (simp add: rt_run_def)

lemma Start_running: "running (Start cfg now w)"
  by (simp add: running_def Start_def)

lemma held_length: "length (held_by_workers s) \<le> length (rt_workers s)"
proof -
  have "length (concat (map in_hand ws)) \<le> length ws" for ws
  proof (induction ws)
    case (Cons x ws)
    then show ?case by (cases x) simp_all
  qed simp
  then show ?thesis by (simp add: held_by_workers_def)
qed

end
