(* ===== verification/NatsClaims.thy ===== *)
theory NatsClaims
  imports NatsRuntime Sample
begin

text \<open>
  The properties of the pull consumers of the NATS adapter: what the fetcher asks for, and that the
  consumers of the subscribers are valid with the defaults of the environment.
\<close>

lemma default_consumers_valid:
  "list_all (\<lambda>adaptive. list_all (\<lambda>consumer. Validate (consumer (default_nats\<lparr>nc_AdaptiveEnabled := adaptive\<rparr>)) = None)
     [projection_consumer, preview_consumer, rating_consumer, order_consumer]) [True, False]"
  by code_simp

text \<open>
  With a valid configuration, whatever the server reports and the clock shows, the fetcher of a
  pull consumer always asks for a positive number of messages and waits for a positive time, and
  what it asks for is the base plan or the plan of some backlog.
\<close>

lemma fetches_are_planned:
  assumes "Validate cfg = None" and "fetch_reachable cfg s"
  shows "positive (fs_batch s) \<and> positive (fs_wait s) \<and> planned cfg s"
proof -
  from fetch_planned [OF assms(2)] have "planned cfg s" .
  then consider "(fs_tier s, fs_batch s, fs_wait s) = (''base'', pc_BatchSize cfg, pc_MaxWait cfg)"
    | pending where "(fs_tier s, fs_batch s, fs_wait s) = ResolvePullPlan cfg pending"
    unfolding planned_def by blast
  then have "positive (fs_batch s) \<and> positive (fs_wait s)"
    using Validate_None(1,2) [OF assms(1)] ResolvePullPlan_positive [OF assms(1)]
    by cases (simp, metis)
  with \<open>planned cfg s\<close> show ?thesis by simp
qed

definition adaptive_sample :: PullConsumerConfig where
  "adaptive_sample = projection_consumer (default_nats\<lparr>nc_AdaptiveEnabled := True\<rparr>)"

definition busy_fetch :: fetch_state where
  "busy_fetch =
     maybeUpdateAdaptivePlan adaptive_sample 5000000000 (Some 4000) (initial_fetch adaptive_sample 0)"

lemma fetches_are_planned_witness:
  "fs_tier busy_fetch = ''high'' \<and> fs_batch busy_fetch = 300 \<and> positive (fs_wait busy_fetch)"
proof -
  have valid: "Validate adaptive_sample = None"
    using default_consumers_valid by (simp add: adaptive_sample_def)
  have "fetch_reachable adaptive_sample busy_fetch"
    unfolding busy_fetch_def by (intro fetch_reachable.intros)
  from fetches_are_planned [OF valid this] have "positive (fs_wait busy_fetch)" by simp
  moreover have "fs_tier busy_fetch = ''high''" "fs_batch busy_fetch = 300" by code_simp+
  ultimately show ?thesis by simp
qed


section \<open>The runtime\<close>

text \<open>
  C16. Over any interleaving of the fetcher and the workers of a pull consumer with a valid
  configuration, every message received is in exactly one place, as often as it was received:
  not yet handed over, in the queue, in the hands of a worker, or answered. The queue and the
  workers stay within their sizes, the fetcher keeps to its plans, and nothing stops
  before the context is done.
\<close>

theorem pull_runtime_conserves:
  assumes "Validate cfg = None" and "s = rt_run e handler cfg evs (Start cfg now w)"
  shows "conserved s \<and> int (length (rt_jobs s)) \<le> sint (pc_QueueSize cfg) \<and>
    int (length (held_by_workers s)) \<le> sint (pc_Workers cfg) \<and>
    positive (fs_batch (rt_fetch s)) \<and> positive (fs_wait (rt_fetch s)) \<and> planned cfg (rt_fetch s) \<and>
    (rt_cancelled s \<or> running s)"
proof -
  have inv: "conserved s" "within_bounds cfg s"
    using rt_run_inv [OF Start_inv [OF assms(1)], of e handler evs now w] assms(2) by simp_all
  have "rt_cancelled s \<or> running s"
    unfolding assms(2) by (rule rt_run_running) (simp add: Start_running)
  with inv fetches_are_planned [OF assms(1)] held_length [of s] show ?thesis
    by (auto simp: within_bounds_def)
qed

definition two_deliveries :: "delivery list" where
  "two_deliveries = [\<lparr>dl_Seq = 1, dl_Data = Raw ''a''\<rparr>, \<lparr>dl_Seq = 2, dl_Data = Raw ''b''\<rparr>]"

definition first_wins :: "bytes \<Rightarrow> unit prog" where
  "first_wins payload = (if payload = Raw ''a'' then retP () else failP RedisNil)"

text \<open>Two messages, both taken before either is answered, and a stop.\<close>

definition short_life :: runtime where
  "short_life = rt_run sample_env first_wins adaptive_sample
     [Poll 0 None (Fetched_msgs two_deliveries), Dispatch, Take 2, Dispatch, Take 0, Handle 0, Dispatch, Cancel,
      Poll 0 None Fetch_timeout, Handle 2, Leave 0, Leave 1, Leave 2, Leave 3, Finish]
     (Start adaptive_sample 0 sample_world)"

lemma short_life_answers:
  "map (\<lambda>(m, r). (dl_Seq m, r)) (rt_answers short_life) = [(2, Nak), (1, Ack)] \<and>
   rt_fetcher short_life = FetcherDone [] \<and> rt_jobs short_life = []"
  by code_simp

lemma pull_runtime_conserves_witness:
  "conserved short_life \<and> map (\<lambda>(m, r). (dl_Seq m, r)) (rt_answers short_life) = [(2, Nak), (1, Ack)]"
proof -
  have "Validate adaptive_sample = None"
    using default_consumers_valid by (simp add: adaptive_sample_def)
  from pull_runtime_conserves [OF this short_life_def] short_life_answers show ?thesis by simp
qed

section \<open>The start of a consumer\<close>

text \<open>
  C0. A pull consumer starts exactly when its configuration is valid and JetStream takes its consumer,
  as a new one or as an update, and the subscription; the durable consumer the server then has
  is that of the configuration, with explicit acknowledgements. An invalid configuration is
  refused before the server is asked for anything.
\<close>

theorem pull_consumer_starts:
  "(fst (nats_RunPullConsumer J cfg) = None \<longleftrightarrow>
      Validate cfg = None \<and> js_context J = None \<and> (js_add_consumer J = None \<or> js_update_consumer J = None) \<and>
      js_pull_subscribe J = None) \<and>
   (fst (nats_RunPullConsumer J cfg) = None \<longrightarrow>
      ensured J (snd (nats_RunPullConsumer J cfg)) = Some (pc_Stream cfg, durable_of cfg) \<and>
      Started cfg \<in> set (snd (nats_RunPullConsumer J cfg))) \<and>
   (Validate cfg \<noteq> None \<longrightarrow> snd (nats_RunPullConsumer J cfg) = [])"
proof (cases "Validate cfg")
  case None
  obtain r calls where run: "create_runtime J cfg = (r, calls)" by (cases "create_runtime J cfg")
  from create_runtime_ensures [of J cfg "[Started cfg]"] create_runtime_ok [of J cfg] None run show ?thesis
    by (cases r) (auto simp: nats_RunPullConsumer_def)
qed (simp add: nats_RunPullConsumer_def)

definition existing_consumer :: jetstream where
  "existing_consumer = \<lparr>js_connect = None, js_context = None, js_add_consumer = Some RedisNil, js_update_consumer = None,
     js_pull_subscribe = None, js_add_stream = None, js_update_stream = None, js_publish = None,
     js_push_subscribe = None, js_flush = None\<rparr>"

lemma pull_consumer_starts_witness:
  "fst (nats_RunPullConsumer existing_consumer adaptive_sample) = None \<and>
   ensured existing_consumer (snd (nats_RunPullConsumer existing_consumer adaptive_sample)) =
     Some (''GIG_EVENTS'', durable_of adaptive_sample)"
proof -
  have "Validate adaptive_sample = None"
    using default_consumers_valid by (simp add: adaptive_sample_def)
  then have "fst (nats_RunPullConsumer existing_consumer adaptive_sample) = None"
    using pull_consumer_starts [of existing_consumer adaptive_sample] by (simp add: existing_consumer_def)
  moreover have "pc_Stream adaptive_sample = ''GIG_EVENTS''" by code_simp
  ultimately show ?thesis using pull_consumer_starts [of existing_consumer adaptive_sample] by simp
qed

section \<open>What the configuration leaves open\<close>

text \<open>
  Without a subject for the projections the stream is created with the default subject, but the
  consumer of the projections is refused; and the subscriber of the projections is built
  without a mapper, which the one of the previews is not.
\<close>

lemma unnamed_projection_refused:
  "nc_GigProjectionSubject cfg = [] \<Longrightarrow> nc_GigEventsStream cfg \<noteq> [] \<Longrightarrow>
   ''gig.projection.requested'' \<in> set (sc_Subjects (stream_of cfg)) \<and>
   nats_projection_Subscribe J cfg = (Some (Opaque ''subject is empty''), [])"
  by (simp add: stream_of_def stream_subjects_def or_default_def nats_projection_Subscribe_def
      nats_RunPullConsumer_def Validate_def projection_consumer_def pull_config_def Let_def)

lemma projection_without_mapper:
  "nats_NewGigProjectionSubscriber {ErrNilMessageMapper} = None"
  "nats_NewGigPreviewProjectionSubscriber {ErrNilMessageMapper} = Some ErrNilMessageMapper"
  by (simp_all add: nats_NewGigProjectionSubscriber_def nats_NewGigPreviewProjectionSubscriber_def first_nil_def)

end
