(* ===== verification/Startup.thy ===== *)
theory Startup
  imports ServiceInvariant
begin

text \<open>
  What runs when the process starts: the migrations with their retries, the checks of the
  configuration (\<open>config/preview_validation.go\<close>, \<open>New\<close> in \<open>service.go\<close>), the supervision of the
  consumers with its waiting times (\<open>internal/fx/presentation.go\<close>), the warm-up of the seller
  lookups and the periodic rebuild of the popularity snapshots.
\<close>

section \<open>Migrations\<close>

text \<open>
  \<open>run\<close> is the result of each attempt. The result is the error returned and the seconds waited
  between attempts.
\<close>

function InvokeRunMigrations :: "(nat \<Rightarrow> gerr option) \<Rightarrow> nat \<Rightarrow> gerr option \<times> nat list" where
  "InvokeRunMigrations run attempt =
     (if 10 < attempt then (None, [])
      else case run attempt of
             None \<Rightarrow> (None, [])
           | Some err \<Rightarrow>
               if \<not> str_contains (to_lower (error_text err)) ''deadlock'' \<or> attempt = 10 then (Some err, [])
               else (case InvokeRunMigrations run (Suc attempt) of (r, waits) \<Rightarrow> (r, 2 * attempt # waits)))"
  by pat_completeness auto
termination by (relation "measure (\<lambda>(run, attempt). 11 - attempt)") auto

declare InvokeRunMigrations.simps [simp del]

section \<open>Configuration\<close>

record PreviewPaginationConfig =
  pp_PageSize :: int64
  pp_WindowSize :: int64
  pp_WindowTTL :: int64

definition go_rem :: "int64 \<Rightarrow> int64 \<Rightarrow> int64" where
  "go_rem a b = a - go_div a b * b"

text \<open>The message of the fault, when there is one.\<close>

definition validatePreviewPaginationConfig :: "PreviewPaginationConfig \<Rightarrow> string option" where
  "validatePreviewPaginationConfig cfg =
     (if sint (pp_PageSize cfg) \<le> 0 then Some ''GIG_PREVIEW_PAGE_SIZE must be greater than zero''
      else if sint (pp_WindowSize cfg) \<le> 0 then Some ''GIG_PREVIEW_WINDOW_SIZE must be greater than zero''
      else if go_rem (pp_WindowSize cfg) (pp_PageSize cfg) \<noteq> 0
      then Some ''GIG_PREVIEW_WINDOW_SIZE must be divisible by GIG_PREVIEW_PAGE_SIZE''
      else if sint (pp_WindowTTL cfg) < 0 then Some ''GIG_PREVIEW_WINDOW_TTL must not be negative''
      else None)"

datatype new_error =
    ErrNilGigRepository | ErrNilGigReadRepository | ErrNilFileService | ErrNilConnectStatusChecker
  | ErrNilReviewClient | ErrNilOrderCountClient | ErrNilEventBroker | ErrNilPopularitySource
  | ErrNilSlugger | ErrNilLogger | ErrInvalidPreviewConfig

record settings =
  set_PageSize :: int64
  set_WindowSize :: int64
  set_PagesWindow :: int64
  set_WindowTTL :: int64

text \<open>\<open>nils\<close> are the dependencies that are nil, under the name of their error.\<close>

definition new_order :: "new_error list" where
  "new_order =
     [ErrNilGigRepository, ErrNilGigReadRepository, ErrNilFileService, ErrNilConnectStatusChecker,
      ErrNilReviewClient, ErrNilOrderCountClient, ErrNilEventBroker, ErrNilPopularitySource,
      ErrNilSlugger, ErrNilLogger]"

definition New :: "new_error set \<Rightarrow> PreviewPaginationConfig \<Rightarrow> new_error + settings" where
  "New nils cfg =
     (case find (\<lambda>d. d \<in> nils) new_order of
        Some err \<Rightarrow> Inl err
      | None \<Rightarrow>
          if sint (pp_PageSize cfg) \<le> 0 then Inl ErrInvalidPreviewConfig
          else if sint (pp_WindowSize cfg) \<le> 0 then Inl ErrInvalidPreviewConfig
          else if go_rem (pp_WindowSize cfg) (pp_PageSize cfg) \<noteq> 0 then Inl ErrInvalidPreviewConfig
          else Inr \<lparr>set_PageSize = pp_PageSize cfg, set_WindowSize = pp_WindowSize cfg,
                    set_PagesWindow = go_div (pp_WindowSize cfg) (pp_PageSize cfg),
                    set_WindowTTL = pp_WindowTTL cfg\<rparr>)"

section \<open>Supervision of the consumers\<close>

text \<open>
  \<open>results\<close> are what the runs of the consumer return until the process stops; the waits are in
  milliseconds. A run that ends without an error ends the supervision.
\<close>

fun supervise :: "(nat \<Rightarrow> nat) \<Rightarrow> nat \<Rightarrow> gerr option list \<Rightarrow> nat list" where
  "supervise next_wait backoff [] = []"
| "supervise next_wait backoff (None # results) = []"
| "supervise next_wait backoff (Some err # results) =
     backoff # supervise next_wait (next_wait backoff) results"

definition recovery_next :: "nat \<Rightarrow> nat" where
  "recovery_next backoff = (if backoff < 30000 then backoff * 2 else backoff)"

definition projection_next :: "nat \<Rightarrow> nat" where
  "projection_next backoff =
     (if backoff < 5000 then (let b = backoff * 2 in if b > 5000 then 5000 else b) else backoff)"

definition recovery_waits :: "gerr option list \<Rightarrow> nat list" where
  "recovery_waits = supervise recovery_next 1000"

definition projection_waits :: "gerr option list \<Rightarrow> nat list" where
  "projection_waits = supervise projection_next 100"

section \<open>Warm-up\<close>

text \<open>\<open>users\<close>: there is a user client.\<close>

definition warmup_gig :: "bool \<Rightarrow> Gig \<Rightarrow> unit prog" where
  "warmup_gig users gig =
     bindP (if gig_SellerUsername gig = [] \<and> users then
              bindP (attemptP (GetUserPreviewByIDNoCache (gig_FreelancerID gig))) (\<lambda>reply.
              case reply of
                Inl _ \<Rightarrow> retP None
              | Inr None \<Rightarrow> panicP
              | Inr (Some preview) \<Rightarrow>
                  bindP (if usr_Username preview \<noteq> []
                         then ignoreP (repo_UpdateSellerUsername (gig_ID gig) (usr_Username preview))
                         else retP ()) (\<lambda>_.
                  retP (Some (usr_Username preview))))
            else retP (Some (gig_SellerUsername gig))) (\<lambda>username.
     case username of
       None \<Rightarrow> retP ()
     | Some u \<Rightarrow> if u = [] then retP () else ignoreP (read_SetUserLookup u (gig_FreelancerID gig) 0))"

definition InvokeWarmupSellerLookups :: "bool \<Rightarrow> bool \<Rightarrow> unit prog" where
  "InvokeWarmupSellerLookups enabled users =
     (if \<not> enabled then retP ()
      else bindP (attemptP repo_ListAll) (\<lambda>loaded.
           case loaded of
             Inl _ \<Rightarrow> retP ()
           | Inr gigs \<Rightarrow> iterP (warmup_gig users) gigs))"

section \<open>The popularity job\<close>

definition popularity_refresh :: "unit prog" where
  "popularity_refresh =
     bindP (attemptP repo_ListAll) (\<lambda>loaded.
     case loaded of
       Inl _ \<Rightarrow> retP ()
     | Inr gigs \<Rightarrow> ignoreP (RebuildPopularitySnapshots gigs))"

section \<open>Facts\<close>

definition deadlocked :: "gerr option \<Rightarrow> bool" where
  "deadlocked r = (\<exists>err. r = Some err \<and> str_contains (to_lower (error_text err)) ''deadlock'')"

lemma InvokeRunMigrations_result:
  assumes "attempt \<le> 10"
  shows "\<exists>n. attempt \<le> n \<and> n \<le> 10 \<and>
             InvokeRunMigrations run attempt = (run n, map (\<lambda>i. 2 * i) [attempt..<n]) \<and>
             (\<forall>i. attempt \<le> i \<and> i < n \<longrightarrow> deadlocked (run i)) \<and>
             (n = 10 \<or> \<not> deadlocked (run n))"
  using assms
proof (induction run attempt rule: InvokeRunMigrations.induct)
  case (1 run attempt)
  have small: "\<not> 10 < attempt" using 1(2) by simp
  show ?case
  proof (cases "deadlocked (run attempt) \<and> attempt \<noteq> 10")
    case False
    then have "InvokeRunMigrations run attempt = (run attempt, [])"
      using small by (auto simp: InvokeRunMigrations.simps [of run attempt] deadlocked_def
          split: option.splits)
    then show ?thesis using False 1(2) by (intro exI [of _ attempt]) auto
  next
    case True
    then obtain err where err: "run attempt = Some err"
      "str_contains (to_lower (error_text err)) ''deadlock''" "attempt \<noteq> 10"
      unfolding deadlocked_def by blast
    then have "Suc attempt \<le> 10" using 1(2) by simp
    from 1(1) [OF small err(1) _ this] err(2,3) obtain n where n:
      "Suc attempt \<le> n" "n \<le> 10"
      "InvokeRunMigrations run (Suc attempt) = (run n, map (\<lambda>i. 2 * i) [Suc attempt..<n])"
      "\<forall>i. Suc attempt \<le> i \<and> i < n \<longrightarrow> deadlocked (run i)" "n = 10 \<or> \<not> deadlocked (run n)"
      by auto
    have "InvokeRunMigrations run attempt = (run n, map (\<lambda>i. 2 * i) [attempt..<n])"
      using small err n(1,3) by (simp add: InvokeRunMigrations.simps [of run attempt] upt_conv_Cons)
    moreover have "\<forall>i. attempt \<le> i \<and> i < n \<longrightarrow> deadlocked (run i)"
      using n(4) True by (metis Suc_leI le_neq_implies_less)
    ultimately show ?thesis using n(1,2,5) by (intro exI [of _ n]) auto
  qed
qed

lemma supervise_keeps:
  assumes keeps: "\<And>b. P b \<Longrightarrow> P (next_wait b)"
  shows "P b \<Longrightarrow> \<forall>w \<in> set (supervise next_wait b results). P w"
proof (induction results arbitrary: b)
  case (Cons r results)
  then show ?case using keeps by (cases r) auto
qed simp

lemma supervise_length:
  "length (supervise next_wait b results) = length (takeWhile (\<lambda>r. r \<noteq> None) results)"
  by (induction next_wait b results rule: supervise.induct) auto

lemma supervise_nth:
  "i < length (supervise next_wait b results) \<Longrightarrow>
     supervise next_wait b results ! i = (next_wait ^^ i) b"
proof (induction next_wait b results arbitrary: i rule: supervise.induct)
  case (3 next_wait b err results)
  show ?case
  proof (cases i)
    case (Suc j)
    then show ?thesis using 3 by (simp add: funpow_swap1)
  qed simp
qed simp_all

end
