(* ===== verification/Schema.thy ===== *)
theory Schema
  imports ServiceInvariant
begin

text \<open>
  The typing of the tables: what the migrations under \<open>migration/postgres\<close> declare and the
  statements of \<open>query.go\<close> keep. Keys are canonical UUIDs and unique, the rows of the child
  tables refer to gigs and are unique per tier or position, texts are valid UTF-8 without NUL,
  the short info fits its column, and a gig is a draft or has the time of its publication.
  Every statement keeps the typing, so every method of the repository and every request does.
\<close>

section \<open>Well-typed rows\<close>

definition uuid_typed :: "env \<Rightarrow> string \<Rightarrow> bool" where
  "uuid_typed e s \<longleftrightarrow> e_uuid_in e s = Some s"

definition gig_row_typed :: "env \<Rightarrow> GigRow \<Rightarrow> bool" where
  "gig_row_typed e r \<longleftrightarrow>
     uuid_typed e (grow_ID r) \<and> uuid_typed e (grow_FreelancerID r) \<and>
     list_all text_ok [grow_SellerUsername r, grow_Slug r, grow_Title r, grow_ShortInfo r,
       grow_Description r, grow_Currency r, grow_PictureFileID r] \<and>
     rune_count (grow_ShortInfo r) \<le> 128 \<and>
     (case grow_PublishedAt r of None \<Rightarrow> grow_Status r = StatusDraft | Some t \<Rightarrow> grow_Status r = StatusPublished)"

definition package_row_typed :: "env \<Rightarrow> GigPackageRow \<Rightarrow> bool" where
  "package_row_typed e r \<longleftrightarrow>
     uuid_typed e (prow_ID r) \<and> uuid_typed e (prow_GigID r) \<and>
     text_ok (prow_Tier r) \<and> text_ok (prow_Description r)"

definition question_row_typed :: "env \<Rightarrow> GigQuestionRow \<Rightarrow> bool" where
  "question_row_typed e r \<longleftrightarrow>
     uuid_typed e (qrow_ID r) \<and> uuid_typed e (qrow_GigID r) \<and> text_ok (qrow_Content r)"

definition media_row_typed :: "env \<Rightarrow> GigMediaRow \<Rightarrow> bool" where
  "media_row_typed e r \<longleftrightarrow>
     uuid_typed e (mrow_ID r) \<and> uuid_typed e (mrow_GigID r) \<and> text_ok (mrow_FileID r)"

text \<open>
  A child table: typed rows, a unique key, a second unique column within a gig, and a foreign key.
\<close>

definition child_typed ::
    "('r \<Rightarrow> bool) \<Rightarrow> ('r \<Rightarrow> string) \<Rightarrow> ('r \<Rightarrow> string) \<Rightarrow> ('r \<Rightarrow> 'k) \<Rightarrow> string list \<Rightarrow> 'r list \<Rightarrow> bool" where
  "child_typed row_ok key gig unique gigs rows \<longleftrightarrow>
     list_all row_ok rows \<and> distinct (map key rows) \<and> distinct (map (\<lambda>r. (gig r, unique r)) rows) \<and>
     list_all (\<lambda>r. gig r \<in> set gigs) rows"

definition gig_keys :: "db \<Rightarrow> string list" where
  "gig_keys d = map grow_ID (t_gigs d)"

definition tables_typed :: "env \<Rightarrow> db \<Rightarrow> bool" where
  "tables_typed e d \<longleftrightarrow>
     list_all (gig_row_typed e) (t_gigs d) \<and> distinct (gig_keys d) \<and>
     child_typed (package_row_typed e) prow_ID prow_GigID prow_Tier (gig_keys d) (t_packages d) \<and>
     child_typed (question_row_typed e) qrow_ID qrow_GigID qrow_SortOrder (gig_keys d) (t_questions d) \<and>
     child_typed (media_row_typed e) mrow_ID mrow_GigID mrow_SortOrder (gig_keys d) (t_media d)"

lemma child_typed_filter:
  "child_typed ok key gig unique gigs rows \<Longrightarrow> child_typed ok key gig unique gigs (filter P rows)"
  by (auto simp: child_typed_def list_all_iff distinct_map_filter)

lemma child_typed_snoc:
  "child_typed ok key gig unique gigs (rows @ [r]) \<longleftrightarrow>
     child_typed ok key gig unique gigs rows \<and> ok r \<and> gig r \<in> set gigs \<and>
     \<not> list_ex (\<lambda>x. key x = key r) rows \<and> \<not> list_ex (\<lambda>x. gig x = gig r \<and> unique x = unique r) rows"
  by (auto simp: child_typed_def list_ex_iff image_iff)

lemma child_typed_mono:
  "child_typed ok key gig unique gigs rows \<Longrightarrow> set gigs \<subseteq> set gigs' \<Longrightarrow>
   child_typed ok key gig unique gigs' rows"
  by (auto simp: child_typed_def list_all_iff)

section \<open>Statements keep the typing\<close>

lemma gig_keys_set_gig: "(\<And>r. grow_ID (f r) = grow_ID r) \<Longrightarrow> gig_keys (set_gig g f d) = gig_keys d"
  by (auto simp: gig_keys_def set_gig_def)

lemma set_gig_typed:
  assumes "tables_typed e d" and "\<And>r. grow_ID (f r) = grow_ID r"
    and "\<And>r. gig_row_typed e r \<Longrightarrow> gig_row_typed e (f r)"
  shows "tables_typed e (set_gig g f d)"
  using assms(1,3) gig_keys_set_gig [of f g d, OF assms(2)]
  by (auto simp: tables_typed_def list_all_iff) (auto simp: set_gig_def)

text \<open>The relation a statement has to have.\<close>

definition keeps_typing :: "env \<Rightarrow> db \<Rightarrow> db \<Rightarrow> bool" where
  "keeps_typing e d d' \<longleftrightarrow> (tables_typed e d \<longrightarrow> tables_typed e d')"

lemma keeps_typing_preorder: "reflp (keeps_typing e)" "transp (keeps_typing e)"
  by (auto simp: keeps_typing_def reflp_def transp_def)

interpretation typing: timeless_effect "db_rel (keeps_typing e)" for e
  by (rule db_rel_effect [OF keeps_typing_preorder])

definition typed_sql :: "env \<Rightarrow> 'a sql \<Rightarrow> bool" where
  "typed_sql e q \<longleftrightarrow> (\<forall>now d a d'. q e now d = Inr (a, d') \<longrightarrow> keeps_typing e d d')"

lemma typed_with_uuid:
  assumes "uuid_ok e" and "\<And>u. uuid_typed e u \<Longrightarrow> typed_sql e (q u)"
  shows "typed_sql e (with_uuid s q)"
  unfolding typed_sql_def
proof (intro allI impI)
  fix now d a d'
  assume "with_uuid s q e now d = Inr (a, d')"
  then obtain u where "e_uuid_in e s = Some u" "q u e now d = Inr (a, d')"
    by (auto simp: with_uuid_def split: option.splits)
  moreover from this(1) assms(1) have "uuid_typed e u" unfolding uuid_ok_def uuid_typed_def by blast
  ultimately show "keeps_typing e d d'" using assms(2) unfolding typed_sql_def by blast
qed

lemma typed_with_texts:
  "(list_all text_ok ts \<Longrightarrow> typed_sql e q) \<Longrightarrow> typed_sql e (with_texts ts q)"
  by (auto simp: typed_sql_def with_texts_def split: if_splits)

lemma typed_update:
  assumes "\<And>now r. grow_ID (f now r) = grow_ID r"
    and "\<And>now r. gig_row_typed e r \<Longrightarrow> gig_row_typed e (f now r)"
  shows "typed_sql e (\<lambda>e now. update_gig g (f now) e now)"
  using set_gig_typed [of e _ "f _"] assms by (auto simp: typed_sql_def keeps_typing_def update_gig_def)

lemma text_ok_Nil [simp]: "text_ok []"
  by code_simp

lemmas row_typing = gig_row_typed_def basic_info_row_def seller_row_def published_row_def redraft_row_def

lemma row_updates_typed:
  assumes "uuid_ok e"
  shows "typed_sql e (updateGigBasicInfoQuery gid p)"
    and "typed_sql e (updateGigSellerUsernameQuery gid u)"
    and "typed_sql e (publishGigQuery gid)"
proof -
  have info: "typed_sql e (\<lambda>e now d. if find_gig g d \<noteq> None \<and> 128 < rune_count (ubi_ShortInfo p) then Inl too_long
      else update_gig g (basic_info_row p now) e now d)"
    if texts: "list_all text_ok [ubi_Title p, ubi_ShortInfo p, ubi_Slug p, ubi_Description p, ubi_Currency p]" for g
  proof (cases "128 < rune_count (ubi_ShortInfo p)")
    case False
    with texts show ?thesis
      by simp (rule typed_update; auto simp: row_typing split: option.splits)
  next
    case True
    then show ?thesis
      by (auto simp: typed_sql_def keeps_typing_def update_gig_def find_gig_def find_None_iff set_gig_def map_idI
          cong: map_cong)
  qed
  show "typed_sql e (updateGigBasicInfoQuery gid p)"
    unfolding updateGigBasicInfoQuery_def by (intro typed_with_uuid typed_with_texts assms info)
  show "typed_sql e (updateGigSellerUsernameQuery gid u)"
    unfolding updateGigSellerUsernameQuery_def
    by (intro typed_with_uuid typed_with_texts assms typed_update) (auto simp: row_typing split: option.splits)
  show "typed_sql e (publishGigQuery gid)"
    unfolding publishGigQuery_def
    by (intro typed_with_uuid assms typed_update) (auto simp: row_typing split: option.splits)
qed

lemma createGigDraft_typed:
  assumes "uuid_ok e"
  shows "typed_sql e (createGigDraftQuery gid fid)"
proof -
  have "typed_sql e (\<lambda>e now d. case find_gig g d of
       Some _ \<Rightarrow> update_gig g (redraft_row f now) e now d
     | None \<Rightarrow> (let r = new_draft_row g f now in Inr (Some r, d\<lparr>t_gigs := t_gigs d @ [r]\<rparr>)))"
    if g: "uuid_typed e g" and f: "uuid_typed e f" for g f
    unfolding typed_sql_def
  proof (intro allI impI)
    fix now d a d'
    assume run: "(case find_gig g d of Some _ \<Rightarrow> update_gig g (redraft_row f now) e now d
       | None \<Rightarrow> (let r = new_draft_row g f now in Inr (Some r, d\<lparr>t_gigs := t_gigs d @ [r]\<rparr>))) = Inr (a, d')"
    show "keeps_typing e d d'"
    proof (cases "find_gig g d")
      case (Some r)
      have "typed_sql e (\<lambda>e now. update_gig g (redraft_row f now) e now)"
        by (rule typed_update) (use f in \<open>auto simp: row_typing split: option.splits\<close>)
      with run Some show ?thesis by (simp add: typed_sql_def)
    next
      case None
      then have new: "g \<notin> set (gig_keys d)" by (auto simp: find_gig_def gig_keys_def find_None_iff)
      have row: "gig_row_typed e (new_draft_row g f now)"
        using g f by (simp add: gig_row_typed_def new_draft_row_def rune_count_def)
      from run None have "d' = d\<lparr>t_gigs := t_gigs d @ [new_draft_row g f now]\<rparr>" by (simp add: Let_def)
      moreover have "gig_keys (d\<lparr>t_gigs := t_gigs d @ [new_draft_row g f now]\<rparr>) = gig_keys d @ [g]"
        by (simp add: gig_keys_def new_draft_row_def)
      ultimately show ?thesis
        using new row by (auto simp: keeps_typing_def tables_typed_def elim: child_typed_mono)
    qed
  qed
  then show ?thesis
    unfolding createGigDraftQuery_def by (intro typed_with_uuid assms)
qed

lemma find_gig_key: "find_gig g d = Some r \<Longrightarrow> g \<in> grow_ID ` set (t_gigs d)"
  by (auto dest: find_gig_mem)

lemma child_inserts_typed:
  assumes "uuid_ok e"
  shows "typed_sql e (insertGigPackageQuery pid gid tier desc days price ord)"
    and "typed_sql e (insertGigQuestionQuery qid gid content ord)"
    and "typed_sql e (insertGigMediaQuery mid gid fileID ord)"
  unfolding insertGigPackageQuery_def insertGigQuestionQuery_def insertGigMediaQuery_def
  by (intro typed_with_uuid typed_with_texts assms;
      auto simp: typed_sql_def keeps_typing_def tables_typed_def gig_keys_def child_typed_snoc
        package_row_typed_def question_row_typed_def media_row_typed_def
        split: if_splits dest: find_gig_key)+

lemma child_deletes_typed:
  assumes "uuid_ok e"
  shows "typed_sql e (deleteGigPackagesQuery gid)" and "typed_sql e (deleteGigQuestionsQuery gid)"
    and "typed_sql e (deleteGigMediaQuery gid)"
  unfolding deleteGigPackagesQuery_def deleteGigQuestionsQuery_def deleteGigMediaQuery_def
  by (intro typed_with_uuid assms;
      simp add: typed_sql_def keeps_typing_def tables_typed_def gig_keys_def child_typed_filter)+

lemma completions_typed:
  assumes "uuid_ok e"
  shows "typed_sql e (completePackagesQuery gid)" and "typed_sql e (completeQuestionsQuery gid)"
    and "typed_sql e (completeMediaQuery gid picture)"
proof -
  have done_typed: "typed_sql e (\<lambda>e now d. Inr ((), set_gig g (f now) d))"
    if "\<And>now r. grow_ID (f now r) = grow_ID r" "\<And>now r. gig_row_typed e r \<Longrightarrow> gig_row_typed e (f now r)" for g f
    using set_gig_typed [of e _ "f _"] that by (auto simp: typed_sql_def keeps_typing_def)
  show "typed_sql e (completePackagesQuery gid)" "typed_sql e (completeQuestionsQuery gid)"
    "typed_sql e (completeMediaQuery gid picture)"
    unfolding completePackagesQuery_def completeQuestionsQuery_def completeMediaQuery_def
    by (intro typed_with_uuid typed_with_texts done_typed assms;
        auto simp: gig_row_typed_def split: option.splits)+
qed

section \<open>Methods of the repository keep the typing\<close>

lemma typed_stmtP: "typed_sql e q \<Longrightarrow> steps e (db_rel (keeps_typing e)) (stmtP q)"
  by (rule stmtP_db_rel) (auto simp: keeps_typing_preorder typed_sql_def)

lemma typed_rowP: "typed_sql e q \<Longrightarrow> steps e (db_rel (keeps_typing e)) (rowP q)"
  unfolding rowP_def by (intro typing.steps_rules typed_stmtP)

lemma same_typed: "steps e same_db m \<Longrightarrow> steps e (db_rel (keeps_typing e)) m"
  by (rule steps_mono, assumption) (rule same_db_imp_db_rel [OF keeps_typing_preorder(1)])

lemma typed_txP:
  assumes "steps e (db_rel (keeps_typing e)) body"
  shows "steps e (db_rel (keeps_typing e)) (txP f body)"
  by (rule txP_db_rel) (use assms in \<open>auto simp: keeps_typing_preorder db_rel_def dest: stepsD\<close>)

lemma insert_loops_typed:
  assumes "uuid_ok e"
  shows "steps e (db_rel (keeps_typing e)) (insertPackages gid i ps)"
    and "steps e (db_rel (keeps_typing e)) (insertQuestions gid i qs)"
    and "steps e (db_rel (keeps_typing e)) (insertMedia gid i ms)"
proof -
  show "steps e (db_rel (keeps_typing e)) (insertPackages gid i ps)"
    by (induction ps arbitrary: i)
      (simp_all only: insertPackages.simps, (intro typing.steps_rules typing.tick_rules typed_stmtP
        child_inserts_typed assms; assumption?)+)
  show "steps e (db_rel (keeps_typing e)) (insertQuestions gid i qs)"
    by (induction qs arbitrary: i)
      (simp_all only: insertQuestions.simps, (intro typing.steps_rules typing.tick_rules typed_stmtP
        child_inserts_typed assms; assumption?)+)
  show "steps e (db_rel (keeps_typing e)) (insertMedia gid i ms)"
    by (induction ms arbitrary: i)
      (simp_all only: insertMedia.simps, (intro typing.steps_rules typing.tick_rules typed_stmtP
        child_inserts_typed assms; assumption?)+)
qed

lemma repo_typed:
  assumes "uuid_ok e"
  shows "steps e (db_rel (keeps_typing e)) (repo_CreateDraft params)"
    and "steps e (db_rel (keeps_typing e)) (repo_UpdateBasicInfo gid info)"
    and "steps e (db_rel (keeps_typing e)) (repo_UpdateSellerUsername gid u)"
    and "steps e (db_rel (keeps_typing e)) (repo_Publish gid)"
    and "steps e (db_rel (keeps_typing e)) (repo_ReplacePackages gid ps)"
    and "steps e (db_rel (keeps_typing e)) (repo_ReplaceQuestions gid qs)"
    and "steps e (db_rel (keeps_typing e)) (repo_ReplaceMedia gid mp)"
  unfolding repo_CreateDraft_def repo_UpdateBasicInfo_def repo_UpdateSellerUsername_def repo_Publish_def
    repo_ReplacePackages_def repo_ReplaceQuestions_def repo_ReplaceMedia_def execP_def
  by (intro typing.steps_rules typing.tick_rules typed_rowP typed_txP typed_stmtP insert_loops_typed
      row_updates_typed createGigDraft_typed child_deletes_typed completions_typed assms
      same_typed [OF load_frames(1)] same_typed [OF read_frames(1)])+

section \<open>Requests keep the typing\<close>

lemma with_projections_typed:
  "steps e (db_rel (keeps_typing e)) m \<Longrightarrow> steps e (db_rel (keeps_typing e)) (with_projections m)"
  unfolding with_projections_def by (intro typing.steps_rules same_typed [OF projection_frames(1)])

lemma use_cases_typed:
  assumes "uuid_ok e"
  shows "steps e (db_rel (keeps_typing e)) (createDraft recovery gid f)"
    and "steps e (db_rel (keeps_typing e)) (UpdateBasicInfo gid f info)"
    and "steps e (db_rel (keeps_typing e)) (ReplacePackages recovery gid f ps)"
    and "steps e (db_rel (keeps_typing e)) (ReplaceQuestions recovery gid f qs)"
    and "steps e (db_rel (keeps_typing e)) (ReplaceMedia gid f files)"
    and "steps e (db_rel (keeps_typing e)) (publishRows username gig)"
    and "steps e (db_rel (keeps_typing e)) (GetOrderStartSnapshot gid pid)"
  unfolding createDraft_def UpdateBasicInfo_def ReplacePackages_def ReplaceQuestions_def ReplaceMedia_def
    publishRows_def GetOrderStartSnapshot_def cached_username_def Let_def
  by (intro typing.steps_rules typing.tick_rules repo_typed with_projections_typed assms
      same_typed [OF event_frames(4)] same_typed [OF event_frames(14)] same_typed [OF owned_frames(1)]
      same_typed [OF check_frames(1)] same_typed [OF file_call_frames(1)] same_typed [OF compensate_frames(1)]
      same_typed [OF read_frames(1)] same_typed [OF redis_frames(3)])+

lemma publish_commit_typed:
  "uuid_ok e \<Longrightarrow> steps e (db_rel (keeps_typing e)) (publish_commit username gig)"
  unfolding publish_commit_def
  by (intro typing.steps_rules use_cases_typed same_typed [OF publish_events_frames])

lemma serve_typed:
  assumes "uuid_ok e"
  shows "steps e (db_rel (keeps_typing e)) (serve r)"
proof -
  have lift: "steps e (db_rel (keeps_typing e)) (doneP m)" if "steps e (db_rel (keeps_typing e)) m" for m :: "'z prog"
    unfolding doneP_def by (intro typing.steps_rules that)
  have publish: "steps e (db_rel (keeps_typing e)) (Publish recovery gid f u)" for recovery gid f u
    unfolding Publish_phases
    by (intro typing.steps_rules publish_commit_typed assms same_typed [OF publish_check_frames])
  show ?thesis
    by (cases r; simp only: serve.simps; rule lift)
      (auto simp: CreateDraft_def CreateDraftWithID_def GetByID_def
        intro: use_cases_typed [OF assms] publish same_typed frame_intros)
qed

lemma reachable_typed:
  assumes "uuid_ok e" and "reachable e w checked"
  shows "tables_typed e (w_db w)"
  using assms(2)
proof (induction rule: reachable.induct)
  case (start w)
  then show ?case by (simp add: tables_typed_def child_typed_def gig_keys_def empty_db_def)
next
  case (request w checked r)
  then show ?case using serve_typed [OF assms(1)] by (simp add: steps_def db_rel_def keeps_typing_def)
next
  case (check w checked recovery gid f gig w')
  then show ?case using publish_check_Ok(5) by metis
next
  case (commit w checked gig username)
  then show ?case using publish_commit_typed [OF assms(1)] by (simp add: steps_def db_rel_def keeps_typing_def)
qed

end
