(* ===== verification/StartupClaims.thy ===== *)
theory StartupClaims
  imports Startup Schema ServiceClaims
begin

text \<open>
  The properties of the start of the process: migrations, configuration, supervision, warm-up.
\<close>

section \<open>Configuration and retries\<close>

lemma go_rem_zero:
  assumes "0 < sint a" and "0 < sint b" and "go_rem a b = 0"
  shows "sint (go_div a b) * sint b = sint a" and "0 < sint (go_div a b)"
proof -
  from assms(3) have "a = go_div a b * b" by (simp add: go_rem_def)
  then have "a = word_of_int (sint (go_div a b) * sint b)" by simp
  moreover have le: "0 \<le> sint (go_div a b) * sint b" "sint (go_div a b) * sint b \<le> sint a"
    using assms(1,2) zmod_le_nonneg_dividend [of "sint a" "sint b"]
    by (simp_all add: sint_go_div pos_imp_zdiv_nonneg_iff flip: minus_mod_eq_div_mult)
  moreover have "fits64 (sint (go_div a b) * sint b)"
    using le sint_lt [of a] by (simp add: fits64_def)
  ultimately show eq: "sint (go_div a b) * sint b = sint a"
    by (metis sint_of_int64)
  with assms(1,2) show "0 < sint (go_div a b)"
    by (metis zero_less_mult_pos2)
qed

text \<open>
  A preview configuration that passes the validation of the configuration starts the service,
  unless a dependency is missing, and then the pages of a window are positively many and fill it
  exactly.
\<close>

theorem validated_config_starts:
  assumes "validatePreviewPaginationConfig cfg = None"
  shows "\<exists>s. New {} cfg = Inr s \<and> set_PageSize s = pp_PageSize cfg \<and> set_WindowSize s = pp_WindowSize cfg \<and>
    set_WindowTTL s = pp_WindowTTL cfg \<and> 0 < sint (set_PagesWindow s) \<and>
    sint (set_PagesWindow s) * sint (set_PageSize s) = sint (set_WindowSize s)"
proof -
  from assms have "0 < sint (pp_PageSize cfg)" "0 < sint (pp_WindowSize cfg)"
    "go_rem (pp_WindowSize cfg) (pp_PageSize cfg) = 0"
    by (auto simp: validatePreviewPaginationConfig_def split: if_splits)
  moreover have "find (\<lambda>d. d \<in> {}) new_order = None" by (simp add: find_None_iff)
  ultimately show ?thesis using go_rem_zero [of "pp_WindowSize cfg" "pp_PageSize cfg"]
    by (simp add: New_def)
qed

definition sample_pagination :: PreviewPaginationConfig where
  "sample_pagination = \<lparr>pp_PageSize = 10, pp_WindowSize = 50, pp_WindowTTL = 3600000000000\<rparr>"

lemma validated_config_starts_witness:
  "\<exists>s. New {} sample_pagination = Inr s \<and> sint (set_PagesWindow s) * 10 = 50"
proof -
  have "validatePreviewPaginationConfig sample_pagination = None" by code_simp
  from validated_config_starts [OF this] show ?thesis
    by (auto simp: sample_pagination_def)
qed

text \<open>
  C39. The migrations are tried at most ten times: the error returned is that of the last attempt,
  every attempt before it was deadlocked, after the attempt i the process waits 2i seconds, and
  only the tenth attempt may end deadlocked.
\<close>

theorem migrations_retry:
  "\<exists>n. 1 \<le> n \<and> n \<le> 10 \<and>
     InvokeRunMigrations run 1 = (run n, map (\<lambda>i. 2 * i) [1..<n]) \<and>
     list_all (\<lambda>i. deadlocked (run i)) [1..<n] \<and> (n = 10 \<or> \<not> deadlocked (run n))"
proof -
  from InvokeRunMigrations_result [of 1 run] obtain n where
    "1 \<le> n" "n \<le> 10" "InvokeRunMigrations run 1 = (run n, map (\<lambda>i. 2 * i) [1..<n])"
    "\<forall>i. 1 \<le> i \<and> i < n \<longrightarrow> deadlocked (run i)" "n = 10 \<or> \<not> deadlocked (run n)"
    by auto
  then show ?thesis by (intro exI [of _ n]) (simp add: list_all_iff)
qed

definition third_time :: "nat \<Rightarrow> gerr option" where
  "third_time i = (if i < 3 then Some (Opaque ''ERROR: Deadlock detected'') else None)"

lemma migrations_retry_witness: "InvokeRunMigrations third_time 1 = (None, [2, 4])"
proof -
  have dead: "deadlocked (Some (Opaque ''ERROR: Deadlock detected''))"
    unfolding deadlocked_def by (rule exI, rule conjI [OF refl]) code_simp
  then have dead_iff: "deadlocked (third_time i) \<longleftrightarrow> i < 3" for i
    by (simp add: third_time_def) (simp add: deadlocked_def)
  from migrations_retry [of third_time] obtain n where n: "1 \<le> n"
    "InvokeRunMigrations third_time 1 = (third_time n, map (\<lambda>i. 2 * i) [1..<n])"
    "list_all (\<lambda>i. i < 3) [1..<n]" "n = 10 \<or> \<not> n < 3"
    unfolding dead_iff by blast
  have "n \<le> 3"
  proof (rule ccontr)
    assume "\<not> n \<le> 3"
    then have "3 \<in> set [1..<n]" by simp
    with n(3) show False by (auto simp: list_all_iff)
  qed
  with n(4) have "n = 3" by auto
  with n(2) show ?thesis by (simp add: third_time_def upt_rec)
qed

lemma capped_double:
  "recovery_next (min (1000 * 2 ^ i) 32000) = min (1000 * 2 ^ Suc i) (32000 :: nat)"
  "projection_next (min (100 * 2 ^ i) 5000) = min (100 * 2 ^ Suc i) (5000 :: nat)"
proof -
  have small: "(2 :: nat) ^ i = 1 \<or> 2 ^ i = (2 :: nat) \<or> 2 ^ i = (4 :: nat) \<or> 2 ^ i = (8 :: nat) \<or>
      2 ^ i = (16 :: nat) \<or> 32 \<le> (2 :: nat) ^ i"
  proof (cases "i < 5")
    case True
    then have "i = 0 \<or> i = 1 \<or> i = 2 \<or> i = 3 \<or> i = 4" by arith
    then show ?thesis by auto
  next
    case False
    then have "(2 :: nat) ^ 5 \<le> 2 ^ i" by (intro power_increasing) auto
    then show ?thesis by simp
  qed
  then show "recovery_next (min (1000 * 2 ^ i) 32000) = min (1000 * 2 ^ Suc i) (32000 :: nat)"
    by (elim disjE; simp add: recovery_next_def)
  have "50 \<le> (2 :: nat) ^ i \<or> 2 ^ i = (32 :: nat) \<or> (2 :: nat) ^ i \<le> 16"
  proof (cases "i < 6")
    case True
    then have "i = 0 \<or> i = 1 \<or> i = 2 \<or> i = 3 \<or> i = 4 \<or> i = 5" by arith
    then show ?thesis by auto
  next
    case False
    then have "(2 :: nat) ^ 6 \<le> 2 ^ i" by (intro power_increasing) auto
    then show ?thesis by simp
  qed
  then show "projection_next (min (100 * 2 ^ i) 5000) = min (100 * 2 ^ Suc i) (5000 :: nat)"
    by (auto simp: projection_next_def Let_def min_def)
qed

lemma supervise_closed:
  assumes "\<And>i. next_wait (f i) = f (Suc i)"
  shows "supervise next_wait (f k) results =
    map f [k..<k + length (takeWhile (\<lambda>r. r \<noteq> None) results)]"
proof (induction results arbitrary: k)
  case (Cons r results)
  then show ?case
    using assms by (cases r) (auto simp: upt_conv_Cons simp del: upt_Suc)
qed simp

text \<open>
  The consumers are started again after every error and no more after a run without one; the
  waits double from one second to 32 seconds for the recovery and from 100 milliseconds to five
  seconds for the projections.
\<close>

theorem supervision_waits:
  "recovery_waits results =
     map (\<lambda>i. min (1000 * 2 ^ i) 32000) [0..<length (takeWhile (\<lambda>r. r \<noteq> None) results)] \<and>
   projection_waits results =
     map (\<lambda>i. min (100 * 2 ^ i) 5000) [0..<length (takeWhile (\<lambda>r. r \<noteq> None) results)]"
  using supervise_closed [of recovery_next "\<lambda>i. min (1000 * 2 ^ i) 32000" 0 results]
    supervise_closed [of projection_next "\<lambda>i. min (100 * 2 ^ i) 5000" 0 results]
  by (simp add: capped_double recovery_waits_def projection_waits_def)

section \<open>The background jobs\<close>

text \<open>
  What the warm-up may do to a gig: give a name to its seller, and the time of the change, where it
  had none.
\<close>

definition named :: "Gig \<Rightarrow> Gig \<Rightarrow> bool" where
  "named g g' \<longleftrightarrow>
     g' = g \<or>
     gig_SellerUsername g = [] \<and> gig_SellerUsername g' \<noteq> [] \<and>
       g' = seller_gig (gig_SellerUsername g') (gig_UpdatedAt g') g"

definition sellers_named :: "db \<Rightarrow> db \<Rightarrow> bool" where
  "sellers_named d d' \<longleftrightarrow> (\<forall>c. rel_option named (view d c) (view d' c))"

lemma sellers_named_refl [simp]: "sellers_named d d"
  by (auto simp: sellers_named_def named_def option.rel_refl)

lemma named_again:
  assumes "named x y" and "gig_SellerUsername x = []" and "u \<noteq> []"
  shows "named x (seller_gig u now y)"
proof -
  from assms(1) obtain a b where "y = x \<or> y = seller_gig a b x" unfolding named_def by blast
  with assms(2,3) show ?thesis by (auto simp: named_def seller_gig_def)
qed

lemma sellers_named_update:
  assumes "sellers_named d0 d" and "updates_at c (seller_gig u now) d d'" and "u \<noteq> []"
    and "\<And>g. view d0 c = Some g \<Longrightarrow> gig_SellerUsername g = []"
  shows "sellers_named d0 d'"
  unfolding sellers_named_def
proof (intro allI)
  fix c'
  from assms(1) have "rel_option named (view d0 c') (view d c')" by (simp add: sellers_named_def)
  then show "rel_option named (view d0 c') (view d' c')"
    using assms(2-4) by (cases "c' = c") (auto simp: updates_at_def named_again elim!: option.rel_cases)
qed

text \<open>
  Every program of the warm-up takes a database that is \<open>sellers_named\<close> of the first one to another:
  an invariant with the first database fixed.
\<close>

definition keeps_named :: "db \<Rightarrow> env \<Rightarrow> 'a prog \<Rightarrow> bool" where
  "keeps_named d0 e m \<longleftrightarrow> (\<forall>w. sellers_named d0 (w_db w) \<longrightarrow> sellers_named d0 (w_db (snd (m e w))))"

lemma keeps_named_same: "steps e same_db m \<Longrightarrow> keeps_named d0 e m"
  by (metis keeps_named_def same_db_def steps_def)

lemma keeps_named_const: "keeps_named d0 e (\<lambda>e'. Pair x)"
  by (simp add: keeps_named_def)

lemma keeps_named_bind:
  "keeps_named d0 e m \<Longrightarrow> (\<And>a. keeps_named d0 e (f a)) \<Longrightarrow> keeps_named d0 e (bindP m f)"
  unfolding keeps_named_def bindP_def by (auto split: prod.splits res.splits)

lemma keeps_named_ignore: "keeps_named d0 e m \<Longrightarrow> keeps_named d0 e (ignoreP m)"
  unfolding keeps_named_def ignoreP_def bindP_def attemptP_def retP_def
  by (auto split: prod.splits res.splits)

lemma keeps_named_iter:
  "(\<And>x. x \<in> set xs \<Longrightarrow> keeps_named d0 e (f x)) \<Longrightarrow> keeps_named d0 e (iterP f xs)"
  by (induction xs) (auto intro!: keeps_named_bind intro: keeps_named_same [OF same_db.steps_retP])

lemma keeps_named_seller:
  assumes "u \<noteq> []" and "\<And>c g. e_uuid_in e gid = Some c \<Longrightarrow> view d0 c = Some g \<Longrightarrow> gig_SellerUsername g = []"
  shows "keeps_named d0 e (repo_UpdateSellerUsername gid u)"
  unfolding keeps_named_def
proof (intro allI impI)
  fix w :: world
  assume before: "sellers_named d0 (w_db w)"
  obtain r w' where run: "repo_UpdateSellerUsername gid u e w = (r, w')"
    by (cases "repo_UpdateSellerUsername gid u e w")
  from repo_UpdateSellerUsername_outcome [OF run] before
  show "sellers_named d0 (w_db (snd (repo_UpdateSellerUsername gid u e w)))"
    unfolding run using sellers_named_update [OF before _ assms(1)] assms(2) by auto
qed

lemma SetUserLookup_frame: "steps e same_db (read_SetUserLookup u f ttl)"
  unfolding read_SetUserLookup_def Let_def by (intro frame_intros)

lemma warmup_gig_named:
  assumes "gig_SellerUsername gig = [] \<Longrightarrow>
    (\<And>c g. e_uuid_in e (gig_ID gig) = Some c \<Longrightarrow> view d0 c = Some g \<Longrightarrow> gig_SellerUsername g = [])"
  shows "keeps_named d0 e (warmup_gig users gig)"
proof -
  have rest: "keeps_named d0 e (case username of None \<Rightarrow> retP ()
      | Some u \<Rightarrow> if u = [] then retP () else ignoreP (read_SetUserLookup u (gig_FreelancerID gig) 0))"
    for username by (rule keeps_named_same) (intro frame_intros SetUserLookup_frame)
  have known: "keeps_named d0 e (ignoreP (read_SetUserLookup u (gig_FreelancerID gig) 0))" for u
    by (rule keeps_named_same) (intro frame_intros SetUserLookup_frame)
  have call: "keeps_named d0 e (attemptP (GetUserPreviewByIDNoCache (gig_FreelancerID gig)))"
    by (rule keeps_named_same) (intro frame_intros)
  have store: "keeps_named d0 e (case reply of Inl _ \<Rightarrow> retP None | Inr None \<Rightarrow> panicP
      | Inr (Some preview) \<Rightarrow>
          bindP (if usr_Username preview \<noteq> []
                 then ignoreP (repo_UpdateSellerUsername (gig_ID gig) (usr_Username preview))
                 else retP ()) (\<lambda>_. retP (Some (usr_Username preview))))"
    if empty: "gig_SellerUsername gig = []" for reply
  proof (cases reply)
    case (Inr user)
    then show ?thesis
      using keeps_named_seller [of _ e "gig_ID gig" d0] assms [OF empty]
      by (cases user) (auto intro!: keeps_named_bind keeps_named_ignore
          intro: keeps_named_const keeps_named_same [OF same_db.steps_retP] keeps_named_same [OF same_db.steps_panicP])
  qed (auto intro: keeps_named_same [OF same_db.steps_retP])
  show ?thesis
    unfolding warmup_gig_def
    by (auto intro!: keeps_named_bind [OF _ rest] keeps_named_bind [OF call store] known
        intro: keeps_named_same [OF same_db.steps_retP])
qed

text \<open>The gigs that are loaded are those of the database.\<close>

lemma repo_ListAll_loaded:
  assumes "repo_ListAll e w = (Ok gigs, w')" and "gig \<in> set gigs"
  shows "\<exists>r \<in> set (t_gigs (w_db w)). gig_ID gig = grow_ID r \<and> gig_SellerUsername gig = grow_SellerUsername r"
  using assms unfolding repo_ListAll_def
  by (auto elim!: bindP_OkE simp: mapErrP_Ok retP_def listAllGigsQuery_def MapGigRowToDomain_def dest!: stmtP_Ok)
    blast

text \<open>
  C38. In every state the service can reach from an empty database, the warm-up gives the sellers of
  gigs without a seller name their names and changes nothing else of any gig, whatever fails in
  between: no gig appears or goes, and a gig with a seller name stays as it is. (That each gig
  it loads is the only one with its identifier rests on the typing of the tables.)
\<close>

theorem warmup_names_sellers:
  assumes "uuid_ok e" and "reachable e w checked"
  shows "sellers_named (w_db w) (w_db (snd (InvokeWarmupSellerLookups enabled users e w)))"
proof (cases enabled)
  case True
  have keys: "distinct (map grow_ID (t_gigs (w_db w)))"
    and ids: "list_all (\<lambda>r. e_uuid_in e (grow_ID r) = Some (grow_ID r)) (t_gigs (w_db w))"
    using reachable_typed [OF assms]
    by (simp_all add: tables_typed_def gig_keys_def gig_row_typed_def uuid_typed_def list_all_iff)
  obtain r w1 where load: "repo_ListAll e w = (r, w1)" by (cases "repo_ListAll e w")
  have w1: "w_db w1 = w_db w" using read_frames load by (metis same_db_def stepsD)
  show ?thesis
  proof (cases r)
    case (Ok gigs)
    have "keeps_named (w_db w) e (warmup_gig users gig)" if gig: "gig \<in> set gigs" for gig
    proof (rule warmup_gig_named)
      fix c g
      assume empty: "gig_SellerUsername gig = []" and c: "e_uuid_in e (gig_ID gig) = Some c"
        and g: "view (w_db w) c = Some g"
      from load Ok have "repo_ListAll e w = (Ok gigs, w1)" by simp
      from repo_ListAll_loaded [OF this gig] empty obtain row where
        row: "row \<in> set (t_gigs (w_db w))" "gig_ID gig = grow_ID row" "grow_SellerUsername row = []"
        by metis
      with c ids have "c = grow_ID row" by (auto simp: list_all_iff)
      with g obtain row' where row': "find_gig (grow_ID row) (w_db w) = Some row'"
        "gig_SellerUsername g = grow_SellerUsername row'"
        by (auto simp: view_def MapGigRowToDomain_def)
      from find_gig_mem [OF row'(1)] keys row(1) have "row' = row"
        by (auto simp: distinct_map inj_on_def)
      with row' row show "gig_SellerUsername g = []" by simp
    qed
    then have "keeps_named (w_db w) e (iterP (warmup_gig users) gigs)" by (rule keeps_named_iter)
    then have "sellers_named (w_db w) (w_db (snd (iterP (warmup_gig users) gigs e w1)))"
      using w1 by (simp add: keeps_named_def)
    then show ?thesis using True load Ok
      by (simp add: InvokeWarmupSellerLookups_def bindP_def attemptP_def)
  qed (use True load w1 in \<open>simp_all add: InvokeWarmupSellerLookups_def bindP_def attemptP_def retP_def\<close>)
qed (simp add: InvokeWarmupSellerLookups_def retP_def)

definition naming_env :: env where
  "naming_env = sample_env\<lparr>e_user := (\<lambda>n u. Some (Some \<lparr>usr_UserID = u, usr_Username = ''ann'', usr_DisplayName = [], usr_AvatarID = [],
       usr_AvatarURL = []\<rparr>))\<rparr>"

definition unnamed_run :: world where
  "unnamed_run = snd (serve (ReqCreateDraftWithID False ''g1'' ''f1'') naming_env empty_world)"

lemma unnamed_run_reachable: "reachable naming_env unnamed_run []"
  unfolding unnamed_run_def by (intro reachable.request reachable.start) (simp add: empty_world_def empty_db_def)

lemma warmup_names_sellers_witness:
  "sellers_named (w_db unnamed_run) (w_db (snd (InvokeWarmupSellerLookups True True naming_env unnamed_run))) \<and>
   map grow_SellerUsername (t_gigs (w_db (snd (InvokeWarmupSellerLookups True True naming_env unnamed_run)))) = [''ann'']"
proof
  have "uuid_ok naming_env" using sample_uuid by (simp add: uuid_ok_def naming_env_def)
  from warmup_names_sellers [OF this unnamed_run_reachable]
  show "sellers_named (w_db unnamed_run) (w_db (snd (InvokeWarmupSellerLookups True True naming_env unnamed_run)))" .
qed code_simp

text \<open>
  When the user service answers without a user, the warm-up panics on the first gig whose seller
  has no name.
\<close>

theorem warmup_panics_without_user:
  assumes "repo_ListAll e w = (Ok (gig # gigs), w1)" and "gig_SellerUsername gig = []"
    and "fst (GetUserPreviewByIDNoCache (gig_FreelancerID gig) e w1) = Ok None"
  shows "fst (InvokeWarmupSellerLookups True True e w) = Panic"
  using assms by (cases "GetUserPreviewByIDNoCache (gig_FreelancerID gig) e w1")
    (simp add: InvokeWarmupSellerLookups_def warmup_gig_def bindP_def attemptP_def panicP_def)

lemma warmup_panics_without_user_witness:
  "fst (InvokeWarmupSellerLookups True True (sample_env\<lparr>e_user := (\<lambda>n u. Some None)\<rparr>) sample_world) = Panic"
proof (rule warmup_panics_without_user)
  show "repo_ListAll (sample_env\<lparr>e_user := (\<lambda>n u. Some None)\<rparr>) sample_world =
      (Ok [MapGigRowToDomain sample_row [] [] []], sample_world\<lparr>w_tick := 1\<rparr>)"
    by code_simp
  show "gig_SellerUsername (MapGigRowToDomain sample_row [] [] []) = []" by code_simp
  show "fst (GetUserPreviewByIDNoCache (gig_FreelancerID (MapGigRowToDomain sample_row [] [] []))
      (sample_env\<lparr>e_user := (\<lambda>n u. Some None)\<rparr>) (sample_world\<lparr>w_tick := 1\<rparr>)) = Ok None"
    by code_simp
qed

end
