(* ===== verification/SchemaClaims.thy ===== *)
theory SchemaClaims
  imports Schema ServiceClaims
begin

text \<open>
  The typing of the tables as a property of every reachable state.
\<close>

text \<open>
  C8. In every state the service can reach from an empty database the tables are well typed: keys are
  canonical UUIDs and unique, every package, question and media row belongs to an existing gig,
  no gig has two packages of one tier nor two questions or media of one position, texts are
  valid and the short info fits its column, and a gig is published exactly when it has the time
  of its publication.
\<close>

theorem tables_well_typed:
  assumes "uuid_ok e" and "reachable e w checked"
  shows "tables_typed e (w_db w)"
  by (rule reachable_typed [OF assms])

lemma tables_well_typed_witness:
  "tables_typed sample_env (w_db sample_run) \<and> length (t_packages (w_db sample_run)) = 1"
  by (rule conjI, rule tables_well_typed [OF sample_uuid sample_run_reachable]) code_simp

end
