(* ===== verification/KafkaGroup.thy ===== *)
theory KafkaGroup
  imports KafkaLaws
begin

text \<open>
  The consumer group of the recovery topic: \<open>runExplicitConsumerGroup\<close> of
  \<open>internal/presentation/event_broker/kafka/broker.go\<close>. A generation of the group assigns
  partitions; each has a reader that starts at the committed offset and runs batches until one
  fails. The partitions run concurrently, so the model is a machine whose steps are the fetch of
  a batch, the handling of one message by a lane, and the end of a batch, of any partition; a
  generation starts when no batch is under way, and a crash of the process may come at any time.
  What outlives a generation is the log, the table of claims and the committed offsets.
\<close>

section \<open>Offsets\<close>

text \<open>The offset committed last for a partition; none is \<open>kafka.FirstOffset\<close>, -2.\<close>

fun commit_step :: "int64 \<Rightarrow> int64 \<Rightarrow> action \<Rightarrow> int64" where
  "commit_step p c (Committed cs) = (case map_of (rev cs) p of Some n \<Rightarrow> n | None \<Rightarrow> c)"
| "commit_step p c _ = c"

definition first_offset :: int64 where "first_offset = - 2"

definition committed :: "int64 \<Rightarrow> action list \<Rightarrow> int64" where
  "committed p tr = foldl (commit_step p) first_offset tr"

text \<open>
  What the reader of a partition will fetch: the log from the assigned offset, from its start when
  the offset is negative and \<open>SetOffset\<close> is not called.
\<close>

definition reader_from :: "int64 \<Rightarrow> message list \<Rightarrow> message list" where
  "reader_from offset msgs =
     (if 0 \<le> sint offset then filter (\<lambda>m. sint offset \<le> sint (msg_Offset m)) msgs else msgs)"

section \<open>The machine\<close>

text \<open>
  A partition: not assigned, or its reader closed after a failed batch; between two batches, with
  what is left to fetch; or in a batch, with the messages still to be handled, those left to
  fetch, and the errors of the lanes so far.
\<close>

datatype partition_state =
    Closed
  | Reading "message list"
  | Working "message list" "message list" "message list" "gerr list"

record group_state =
  gp_state :: kstate
  gp_assigned :: "int64 list"
  gp_parts :: "int64 \<Rightarrow> partition_state"

datatype group_event =
    Generation "int64 list"
  | Fetched int64 "message list"
  | Worked int64
  | Finished int64
  | Crashed

definition all_closed :: "int64 \<Rightarrow> partition_state" where
  "all_closed = (\<lambda>p. Closed)"

text \<open>A generation: every assigned partition is read from its committed offset, the others not at all.\<close>

definition start_generation :: "(int64 \<Rightarrow> message list) \<Rightarrow> int64 list \<Rightarrow> group_state \<Rightarrow> group_state" where
  "start_generation logs assigned g =
     g\<lparr>gp_assigned := assigned, gp_parts := (\<lambda>p. if p \<in> set assigned
        then Reading (reader_from (committed p (ks_trace (gp_state g))) (logs p)) else Closed)\<rparr>"

definition is_working :: "partition_state \<Rightarrow> bool" where
  "is_working ps = (case ps of Working b t r es \<Rightarrow> True | _ \<Rightarrow> False)"

definition batch_limit :: nat where "batch_limit = 200"

text \<open>
  A batch is the next messages of the reader, at least one and at most 200, in the order
  the lanes will handle them.
\<close>

definition fetch_batch :: "klib \<Rightarrow> int64 \<Rightarrow> message list \<Rightarrow> group_state \<Rightarrow> group_state" where
  "fetch_batch L p order g =
     (case gp_parts g p of
        Reading rest \<Rightarrow>
          (let batch = take (length order) rest
           in if order \<noteq> [] \<and> length order \<le> batch_limit \<and> lane_order L batch order
              then g\<lparr>gp_parts := (gp_parts g)(p := Working batch order (drop (length order) rest) [])\<rparr> else g)
      | _ \<Rightarrow> g)"

text \<open>A lane handles a message; a panic of the handler ends the process.\<close>

definition crash :: "group_state \<Rightarrow> group_state" where
  "crash g = g\<lparr>gp_assigned := [], gp_parts := all_closed\<rparr>"

definition work_message ::
    "klib \<Rightarrow> env \<Rightarrow> (bytes \<Rightarrow> unit prog) \<Rightarrow> consumer_config \<Rightarrow> int64 \<Rightarrow> group_state \<Rightarrow> group_state" where
  "work_message L e handler cfg p g =
     (case gp_parts g p of
        Working batch (m # todo) rest errs \<Rightarrow>
          (case handleRecoveryMessage L e handler cfg m (gp_state g) of
             (Panic, s) \<Rightarrow> crash (g\<lparr>gp_state := s\<rparr>)
           | (Err err, s) \<Rightarrow> g\<lparr>gp_state := s, gp_parts := (gp_parts g)(p := Working batch todo rest (errs @ [err]))\<rparr>
           | (Ok _, s) \<Rightarrow> g\<lparr>gp_state := s, gp_parts := (gp_parts g)(p := Working batch todo rest errs)\<rparr>)
      | _ \<Rightarrow> g)"

text \<open>The end of a batch: committed, the reader goes on; else it is closed.\<close>

definition finish_recovery :: "klib \<Rightarrow> int64 \<Rightarrow> group_state \<Rightarrow> group_state" where
  "finish_recovery L p g =
     (case gp_parts g p of
        Working batch [] rest errs \<Rightarrow>
          (case finish_batch L ''recovery batch was not committed'' id [last batch] (Ok errs, gp_state g) of
             (Next, s) \<Rightarrow> g\<lparr>gp_state := s, gp_parts := (gp_parts g)(p := Reading rest)\<rparr>
           | (_, s) \<Rightarrow> g\<lparr>gp_state := s, gp_parts := (gp_parts g)(p := Closed)\<rparr>)
      | _ \<Rightarrow> g)"

text \<open>
  One step. A generation begins only when the workers of the one before have ended; an event that
  cannot happen changes nothing.
\<close>

fun group_step ::
    "klib \<Rightarrow> env \<Rightarrow> (bytes \<Rightarrow> unit prog) \<Rightarrow> consumer_config \<Rightarrow> (int64 \<Rightarrow> message list) \<Rightarrow>
     group_event \<Rightarrow> group_state \<Rightarrow> group_state" where
  "group_step L e handler cfg logs (Generation assigned) g =
     (if list_ex (\<lambda>p. is_working (gp_parts g p)) (gp_assigned g) then g else start_generation logs assigned g)"
| "group_step L e handler cfg logs (Fetched p order) g = fetch_batch L p order g"
| "group_step L e handler cfg logs (Worked p) g = work_message L e handler cfg p g"
| "group_step L e handler cfg logs (Finished p) g = finish_recovery L p g"
| "group_step L e handler cfg logs Crashed g = crash g"

definition run_group ::
    "klib \<Rightarrow> env \<Rightarrow> (bytes \<Rightarrow> unit prog) \<Rightarrow> consumer_config \<Rightarrow> (int64 \<Rightarrow> message list) \<Rightarrow>
     group_event list \<Rightarrow> group_state \<Rightarrow> group_state" where
  "run_group L e handler cfg logs evs g = foldl (\<lambda>g ev. group_step L e handler cfg logs ev g) g evs"

text \<open>The process before its first generation: the claims and tables as they are, nothing handled yet.\<close>

definition idle_group :: "kstate \<Rightarrow> group_state" where
  "idle_group s = \<lparr>gp_state = s, gp_assigned = [], gp_parts = all_closed\<rparr>"

section \<open>A batch alone\<close>

text \<open>Undisturbed by other partitions, the steps of a batch are \<open>runRecoveryBatch\<close>.\<close>

definition after_batch :: "int64 \<Rightarrow> message list \<Rightarrow> group_state \<Rightarrow> flow \<times> kstate \<Rightarrow> group_state" where
  "after_batch p rest g out = (case out of
     (Next, s) \<Rightarrow> g\<lparr>gp_state := s, gp_parts := (gp_parts g)(p := Reading rest)\<rparr>
   | (Stop x, s) \<Rightarrow> g\<lparr>gp_state := s, gp_parts := (gp_parts g)(p := Closed)\<rparr>
   | (Crash, s) \<Rightarrow> crash (g\<lparr>gp_state := s\<rparr>))"

lemma run_group_simps [simp]:
  "run_group L e handler cfg logs [] g = g"
  "run_group L e handler cfg logs (ev # evs) g = run_group L e handler cfg logs evs (group_step L e handler cfg logs ev g)"
  "run_group L e handler cfg logs (us @ vs) g = run_group L e handler cfg logs vs (run_group L e handler cfg logs us g)"
  by (simp_all add: run_group_def)

lemma crash_part [simp]: "gp_parts (crash g) p = Closed" "gp_state (crash g) = gp_state g"
  by (simp_all add: crash_def all_closed_def)

lemma idle_steps [simp]:
  "gp_parts g p = Closed \<Longrightarrow> run_group L e handler cfg logs (replicate n (Worked p)) g = g"
  "gp_parts g p = Closed \<Longrightarrow> finish_recovery L p g = g"
  by (induction n) (simp_all add: work_message_def finish_recovery_def)

lemma work_batch:
  assumes "gp_parts g p = Working batch todo rest errs"
  shows "run_group L e handler cfg logs (replicate (length todo) (Worked p) @ [Finished p]) g =
    after_batch p rest g (finish_batch L ''recovery batch was not committed'' id [last batch]
      (case each_message (handleRecoveryMessage L e handler cfg) todo (gp_state g) of
         (Ok es, s) \<Rightarrow> (Ok (errs @ es), s) | (r, s) \<Rightarrow> (r, s)))"
  using assms
proof (induction todo arbitrary: g errs)
  case Nil
  then show ?case
    by (auto simp: finish_recovery_def after_batch_def finish_batch_def split: list.splits prod.splits option.splits)
next
  case (Cons m todo)
  obtain r s where run: "handleRecoveryMessage L e handler cfg m (gp_state g) = (r, s)"
    by (cases "handleRecoveryMessage L e handler cfg m (gp_state g)")
  show ?case
  proof (cases r)
    case Panic
    with Cons.prems run show ?thesis
      by (simp add: work_message_def after_batch_def finish_batch_def)
  next
    case (Ok x)
    let ?g = "g\<lparr>gp_state := s, gp_parts := (gp_parts g)(p := Working batch todo rest errs)\<rparr>"
    have "gp_parts ?g p = Working batch todo rest errs" by simp
    from Cons.IH [OF this] Cons.prems run Ok show ?thesis
      by (simp add: work_message_def after_batch_def crash_def split: prod.splits flow.splits)
  next
    case (Err err)
    let ?g = "g\<lparr>gp_state := s, gp_parts := (gp_parts g)(p := Working batch todo rest (errs @ [err]))\<rparr>"
    have "gp_parts ?g p = Working batch todo rest (errs @ [err])" by simp
    from Cons.IH [OF this] Cons.prems run Err show ?thesis
      by (auto simp: work_message_def after_batch_def crash_def split: prod.splits flow.splits res.splits)
  qed
qed

lemma batch_alone:
  assumes "gp_parts g p = Reading rest" and "order \<noteq> []" and "length order \<le> batch_limit"
    and "lane_order L (take (length order) rest) order"
  shows "run_group L e handler cfg logs (Fetched p order # replicate (length order) (Worked p) @ [Finished p]) g =
    after_batch p (drop (length order) rest) g
      (runRecoveryBatch L e handler cfg (take (length order) rest) order (gp_state g))"
proof -
  let ?g = "g\<lparr>gp_parts := (gp_parts g)(p := Working (take (length order) rest) order (drop (length order) rest) [])\<rparr>"
  have fetched: "fetch_batch L p order g = ?g" using assms by (simp add: fetch_batch_def)
  have at: "gp_parts ?g p = Working (take (length order) rest) order (drop (length order) rest) []" by simp
  show ?thesis
    using work_batch [OF at, of L e handler cfg logs]
    by (simp add: fetched after_batch_def crash_def runRecoveryBatch_def split: prod.splits flow.splits res.splits)
qed

end
