(* ===== verification/GroupClaims.thy ===== *)
theory GroupClaims
  imports KafkaGroup KafkaClaims
begin

text \<open>
  What the consumer group of the recovery topic guarantees over any number of generations and
  crashes: the invariant of the machine of \<open>KafkaGroup\<close>, and the properties that rest on it.
\<close>

section \<open>The log of a partition\<close>

text \<open>The messages of a partition, by strictly growing offsets that leave room for a next one.\<close>

definition log_ok :: "int64 \<Rightarrow> message list \<Rightarrow> bool" where
  "log_ok p msgs \<longleftrightarrow> sorted_wrt (\<lambda>m n. sint (msg_Offset m) < sint (msg_Offset n)) msgs \<and>
     list_all (\<lambda>m. msg_Partition m = p \<and> 0 \<le> sint (msg_Offset m) \<and> sint (msg_Offset m) < 2 ^ 63 - 1) msgs"

lemma sint_next:
  assumes "0 \<le> sint (x :: int64)" and "sint x < 2 ^ 63 - 1"
  shows "sint (x + 1) = sint x + 1"
  using assms by (simp add: sint_word_ariths(1) signed_take_bit_int_eq_self)

lemma settled_mono: "settled m t \<Longrightarrow> settled m (t @ u)"
  by (auto simp: settled_def)

lemma committed_append: "committed p (t @ u) = foldl (commit_step p) (committed p t) u"
  by (simp add: committed_def)

lemma committed_same: "\<not> commits u \<Longrightarrow> committed p (t @ u) = committed p t"
proof (induction u rule: rev_induct)
  case (snoc a u)
  then have "\<not> commits u" "\<forall>c. a \<noteq> Committed c" by (auto simp: commits_def)
  with snoc.IH show ?case by (cases a) (auto simp: committed_append)
qed simp

lemma reader_from_suffix:
  assumes "log_ok p msgs"
  shows "\<exists>pre. msgs = pre @ reader_from c msgs \<and> (\<forall>m\<in>set pre. sint (msg_Offset m) < sint c)"
proof (cases "0 \<le> sint c")
  case True
  have "\<exists>pre. ms = pre @ filter (\<lambda>m. sint c \<le> sint (msg_Offset m)) ms \<and> (\<forall>m\<in>set pre. sint (msg_Offset m) < sint c)"
    if "sorted_wrt (\<lambda>m n. sint (msg_Offset m) < sint (msg_Offset n)) ms" for ms
    using that
  proof (induction ms)
    case (Cons m ms)
    show ?case
    proof (cases "sint c \<le> sint (msg_Offset m)")
      case True
      with Cons.prems have "filter (\<lambda>m. sint c \<le> sint (msg_Offset m)) ms = ms"
        by (auto simp: filter_id_conv)
      with True show ?thesis by (intro exI [of _ "[]"]) simp
    next
      case False
      from Cons obtain pre where "ms = pre @ filter (\<lambda>m. sint c \<le> sint (msg_Offset m)) ms"
        "\<forall>m\<in>set pre. sint (msg_Offset m) < sint c" by auto
      with False show ?thesis by (intro exI [of _ "m # pre"]) simp
    qed
  qed simp
  from this [of msgs] assms True show ?thesis by (simp add: log_ok_def reader_from_def)
qed (auto simp: reader_from_def)

section \<open>The invariant\<close>

text \<open>
  Below the committed offset everything is settled, and so is everything a reader has left behind;
  in a batch without errors, what is no longer to be handled.
\<close>

definition part_inv :: "action list \<Rightarrow> message list \<Rightarrow> partition_state \<Rightarrow> bool" where
  "part_inv tr msgs ps = (case ps of
     Closed \<Rightarrow> True
   | Reading rest \<Rightarrow> (\<exists>pre. msgs = pre @ rest \<and> (\<forall>m\<in>set pre. settled m tr))
   | Working batch todo rest errs \<Rightarrow>
       (\<exists>pre. msgs = pre @ batch @ rest \<and> (\<forall>m\<in>set pre. settled m tr)) \<and> batch \<noteq> [] \<and>
       (\<forall>m\<in>set batch. m \<in> set todo \<or> errs \<noteq> [] \<or> settled m tr))"

definition group_inv :: "(int64 \<Rightarrow> message list) \<Rightarrow> group_state \<Rightarrow> bool" where
  "group_inv logs g \<longleftrightarrow> (\<forall>p. part_inv (ks_trace (gp_state g)) (logs p) (gp_parts g p) \<and>
     (\<forall>m\<in>set (logs p). sint (msg_Offset m) < sint (committed p (ks_trace (gp_state g))) \<longrightarrow>
        settled m (ks_trace (gp_state g))))"

lemma part_inv_mono: "part_inv t msgs ps \<Longrightarrow> part_inv (t @ u) msgs ps"
  unfolding part_inv_def by (auto split: partition_state.splits intro: settled_mono)

lemma part_inv_Closed [simp]: "part_inv t msgs Closed"
  by (simp add: part_inv_def)

text \<open>A step that commits nothing keeps the invariant when the states of the partitions do.\<close>

lemma group_inv_quiet:
  assumes "group_inv logs g" and "ks_trace (gp_state g') = ks_trace (gp_state g) @ u" and "\<not> commits u"
    and "\<And>q. gp_parts g' q = gp_parts g q \<or> part_inv (ks_trace (gp_state g) @ u) (logs q) (gp_parts g' q)"
  shows "group_inv logs g'"
  unfolding group_inv_def
proof (intro allI conjI ballI impI)
  fix p
  have old: "part_inv (ks_trace (gp_state g)) (logs p) (gp_parts g p)"
    using assms(1) by (simp add: group_inv_def)
  show "part_inv (ks_trace (gp_state g')) (logs p) (gp_parts g' p)"
    using assms(4) [of p] part_inv_mono [OF old, of u] by (auto simp: assms(2))
  fix m
  assume "m \<in> set (logs p)" "sint (msg_Offset m) < sint (committed p (ks_trace (gp_state g')))"
  then show "settled m (ks_trace (gp_state g'))"
    using assms(1) by (auto simp: group_inv_def assms(2) committed_same [OF assms(3)] intro: settled_mono)
qed

lemma start_generation_inv:
  assumes "group_inv logs g" and "\<And>p. log_ok p (logs p)"
  shows "group_inv logs (start_generation logs assigned g)"
proof (rule group_inv_quiet [OF assms(1), where u = "[]"])
  fix q
  let ?c = "committed q (ks_trace (gp_state g))"
  obtain pre where pre: "logs q = pre @ reader_from ?c (logs q)" "\<forall>m\<in>set pre. sint (msg_Offset m) < sint ?c"
    using reader_from_suffix [OF assms(2)] by blast
  have "set pre \<subseteq> set (logs q)" by (subst pre(1)) simp
  with pre(2) have "\<forall>m\<in>set pre. settled m (ks_trace (gp_state g))"
    using assms(1) by (auto simp: group_inv_def)
  with pre(1) show "gp_parts (start_generation logs assigned g) q = gp_parts g q \<or>
      part_inv (ks_trace (gp_state g) @ []) (logs q) (gp_parts (start_generation logs assigned g) q)"
    by (auto simp: start_generation_def part_inv_def)
qed (auto simp: start_generation_def commits_def)

lemma fetch_batch_inv:
  assumes "group_inv logs g"
  shows "group_inv logs (fetch_batch L p order g)"
proof (cases "\<exists>rest. gp_parts g p = Reading rest \<and> order \<noteq> [] \<and> lane_order L (take (length order) rest) order")
  case True
  then obtain rest where rest: "gp_parts g p = Reading rest" "order \<noteq> []"
    "lane_order L (take (length order) rest) order" by blast
  then have same: "set order = set (take (length order) rest)" by (metis lane_order_mset set_mset_mset)
  obtain pre where "logs p = pre @ rest" "\<forall>m\<in>set pre. settled m (ks_trace (gp_state g))"
    using assms rest(1) by (auto simp: group_inv_def part_inv_def dest!: spec [of _ p])
  then have "part_inv (ks_trace (gp_state g)) (logs p)
      (Working (take (length order) rest) order (drop (length order) rest) [])"
    using rest(2) same by (auto simp: part_inv_def)
  then show ?thesis
    by (intro group_inv_quiet [OF assms, where u = "[]"]) (auto simp: fetch_batch_def rest commits_def)
next
  case False
  then have "fetch_batch L p order g = g" by (auto simp: fetch_batch_def split: partition_state.splits)
  with assms show ?thesis by simp
qed

lemma crash_inv: "group_inv logs g \<Longrightarrow> group_inv logs (crash g)"
  by (rule group_inv_quiet [where u = "[]"]) (auto simp: commits_def)

lemma work_message_inv:
  assumes "retry_once L" and "group_inv logs g"
  shows "group_inv logs (work_message L e handler cfg p g)"
proof (cases "\<exists>batch m todo rest errs. gp_parts g p = Working batch (m # todo) rest errs")
  case True
  then obtain batch m todo rest errs where at: "gp_parts g p = Working batch (m # todo) rest errs" by blast
  obtain r s where run: "handleRecoveryMessage L e handler cfg m (gp_state g) = (r, s)"
    by (cases "handleRecoveryMessage L e handler cfg m (gp_state g)")
  obtain tr where tr: "ks_trace s = ks_trace (gp_state g) @ tr" "\<not> commits tr" "r = Ok () \<longrightarrow> settled m tr"
    using handleRecoveryMessage_adds [OF assms(1) run] unfolding adds_def by blast
  have inv: "part_inv (ks_trace (gp_state g)) (logs p) (Working batch (m # todo) rest errs)"
    using assms(2) at unfolding group_inv_def by metis
  have "part_inv (ks_trace (gp_state g) @ tr) (logs p) (Working batch todo rest (errs @ [err]))" for err
    using part_inv_mono [OF inv, of tr] by (simp add: part_inv_def)
  moreover have "part_inv (ks_trace (gp_state g) @ tr) (logs p) (Working batch todo rest errs)" if "r = Ok ()"
    using part_inv_mono [OF inv, of tr] that tr(3) by (auto simp: part_inv_def settled_def)
  ultimately show ?thesis
    using tr(1,2)
    by (intro group_inv_quiet [OF assms(2), where u = tr])
      (auto simp: work_message_def at run split: res.splits)
next
  case False
  then have "work_message L e handler cfg p g = g"
    by (auto simp: work_message_def split: partition_state.splits list.splits)
  with assms(2) show ?thesis by simp
qed

text \<open>The end of a batch: what is committed is the offset after it, and only when no lane failed.\<close>

lemma finish_recovery_inv:
  assumes "group_inv logs g" and "\<And>p. log_ok p (logs p)"
  shows "group_inv logs (finish_recovery L p g)"
proof (cases "\<exists>batch rest errs. gp_parts g p = Working batch [] rest errs")
  case True
  then obtain batch rest errs where at: "gp_parts g p = Working batch [] rest errs" by blast
  let ?t = "ks_trace (gp_state g)"
  let ?c = "[(msg_Partition (last batch), msg_Offset (last batch) + 1)]"
  obtain pre where pre: "logs p = pre @ batch @ rest" "\<forall>m\<in>set pre. settled m ?t" "batch \<noteq> []"
    "\<forall>m\<in>set batch. errs \<noteq> [] \<or> settled m ?t"
    using assms(1) at by (auto simp: group_inv_def part_inv_def dest!: spec [of _ p])
  obtain f s where fin: "finish_batch L ''recovery batch was not committed'' id [last batch] (Ok errs, gp_state g) = (f, s)"
    by (cases "finish_batch L ''recovery batch was not committed'' id [last batch] (Ok errs, gp_state g)")
  then have out: "ks_trace s = ?t \<and> f \<noteq> Next \<or> ks_trace s = ?t @ [Committed ?c] \<and> errs = []"
    by (auto simp: finish_batch_def commit_messages_def Let_def record_act_def ticked_def
        split: list.splits prod.splits option.splits outcome.splits)
  have state: "gp_state (finish_recovery L p g) = s" "\<And>q. q \<noteq> p \<Longrightarrow> gp_parts (finish_recovery L p g) q = gp_parts g q"
    "gp_parts (finish_recovery L p g) p = (if f = Next then Reading rest else Closed)"
    using fin by (auto simp: finish_recovery_def at split: flow.splits)
  show ?thesis
  proof (cases "ks_trace s = ?t")
    case True
    with out have "f \<noteq> Next" by auto
    then have "gp_parts (finish_recovery L p g) q = gp_parts g q \<or>
        part_inv (?t @ []) (logs q) (gp_parts (finish_recovery L p g) q)" for q
      using state(2,3) by (cases "q = p") simp_all
    then show ?thesis
      by (intro group_inv_quiet [OF assms(1), where u = "[]"]) (simp_all add: commits_def state(1) True)
  next
    case False
    with out have trace: "ks_trace s = ?t @ [Committed ?c]" "errs = []" by auto
    have left: "\<forall>m\<in>set (pre @ batch). settled m (ks_trace s)"
      using pre trace by (auto intro: settled_mono)
    have last: "last batch \<in> set (logs p)" using pre(1,3) by simp
    then have place: "msg_Partition (last batch) = p"
      "sint (msg_Offset (last batch) + 1) = sint (msg_Offset (last batch)) + 1"
      using assms(2) [of p] by (auto simp: log_ok_def list_all_iff intro: sint_next)
    have below: "m \<in> set (pre @ batch)"
      if "m \<in> set (logs p)" "sint (msg_Offset m) < sint (msg_Offset (last batch) + 1)" for m
    proof (rule ccontr)
      assume "m \<notin> set (pre @ batch)"
      with that(1) pre(1) have "m \<in> set rest" by auto
      moreover have "sorted_wrt (\<lambda>m n. sint (msg_Offset m) < sint (msg_Offset n)) (pre @ batch @ rest)"
        using assms(2) [of p] pre(1) by (simp add: log_ok_def)
      ultimately have "sint (msg_Offset (last batch)) < sint (msg_Offset m)"
        using pre(3) by (auto simp: sorted_wrt_append)
      with that(2) place(2) show False by simp
    qed
    have commit: "committed q (ks_trace s) = (if q = p then msg_Offset (last batch) + 1 else committed q ?t)" for q
      by (auto simp: trace(1) committed_append place(1))
    show ?thesis
      unfolding group_inv_def state(1)
    proof (intro allI conjI ballI impI)
      fix q
      have old: "part_inv ?t (logs q) (gp_parts g q)" using assms(1) by (simp add: group_inv_def)
      show "part_inv (ks_trace s) (logs q) (gp_parts (finish_recovery L p g) q)"
      proof (cases "q = p")
        case True
        with state(3) left pre(1) show ?thesis
          by (auto simp: part_inv_def intro!: exI [of _ "pre @ batch"])
      next
        case False
        with state(2) part_inv_mono [OF old] show ?thesis by (simp add: trace(1))
      qed
      fix m
      assume m: "m \<in> set (logs q)" "sint (msg_Offset m) < sint (committed q (ks_trace s))"
      show "settled m (ks_trace s)"
      proof (cases "q = p")
        case True
        with m commit [of q] left below [of m] show ?thesis by simp
      next
        case False
        with m commit [of q] have "sint (msg_Offset m) < sint (committed q ?t)" by simp
        with m(1) assms(1) have "settled m ?t" by (simp add: group_inv_def)
        then show ?thesis unfolding trace(1) by (rule settled_mono)
      qed
    qed
  qed
next
  case False
  then have "finish_recovery L p g = g"
    by (auto simp: finish_recovery_def split: partition_state.splits list.splits)
  with assms(1) show ?thesis by simp
qed

lemma group_step_inv:
  assumes "retry_once L" and "\<And>p. log_ok p (logs p)" and "group_inv logs g"
  shows "group_inv logs (group_step L e handler cfg logs ev g)"
  using assms by (cases ev) (auto intro: start_generation_inv fetch_batch_inv work_message_inv finish_recovery_inv crash_inv)

lemma run_group_inv:
  assumes "retry_once L" and "\<And>p. log_ok p (logs p)" and "group_inv logs g"
  shows "group_inv logs (run_group L e handler cfg logs evs g)"
  using assms(3) by (induction evs arbitrary: g) (auto intro: group_step_inv assms(1,2))

lemma idle_group_inv:
  assumes "\<And>p. log_ok p (logs p)" and "ks_trace s = []"
  shows "group_inv logs (idle_group s)"
  using assms(1) by (force simp: group_inv_def idle_group_def all_closed_def assms(2) committed_def
      first_offset_def log_ok_def list_all_iff)

section \<open>Nothing is lost\<close>

text \<open>
  C10. Over any generations of the group, any batches of its partitions side by side, failed
  batches, lost commits, panics and crashes of the process between any two messages: every
  message of a partition below the offset committed for it is settled. Its handler succeeded,
  its event was claimed elsewhere, or it is in the dead-letter topic.
\<close>

theorem recovery_log_settled:
  assumes "retry_once L" and "\<And>p. log_ok p (logs p)" and "ks_trace s = []"
    and "tr = ks_trace (gp_state (run_group L e handler cfg logs evs (idle_group s)))"
    and "m \<in> set (logs p)" and "sint (msg_Offset m) < sint (committed p tr)"
  shows "settled m tr"
  using run_group_inv [OF assms(1,2) idle_group_inv [OF assms(2,3)], of e handler cfg evs] assms(4-6)
  unfolding group_inv_def by blast


definition gap_log :: "int64 \<Rightarrow> message list" where
  "gap_log p = (if p = 0 then [sample_message ''g1'' 1, sample_message ''g2'' 2, sample_message ''g1'' 5] else [])"

text \<open>A crash in the middle of the second batch, and a generation after it.\<close>

definition crashed_run :: "group_event list" where
  "crashed_run =
     [Generation [0], Fetched 0 [sample_message ''g1'' 1, sample_message ''g2'' 2], Worked 0, Worked 0, Finished 0,
      Fetched 0 [sample_message ''g1'' 5], Crashed, Generation [0]]"

definition crashed_group :: group_state where
  "crashed_group = run_group sample_klib sample_env rejecting sample_topic gap_log crashed_run (idle_group sample_kstate)"

lemma gap_log_ok: "log_ok p (gap_log p)"
  by (simp add: log_ok_def gap_log_def sample_message_def)

lemma single_lane_order: "lane_order L batch batch"
  by (simp add: lane_order_def list_all_iff)

lemma crashed_group_commits: "committed 0 (ks_trace (gp_state crashed_group)) = 3"
  by (simp add: crashed_group_def crashed_run_def idle_group_def start_generation_def fetch_batch_def
      work_message_def finish_recovery_def crash_def all_closed_def gap_log_def reader_from_def batch_limit_def
      committed_def first_offset_def single_lane_order finish_batch_def sample_message_def
      handleRecoveryMessage_def recovery_attempt_def kstep_defs sample_klib_def sample_kstate_def rejecting_def
      domP_def failP_def Let_def event_identity_def is_working_def)

lemma recovery_log_settled_witness: "settled (sample_message ''g2'' 2) (ks_trace (gp_state crashed_group))"
proof (rule recovery_log_settled [OF sample_retry gap_log_ok])
  show "ks_trace (gp_state crashed_group) = ks_trace (gp_state (run_group sample_klib sample_env rejecting sample_topic
      gap_log crashed_run (idle_group sample_kstate)))"
    by (simp add: crashed_group_def)
  show "sint (msg_Offset (sample_message ''g2'' 2)) < sint (committed 0 (ks_trace (gp_state crashed_group)))"
    by (simp add: crashed_group_commits sample_message_def)
qed (simp_all add: sample_kstate_def gap_log_def)

section \<open>Nothing is stuck\<close>

text \<open>Kafka at hand: every write and commit succeeds, every dead-letter record can be built.\<close>

definition kafka_up :: "klib \<Rightarrow> bool" where
  "kafka_up L \<longleftrightarrow> (\<forall>n. kl_write L n = None \<and> kl_commit L n = Done) \<and>
     (\<forall>m a x. \<exists>b. kl_dlq_record L m a x = Inr b)"

definition never_panics :: "env \<Rightarrow> (bytes \<Rightarrow> unit prog) \<Rightarrow> bool" where
  "never_panics e handler \<longleftrightarrow> (\<forall>b w. fst (handler b e w) \<noteq> Panic)"

text \<open>Batches that take a log from its start to its end, and their steps.\<close>

fun batch_plan :: "klib \<Rightarrow> message list \<Rightarrow> message list list \<Rightarrow> bool" where
  "batch_plan L rest [] = (rest = [])"
| "batch_plan L rest (order # plan) =
     (order \<noteq> [] \<and> length order \<le> batch_limit \<and> lane_order L (take (length order) rest) order \<and>
      batch_plan L (drop (length order) rest) plan)"

definition batch_events :: "int64 \<Rightarrow> message list \<Rightarrow> group_event list" where
  "batch_events p order = Fetched p order # replicate (length order) (Worked p) @ [Finished p]"

lemma handleRecoveryMessage_ok:
  assumes "kafka_up L" and "retry_once L" and "never_panics e handler"
  shows "fst (handleRecoveryMessage L e handler cfg m s) = Ok ()"
proof -
  have attempt: "fst (recovery_attempt L e handler cfg m 1 t) \<noteq> Panic" for t
  proof -
    obtain r u where "claim_event L (cc_Subject cfg) m (t\<lparr>ks_attempts := 1\<rparr>) = (r, u)"
      by (cases "claim_event L (cc_Subject cfg) m (t\<lparr>ks_attempts := 1\<rparr>)")
    moreover have "fst (handler (msg_Value m) e (ks_world u)) \<noteq> Panic" using assms(3) by (simp add: never_panics_def)
    ultimately show ?thesis
      by (auto simp: recovery_attempt_def Let_def call_handler_def split: sum.splits bool.splits prod.splits res.splits)
  qed
  obtain r t where run: "recovery_attempt L e handler cfg m 1 (s\<lparr>ks_attempts := 0\<rparr>) = (r, t)"
    by (cases "recovery_attempt L e handler cfg m 1 (s\<lparr>ks_attempts := 0\<rparr>)")
  with attempt [of "s\<lparr>ks_attempts := 0\<rparr>"] have "r \<noteq> Panic" by simp
  moreover have "kl_dlq_record L m n x \<noteq> Inl y" "kl_write L n = None" for n x y
    using assms(1) by (auto simp: kafka_up_def) (metis Inl_Inr_False)
  ultimately show ?thesis
    using run assms(2)
    by (cases r) (auto simp: handleRecoveryMessage_def retry_once_def deadLetterMessage_def split: sum.splits)
qed

lemma each_message_ok:
  "(\<And>m s. fst (f m s) = Ok ()) \<Longrightarrow> fst (each_message f ms s) = Ok []"
proof (induction ms arbitrary: s)
  case (Cons m ms)
  then obtain t where "f m s = (Ok (), t)" by (metis prod.collapse)
  with Cons show ?case by simp
qed simp

lemma runRecoveryBatch_commits:
  assumes "kafka_up L" and "retry_once L" and "never_panics e handler"
  shows "\<exists>s' tr. runRecoveryBatch L e handler cfg batch order s = (Next, s') \<and>
    ks_trace s' = tr @ [Committed [(msg_Partition (last batch), msg_Offset (last batch) + 1)]]"
proof -
  obtain t where "each_message (handleRecoveryMessage L e handler cfg) order s = (Ok [], t)"
    using each_message_ok [of "handleRecoveryMessage L e handler cfg" order s, OF handleRecoveryMessage_ok [OF assms]]
    by (metis prod.collapse)
  moreover have "kl_commit L (ks_tick t) = Done" using assms(1) by (simp add: kafka_up_def)
  ultimately show ?thesis
    by (simp add: runRecoveryBatch_def finish_batch_def commit_messages_def Let_def record_act_def ticked_def)
qed

lemma plan_drains:
  assumes "kafka_up L" and "retry_once L" and "never_panics e handler"
    and "gp_parts g p = Reading rest" and "batch_plan L rest plan" and "rest \<noteq> []"
    and "list_all (\<lambda>m. msg_Partition m = p) rest"
  shows "committed p (ks_trace (gp_state (run_group L e handler cfg logs (concat (map (batch_events p) plan)) g))) =
    msg_Offset (last rest) + 1"
  using assms(4-7)
proof (induction plan arbitrary: g rest)
  case (Cons order plan)
  let ?batch = "take (length order) rest" and ?rest = "drop (length order) rest"
  obtain s tr where run: "runRecoveryBatch L e handler cfg ?batch order (gp_state g) = (Next, s)"
    "ks_trace s = tr @ [Committed [(msg_Partition (last ?batch), msg_Offset (last ?batch) + 1)]]"
    using runRecoveryBatch_commits [OF assms(1-3)] by blast
  define g' where "g' = g\<lparr>gp_state := s, gp_parts := (gp_parts g)(p := Reading ?rest)\<rparr>"
  have step: "run_group L e handler cfg logs (batch_events p order) g = g'"
    using batch_alone [OF Cons.prems(1), of order L e handler cfg logs] Cons.prems(2) run
    by (simp add: batch_events_def after_batch_def g'_def)
  show ?case
  proof (cases "?rest = []")
    case True
    with Cons.prems(2) have "plan = []" by (cases plan) (auto simp: lane_order_def)
    moreover from True Cons.prems(3,4) have "last ?batch = last rest" "msg_Partition (last rest) = p"
      by (auto simp: list_all_iff)
    ultimately show ?thesis by (simp add: step g'_def run(2) committed_append)
  next
    case False
    have "batch_plan L ?rest plan" "list_all (\<lambda>m. msg_Partition m = p) ?rest"
      using Cons.prems(2,4) by (auto simp: list_all_iff dest: in_set_dropD)
    with False Cons.IH [of g' ?rest] show ?thesis by (simp add: step g'_def)
  qed
qed simp

text \<open>
  C15. With Kafka at hand and a handler that does not panic, one generation takes the log of a
  partition to its end, in whatever batches it is fetched and whatever the handler makes of its
  messages: the offset after the last message is committed, and every message is settled. A
  command that cannot be recovered goes to the dead-letter topic and does not hold up the others.
\<close>

theorem recovery_drains:
  assumes "kafka_up L" and "retry_once L" and "never_panics e handler"
    and "\<And>p. log_ok p (logs p)" and "ks_trace s = []" and "logs p \<noteq> []" and "batch_plan L (logs p) plan"
    and "g = run_group L e handler cfg logs (Generation [p] # concat (map (batch_events p) plan)) (idle_group s)"
  shows "committed p (ks_trace (gp_state g)) = msg_Offset (last (logs p)) + 1 \<and>
    list_all (\<lambda>m. settled m (ks_trace (gp_state g))) (logs p)"
proof -
  define g0 where "g0 = start_generation logs [p] (idle_group s)"
  have g0: "gp_parts g0 p = Reading (logs p)"
    by (simp add: g0_def start_generation_def idle_group_def assms(5) committed_def first_offset_def reader_from_def)
  have g: "g = run_group L e handler cfg logs (concat (map (batch_events p) plan)) g0"
    using assms(8) by (simp add: g0_def idle_group_def)
  have parts: "list_all (\<lambda>m. msg_Partition m = p) (logs p)"
    using assms(4) [of p] by (auto simp: log_ok_def list_all_iff)
  have all: "committed p (ks_trace (gp_state g)) = msg_Offset (last (logs p)) + 1"
    unfolding g by (rule plan_drains [OF assms(1-3) g0 assms(7,6) parts])
  have inv: "group_inv logs g"
    unfolding assms(8) by (rule run_group_inv [OF assms(2,4) idle_group_inv [OF assms(4,5)]])
  have "last (logs p) \<in> set (logs p)" using assms(6) by simp
  with assms(4) [of p] have "sint (msg_Offset (last (logs p)) + 1) = sint (msg_Offset (last (logs p))) + 1"
    by (auto simp: log_ok_def list_all_iff intro: sint_next)
  moreover have "sint (msg_Offset m) \<le> sint (msg_Offset (last (logs p)))" if "m \<in> set (logs p)" for m
  proof -
    obtain us where us: "logs p = us @ [last (logs p)]" using assms(6) by (metis append_butlast_last_id)
    have "sorted_wrt (\<lambda>m n. sint (msg_Offset m) < sint (msg_Offset n)) (us @ [last (logs p)])"
      using assms(4) [of p] us by (simp add: log_ok_def)
    moreover have "m \<in> set us \<or> m = last (logs p)" using that us by (metis Un_iff empty_iff empty_set insert_iff list.simps(15) set_append)
    ultimately show ?thesis by (auto simp: sorted_wrt_append)
  qed
  ultimately have "\<forall>m\<in>set (logs p). sint (msg_Offset m) < sint (committed p (ks_trace (gp_state g)))"
    using all by force
  with inv all show ?thesis by (simp add: group_inv_def list_all_iff)
qed

definition two_batches :: "message list list" where
  "two_batches = [[sample_message ''g1'' 1, sample_message ''g2'' 2], [sample_message ''g1'' 5]]"

lemma recovery_drains_witness:
  "list_all (\<lambda>m. settled m (ks_trace (gp_state (run_group sample_klib sample_env rejecting sample_topic gap_log
     (Generation [0] # concat (map (batch_events 0) two_batches)) (idle_group sample_kstate))))) (gap_log 0)"
proof -
  have "kafka_up sample_klib" "never_panics sample_env rejecting" "ks_trace sample_kstate = []" "gap_log 0 \<noteq> []"
    by (simp_all add: kafka_up_def sample_klib_def never_panics_def rejecting_def domP_def failP_def sample_kstate_def gap_log_def)
  moreover have "batch_plan sample_klib (gap_log 0) two_batches"
    by (simp add: two_batches_def gap_log_def batch_limit_def single_lane_order)
  ultimately show ?thesis using recovery_drains [OF _ sample_retry _ gap_log_ok] by blast
qed

end
