(* ===== verification/ProjectionRun.thy ===== *)
theory ProjectionRun
  imports KafkaClaims
begin

text \<open>
  The loop of \<open>runProjectionBatchConsumer\<close>: it fetches a batch, hands it to its workers, commits it
  and goes on until a fetch, a batch or a commit fails. The replies of the reader are a list; in
  which order the eight workers take the messages of the n-th batch is the parameter \<open>sched\<close>.
\<close>

section \<open>The loop\<close>

datatype fetch = Fetched message | FetchFailed gerr

text \<open>The messages a batch takes after its first: a fetch that fails or times out closes the batch.\<close>

fun gather :: "nat \<Rightarrow> fetch list \<Rightarrow> message list \<times> fetch list" where
  "gather n [] = ([], [])"
| "gather n (x # fs) =
     (if n = 0 then ([], x # fs)
      else case x of
             FetchFailed _ \<Rightarrow> ([], fs)
           | Fetched m \<Rightarrow> (case gather (n - 1) fs of (ms, rest) \<Rightarrow> (m # ms, rest)))"

lemma gather_length: "length (snd (gather n fs)) \<le> length fs"
  by (induction n fs rule: gather.induct) (auto split: prod.splits fetch.splits)

text \<open>Without a reply left the consumer is still waiting for its next batch, which is \<open>Next\<close>.\<close>

function runProjectionBatchConsumer ::
    "klib \<Rightarrow> env \<Rightarrow> (bytes \<Rightarrow> unit prog) \<Rightarrow> consumer_config \<Rightarrow> (nat \<Rightarrow> message list \<Rightarrow> message list) \<Rightarrow> nat \<Rightarrow>
     fetch list \<Rightarrow> kstate \<Rightarrow> flow \<times> kstate" where
  "runProjectionBatchConsumer L e handler cfg sched n [] s = (Next, s)"
| "runProjectionBatchConsumer L e handler cfg sched n (FetchFailed err # fs) s =
     (Stop (Some (Wrap (''fetch projection batch topic='' @ cc_Subject cfg) err)), s)"
| "runProjectionBatchConsumer L e handler cfg sched n (Fetched m # fs) s =
     (let batch = m # fst (gather 31 fs)
      in case projection_batch L e handler cfg batch (sched n batch) s of
           (Next, s) \<Rightarrow> runProjectionBatchConsumer L e handler cfg sched (Suc n) (snd (gather 31 fs)) s
         | (f, s) \<Rightarrow> (f, s))"
  by pat_completeness auto
termination
  by (relation "measure (\<lambda>(L, e, handler, cfg, sched, n, fs, s). length fs)")
    (auto simp: less_Suc_eq_le gather_length)

section \<open>Batches\<close>

fun fetched :: "fetch list \<Rightarrow> message list" where
  "fetched [] = []"
| "fetched (Fetched m # fs) = m # fetched fs"
| "fetched (FetchFailed _ # fs) = fetched fs"

text \<open>A batch has at most its bound of messages, the next of the log, and loses none of them.\<close>

lemma gather_fetched: "fst (gather n fs) @ fetched (snd (gather n fs)) = fetched fs"
  by (induction n fs rule: gather.induct) (auto split: prod.splits fetch.splits)

lemma gather_bound: "length (fst (gather n fs)) \<le> n"
  by (induction n fs rule: gather.induct) (auto split: prod.splits fetch.splits)

text \<open>What a trace has committed, in order.\<close>

fun commit_of :: "action \<Rightarrow> (int64 \<times> int64) list" where
  "commit_of (Committed c) = c"
| "commit_of _ = []"

definition commit_log :: "action list \<Rightarrow> (int64 \<times> int64) list" where
  "commit_log t = concat (map commit_of t)"

definition after :: "message \<Rightarrow> int64 \<times> int64" where
  "after m = (msg_Partition m, msg_Offset m + 1)"

lemma commit_log_simps [simp]:
  "commit_log [] = []" "commit_log (t @ u) = commit_log t @ commit_log u" "commit_log [Committed c] = c"
  by (simp_all add: commit_log_def)

lemma commit_of_none: "(\<And>c. a \<noteq> Committed c) \<Longrightarrow> commit_of a = []"
  by (cases a) auto

lemma commit_log_none: "\<not> commits t \<Longrightarrow> commit_log t = []"
  unfolding commit_log_def commits_def by (auto intro: commit_of_none)

text \<open>How a batch ends: committed as a whole and settled, or not committed at all.\<close>

lemma projection_batch_ends:
  assumes "retry_once L" and "set order = set batch"
    and "projection_batch L e handler cfg batch order s = (f, s')"
  obtains tr where "ks_trace s' = ks_trace s @ tr"
    and "commit_log tr = map after batch \<and> (\<forall>m\<in>set batch. settled m tr) \<or> commit_log tr = [] \<and> f \<noteq> Next"
proof -
  obtain r s1 where run: "each_message (project_message L e handler cfg) order s = (r, s1)"
    by (cases "each_message (project_message L e handler cfg) order s")
  from assms(3) have "finish_batch L (''projection batch failed topic='' @ cc_Subject cfg)
       (Wrap (''commit projection batch topic='' @ cc_Subject cfg)) batch (r, s1) = (f, s')"
    by (simp add: projection_batch_def run)
  from projection_step.finish_batch_log [OF assms(1) run this] obtain t u
    where trace: "ks_trace s' = ks_trace s @ t @ u" and quiet: "\<not> commits t"
      and u: "u = [] \<or> u = [Committed (map (\<lambda>m. (msg_Partition m, msg_Offset m + 1)) batch)]"
      and fin: "u \<noteq> [] \<Longrightarrow> \<forall>m\<in>set order. settled m t" "f = Next \<Longrightarrow> u \<noteq> []" by blast
  have "settled m t \<Longrightarrow> settled m (t @ u)" for m by (auto simp: settled_def)
  with u fin quiet assms(2) have "commit_log (t @ u) = map after batch \<and> (\<forall>m\<in>set batch. settled m (t @ u)) \<or>
      commit_log (t @ u) = [] \<and> f \<noteq> Next"
    by (auto simp: commit_log_none after_def)
  with trace show thesis by (rule that)
qed

section \<open>The log of projections\<close>

text \<open>What a run of the consumer has settled and committed of its messages, and what is left over.\<close>

definition settled_part :: "message list \<Rightarrow> message list \<Rightarrow> message list \<Rightarrow> action list \<Rightarrow> bool" where
  "settled_part log front rest tr \<longleftrightarrow>
     log = front @ rest \<and> commit_log tr = map after front \<and> (\<forall>m\<in>set front. settled m tr)"

lemma settled_append: "settled m t \<or> settled m u \<Longrightarrow> settled m (t @ u)"
  by (auto simp: settled_def)

lemma settled_part_none: "commit_log tr = [] \<Longrightarrow> settled_part log [] log tr"
  by (simp add: settled_part_def)

lemma settled_part_cons:
  assumes "commit_log t = map after batch" and "\<forall>m\<in>set batch. settled m t" and "settled_part log front rest u"
  shows "settled_part (batch @ log) (batch @ front) rest (t @ u)"
  using assms by (auto simp: settled_part_def intro: settled_append)

lemma projection_run_settles:
  assumes "retry_once L" and "\<And>k batch. set (sched k batch) = set batch"
    and "runProjectionBatchConsumer L e handler cfg sched n fs s = (f, s')"
  shows "\<exists>front rest tr. ks_trace s' = ks_trace s @ tr \<and> settled_part (fetched fs) front rest tr \<and>
    (f = Next \<longrightarrow> rest = [])"
  using assms(3)
proof (induction fs arbitrary: n s rule: length_induct)
  case (1 fs)
  consider "fs = []" | err gs where "fs = FetchFailed err # gs" | m gs where "fs = Fetched m # gs"
    by (cases fs rule: fetched.cases) auto
  then show ?case
  proof cases
    case 1
    with "1.prems" show ?thesis
      by (intro exI [of _ "[]"]) (simp add: settled_part_def)
  next
    case (2 err gs)
    with "1.prems" show ?thesis
      by (intro exI [of _ "[]"] exI [of _ "fetched fs"]) (auto simp: settled_part_none)
  next
    case (3 m gs)
    let ?batch = "m # fst (gather 31 gs)" and ?left = "snd (gather 31 gs)"
    have log: "fetched fs = ?batch @ fetched ?left" using 3 by (simp add: gather_fetched)
    obtain f1 s1 where run: "projection_batch L e handler cfg ?batch (sched n ?batch) s = (f1, s1)"
      by (cases "projection_batch L e handler cfg ?batch (sched n ?batch) s")
    from projection_batch_ends [OF assms(1,2) run] obtain t where t: "ks_trace s1 = ks_trace s @ t"
      "commit_log t = map after ?batch \<and> (\<forall>m\<in>set ?batch. settled m t) \<or> commit_log t = [] \<and> f1 \<noteq> Next"
      by blast
    show ?thesis
    proof (cases "f1 = Next")
      case True
      then have "runProjectionBatchConsumer L e handler cfg sched (Suc n) ?left s1 = (f, s')"
        using "1.prems" run 3 by simp
      moreover have "length ?left < length fs" using gather_length [of 31 gs] 3 by simp
      ultimately obtain front rest u where u: "ks_trace s' = ks_trace s1 @ u" "settled_part (fetched ?left) front rest u"
        "f = Next \<longrightarrow> rest = []" using "1.IH" by blast
      from t(2) True have "settled_part (?batch @ fetched ?left) (?batch @ front) rest (t @ u)"
        by (intro settled_part_cons [OF _ _ u(2)]) simp_all
      then have "settled_part (fetched fs) (?batch @ front) rest (t @ u)" unfolding log .
      moreover have "ks_trace s' = ks_trace s @ t @ u" using t(1) u(1) by simp
      ultimately show ?thesis using u(3) by blast
    next
      case False
      then have stop: "f = f1" "s' = s1" using "1.prems" run 3 by (auto split: flow.splits)
      from t(2) show ?thesis
      proof
        assume "commit_log t = map after ?batch \<and> (\<forall>m\<in>set ?batch. settled m t)"
        then have "settled_part (fetched fs) ?batch (fetched ?left) t" using log by (simp add: settled_part_def)
        with t(1) stop False show ?thesis by blast
      next
        assume "commit_log t = [] \<and> f1 \<noteq> Next"
        then show ?thesis using t(1) stop settled_part_none by blast
      qed
    qed
  qed
qed

text \<open>
  C11. Whatever the reader replies, the handler does and the workers' order is, the projection
  consumer commits exactly the offsets after an initial part of the messages it fetched, in the
  order of the log, and every message of that part was settled: its handler succeeded, its
  event is claimed elsewhere, or it was written to the dead-letter topic. What is left over is
  never committed, and while the consumer has not stopped there is nothing left over.
\<close>

theorem projection_log_settled:
  assumes "retry_once L" and "\<And>k batch. set (sched k batch) = set batch"
    and "runProjectionBatchConsumer L e handler cfg sched n fs s = (f, s')"
  shows "\<exists>front rest tr. fetched fs = front @ rest \<and> ks_trace s' = ks_trace s @ tr \<and>
    commit_log tr = map after front \<and> (\<forall>m\<in>set front. settled m tr) \<and> (f = Next \<longrightarrow> rest = [])"
  using projection_run_settles [OF assms] by (auto simp: settled_part_def)

text \<open>Two batches, the workers taking each backwards; the second is left over, its writes failing.\<close>

definition two_batches :: "fetch list" where
  "two_batches = [Fetched (sample_message ''g1'' 1), Fetched (sample_message ''g2'' 2), FetchFailed RedisNil,
     Fetched (sample_message ''g1'' 3)]"

definition failing_writes :: klib where
  "failing_writes = sample_klib\<lparr>kl_write := \<lambda>n. if n < 8 then None else Some RedisNil\<rparr>"

definition two_batches_run :: "flow \<times> kstate" where
  "two_batches_run = runProjectionBatchConsumer failing_writes sample_env rejecting sample_topic (\<lambda>k. rev) 0 two_batches sample_kstate"

lemma two_batches_commits: "commit_log (ks_trace (snd two_batches_run)) = [(0, 2), (0, 3)]"
  by (simp add: two_batches_run_def two_batches_def failing_writes_def sample_message_def projection_batch_def
      finish_batch_def project_message_def project_attempt_def kstep_defs sample_klib_def sample_kstate_def
      rejecting_def domP_def failP_def Let_def event_identity_def commit_log_def)

lemma projection_log_settled_witness:
  "settled (sample_message ''g1'' 1) (ks_trace (snd two_batches_run)) \<and>
   settled (sample_message ''g2'' 2) (ks_trace (snd two_batches_run))"
proof -
  have "retry_once failing_writes" by (simp add: retry_once_def failing_writes_def sample_klib_def)
  moreover have "set (rev batch) = set batch" for batch :: "message list" by simp
  ultimately obtain front rest tr where log: "fetched two_batches = front @ rest"
    and tr: "ks_trace (snd two_batches_run) = ks_trace sample_kstate @ tr" "commit_log tr = map after front"
    and settled: "\<forall>m\<in>set front. settled m tr"
    using projection_log_settled [of failing_writes "\<lambda>k. rev" sample_env rejecting sample_topic 0 two_batches
      sample_kstate "fst two_batches_run" "snd two_batches_run"]
    unfolding two_batches_run_def by auto
  have all: "ks_trace (snd two_batches_run) = tr" using tr(1) by (simp add: sample_kstate_def)
  with tr(2) two_batches_commits have "map after front = [(0, 2), (0, 3)]" by simp
  from arg_cong [OF this, of length] have "length front = 2" by simp
  then have "front = take 2 (fetched two_batches)" using log by simp
  then have "front = [sample_message ''g1'' 1, sample_message ''g2'' 2]" by (simp add: two_batches_def)
  with settled all show ?thesis by simp
qed

end
