(* ===== verification/WindowClaims.thy ===== *)
theory WindowClaims
  imports ReadClaims
begin

text \<open>
  What writing a preview window does to the previews in it: each is stored whole, under its own key,
  until the time to live of the window is over, and then it is gone for every reader, the list of its
  owner included, whose index goes on naming it.
\<close>

section \<open>Pipelines\<close>






section \<open>The commands of a window\<close>





section \<open>Windows and the owner's list\<close>








text \<open>
  The preview that \<open>AppendPreviewGig\<close> puts in a window carries no statistics: written over the
  one \<open>UpsertPreviewGig\<close> has just stored, it takes the rating, the reviews and the orders away.
\<close>

lemma appended_preview_unrated:
  "pv_RatingAvg ((toPreview g None None None)\<lparr>pv_PopularityScore := 0\<rparr>) = 0"
  "pv_TotalReviews ((toPreview g None None None)\<lparr>pv_PopularityScore := 0\<rparr>) = 0"
  "pv_OrderCount ((toPreview g None None None)\<lparr>pv_PopularityScore := 0\<rparr>) = 0"
  by (simp_all add: toPreview_def)

end
