(* ===== verification/Storage.thy ===== *)
theory Storage
  imports Startup "HOL-Library.Sublist"
begin

text \<open>
  The connections of the stores: \<open>pkg/storage/postgres\<close> (the migrations, the connection pool, the
  transaction helper), \<open>pkg/storage/redis\<close>, and their configuration. The drivers, the file system
  and the migration tool are parameters; the connection strings are built as the code builds them,
  \<open>url.QueryEscape\<close> included.
\<close>

record DBConfig =
  db_Host :: string
  db_Port :: int64
  db_User :: string
  db_Password :: string
  db_Name :: string
  db_SSLMode :: string
  db_MaxOpenConns :: int64
  db_MaxIdleConns :: int64
  db_ConnMaxLifetime :: int64
  db_MigrationsPath :: string
  db_MigrationsTable :: string

record RedisConfig =
  rc_Host :: string
  rc_Port :: int64
  rc_Password :: string
  rc_DB :: int64

section \<open>Connection strings\<close>

definition in_range :: "char \<Rightarrow> char \<Rightarrow> char \<Rightarrow> bool" where
  "in_range lo hi c \<longleftrightarrow> lo \<le> c \<and> c \<le> hi"

definition unreserved :: "char \<Rightarrow> bool" where
  "unreserved c \<longleftrightarrow>
     list_ex (\<lambda>(lo, hi). in_range lo hi c)
       [(CHR ''a'', CHR ''z''), (CHR ''A'', CHR ''Z''), (CHR ''0'', CHR ''9'')] \<or> c \<in> set ''-_.~''"

definition hex_digit :: "nat \<Rightarrow> char" where
  "hex_digit n = ''0123456789ABCDEF'' ! (n mod 16)"

text \<open>\<open>url.QueryEscape\<close>: a space is a plus sign, any other reserved byte a percent sign and two digits.\<close>

definition escape_char :: "char \<Rightarrow> string" where
  "escape_char c =
     (if unreserved c then [c]
      else if c = CHR '' '' then ''+''
      else [CHR 0x25, hex_digit (of_char c div 16), hex_digit (of_char c)])"

definition QueryEscape :: "string \<Rightarrow> string" where
  "QueryEscape s = concat (map escape_char s)"

definition migrations_dsn :: "DBConfig \<Rightarrow> string" where
  "migrations_dsn cfg =
     ''postgres://'' @ QueryEscape (db_User cfg) @ '':'' @ QueryEscape (db_Password cfg) @ ''@'' @ db_Host cfg @
     '':'' @ show_int (sint (db_Port cfg)) @ ''/'' @ db_Name cfg @ ''?sslmode='' @ db_SSLMode cfg @
     ''&x-migrations-table='' @ QueryEscape (db_MigrationsTable cfg)"

definition pool_dsn :: "DBConfig \<Rightarrow> string" where
  "pool_dsn cfg =
     ''postgres://'' @ db_User cfg @ '':'' @ db_Password cfg @ ''@'' @ db_Host cfg @
     '':'' @ show_int (sint (db_Port cfg)) @ ''/'' @ db_Name cfg @ ''?sslmode='' @ db_SSLMode cfg"

section \<open>Migrations\<close>

text \<open>
  \<open>filepath.Abs\<close> is a parameter, with its error; \<open>up\<close> is the result of the migration tool on a source
  and a database: its creation fails, or \<open>Up\<close> fails, has nothing to do, or succeeds.
\<close>

datatype migration = NotCreated gerr | NoChange | UpFailed gerr | Migrated

definition WrapResolveMigrationsPathError :: "gerr \<Rightarrow> gerr" where
  "WrapResolveMigrationsPathError = Wrap ''resolve migrations path''"

definition WrapCreateMigratorError :: "gerr \<Rightarrow> gerr" where
  "WrapCreateMigratorError = Wrap ''create migrator''"

definition WrapRunMigrationsError :: "gerr \<Rightarrow> gerr" where
  "WrapRunMigrationsError = Wrap ''run migrations''"

definition migration_source :: "(string \<Rightarrow> gerr + string) \<Rightarrow> string \<Rightarrow> gerr + string" where
  "migration_source absolute path =
     (if has_prefix path ''file://'' \<and> \<not> has_prefix (drop (length ''file://'') path) ''/'' then
        (case absolute (drop (length ''file://'') path) of
           Inl err \<Rightarrow> Inl (WrapResolveMigrationsPathError err)
         | Inr full \<Rightarrow> Inr (''file://'' @ full))
      else Inr path)"

definition RunMigrations :: "(string \<Rightarrow> gerr + string) \<Rightarrow> (string \<Rightarrow> string \<Rightarrow> migration) \<Rightarrow> DBConfig \<Rightarrow> gerr option" where
  "RunMigrations absolute up cfg =
     (case migration_source absolute (db_MigrationsPath cfg) of
        Inl err \<Rightarrow> Some err
      | Inr path \<Rightarrow>
          (case up path (migrations_dsn cfg) of
             NotCreated err \<Rightarrow> Some (WrapCreateMigratorError err)
           | NoChange \<Rightarrow> None
           | UpFailed err \<Rightarrow> Some (WrapRunMigrationsError err)
           | Migrated \<Rightarrow> None))"

section \<open>Connections\<close>

record pool_settings =
  po_MaxOpenConns :: int64
  po_MaxIdleConns :: int64
  po_ConnMaxLifetime :: int64
  po_ConnMaxIdleTime :: int64

text \<open>\<open>register\<close> is the error of the instrumented driver, \<open>connect\<close> that of a connection string.\<close>

definition WrapOpenDBError :: "gerr \<Rightarrow> gerr" where
  "WrapOpenDBError = Wrap ''open db''"

definition postgres_Open :: "gerr option \<Rightarrow> (string \<Rightarrow> gerr option) \<Rightarrow> DBConfig \<Rightarrow> gerr + pool_settings" where
  "postgres_Open register connect cfg =
     (case register of
        Some err \<Rightarrow> Inl (WrapOpenDBError err)
      | None \<Rightarrow>
          (case connect (pool_dsn cfg) of
             Some err \<Rightarrow> Inl (WrapOpenDBError err)
           | None \<Rightarrow> Inr \<lparr>po_MaxOpenConns = db_MaxOpenConns cfg, po_MaxIdleConns = db_MaxIdleConns cfg,
               po_ConnMaxLifetime = db_ConnMaxLifetime cfg, po_ConnMaxIdleTime = 120000000000\<rparr>))"

text \<open>The steps of a transaction: begun, rolled back after an error of the callback, or committed.\<close>

datatype tx_step = TxBegin | TxRollback | TxCommit

definition WithTx :: "gerr option \<Rightarrow> gerr option \<Rightarrow> gerr option \<Rightarrow> gerr option \<times> tx_step list" where
  "WithTx begin_error callback commit_error =
     (case begin_error of
        Some err \<Rightarrow> (Some err, [])
      | None \<Rightarrow>
          (case callback of
             Some err \<Rightarrow> (Some err, [TxBegin, TxRollback])
           | None \<Rightarrow> (commit_error, [TxBegin, TxCommit])))"

text \<open>\<open>tracing\<close> is the error of the instrumentation, \<open>ping\<close> that of the ping with its retries.\<close>

definition redis_addr :: "RedisConfig \<Rightarrow> string" where
  "redis_addr cfg = rc_Host cfg @ '':'' @ show_int (sint (rc_Port cfg))"

definition WrapRedisPingError :: "gerr \<Rightarrow> gerr" where
  "WrapRedisPingError = Wrap ''ping redis''"

definition redis_Open :: "gerr option \<Rightarrow> (string \<Rightarrow> string \<Rightarrow> int64 \<Rightarrow> gerr option) \<Rightarrow> RedisConfig \<Rightarrow> gerr option" where
  "redis_Open tracing ping cfg =
     (case tracing of
        Some err \<Rightarrow> Some err
      | None \<Rightarrow> map_option WrapRedisPingError (ping (redis_addr cfg) (rc_Password cfg) (rc_DB cfg)))"

section \<open>The circuit breaker around Redis commands\<close>

text \<open>
  \<open>guard\<close> is \<open>DoClassified\<close> of the breaker, with the classification of the errors it counts; a call changes
  the server and returns an error or none.
\<close>

type_synonym 'w call = "'w \<Rightarrow> gerr option \<times> 'w"

definition ProcessHook :: "('w call \<Rightarrow> (gerr \<Rightarrow> bool) \<Rightarrow> 'w call) \<Rightarrow> (gerr \<Rightarrow> bool) \<Rightarrow> ('c \<Rightarrow> 'w call) \<Rightarrow> 'c \<Rightarrow> 'w call" where
  "ProcessHook guard transient next cmd = guard (next cmd) transient"

definition ProcessPipelineHook ::
    "('w call \<Rightarrow> (gerr \<Rightarrow> bool) \<Rightarrow> 'w call) \<Rightarrow> (gerr \<Rightarrow> bool) \<Rightarrow> ('c list \<Rightarrow> 'w call) \<Rightarrow> 'c list \<Rightarrow> 'w call" where
  "ProcessPipelineHook guard transient next cmds = guard (next cmds) transient"

text \<open>
  When a breaker makes its call once or refuses it, commands through the hook leave the server as some
  of the commands, in their order, leave it without the hook.
\<close>

lemma hooked_commands:
  assumes "\<And>f w. guard f transient w = f w \<or> (\<exists>err. guard f transient w = (Some err, w))"
  shows "\<exists>sent. subseq sent cmds \<and>
    fold (\<lambda>c w. snd (ProcessHook guard transient next c w)) cmds w = fold (\<lambda>c w. snd (next c w)) sent w"
proof (induction cmds arbitrary: w)
  case (Cons c cmds)
  from assms [of "next c" w] consider "ProcessHook guard transient next c w = next c w"
    | err where "ProcessHook guard transient next c w = (Some err, w)"
    unfolding ProcessHook_def by blast
  then show ?case
  proof cases
    case 1
    from Cons [of "snd (next c w)"] obtain sent where "subseq sent cmds"
      "fold (\<lambda>c w. snd (ProcessHook guard transient next c w)) cmds (snd (next c w)) = fold (\<lambda>c w. snd (next c w)) sent (snd (next c w))"
      by blast
    with 1 show ?thesis by (intro exI [of _ "c # sent"]) simp
  next
    case 2
    from Cons [of w] obtain sent where "subseq sent cmds"
      "fold (\<lambda>c w. snd (ProcessHook guard transient next c w)) cmds w = fold (\<lambda>c w. snd (next c w)) sent w"
      by blast
    with 2 show ?thesis by (intro exI [of _ sent]) auto
  qed
qed (simp add: exI [of _ "[]"])

section \<open>Facts\<close>

lemma QueryEscape_unreserved: "list_all unreserved s \<Longrightarrow> QueryEscape s = s"
  by (induction s) (simp_all add: QueryEscape_def escape_char_def)

text \<open>An escaped text cannot end the part of the connection string it stands in.\<close>

lemma hex_digit_unreserved: "unreserved (hex_digit n)"
proof -
  have "list_all (\<lambda>k. unreserved (''0123456789ABCDEF'' ! k)) [0..<16]" by code_simp
  then show ?thesis by (simp add: hex_digit_def list_all_iff)
qed

lemma escape_char_safe: "c \<in> set (escape_char d) \<Longrightarrow> unreserved c \<or> c = CHR ''+'' \<or> c = CHR 0x25"
  by (auto simp: escape_char_def hex_digit_unreserved split: if_splits)

lemma QueryEscape_safe: "c \<in> set (QueryEscape s) \<Longrightarrow> unreserved c \<or> c = CHR ''+'' \<or> c = CHR 0x25"
  by (auto simp: QueryEscape_def dest: escape_char_safe)

lemma escape_no_separator: "CHR ''@'' \<notin> set (QueryEscape s)" "CHR '':'' \<notin> set (QueryEscape s)"
proof -
  have "\<not> unreserved (CHR ''@'')" "\<not> unreserved (CHR '':'')" by code_simp+
  then show "CHR ''@'' \<notin> set (QueryEscape s)" "CHR '':'' \<notin> set (QueryEscape s)"
    using QueryEscape_safe [of "CHR ''@''" s] QueryEscape_safe [of "CHR '':''" s] by auto
qed

section \<open>What a URL parser makes of the credentials\<close>

text \<open>
  \<open>net/url\<close> decodes the user and the password of a URL: percent sequences only, a plus sign stays.
\<close>

definition hex_value :: "char \<Rightarrow> nat option" where
  "hex_value c =
     (if in_range (CHR ''0'') (CHR ''9'') c then Some (of_char c - 48)
      else if in_range (CHR ''A'') (CHR ''F'') c then Some (of_char c - 55)
      else if in_range (CHR ''a'') (CHR ''f'') c then Some (of_char c - 87)
      else None)"

fun userinfo_decode :: "string \<Rightarrow> string option" where
  "userinfo_decode [] = Some []"
| "userinfo_decode (c # s) =
     (if c \<noteq> CHR 0x25 then map_option ((#) c) (userinfo_decode s)
      else case s of
             a # b # t \<Rightarrow>
               (case (hex_value a, hex_value b) of
                  (Some m, Some n) \<Rightarrow> map_option ((#) (char_of (16 * m + n))) (userinfo_decode t)
                | _ \<Rightarrow> None)
           | _ \<Rightarrow> None)"

definition plus_for_space :: "string \<Rightarrow> string" where
  "plus_for_space = map (\<lambda>c. if c = CHR '' '' then CHR ''+'' else c)"

lemma hex_value_digit: "hex_value (hex_digit n) = Some (n mod 16)"
proof -
  have "list_all (\<lambda>k. hex_value (''0123456789ABCDEF'' ! k) = Some k) [0..<16]" by code_simp
  then show ?thesis by (simp add: hex_digit_def list_all_iff)
qed

lemma decode_escape_char:
  "userinfo_decode (escape_char c @ t) =
     map_option ((#) (if c = CHR '' '' then CHR ''+'' else c)) (userinfo_decode t)"
proof -
  have percent: "\<not> unreserved (CHR 0x25)" "\<not> unreserved (CHR '' '')" by code_simp+
  have "(of_char c :: nat) div 16 < 16" using nat_of_char_less_256 [of c] by linarith
  moreover have "char_of (16 * ((of_char c :: nat) div 16) + of_char c mod 16) = c"
    by simp
  ultimately show ?thesis
    using percent by (auto simp: escape_char_def hex_value_digit)
qed

lemma decode_QueryEscape: "userinfo_decode (QueryEscape s) = Some (plus_for_space s)"
  by (induction s) (simp_all add: QueryEscape_def plus_for_space_def decode_escape_char)

end
