(* ===== verification/Analytics.thy ===== *)
theory Analytics
  imports ReadCodec
begin

text \<open>
  The reader of the popularity aggregates, \<open>internal/infra/analytics/clickhouse/client.go\<close>: its
  constructor, the request, and the decoding of the reply line by line. The server is a parameter;
  a line of its reply is a JSON document or other bytes.
\<close>

record ClickHouseConfig =
  ch_Endpoint :: string
  ch_User :: string
  ch_Password :: string
  ch_Database :: string
  ch_Table :: string

definition clickhouse_New :: "ClickHouseConfig \<Rightarrow> bool \<Rightarrow> gerr option" where
  "clickhouse_New cfg nil_log =
     (if TrimSpace (ch_Endpoint cfg) = [] then Some (Opaque ''empty clickhouse endpoint'')
      else if TrimSpace (ch_User cfg) = [] then Some (Opaque ''empty clickhouse user'')
      else if nil_log then Some (Opaque ''nil logger'')
      else None)"

section \<open>The request\<close>

definition unlines :: "string list \<Rightarrow> string" where
  "unlines ls = concat (map (\<lambda>l. l @ [CHR 0x0A]) ls)"

definition quote1 :: "string \<Rightarrow> string" where
  "quote1 s = [CHR 0x27] @ s @ [CHR 0x27]"

definition count_if :: "string \<Rightarrow> string \<Rightarrow> string" where
  "count_if operation days =
     ''operation = '' @ quote1 operation @ '' AND timestamp >= now() - INTERVAL '' @ days @ '' DAY''"

text \<open>The statement, as one string with the name of the table in it.\<close>

definition popularity_query :: "string \<Rightarrow> string" where
  "popularity_query table = unlines
     [[],
      ''SELECT'',
      ''    gig_id,'',
      ''    countIf('' @ count_if ''order.completed'' ''30'' @ '') AS completed_orders_last_30d,'',
      ''    countIf('' @ count_if ''review.create'' ''30'' @ '') AS reviews_count_last_30d,'',
      ''    countIf('' @ count_if ''gig.viewed'' ''7'' @ '') AS views_last_7d'',
      ''FROM '' @ table,
      ''WHERE gig_id != '' @ quote1 [],
      ''  AND ('',
      ''    ('' @ count_if ''order.completed'' ''30'' @ '') OR'',
      ''    ('' @ count_if ''review.create'' ''30'' @ '') OR'',
      ''    ('' @ count_if ''gig.viewed'' ''7'' @ '')'',
      ''  )'',
      ''GROUP BY gig_id'']"

text \<open>The request: the endpoint with two parameters set, and the credentials.\<close>

record clickhouse_request =
  cq_Endpoint :: string
  cq_Params :: "(string \<times> string) list"
  cq_User :: string
  cq_Password :: string

definition popularity_request :: "ClickHouseConfig \<Rightarrow> clickhouse_request" where
  "popularity_request cfg =
     \<lparr>cq_Endpoint = ch_Endpoint cfg,
      cq_Params = [(''query'', popularity_query (ch_Table cfg)), (''default_format'', ''JSONEachRow'')],
      cq_User = ch_User cfg, cq_Password = ch_Password cfg\<rparr>"

section \<open>The reply\<close>

definition row_zero :: PopularityRow where
  "row_zero = \<lparr>pop_GigID = [], pop_CompletedOrdersLast30d = 0, pop_ReviewsCountLast30d = 0, pop_ViewsLast7d = 0\<rparr>"

definition row_fields :: "(string \<times> PopularityRow decoder) list" where
  "row_fields =
     [(''gig_id'', field pop_GigID pop_GigID_update dec_str),
      (''completed_orders_last_30d'', field pop_CompletedOrdersLast30d pop_CompletedOrdersLast30d_update dec_int),
      (''reviews_count_last_30d'', field pop_ReviewsCountLast30d pop_ReviewsCountLast30d_update dec_int),
      (''views_last_7d'', field pop_ViewsLast7d pop_ViewsLast7d_update dec_int)]"

text \<open>A line of white space is skipped; a document is not white space.\<close>

definition blank_line :: "bytes \<Rightarrow> bool" where
  "blank_line l = (case l of Raw s \<Rightarrow> TrimSpace s = [] | Json j \<Rightarrow> False)"

fun scan_rows :: "bytes list \<Rightarrow> PopularityRow list \<Rightarrow> gerr + PopularityRow list" where
  "scan_rows [] rows = Inr rows"
| "scan_rows (l # ls) rows =
     (if blank_line l then scan_rows ls rows
      else case unmarshal (dec_struct row_fields) l row_zero of
             (True, row) \<Rightarrow> scan_rows ls (rows @ [row])
           | (False, _) \<Rightarrow> Inl unmarshal_error)"

text \<open>
  A reply: its status, its body as a text for the error, its lines as far as the scanner got, and the
  error the scanner ended with (a line too long, a broken connection).
\<close>

record clickhouse_reply =
  cp_StatusCode :: int
  cp_Status :: string
  cp_Text :: string
  cp_Lines :: "bytes list"
  cp_ScanError :: "gerr option"

text \<open>\<open>parse\<close> is the error of the endpoint as a URL, \<open>server\<close> what the request returns.\<close>

definition clickhouse_ListPopularityRows ::
    "(string \<Rightarrow> gerr option) \<Rightarrow> (clickhouse_request \<Rightarrow> gerr + clickhouse_reply) \<Rightarrow> ClickHouseConfig \<Rightarrow>
     gerr + PopularityRow list" where
  "clickhouse_ListPopularityRows parse server cfg =
     (case parse (ch_Endpoint cfg) of
        Some err \<Rightarrow> Inl err
      | None \<Rightarrow>
          (case server (popularity_request cfg) of
             Inl err \<Rightarrow> Inl err
           | Inr reply \<Rightarrow>
               if 300 \<le> cp_StatusCode reply
               then Inl (Opaque (''clickhouse query failed: '' @ cp_Status reply @ '': '' @ TrimSpace (cp_Text reply)))
               else (case scan_rows (cp_Lines reply) [] of
                       Inl err \<Rightarrow> Inl err
                     | Inr rows \<Rightarrow> (case cp_ScanError reply of Some err \<Rightarrow> Inl err | None \<Rightarrow> Inr rows))))"

section \<open>Facts\<close>

text \<open>A row as the server writes it, and as it does with \<open>output_format_json_quote_64bit_integers\<close>.\<close>

definition json_of_row :: "PopularityRow \<Rightarrow> json" where
  "json_of_row r = JObj
     [(''gig_id'', enc_str (pop_GigID r)),
      (''completed_orders_last_30d'', enc_int (pop_CompletedOrdersLast30d r)),
      (''reviews_count_last_30d'', enc_int (pop_ReviewsCountLast30d r)),
      (''views_last_7d'', enc_int (pop_ViewsLast7d r))]"

definition quoted_row :: "PopularityRow \<Rightarrow> json" where
  "quoted_row r = JObj
     [(''gig_id'', enc_str (pop_GigID r)),
      (''completed_orders_last_30d'', JStr (show_int (sint (pop_CompletedOrdersLast30d r)))),
      (''reviews_count_last_30d'', JStr (show_int (sint (pop_ReviewsCountLast30d r)))),
      (''views_last_7d'', JStr (show_int (sint (pop_ViewsLast7d r))))]"

lemma unmarshal_row:
  assumes "valid_utf8 (pop_GigID r)"
  shows "unmarshal (dec_struct row_fields) (Json (json_of_row r)) row_zero = (True, r)"
  using assms by (cases r) (simp add: json_of_row_def row_fields_def row_zero_def struct_simps)

lemma unmarshal_quoted:
  "fst (unmarshal (dec_struct row_fields) (Json (quoted_row r)) row_zero) = False"
  by (cases r) (simp add: quoted_row_def row_fields_def row_zero_def enc_str_def struct_simps)

lemma scan_rows_encoded:
  assumes "filter (\<lambda>l. \<not> blank_line l) ls = map (Json \<circ> json_of_row) rows"
    and "list_all (\<lambda>r. valid_utf8 (pop_GigID r)) rows"
  shows "scan_rows ls acc = Inr (acc @ rows)"
  using assms
proof (induction ls arbitrary: rows acc)
  case (Cons l ls)
  show ?case
  proof (cases "blank_line l")
    case False
    with Cons.prems obtain r rs where "rows = r # rs" "l = Json (json_of_row r)"
      "filter (\<lambda>l. \<not> blank_line l) ls = map (Json \<circ> json_of_row) rs"
      by (cases rows) auto
    moreover from this(1) Cons.prems(2) have "unmarshal (dec_struct row_fields) l row_zero = (True, r)"
      using unmarshal_row [of r] \<open>l = Json (json_of_row r)\<close> by simp
    ultimately show ?thesis using False Cons.IH [of rs "acc @ [r]"] Cons.prems(2) by simp
  qed (use Cons in simp)
qed simp

lemma scan_rows_bad:
  assumes "l \<in> set ls" and "\<not> blank_line l" and "fst (unmarshal (dec_struct row_fields) l row_zero) = False"
  shows "scan_rows ls acc = Inl unmarshal_error"
  using assms(1)
proof (induction ls arbitrary: acc)
  case (Cons k ls)
  obtain ok row where run: "unmarshal (dec_struct row_fields) k row_zero = (ok, row)"
    by (cases "unmarshal (dec_struct row_fields) k row_zero")
  show ?case
  proof (cases "k = l")
    case True
    with assms(2,3) run show ?thesis by simp
  next
    case False
    with Cons run show ?thesis by (cases ok) auto
  qed
qed simp

end
