(* ===== verification/StorageClaims.thy ===== *)
theory StorageClaims
  imports Storage Analytics
begin

text \<open>
  The properties of the connections and of the popularity reader, each with a concrete configuration or
  reply.
\<close>

section \<open>The connection strings\<close>

definition same_database :: "DBConfig \<Rightarrow> string \<Rightarrow> string" where
  "same_database cfg credentials =
     ''postgres://'' @ credentials @ ''@'' @ db_Host cfg @ '':'' @ show_int (sint (db_Port cfg)) @ ''/'' @
     db_Name cfg @ ''?sslmode='' @ db_SSLMode cfg"

text \<open>
  The migrations and the connection pool go to the same database, and with the same credentials when
  these are made of unreserved characters. Otherwise the migrations escape them, so that neither
  can end its part of the address early, and what a URL parser makes of them is the user and the
  password with every space turned into a plus sign; the pool does not escape them.
\<close>

lemma database_credentials:
  "migrations_dsn cfg = same_database cfg (QueryEscape (db_User cfg) @ '':'' @ QueryEscape (db_Password cfg)) @
      ''&x-migrations-table='' @ QueryEscape (db_MigrationsTable cfg) \<and>
   pool_dsn cfg = same_database cfg (db_User cfg @ '':'' @ db_Password cfg) \<and>
   CHR ''@'' \<notin> set (QueryEscape (db_User cfg) @ '':'' @ QueryEscape (db_Password cfg)) \<and>
   CHR '':'' \<notin> set (QueryEscape (db_User cfg)) \<and>
   userinfo_decode (QueryEscape (db_User cfg)) = Some (plus_for_space (db_User cfg)) \<and>
   userinfo_decode (QueryEscape (db_Password cfg)) = Some (plus_for_space (db_Password cfg)) \<and>
   (list_all unreserved (db_User cfg @ db_Password cfg) \<longrightarrow>
      migrations_dsn cfg = pool_dsn cfg @ ''&x-migrations-table='' @ QueryEscape (db_MigrationsTable cfg))"
  using escape_no_separator [of "db_User cfg"] escape_no_separator(1) [of "db_Password cfg"]
  by (simp_all add: migrations_dsn_def pool_dsn_def same_database_def decode_QueryEscape QueryEscape_unreserved)

definition sample_db :: DBConfig where
  "sample_db = \<lparr>db_Host = ''db'', db_Port = 5433, db_User = ''user'', db_Password = ''pass'', db_Name = ''gig_service'',
     db_SSLMode = ''disable'', db_MaxOpenConns = 20, db_MaxIdleConns = 10, db_ConnMaxLifetime = 300000000000,
     db_MigrationsPath = ''file://migration/postgres'', db_MigrationsTable = ''schema_migrations_gig_service''\<rparr>"

lemma database_credentials_witness:
  "migrations_dsn sample_db = pool_dsn sample_db @ ''&x-migrations-table='' @ QueryEscape ''schema_migrations_gig_service''"
proof -
  have "list_all unreserved (db_User sample_db @ db_Password sample_db)" by code_simp
  with database_credentials [of sample_db] have "migrations_dsn sample_db =
      pool_dsn sample_db @ ''&x-migrations-table='' @ QueryEscape (db_MigrationsTable sample_db)" by blast
  moreover have "db_MigrationsTable sample_db = ''schema_migrations_gig_service''" by (simp add: sample_db_def)
  ultimately show ?thesis by (simp only:)
qed

text \<open>A password with a space: the migrations log in with a plus sign, the pool with the space.\<close>

lemma space_in_password:
  "userinfo_decode (QueryEscape ''a b'') = Some ''a+b''"
  by code_simp

section \<open>Popularity\<close>

text \<open>
  A reply whose lines are the rows of the statement, with blank lines anywhere, is read as exactly these
  rows in their order; one line that is no row fails the whole list, and so does a row whose
  counts are quoted, as ClickHouse writes 64-bit integers with
  \<open>output_format_json_quote_64bit_integers\<close>.
\<close>

lemma popularity_rows_read:
  assumes "cp_StatusCode reply < 300" and "cp_ScanError reply = None"
    and "filter (\<lambda>l. \<not> blank_line l) (cp_Lines reply) = map (Json \<circ> json_of_row) rows"
    and "list_all (\<lambda>r. valid_utf8 (pop_GigID r)) rows"
  shows "clickhouse_ListPopularityRows (\<lambda>_. None) (\<lambda>_. Inr reply) cfg = Inr rows"
  using assms by (simp add: clickhouse_ListPopularityRows_def scan_rows_encoded)

lemma popularity_quoted_refused:
  assumes "cp_StatusCode reply < 300" and "Json (quoted_row r) \<in> set (cp_Lines reply)"
  shows "clickhouse_ListPopularityRows (\<lambda>_. None) (\<lambda>_. Inr reply) cfg = Inl unmarshal_error"
  using assms scan_rows_bad [OF assms(2)] unmarshal_quoted
  by (simp add: clickhouse_ListPopularityRows_def blank_line_def)

end
