(* ===== verification/KafkaBroker.thy ===== *)
theory KafkaBroker
  imports Kafka
begin

text \<open>
  The Kafka broker as an object, \<open>newBroker\<close>, \<open>Publish\<close>, \<open>ensureTopic\<close> and \<open>Close\<close> of
  \<open>internal/presentation/event_broker/kafka/broker.go\<close>; the configuration \<open>config/kafka.go\<close>; and the
  constructors and \<open>Subscribe\<close> methods of the five subscribers, with the consumer each one gets.
  The writers of kafka-go are their settings; what is written is a list of topics and payloads.
\<close>

section \<open>Configuration\<close>

record KafkaConfig =
  kc_Brokers :: "string list"
  kc_GroupID :: string
  kc_GigProjectionTopic :: string
  kc_GigPreviewProjectionTopic :: string
  kc_ReviewRatingTopic :: string
  kc_OrderFundedTopic :: string
  kc_DeadLetterTopic :: string
  kc_RecoveryTopic :: string
  kc_RecoveryGroup :: string
  kc_RecoveryCompletedTopic :: string

definition default_kafka :: KafkaConfig where
  "default_kafka =
     \<lparr>kc_Brokers = [''127.0.0.1:9092''], kc_GroupID = ''gig-service'',
      kc_GigProjectionTopic = ''gig.projection.requested'',
      kc_GigPreviewProjectionTopic = ''gig.preview.projection.requested'',
      kc_ReviewRatingTopic = ''review.rating.gig'', kc_OrderFundedTopic = ''order.funded'',
      kc_DeadLetterTopic = ''gig-service.dead-letter'', kc_RecoveryTopic = ''migration.recovery.commands.gig'',
      kc_RecoveryGroup = ''gig-service-recovery'', kc_RecoveryCompletedTopic = ''migration.recovery.completed''\<rparr>"

section \<open>The broker\<close>

text \<open>A writer of kafka-go: one acknowledgement, batches of 32 or 10 milliseconds.\<close>

record kafka_writer =
  kw_Addr :: "string list"
  kw_Topic :: string
  kw_RequiredAcks :: int64
  kw_BatchSize :: int64
  kw_BatchTimeoutMs :: int64

record kafka_reader =
  kr_Topic :: string
  kr_Group :: string
  kr_Open :: bool

text \<open>\<open>bk_writers\<close> is the map by topic; it is nil (\<open>None\<close>) after \<open>Close\<close>.\<close>

record kafka_broker =
  bk_brokers :: "string list"
  bk_group :: string
  bk_deadLetter :: string
  bk_readers :: "kafka_reader list"
  bk_writers :: "(string \<rightharpoonup> kafka_writer) option"
  bk_db :: bool

definition newBroker :: "KafkaConfig \<Rightarrow> bool \<Rightarrow> gerr + kafka_broker" where
  "newBroker cfg db =
     (if kc_Brokers cfg = [] then Inl (Opaque ''kafka brokers are empty'')
      else Inr \<lparr>bk_brokers = kc_Brokers cfg, bk_group = kc_GroupID cfg, bk_deadLetter = kc_DeadLetterTopic cfg,
                bk_readers = [], bk_writers = Some Map.empty, bk_db = db\<rparr>)"

definition topic_writer :: "kafka_broker \<Rightarrow> string \<Rightarrow> kafka_writer" where
  "topic_writer b subject =
     \<lparr>kw_Addr = bk_brokers b, kw_Topic = subject, kw_RequiredAcks = 1, kw_BatchSize = 32, kw_BatchTimeoutMs = 10\<rparr>"

text \<open>
  \<open>wrap\<close> is the envelope of the shared package, \<open>send\<close> the result of the write. What was written:
  the writer and the payload. A new writer is stored in the map, which panics when the map is nil.
\<close>

definition kafka_Publish ::
    "(string \<Rightarrow> bytes \<Rightarrow> gerr + bytes) \<Rightarrow> gerr option \<Rightarrow> string \<Rightarrow> bytes \<Rightarrow> kafka_broker \<Rightarrow>
     unit res \<times> (kafka_writer \<times> bytes) list \<times> kafka_broker" where
  "kafka_Publish wrap send subject payload b =
     (case wrap subject payload of
        Inl err \<Rightarrow> (Err err, [], b)
      | Inr enveloped \<Rightarrow>
          (case bk_writers b of
             None \<Rightarrow> (Panic, [], b)
           | Some writers \<Rightarrow>
               (let (w, b) = (case writers subject of
                    Some w \<Rightarrow> (w, b)
                  | None \<Rightarrow> (topic_writer b subject,
                      b\<lparr>bk_writers := Some (writers(subject \<mapsto> topic_writer b subject))\<rparr>))
                in (case send of None \<Rightarrow> Ok () | Some err \<Rightarrow> Err err, [(w, enveloped)], b))))"

text \<open>The readers are closed and kept, the writers closed and dropped.\<close>

definition kafka_Close :: "kafka_broker \<Rightarrow> kafka_broker" where
  "kafka_Close b = b\<lparr>bk_readers := map (kr_Open_update (\<lambda>_. False)) (bk_readers b), bk_writers := None\<rparr>"

text \<open>The reader a plain consumer registers; the other consumers keep theirs to themselves.\<close>

definition register_reader :: "consumer_config \<Rightarrow> kafka_broker \<Rightarrow> kafka_broker" where
  "register_reader cfg b =
     (case consumer_kind_of cfg of
        PlainReader \<Rightarrow> b\<lparr>bk_readers := bk_readers b @
          [\<lparr>kr_Topic = cc_Subject cfg, kr_Group = consumer_group (bk_group b) cfg, kr_Open = True\<rparr>]\<rparr>
      | _ \<Rightarrow> b)"

definition kafka_Subscribe :: "string \<Rightarrow> consumer_config" where
  "kafka_Subscribe subject = \<lparr>cc_Subject = subject, cc_GroupID = []\<rparr>"

text \<open>
  \<open>dial\<close> is the error of the connection, \<open>exists\<close> whether the topic has partitions, \<open>create\<close> the error of
  its creation; the result is the error and the number of partitions asked for.
\<close>

definition ensureTopic :: "gerr option \<Rightarrow> bool \<Rightarrow> gerr option \<Rightarrow> string \<Rightarrow> gerr option \<times> nat" where
  "ensureTopic dial known create topic =
     (if TrimSpace topic = [] then (Some (Opaque ''kafka topic is empty''), 0)
      else case dial of
             Some err \<Rightarrow> (Some err, 0)
           | None \<Rightarrow> if known then (None, 0) else (create, 8))"

section \<open>Subscribers\<close>

datatype kafka_dependency = NilBroker | NilService | NilWriter | NilMapper | NilKafkaLog | NilDatabase

datatype kafka_subscriber =
    KafkaProjection | KafkaPreviewProjection | KafkaReviewRating | KafkaOrderFunded | KafkaRecovery

text \<open>What the constructors refuse to be without; all report \<open>ErrInvalidSubscriberDependency\<close>.\<close>

fun kafka_requires :: "kafka_subscriber \<Rightarrow> kafka_dependency list" where
  "kafka_requires KafkaProjection = [NilBroker, NilService, NilWriter, NilMapper, NilKafkaLog]"
| "kafka_requires KafkaPreviewProjection = [NilBroker, NilService, NilMapper, NilKafkaLog]"
| "kafka_requires KafkaReviewRating = [NilBroker, NilService, NilKafkaLog]"
| "kafka_requires KafkaOrderFunded = [NilBroker, NilService, NilKafkaLog]"
| "kafka_requires KafkaRecovery = [NilBroker, NilService, NilKafkaLog, NilDatabase]"

definition topic_or :: "string \<Rightarrow> string \<Rightarrow> string" where
  "topic_or topic default_topic = (if TrimSpace topic = [] then default_topic else topic)"

definition NewGigReviewRatingSubscriber :: "kafka_dependency set \<Rightarrow> KafkaConfig \<Rightarrow> string option" where
  "NewGigReviewRatingSubscriber nils cfg =
     (if list_ex (\<lambda>d. d \<in> nils) (kafka_requires KafkaReviewRating) then None
      else Some (topic_or (kc_ReviewRatingTopic cfg) ''review.rating.gig''))"

definition NewGigOrderFundedSubscriber :: "kafka_dependency set \<Rightarrow> KafkaConfig \<Rightarrow> string option" where
  "NewGigOrderFundedSubscriber nils cfg =
     (if list_ex (\<lambda>d. d \<in> nils) (kafka_requires KafkaOrderFunded) then None
      else Some (topic_or (kc_OrderFundedTopic cfg) ''order.funded''))"

definition NewGigProjectionSubscriber :: "kafka_dependency set \<Rightarrow> KafkaConfig \<Rightarrow> string option" where
  "NewGigProjectionSubscriber nils cfg =
     (if list_ex (\<lambda>d. d \<in> nils) (kafka_requires KafkaProjection) then None
      else Some (topic_or (kc_GigProjectionTopic cfg) ''gig.projection.requested''))"

definition NewGigPreviewProjectionSubscriber :: "kafka_dependency set \<Rightarrow> KafkaConfig \<Rightarrow> string option" where
  "NewGigPreviewProjectionSubscriber nils cfg =
     (if list_ex (\<lambda>d. d \<in> nils) (kafka_requires KafkaPreviewProjection) then None
      else Some (topic_or (kc_GigPreviewProjectionTopic cfg) ''gig.preview.projection.requested''))"

definition NewGigRecoverySubscriber :: "kafka_dependency set \<Rightarrow> KafkaConfig \<Rightarrow> consumer_config option" where
  "NewGigRecoverySubscriber nils cfg =
     (if list_ex (\<lambda>d. d \<in> nils) (kafka_requires KafkaRecovery) then None
      else Some \<lparr>cc_Subject = kc_RecoveryTopic cfg, cc_GroupID = kc_RecoveryGroup cfg\<rparr>)"

text \<open>The consumer of each subscriber, when it is constructed.\<close>

fun kafka_consumer :: "kafka_dependency set \<Rightarrow> KafkaConfig \<Rightarrow> kafka_subscriber \<Rightarrow> consumer_config option" where
  "kafka_consumer nils cfg KafkaProjection = map_option kafka_Subscribe (NewGigProjectionSubscriber nils cfg)"
| "kafka_consumer nils cfg KafkaPreviewProjection = map_option kafka_Subscribe (NewGigPreviewProjectionSubscriber nils cfg)"
| "kafka_consumer nils cfg KafkaReviewRating = map_option kafka_Subscribe (NewGigReviewRatingSubscriber nils cfg)"
| "kafka_consumer nils cfg KafkaOrderFunded = map_option kafka_Subscribe (NewGigOrderFundedSubscriber nils cfg)"
| "kafka_consumer nils cfg KafkaRecovery = NewGigRecoverySubscriber nils cfg"

section \<open>Facts\<close>

lemma kafka_consumer_built:
  "kafka_consumer nils cfg s \<noteq> None \<longleftrightarrow> list_all (\<lambda>d. d \<notin> nils) (kafka_requires s)"
  by (cases s) (auto simp: NewGigProjectionSubscriber_def NewGigPreviewProjectionSubscriber_def
      NewGigReviewRatingSubscriber_def NewGigOrderFundedSubscriber_def NewGigRecoverySubscriber_def)

text \<open>With the defaults the projections are read in batches, the commands by partition, the rest plainly.\<close>

lemma default_consumers:
  "map (\<lambda>s. map_option consumer_kind_of (kafka_consumer {} default_kafka s))
     [KafkaProjection, KafkaPreviewProjection, KafkaReviewRating, KafkaOrderFunded, KafkaRecovery] =
   [Some ProjectionBatch, Some ProjectionBatch, Some PlainReader, Some PlainReader, Some ExplicitGroup]"
  by code_simp

text \<open>Every writer is that of its topic.\<close>

definition writers_ok :: "kafka_broker \<Rightarrow> bool" where
  "writers_ok b \<longleftrightarrow> (\<forall>ws t w. bk_writers b = Some ws \<longrightarrow> ws t = Some w \<longrightarrow> kw_Topic w = t \<and> kw_Addr w = bk_brokers b)"

lemma kafka_Publish_writers:
  assumes "writers_ok b" and "kafka_Publish wrap send subject payload b = (r, sent, b')"
  shows "writers_ok b' \<and> list_all (\<lambda>(w, p). kw_Topic w = subject \<and> kw_Addr w = bk_brokers b \<and> wrap subject payload = Inr p) sent"
  using assms
  by (auto simp: kafka_Publish_def writers_ok_def topic_writer_def Let_def
      split: sum.splits option.splits prod.splits if_splits)

lemma newBroker_writers: "newBroker cfg db = Inr b \<Longrightarrow> writers_ok b"
  by (auto simp: newBroker_def writers_ok_def split: if_splits)

lemma publish_after_close:
  "wrap subject payload = Inr p \<Longrightarrow> fst (kafka_Publish wrap send subject payload (kafka_Close b)) = Panic"
  by (simp add: kafka_Publish_def kafka_Close_def)

end
