(* ===== verification/Process.thy ===== *)
theory Process
  imports Startup
begin

text \<open>
  The background work of the process, \<open>internal/fx/presentation.go\<close> and \<open>internal/fx/analytics.go\<close>, and the
  constructors of its parts: the gRPC server with \<open>Start\<close> and \<open>Shutdown\<close>, the gRPC clients, the
  repositories. A dependency that is nil is named; the network is a parameter.
\<close>

section \<open>Supervised consumers\<close>

text \<open>
  The five consumers the process starts. \<open>results\<close> are what the runs of a consumer return until the
  process stops. The recovery and the projections are started again after an error; the
  rating and the order consumer are started once.
\<close>

definition InvokeSubscribeGigRecovery :: "gerr option list \<Rightarrow> nat list" where
  "InvokeSubscribeGigRecovery results = recovery_waits results"

definition InvokeSubscribeGigProjection :: "gerr option list \<Rightarrow> nat list" where
  "InvokeSubscribeGigProjection results = projection_waits results"

definition InvokeSubscribeGigPreviewProjection :: "gerr option list \<Rightarrow> nat list" where
  "InvokeSubscribeGigPreviewProjection results = supervise projection_next 100 results"

definition InvokeSubscribeGigReviewRating :: "gerr option list \<Rightarrow> nat list" where
  "InvokeSubscribeGigReviewRating results = []"

definition InvokeSubscribeGigOrderFunded :: "gerr option list \<Rightarrow> nat list" where
  "InvokeSubscribeGigOrderFunded results = []"

text \<open>How often a consumer runs, when the process does not stop it: after each wait once more.\<close>

definition consumer_runs :: "(gerr option list \<Rightarrow> nat list) \<Rightarrow> gerr option list \<Rightarrow> nat" where
  "consumer_runs invoke results = min (length results) (Suc (length (invoke results)))"

text \<open>The popularity job: at the start, and once for each tick of its period.\<close>

definition InvokeRunPopularityMaterializer :: "nat \<Rightarrow> unit prog" where
  "InvokeRunPopularityMaterializer ticks = iterP (\<lambda>_. popularity_refresh) (replicate (Suc ticks) ())"

section \<open>The gRPC server\<close>

datatype server_dependency = NilGigService | NilServerLogger

record grpc_server =
  gs_Listening :: "string option"
  gs_Started :: bool
  gs_Stopped :: bool

definition NewServer :: "server_dependency set \<Rightarrow> server_dependency + grpc_server" where
  "NewServer nils =
     (case find (\<lambda>d. d \<in> nils) [NilGigService, NilServerLogger] of
        Some d \<Rightarrow> Inl d
      | None \<Rightarrow> Inr \<lparr>gs_Listening = None, gs_Started = False, gs_Stopped = False\<rparr>)"

definition server_addr :: "string \<Rightarrow> int64 \<Rightarrow> string" where
  "server_addr host port = host @ '':'' @ show_int (sint port)"

text \<open>
  \<open>listen\<close> is the error of the listener, \<open>serving\<close> what serving returns when it ends; on an error the
  goroutine that runs the server panics, which ends the process.
\<close>

definition server_Start ::
    "(string \<Rightarrow> gerr option) \<Rightarrow> gerr option \<Rightarrow> string \<Rightarrow> int64 \<Rightarrow> grpc_server \<Rightarrow> gerr option \<times> grpc_server" where
  "server_Start listen serving host port s =
     (case listen (server_addr host port) of
        Some err \<Rightarrow> (Some err, s)
      | None \<Rightarrow> (serving, s\<lparr>gs_Listening := Some (server_addr host port), gs_Started := True\<rparr>))"

definition server_Shutdown :: "gerr option \<Rightarrow> grpc_server \<Rightarrow> gerr option \<times> grpc_server" where
  "server_Shutdown close_error s =
     (case gs_Listening s of
        None \<Rightarrow> (None, s\<lparr>gs_Stopped := True\<rparr>)
      | Some addr \<Rightarrow> (close_error, s\<lparr>gs_Stopped := True\<rparr>))"

definition InvokeRunGRPCServer ::
    "(string \<Rightarrow> gerr option) \<Rightarrow> gerr option \<Rightarrow> string \<Rightarrow> int64 \<Rightarrow> grpc_server \<Rightarrow> unit res" where
  "InvokeRunGRPCServer listen serving host port s =
     (case fst (server_Start listen serving host port s) of None \<Rightarrow> Ok () | Some err \<Rightarrow> Panic)"

section \<open>Clients and repositories\<close>

datatype client_kind = FileClient | PaymentClient | ReviewClient | OrderClient | UserClient
datatype client_error = EmptyAddress | NilClientLogger | DialFailed gerr

text \<open>Two of the clients trim the address before they check it.\<close>

definition new_client :: "bool \<Rightarrow> string \<Rightarrow> bool \<Rightarrow> gerr option \<Rightarrow> client_error option" where
  "new_client trims address nil_log dial =
     (if (if trims then TrimSpace address else address) = [] then Some EmptyAddress
      else if nil_log then Some NilClientLogger
      else map_option DialFailed dial)"

definition NewFileService :: "string \<Rightarrow> bool \<Rightarrow> gerr option \<Rightarrow> client_error option" where
  "NewFileService = new_client False"

definition NewPaymentService :: "string \<Rightarrow> bool \<Rightarrow> gerr option \<Rightarrow> client_error option" where
  "NewPaymentService = new_client False"

definition NewReviewService :: "string \<Rightarrow> bool \<Rightarrow> gerr option \<Rightarrow> client_error option" where
  "NewReviewService = new_client False"

definition NewOrderCountService :: "string \<Rightarrow> bool \<Rightarrow> gerr option \<Rightarrow> client_error option" where
  "NewOrderCountService = new_client True"

definition NewUserPreviewClient :: "string \<Rightarrow> bool \<Rightarrow> gerr option \<Rightarrow> client_error option" where
  "NewUserPreviewClient = new_client True"

text \<open>
  The operation of the file client the service does not use; \<open>reply\<close> is the answer of the file service,
  which may be nil. \<open>Close\<close> of a client: without a connection there is nothing to close.
\<close>

definition ToGetFileURLResponse :: "string option \<Rightarrow> string" where
  "ToGetFileURLResponse res = (case res of None \<Rightarrow> [] | Some url \<Rightarrow> url)"

definition GetFileURL :: "(env \<Rightarrow> nat \<Rightarrow> string \<Rightarrow> string option) \<Rightarrow> string \<Rightarrow> string prog" where
  "GetFileURL reply fileID =
     bindP (mapErrP file_ToError (remoteP (\<lambda>w. w) (\<lambda>e n w. reply e n fileID))) (\<lambda>res.
     retP (ToGetFileURLResponse res))"

definition client_Close :: "bool \<Rightarrow> gerr option \<Rightarrow> gerr option" where
  "client_Close nil_conn close_error = (if nil_conn then None else close_error)"

lemma GetFileURL_frames [frame_intros]:
  "steps e same_db (GetFileURL reply f)" "steps e same_redis (GetFileURL reply f)"
  "steps e same_log (GetFileURL reply f)" "steps e same_rpc (GetFileURL reply f)"
  unfolding GetFileURL_def
  by ((intro frame_intros same_db.steps_remoteP same_redis.steps_remoteP same_log.steps_remoteP
      same_rpc.steps_remoteP; simp add: same_db_def same_redis_def same_log_def same_rpc_def)+)

datatype repo_dependency = ErrNilPostgresDB | ErrNilDBErrorTranslator | ErrNilRedisClient | ErrNilGig | ErrNilRepoLogger

definition postgres_New :: "repo_dependency set \<Rightarrow> repo_dependency option" where
  "postgres_New nils = find (\<lambda>d. d \<in> nils) [ErrNilPostgresDB, ErrNilDBErrorTranslator, ErrNilRepoLogger]"

definition redis_New :: "repo_dependency set \<Rightarrow> repo_dependency option" where
  "redis_New nils = find (\<lambda>d. d \<in> nils) [ErrNilRedisClient, ErrNilGig, ErrNilRepoLogger]"

section \<open>Configuration\<close>

text \<open>\<open>config.Load\<close>: \<open>parse\<close> reads the environment, the preview settings are validated.\<close>

definition Load :: "gerr + 'cfg \<Rightarrow> ('cfg \<Rightarrow> PreviewPaginationConfig) \<Rightarrow> gerr + 'cfg" where
  "Load parsed preview =
     (case parsed of
        Inl err \<Rightarrow> Inl (Wrap ''parse env config'' err)
      | Inr cfg \<Rightarrow>
          (case validatePreviewPaginationConfig (preview cfg) of
             Some msg \<Rightarrow> Inl (Wrap ''parse env config'' (Opaque msg))
           | None \<Rightarrow> Inr cfg))"

definition default_preview :: PreviewPaginationConfig where
  "default_preview = \<lparr>pp_PageSize = 1, pp_WindowSize = 2, pp_WindowTTL = 900000000000\<rparr>"

section \<open>Facts\<close>

lemma restarted_after_errors:
  "consumer_runs InvokeSubscribeGigRecovery results = min (length results) (Suc (length (takeWhile (\<lambda>r. r \<noteq> None) results)))"
  "consumer_runs InvokeSubscribeGigProjection results = min (length results) (Suc (length (takeWhile (\<lambda>r. r \<noteq> None) results)))"
  "consumer_runs InvokeSubscribeGigPreviewProjection results = min (length results) (Suc (length (takeWhile (\<lambda>r. r \<noteq> None) results)))"
  by (simp_all add: consumer_runs_def InvokeSubscribeGigRecovery_def InvokeSubscribeGigProjection_def
      InvokeSubscribeGigPreviewProjection_def recovery_waits_def projection_waits_def supervise_length)

text \<open>An error ends the rating consumer and the order consumer for good.\<close>

lemma started_once:
  "consumer_runs InvokeSubscribeGigReviewRating results \<le> 1"
  "consumer_runs InvokeSubscribeGigOrderFunded results \<le> 1"
  by (simp_all add: consumer_runs_def InvokeSubscribeGigReviewRating_def InvokeSubscribeGigOrderFunded_def)

lemma default_preview_valid: "validatePreviewPaginationConfig default_preview = None"
  by code_simp

end
