(* ===== verification/Wiring.thy ===== *)
theory Wiring
  imports Prelude
begin

text \<open>
  How the process is put together, \<open>internal/fx\<close> and \<open>cmd/gig-service/main.go\<close>: the constructors with what
  they need, the jobs that are started, in the order of the modules, and the hooks that run when
  the process stops. The library fx is not in the repository; what is relied on is its documented
  behaviour, as conditions on the sequence of calls it makes (\<open>fx_calls\<close>) and on the order in
  which it stops (\<open>stops\<close>).
\<close>

section \<open>Constructors and jobs\<close>

text \<open>What the constructors provide, by its type, and the jobs, which are the functions invoked.\<close>

datatype part =
    TheConfig | TheLogger | TheTracingConfig | TheMeter | ThePostgresDB | TheRedisClient | TheEventBroker
  | TheFileService | ThePaymentService | TheUserPreviewClient | ThePopularitySource | TheDBErrorTranslator
  | TheGigRepository | TheGigReadRepository | TheProjectionWriter | TheOrderCountService | TheReviewService
  | TheSlugger | TheGigEventMapper | TheGigService | TheProjectionSubscriber | ThePreviewSubscriber
  | TheRatingSubscriber | TheOrderSubscriber | TheRecoverySubscriber | TheGRPCServer

datatype job =
    InstallTracing | RunMetricsServer | StartLog | ApplyMigrations | SubscribeProjection | SubscribePreview
  | SubscribeRating | SubscribeOrder | SubscribeRecovery | WarmupLookups | PopularityJob | RunGRPCServer

datatype node = Provide part | Invoke job

text \<open>
  What the hook of a function does when the process stops, and whether it leaves a goroutine running
  when the process starts; every hook starts without an error. \<open>bo_tracer\<close>: the tracer provider could
  be made; \<open>bo_warm\<close>: the switch of the warm-up.
\<close>

datatype stop_action =
  StopNothing | CloseConnection | CancelRun | ShutdownServer | ShutdownTracer | FlushLog

record hook =
  hk_goroutine :: bool
  hk_stop :: stop_action

record boot =
  bo_tracer :: bool
  bo_warm :: bool

text \<open>
  A function: its parameters, but for the lifecycle, which fx supplies, and the hook it appends when
  it returns without an error.
\<close>

record func =
  fn_params :: "part list"
  fn_hook :: "boot \<Rightarrow> hook option"

section \<open>The constructors\<close>

definition ProvideConfig :: func where
  "ProvideConfig =
     \<lparr>fn_params = [],
      fn_hook = (\<lambda>b. None)\<rparr>"

definition ProvideLogger :: func where
  "ProvideLogger =
     \<lparr>fn_params = [TheConfig],
      fn_hook = (\<lambda>b. Some \<lparr>hk_goroutine = False, hk_stop = FlushLog\<rparr>)\<rparr>"

definition ProvideTracingConfig :: func where
  "ProvideTracingConfig =
     \<lparr>fn_params = [TheConfig],
      fn_hook = (\<lambda>b. None)\<rparr>"

definition ProvideMetrics :: func where
  "ProvideMetrics =
     \<lparr>fn_params = [TheConfig],
      fn_hook = (\<lambda>b. None)\<rparr>"

definition ProvidePostgresDB :: func where
  "ProvidePostgresDB =
     \<lparr>fn_params = [TheConfig, TheLogger],
      fn_hook = (\<lambda>b. Some \<lparr>hk_goroutine = False, hk_stop = CloseConnection\<rparr>)\<rparr>"

definition ProvideRedisClient :: func where
  "ProvideRedisClient =
     \<lparr>fn_params = [TheConfig, TheLogger],
      fn_hook = (\<lambda>b. Some \<lparr>hk_goroutine = False, hk_stop = CloseConnection\<rparr>)\<rparr>"

definition ProvideEventBrokerWithDB :: func where
  "ProvideEventBrokerWithDB =
     \<lparr>fn_params = [TheConfig, ThePostgresDB, TheLogger],
      fn_hook = (\<lambda>b. Some \<lparr>hk_goroutine = False, hk_stop = CloseConnection\<rparr>)\<rparr>"

definition ProvideFileServiceClient :: func where
  "ProvideFileServiceClient =
     \<lparr>fn_params = [TheConfig, TheLogger],
      fn_hook = (\<lambda>b. Some \<lparr>hk_goroutine = False, hk_stop = CloseConnection\<rparr>)\<rparr>"

definition ProvidePaymentServiceClient :: func where
  "ProvidePaymentServiceClient =
     \<lparr>fn_params = [TheConfig, TheLogger],
      fn_hook = (\<lambda>b. Some \<lparr>hk_goroutine = False, hk_stop = CloseConnection\<rparr>)\<rparr>"

definition ProvideUserPreviewClient :: func where
  "ProvideUserPreviewClient =
     \<lparr>fn_params = [TheConfig, TheLogger],
      fn_hook = (\<lambda>b. None)\<rparr>"

definition ProvideClickHouseClient :: func where
  "ProvideClickHouseClient =
     \<lparr>fn_params = [TheConfig, TheLogger],
      fn_hook = (\<lambda>b. None)\<rparr>"

definition NewPgErrorTranslator :: func where
  "NewPgErrorTranslator =
     \<lparr>fn_params = [],
      fn_hook = (\<lambda>b. None)\<rparr>"

definition ProvideWriteRepo :: func where
  "ProvideWriteRepo =
     \<lparr>fn_params = [ThePostgresDB, TheDBErrorTranslator, TheLogger],
      fn_hook = (\<lambda>b. None)\<rparr>"

definition ProvideReadRepo :: func where
  "ProvideReadRepo =
     \<lparr>fn_params = [TheRedisClient, TheGigEventMapper, TheLogger],
      fn_hook = (\<lambda>b. None)\<rparr>"

definition ProvideProjectionWriter :: func where
  "ProvideProjectionWriter =
     \<lparr>fn_params = [TheGigReadRepository],
      fn_hook = (\<lambda>b. None)\<rparr>"

definition ProvideOrderCountService :: func where
  "ProvideOrderCountService =
     \<lparr>fn_params = [TheConfig, TheLogger],
      fn_hook = (\<lambda>b. Some \<lparr>hk_goroutine = False, hk_stop = CloseConnection\<rparr>)\<rparr>"

definition ProvideReviewServiceClient :: func where
  "ProvideReviewServiceClient =
     \<lparr>fn_params = [TheConfig, TheLogger],
      fn_hook = (\<lambda>b. Some \<lparr>hk_goroutine = False, hk_stop = CloseConnection\<rparr>)\<rparr>"

definition NewSlugger :: func where
  "NewSlugger =
     \<lparr>fn_params = [],
      fn_hook = (\<lambda>b. None)\<rparr>"

definition NewGigEventMapper :: func where
  "NewGigEventMapper =
     \<lparr>fn_params = [],
      fn_hook = (\<lambda>b. None)\<rparr>"

definition ProvideGigService :: func where
  "ProvideGigService =
     \<lparr>fn_params = [TheConfig, TheGigRepository, TheGigReadRepository, TheFileService, 
       ThePaymentService, TheReviewService, TheOrderCountService, TheEventBroker, ThePopularitySource, TheSlugger, TheLogger],
      fn_hook = (\<lambda>b. None)\<rparr>"

definition ProvideGigProjectionSubscriber :: func where
  "ProvideGigProjectionSubscriber =
     \<lparr>fn_params = [TheEventBroker, TheGigService, TheProjectionWriter, TheGigEventMapper, 
       TheConfig, TheLogger],
      fn_hook = (\<lambda>b. None)\<rparr>"

definition ProvideGigPreviewProjectionSubscriber :: func where
  "ProvideGigPreviewProjectionSubscriber =
     \<lparr>fn_params = [TheEventBroker, TheGigService, TheGigEventMapper, TheConfig, TheLogger],
      fn_hook = (\<lambda>b. None)\<rparr>"

definition ProvideGigReviewRatingSubscriber :: func where
  "ProvideGigReviewRatingSubscriber =
     \<lparr>fn_params = [TheEventBroker, TheGigService, TheConfig, TheLogger],
      fn_hook = (\<lambda>b. None)\<rparr>"

definition ProvideGigOrderFundedSubscriber :: func where
  "ProvideGigOrderFundedSubscriber =
     \<lparr>fn_params = [TheEventBroker, TheGigService, TheConfig, TheLogger],
      fn_hook = (\<lambda>b. None)\<rparr>"

definition ProvideGigRecoverySubscriber :: func where
  "ProvideGigRecoverySubscriber =
     \<lparr>fn_params = [TheEventBroker, TheGigService, TheConfig, TheLogger, ThePostgresDB],
      fn_hook = (\<lambda>b. None)\<rparr>"

definition ProvideGRPCServer :: func where
  "ProvideGRPCServer =
     \<lparr>fn_params = [TheGigService, TheConfig, TheLogger],
      fn_hook = (\<lambda>b. None)\<rparr>"

fun provider :: "part \<Rightarrow> func" where
  "provider TheConfig = ProvideConfig"
| "provider TheLogger = ProvideLogger"
| "provider TheTracingConfig = ProvideTracingConfig"
| "provider TheMeter = ProvideMetrics"
| "provider ThePostgresDB = ProvidePostgresDB"
| "provider TheRedisClient = ProvideRedisClient"
| "provider TheEventBroker = ProvideEventBrokerWithDB"
| "provider TheFileService = ProvideFileServiceClient"
| "provider ThePaymentService = ProvidePaymentServiceClient"
| "provider TheUserPreviewClient = ProvideUserPreviewClient"
| "provider ThePopularitySource = ProvideClickHouseClient"
| "provider TheDBErrorTranslator = NewPgErrorTranslator"
| "provider TheGigRepository = ProvideWriteRepo"
| "provider TheGigReadRepository = ProvideReadRepo"
| "provider TheProjectionWriter = ProvideProjectionWriter"
| "provider TheOrderCountService = ProvideOrderCountService"
| "provider TheReviewService = ProvideReviewServiceClient"
| "provider TheSlugger = NewSlugger"
| "provider TheGigEventMapper = NewGigEventMapper"
| "provider TheGigService = ProvideGigService"
| "provider TheProjectionSubscriber = ProvideGigProjectionSubscriber"
| "provider ThePreviewSubscriber = ProvideGigPreviewProjectionSubscriber"
| "provider TheRatingSubscriber = ProvideGigReviewRatingSubscriber"
| "provider TheOrderSubscriber = ProvideGigOrderFundedSubscriber"
| "provider TheRecoverySubscriber = ProvideGigRecoverySubscriber"
| "provider TheGRPCServer = ProvideGRPCServer"

section \<open>The jobs\<close>

definition wire_InstallTracing :: func where
  "wire_InstallTracing =
     \<lparr>fn_params = [TheTracingConfig, TheLogger],
      fn_hook = (\<lambda>b. if bo_tracer b then Some \<lparr>hk_goroutine = False, hk_stop = ShutdownTracer\<rparr> else None)\<rparr>"

definition wire_RunMetricsServer :: func where
  "wire_RunMetricsServer =
     \<lparr>fn_params = [TheConfig, TheMeter, TheLogger],
      fn_hook = (\<lambda>b. Some \<lparr>hk_goroutine = True, hk_stop = CancelRun\<rparr>)\<rparr>"

definition wire_StartLog :: func where
  "wire_StartLog =
     \<lparr>fn_params = [TheLogger],
      fn_hook = (\<lambda>b. None)\<rparr>"

definition wire_RunMigrations :: func where
  "wire_RunMigrations =
     \<lparr>fn_params = [TheConfig, TheLogger],
      fn_hook = (\<lambda>b. None)\<rparr>"

definition wire_SubscribeGigProjection :: func where
  "wire_SubscribeGigProjection =
     \<lparr>fn_params = [TheProjectionSubscriber, TheConfig, TheLogger],
      fn_hook = (\<lambda>b. Some \<lparr>hk_goroutine = True, hk_stop = CancelRun\<rparr>)\<rparr>"

definition wire_SubscribeGigPreviewProjection :: func where
  "wire_SubscribeGigPreviewProjection =
     \<lparr>fn_params = [ThePreviewSubscriber, TheConfig, TheLogger],
      fn_hook = (\<lambda>b. Some \<lparr>hk_goroutine = True, hk_stop = CancelRun\<rparr>)\<rparr>"

definition wire_SubscribeGigReviewRating :: func where
  "wire_SubscribeGigReviewRating =
     \<lparr>fn_params = [TheRatingSubscriber, TheLogger],
      fn_hook = (\<lambda>b. Some \<lparr>hk_goroutine = True, hk_stop = CancelRun\<rparr>)\<rparr>"

definition wire_SubscribeGigOrderFunded :: func where
  "wire_SubscribeGigOrderFunded =
     \<lparr>fn_params = [TheOrderSubscriber, TheLogger],
      fn_hook = (\<lambda>b. Some \<lparr>hk_goroutine = True, hk_stop = CancelRun\<rparr>)\<rparr>"

definition wire_SubscribeGigRecovery :: func where
  "wire_SubscribeGigRecovery =
     \<lparr>fn_params = [TheRecoverySubscriber, TheLogger],
      fn_hook = (\<lambda>b. Some \<lparr>hk_goroutine = True, hk_stop = CancelRun\<rparr>)\<rparr>"

definition wire_WarmupSellerLookups :: func where
  "wire_WarmupSellerLookups =
     \<lparr>fn_params = [TheGigRepository, TheGigReadRepository, TheUserPreviewClient, TheLogger],
      fn_hook = (\<lambda>b. Some \<lparr>hk_goroutine = bo_warm b, hk_stop = StopNothing\<rparr>)\<rparr>"

definition wire_RunPopularityMaterializer :: func where
  "wire_RunPopularityMaterializer =
     \<lparr>fn_params = [TheGigRepository, TheGigService, TheConfig, TheLogger],
      fn_hook = (\<lambda>b. Some \<lparr>hk_goroutine = True, hk_stop = StopNothing\<rparr>)\<rparr>"

definition wire_RunGRPCServer :: func where
  "wire_RunGRPCServer =
     \<lparr>fn_params = [TheGRPCServer],
      fn_hook = (\<lambda>b. Some \<lparr>hk_goroutine = True, hk_stop = ShutdownServer\<rparr>)\<rparr>"

fun invoked :: "job \<Rightarrow> func" where
  "invoked InstallTracing = wire_InstallTracing"
| "invoked RunMetricsServer = wire_RunMetricsServer"
| "invoked StartLog = wire_StartLog"
| "invoked ApplyMigrations = wire_RunMigrations"
| "invoked SubscribeProjection = wire_SubscribeGigProjection"
| "invoked SubscribePreview = wire_SubscribeGigPreviewProjection"
| "invoked SubscribeRating = wire_SubscribeGigReviewRating"
| "invoked SubscribeOrder = wire_SubscribeGigOrderFunded"
| "invoked SubscribeRecovery = wire_SubscribeGigRecovery"
| "invoked WarmupLookups = wire_WarmupSellerLookups"
| "invoked PopularityJob = wire_RunPopularityMaterializer"
| "invoked RunGRPCServer = wire_RunGRPCServer"

lemmas func_defs [simp] = ProvideConfig_def ProvideLogger_def ProvideTracingConfig_def
  ProvideMetrics_def ProvidePostgresDB_def ProvideRedisClient_def ProvideEventBrokerWithDB_def
  ProvideFileServiceClient_def ProvidePaymentServiceClient_def ProvideUserPreviewClient_def
  ProvideClickHouseClient_def NewPgErrorTranslator_def ProvideWriteRepo_def ProvideReadRepo_def
  ProvideProjectionWriter_def ProvideOrderCountService_def ProvideReviewServiceClient_def
  NewSlugger_def NewGigEventMapper_def ProvideGigService_def ProvideGigProjectionSubscriber_def
  ProvideGigPreviewProjectionSubscriber_def ProvideGigReviewRatingSubscriber_def
  ProvideGigOrderFundedSubscriber_def ProvideGigRecoverySubscriber_def ProvideGRPCServer_def
  wire_InstallTracing_def wire_RunMetricsServer_def wire_StartLog_def wire_RunMigrations_def
  wire_SubscribeGigProjection_def wire_SubscribeGigPreviewProjection_def
  wire_SubscribeGigReviewRating_def wire_SubscribeGigOrderFunded_def
  wire_SubscribeGigRecovery_def wire_WarmupSellerLookups_def wire_RunPopularityMaterializer_def
  wire_RunGRPCServer_def

fun params :: "node \<Rightarrow> part list" where
  "params (Provide p) = fn_params (provider p)"
| "params (Invoke j) = fn_params (invoked j)"

fun hook_of :: "boot \<Rightarrow> node \<Rightarrow> hook option" where
  "hook_of b (Provide p) = fn_hook (provider p) b"
| "hook_of b (Invoke j) = fn_hook (invoked j) b"

section \<open>The modules\<close>

definition ConfigModule :: "node list" where "ConfigModule = [Provide TheConfig]"

definition LoggerModule :: "node list" where "LoggerModule = [Provide TheLogger]"

definition TracingModule :: "node list" where
  "TracingModule = [Provide TheTracingConfig, Invoke InstallTracing]"

definition MetricsModule :: "node list" where "MetricsModule = [Provide TheMeter, Invoke RunMetricsServer]"

definition AppModule :: "node list" where "AppModule = [Invoke StartLog]"

definition StorageModule :: "node list" where
  "StorageModule = [Invoke ApplyMigrations, Provide ThePostgresDB, Provide TheRedisClient]"

definition MessagingModule :: "node list" where "MessagingModule = [Provide TheEventBroker]"

definition FileClientModule :: "node list" where "FileClientModule = [Provide TheFileService]"

definition PaymentClientModule :: "node list" where "PaymentClientModule = [Provide ThePaymentService]"

definition UserClientModule :: "node list" where "UserClientModule = [Provide TheUserPreviewClient]"

definition AnalyticsModule :: "node list" where "AnalyticsModule = [Provide ThePopularitySource]"

definition RepoModule :: "node list" where
  "RepoModule = [Provide TheDBErrorTranslator, Provide TheGigRepository, Provide TheGigReadRepository,
     Provide TheProjectionWriter]"

definition OrderClientModule :: "node list" where "OrderClientModule = [Provide TheOrderCountService]"

definition ReviewClientModule :: "node list" where "ReviewClientModule = [Provide TheReviewService]"

definition ServiceModule :: "node list" where
  "ServiceModule = [Provide TheSlugger, Provide TheGigEventMapper, Provide TheGigService]"

definition PresentationModule :: "node list" where
  "PresentationModule =
     [Provide TheProjectionSubscriber, Provide ThePreviewSubscriber, Provide TheRatingSubscriber,
      Provide TheOrderSubscriber, Provide TheRecoverySubscriber, Provide TheGRPCServer,
      Invoke SubscribeProjection, Invoke SubscribePreview, Invoke SubscribeRating, Invoke SubscribeOrder,
      Invoke SubscribeRecovery, Invoke WarmupLookups, Invoke PopularityJob, Invoke RunGRPCServer]"

definition newApp :: "node list" where
  "newApp = ConfigModule @ LoggerModule @ TracingModule @ MetricsModule @ AppModule @ StorageModule @
     MessagingModule @ FileClientModule @ PaymentClientModule @ UserClientModule @ AnalyticsModule @
     RepoModule @ OrderClientModule @ ReviewClientModule @ ServiceModule @ PresentationModule"

lemmas module_defs = ConfigModule_def LoggerModule_def TracingModule_def MetricsModule_def AppModule_def
  StorageModule_def MessagingModule_def FileClientModule_def PaymentClientModule_def UserClientModule_def
  AnalyticsModule_def RepoModule_def OrderClientModule_def ReviewClientModule_def ServiceModule_def
  PresentationModule_def

fun parts_of :: "node list \<Rightarrow> part list" where
  "parts_of [] = []"
| "parts_of (Provide p # ns) = p # parts_of ns"
| "parts_of (Invoke j # ns) = parts_of ns"

fun jobs_of :: "node list \<Rightarrow> job list" where
  "jobs_of [] = []"
| "jobs_of (Provide p # ns) = jobs_of ns"
| "jobs_of (Invoke j # ns) = j # jobs_of ns"

section \<open>What a function needs\<close>

text \<open>Everything it needs to be constructed, directly or not; that this ends is that no part needs itself.\<close>

fun layer :: "part \<Rightarrow> nat" where
  "layer TheConfig = 0" | "layer TheLogger = 1" | "layer TheTracingConfig = 1" | "layer TheMeter = 1"
| "layer TheDBErrorTranslator = 0" | "layer TheSlugger = 0" | "layer TheGigEventMapper = 0"
| "layer ThePostgresDB = 2" | "layer TheRedisClient = 2" | "layer TheFileService = 2"
| "layer ThePaymentService = 2" | "layer TheUserPreviewClient = 2" | "layer ThePopularitySource = 2"
| "layer TheOrderCountService = 2" | "layer TheReviewService = 2" | "layer TheEventBroker = 3"
| "layer TheGigRepository = 3" | "layer TheGigReadRepository = 3" | "layer TheProjectionWriter = 4"
| "layer TheGigService = 4" | "layer TheProjectionSubscriber = 5" | "layer ThePreviewSubscriber = 5"
| "layer TheRatingSubscriber = 5" | "layer TheOrderSubscriber = 5" | "layer TheRecoverySubscriber = 5"
| "layer TheGRPCServer = 5"

fun node_layer :: "node \<Rightarrow> nat" where
  "node_layer (Provide p) = layer p"
| "node_layer (Invoke j) = 6"

lemma params_below: "q \<in> set (params n) \<Longrightarrow> layer q < node_layer n"
proof (cases n)
  case (Provide p)
  then show "q \<in> set (params n) \<Longrightarrow> ?thesis" by (cases p) (auto simp: func_defs)
next
  case (Invoke j)
  then show "q \<in> set (params n) \<Longrightarrow> ?thesis" by (cases j) (auto simp: func_defs)
qed

function needed :: "node \<Rightarrow> part list" where
  "needed n = remdups (concat (map (\<lambda>p. p # needed (Provide p)) (params n)))"
  by pat_completeness auto
termination by (relation "measure node_layer") (auto dest: params_below)

declare needed.simps [simp del]

definition needs :: "node \<Rightarrow> part \<Rightarrow> bool" where
  "needs n p \<longleftrightarrow> p \<in> set (needed n)"

lemma needs_simps: "needs n p \<longleftrightarrow> p \<in> set (params n) \<or> (\<exists>q\<in>set (params n). needs (Provide q) p)"
  unfolding needs_def by (subst needed.simps) auto

section \<open>Metrics and tracing\<close>

text \<open>The meter the process installs, and the settings of the tracer over the defaults of the library.\<close>

datatype meter = NoopMeter | ServiceMeter string string

definition process_meter :: "bool \<Rightarrow> string \<Rightarrow> meter" where
  "process_meter enabled app_env = (if \<not> enabled then NoopMeter else ServiceMeter ''gig-service'' app_env)"

record 'ratio tracing_settings =
  ts_Enabled :: bool
  ts_Endpoint :: string
  ts_Protocol :: string
  ts_SampleRatio :: 'ratio
  ts_ServiceVersion :: string

definition tracing_config ::
    "(string \<Rightarrow> string \<Rightarrow> 'ratio tracing_settings) \<Rightarrow> string \<Rightarrow> 'ratio tracing_settings \<Rightarrow> 'ratio tracing_settings" where
  "tracing_config defaults app_env cfg =
     (defaults ''gig-service'' app_env)
       \<lparr>ts_Enabled := ts_Enabled cfg, ts_Endpoint := ts_Endpoint cfg, ts_Protocol := ts_Protocol cfg,
        ts_SampleRatio := ts_SampleRatio cfg, ts_ServiceVersion := ts_ServiceVersion cfg\<rparr>"

section \<open>The start of the process\<close>

text \<open>
  The calls fx makes, given the parts that exist and the jobs still to be invoked: the jobs come in
  the order of the modules, each call after the constructors of its parameters, and a
  constructor is called once, and only when the next job needs it.
\<close>

fun fx_calls :: "part list \<Rightarrow> job list \<Rightarrow> node list \<Rightarrow> bool" where
  "fx_calls built js [] = True"
| "fx_calls built [] (n # ns) = False"
| "fx_calls built (j # js) (Provide p # ns) =
     (Provide p \<in> set newApp \<and> p \<notin> set built \<and> set (params (Provide p)) \<subseteq> set built \<and> needs (Invoke j) p \<and>
      fx_calls (p # built) (j # js) ns)"
| "fx_calls built (j # js) (Invoke i # ns) =
     (i = j \<and> set (params (Invoke i)) \<subseteq> set built \<and> fx_calls built js ns)"

text \<open>\<open>fails\<close>: the functions that return an error; after the first of them nothing is called.\<close>

definition fx_new :: "(node \<Rightarrow> bool) \<Rightarrow> node list \<Rightarrow> bool" where
  "fx_new fails ns \<longleftrightarrow> fx_calls [] (jobs_of newApp) ns \<and> list_all (\<lambda>n. \<not> fails n) (butlast ns) \<and>
     (jobs_of ns = jobs_of newApp \<or> ns \<noteq> [] \<and> fails (last ns))"

section \<open>Hooks\<close>

definition has_hook :: "boot \<Rightarrow> node \<Rightarrow> bool" where
  "has_hook b n \<longleftrightarrow> hook_of b n \<noteq> None"

text \<open>The jobs that leave a goroutine running.\<close>

definition starts :: "boot \<Rightarrow> job \<Rightarrow> bool" where
  "starts b j \<longleftrightarrow> (case hook_of b (Invoke j) of None \<Rightarrow> False | Some h \<Rightarrow> hk_goroutine h)"

text \<open>The parts that hold a connection to another process.\<close>

definition connects :: "part \<Rightarrow> bool" where
  "connects p \<longleftrightarrow> p \<in> {ThePostgresDB, TheRedisClient, TheEventBroker, TheFileService, ThePaymentService,
     TheUserPreviewClient, TheOrderCountService, TheReviewService}"

record process =
  pr_running :: "job list"
  pr_open :: "part list"

definition started :: "boot \<Rightarrow> node list \<Rightarrow> process" where
  "started b ns = \<lparr>pr_running = filter (starts b) (jobs_of ns), pr_open = filter connects (parts_of ns)\<rparr>"

text \<open>
  A hook at the stop: a connection is closed; a consumer's context or the metrics server's is
  cancelled, the gRPC server is shut down.
\<close>

fun apply_stop :: "stop_action \<Rightarrow> node \<Rightarrow> process \<Rightarrow> process" where
  "apply_stop CloseConnection (Provide p) s = s\<lparr>pr_open := removeAll p (pr_open s)\<rparr>"
| "apply_stop CancelRun (Invoke j) s = s\<lparr>pr_running := removeAll j (pr_running s)\<rparr>"
| "apply_stop ShutdownServer (Invoke j) s = s\<lparr>pr_running := removeAll j (pr_running s)\<rparr>"
| "apply_stop _ n s = s"

definition on_stop :: "boot \<Rightarrow> node \<Rightarrow> process \<Rightarrow> process" where
  "on_stop b n s = (case hook_of b n of None \<Rightarrow> s | Some h \<Rightarrow> apply_stop (hk_stop h) n s)"

definition told_to_stop :: "boot \<Rightarrow> job \<Rightarrow> bool" where
  "told_to_stop b j \<longleftrightarrow>
     (case hook_of b (Invoke j) of None \<Rightarrow> False | Some h \<Rightarrow> hk_stop h \<in> {CancelRun, ShutdownServer})"

text \<open>The hooks are run in the reverse of the order in which they were appended.\<close>

definition stops :: "boot \<Rightarrow> node list \<Rightarrow> node list" where
  "stops b ns = rev (filter (has_hook b) ns)"

definition stopping :: "boot \<Rightarrow> node list \<Rightarrow> nat \<Rightarrow> process" where
  "stopping b ns k = fold (on_stop b) (take k (stops b ns)) (started b ns)"

section \<open>Facts about the calls\<close>

lemma parts_of_append [simp]: "parts_of (xs @ ys) = parts_of xs @ parts_of ys"
  by (induction xs rule: parts_of.induct) auto

lemma jobs_of_append [simp]: "jobs_of (xs @ ys) = jobs_of xs @ jobs_of ys"
  by (induction xs rule: jobs_of.induct) auto

lemma in_parts_of: "p \<in> set (parts_of ns) \<longleftrightarrow> Provide p \<in> set ns"
  by (induction ns rule: parts_of.induct) auto

lemma in_jobs_of: "j \<in> set (jobs_of ns) \<longleftrightarrow> Invoke j \<in> set ns"
  by (induction ns rule: jobs_of.induct) auto

text \<open>What is built is closed under what is needed.\<close>

definition closed_parts :: "part set \<Rightarrow> bool" where
  "closed_parts B \<longleftrightarrow> (\<forall>p\<in>B. set (params (Provide p)) \<subseteq> B)"

lemma closed_needs:
  assumes "closed_parts B" and "needs n q" and "set (params n) \<subseteq> B"
  shows "q \<in> B"
  using assms(2,3)
proof (induction n rule: needed.induct)
  case (1 n)
  from "1.prems"(1) consider "q \<in> set (params n)" | p where "p \<in> set (params n)" "needs (Provide p) q"
    using needs_simps by blast
  then show ?case
  proof cases
    case 2
    with "1.prems" assms(1) have "set (params (Provide p)) \<subseteq> B" by (auto simp: closed_parts_def)
    with 2 "1.IH" show ?thesis by blast
  qed (use "1.prems" in auto)
qed

lemma fx_calls_at:
  assumes "fx_calls built js (xs @ n # ys)" and "closed_parts (set built)"
  shows "closed_parts (set (parts_of xs) \<union> set built)" and "set (params n) \<subseteq> set (parts_of xs) \<union> set built"
    and "\<exists>j js'. js = jobs_of xs @ j # js' \<and> (case n of Provide p \<Rightarrow> needs (Invoke j) p | Invoke i \<Rightarrow> i = j)"
    and "n \<notin> Provide ` (set (parts_of xs) \<union> set built)"
proof -
  have "closed_parts (set (parts_of xs) \<union> set built) \<and> set (params n) \<subseteq> set (parts_of xs) \<union> set built \<and>
    (\<exists>j js'. js = jobs_of xs @ j # js' \<and> (case n of Provide p \<Rightarrow> needs (Invoke j) p | Invoke i \<Rightarrow> i = j)) \<and>
    n \<notin> Provide ` (set (parts_of xs) \<union> set built)"
    using assms
  proof (induction built js xs rule: fx_calls.induct)
    case (1 built js)
    then show ?case by (cases js; cases n) auto
  next
    case (3 built j js p ns)
    moreover from "3.prems" have "closed_parts (set (p # built))" by (auto simp: closed_parts_def)
    ultimately show ?case by fastforce
  next
    case (4 built j js i ns)
    then show ?case by auto
  qed auto
  then show "closed_parts (set (parts_of xs) \<union> set built)" "set (params n) \<subseteq> set (parts_of xs) \<union> set built"
    "\<exists>j js'. js = jobs_of xs @ j # js' \<and> (case n of Provide p \<Rightarrow> needs (Invoke j) p | Invoke i \<Rightarrow> i = j)"
    "n \<notin> Provide ` (set (parts_of xs) \<union> set built)" by blast+
qed

lemma no_parts_closed [simp]: "closed_parts {}"
  by (simp add: closed_parts_def)

text \<open>A function is called after everything it needs.\<close>

lemma fx_calls_needs:
  assumes "fx_calls [] js (xs @ n # ys)" and "needs n q"
  shows "Provide q \<in> set xs"
  using fx_calls_at(1,2) [OF assms(1)] closed_needs [OF _ assms(2)]
  by (simp add: in_parts_of [symmetric])

lemma fx_calls_jobs: "fx_calls built js ns \<Longrightarrow> \<exists>left. js = jobs_of ns @ left"
  by (induction built js ns rule: fx_calls.induct) auto

lemma fx_calls_distinct_parts:
  "fx_calls built js ns \<Longrightarrow> distinct (parts_of ns) \<and> set (parts_of ns) \<inter> set built = {}"
  by (induction built js ns rule: fx_calls.induct) auto

lemma distinct_nodes: "distinct (parts_of ns) \<Longrightarrow> distinct (jobs_of ns) \<Longrightarrow> distinct ns"
  by (induction ns rule: parts_of.induct) (auto simp: in_parts_of in_jobs_of)

lemma fx_calls_distinct:
  assumes "fx_calls [] js ns" and "distinct js"
  shows "distinct ns"
  using fx_calls_distinct_parts [OF assms(1)] fx_calls_jobs [OF assms(1)] assms(2) by (auto intro: distinct_nodes)

section \<open>Facts about the modules\<close>

lemma app_jobs: "jobs_of newApp =
    [InstallTracing, RunMetricsServer, StartLog, ApplyMigrations, SubscribeProjection, SubscribePreview,
     SubscribeRating, SubscribeOrder, SubscribeRecovery, WarmupLookups, PopularityJob, RunGRPCServer]"
  by (simp add: newApp_def module_defs)

lemma app_provides_all: "Provide p \<in> set newApp"
  by (cases p) (simp_all add: newApp_def module_defs)

lemma app_invokes_all: "Invoke j \<in> set newApp"
  by (cases j) (simp_all add: newApp_def module_defs)

lemma app_distinct: "distinct newApp"
  by code_simp

text \<open>What each part needs, by layers.\<close>

lemma needs_leaf [simp]:
  "\<not> needs (Provide TheConfig) q" "\<not> needs (Provide TheSlugger) q" "\<not> needs (Provide TheGigEventMapper) q"
  "\<not> needs (Provide TheDBErrorTranslator) q"
  by (subst needs_simps; simp)+

lemma needs_config [simp]:
  "needs (Provide TheLogger) q \<longleftrightarrow> q = TheConfig" "needs (Provide TheTracingConfig) q \<longleftrightarrow> q = TheConfig"
  "needs (Provide TheMeter) q \<longleftrightarrow> q = TheConfig"
  by (subst needs_simps; auto)+

lemma needs_client [simp]:
  assumes "c \<in> {ThePostgresDB, TheRedisClient, TheFileService, ThePaymentService, TheUserPreviewClient,
    ThePopularitySource, TheOrderCountService, TheReviewService}"
  shows "needs (Provide c) q \<longleftrightarrow> q = TheConfig \<or> q = TheLogger"
  using assms by (subst needs_simps) auto

lemma needs_store [simp]:
  "needs (Provide TheEventBroker) q \<longleftrightarrow> q \<in> {TheConfig, TheLogger, ThePostgresDB}"
  "needs (Provide TheGigRepository) q \<longleftrightarrow> q \<in> {TheConfig, TheLogger, ThePostgresDB, TheDBErrorTranslator}"
  "needs (Provide TheGigReadRepository) q \<longleftrightarrow> q \<in> {TheConfig, TheLogger, TheRedisClient, TheGigEventMapper}"
  by (subst needs_simps; auto)+

lemma needs_service [simp]:
  "needs (Provide TheGigService) q \<longleftrightarrow>
     q \<in> {TheConfig, TheLogger, ThePostgresDB, TheRedisClient, TheEventBroker, TheFileService, ThePaymentService,
       TheReviewService, TheOrderCountService, ThePopularitySource, TheSlugger, TheDBErrorTranslator,
       TheGigEventMapper, TheGigRepository, TheGigReadRepository}"
  by (subst needs_simps) auto

text \<open>The jobs before the migrations and the migrations themselves need no connection.\<close>

lemma early_jobs_need:
  assumes "needs (Invoke j) p" and "j \<in> {InstallTracing, RunMetricsServer, StartLog, ApplyMigrations}"
  shows "\<not> connects p"
  using assms by (auto simp: needs_simps [of "Invoke i" for i] connects_def)

text \<open>Nothing is provided that no job needs.\<close>

lemma every_part_needed: "\<exists>j. needs (Invoke j) p"
proof -
  have subs: "needs (Invoke SubscribeProjection) TheProjectionSubscriber" "needs (Invoke SubscribePreview) ThePreviewSubscriber"
    "needs (Invoke SubscribeRating) TheRatingSubscriber" "needs (Invoke SubscribeOrder) TheOrderSubscriber"
    "needs (Invoke SubscribeRecovery) TheRecoverySubscriber" "needs (Invoke RunGRPCServer) TheGRPCServer"
    "needs (Invoke WarmupLookups) TheUserPreviewClient" "needs (Invoke PopularityJob) TheGigService"
    "needs (Invoke InstallTracing) TheTracingConfig" "needs (Invoke RunMetricsServer) TheMeter"
    by (simp_all add: needs_simps [of "Invoke i" for i])
  have "needs (Provide TheProjectionSubscriber) TheProjectionWriter"
    by (subst needs_simps) simp
  then have writer: "needs (Invoke SubscribeProjection) TheProjectionWriter"
    by (simp add: needs_simps [of "Invoke SubscribeProjection"])
  have "TheGigService \<in> set (params (Invoke PopularityJob))" by simp
  then have service: "needs (Invoke PopularityJob) q" if "needs (Provide TheGigService) q" for q
    using that needs_simps by blast
  have "q = TheProjectionWriter \<or> q = TheGigService \<or> needs (Provide TheGigService) q \<or>
      q \<in> {TheProjectionSubscriber, ThePreviewSubscriber, TheRatingSubscriber, TheOrderSubscriber,
        TheRecoverySubscriber, TheGRPCServer, TheUserPreviewClient, TheTracingConfig, TheMeter}" for q
    by (cases q; simp)
  from this [of p] show ?thesis
    by (elim disjE insertE) (use subs writer service in blast)+
qed

section \<open>Facts about the stop\<close>

lemma on_stop_job:
  "on_stop b (Invoke j) s = (if told_to_stop b j then s\<lparr>pr_running := removeAll j (pr_running s)\<rparr> else s)"
  by (cases j) (simp_all add: on_stop_def told_to_stop_def func_defs)

definition closes :: "boot \<Rightarrow> part \<Rightarrow> bool" where
  "closes b p \<longleftrightarrow> hook_of b (Provide p) = Some \<lparr>hk_goroutine = False, hk_stop = CloseConnection\<rparr>"

lemma on_stop_part:
  "on_stop b (Provide p) s = (if closes b p then s\<lparr>pr_open := removeAll p (pr_open s)\<rparr> else s)"
  by (cases p) (simp_all add: on_stop_def closes_def func_defs)

lemma fold_on_stop:
  "pr_open (fold (on_stop b) hs s) = filter (\<lambda>p. \<not> (closes b p \<and> Provide p \<in> set hs)) (pr_open s)"
  "pr_running (fold (on_stop b) hs s) = filter (\<lambda>j. \<not> (told_to_stop b j \<and> Invoke j \<in> set hs)) (pr_running s)"
proof (induction hs arbitrary: s)
  case (Cons n hs)
  { case 1 then show ?case
      by (cases n) (auto simp: Cons on_stop_job on_stop_part removeAll_filter_not_eq intro!: filter_cong) }
  { case 2 then show ?case
      by (cases n) (auto simp: Cons on_stop_job on_stop_part removeAll_filter_not_eq intro!: filter_cong) }
qed auto

text \<open>In a list without repetitions, reversed, what came after comes before.\<close>

lemma take_before:
  assumes "b \<in> set (take k (us @ a # vs))" and "b \<notin> set us" and "b \<noteq> a"
  shows "a \<in> set (take k (us @ a # vs))"
proof -
  have "length us < k" using assms by (cases "k \<le> length us") (auto dest: in_set_takeD)
  then obtain i where "k = length us + Suc i" by (metis less_natE add_Suc_right)
  then show ?thesis by simp
qed

end
