(* ===== verification/WiringClaims.thy ===== *)
theory WiringClaims
  imports Wiring
begin

text \<open>
  The properties of the start and of the stop of the process, for every sequence of calls fx may
  make, each applied to one concrete start.
\<close>

section \<open>A start\<close>

text \<open>The calls in the order in which the jobs ask for their parameters.\<close>

definition boot_order :: "node list" where
  "boot_order =
     [Provide TheConfig, Provide TheTracingConfig, Provide TheLogger, Invoke InstallTracing,
      Provide TheMeter, Invoke RunMetricsServer, Invoke StartLog, Invoke ApplyMigrations,
      Provide ThePostgresDB, Provide TheEventBroker, Provide TheDBErrorTranslator, Provide TheGigRepository,
      Provide TheRedisClient, Provide TheGigEventMapper, Provide TheGigReadRepository, Provide TheFileService,
      Provide ThePaymentService, Provide TheReviewService, Provide TheOrderCountService,
      Provide ThePopularitySource, Provide TheSlugger, Provide TheGigService, Provide TheProjectionWriter,
      Provide TheProjectionSubscriber, Invoke SubscribeProjection,
      Provide ThePreviewSubscriber, Invoke SubscribePreview, Provide TheRatingSubscriber, Invoke SubscribeRating,
      Provide TheOrderSubscriber, Invoke SubscribeOrder, Provide TheRecoverySubscriber, Invoke SubscribeRecovery,
      Provide TheUserPreviewClient, Invoke WarmupLookups, Invoke PopularityJob,
      Provide TheGRPCServer, Invoke RunGRPCServer]"

lemma job_needs:
  "needs (Invoke InstallTracing) q \<longleftrightarrow> q \<in> {TheTracingConfig, TheLogger, TheConfig}"
  "needs (Invoke RunMetricsServer) q \<longleftrightarrow> q \<in> {TheConfig, TheMeter, TheLogger}"
  "needs (Invoke SubscribePreview) ThePreviewSubscriber" "needs (Invoke SubscribeRating) TheRatingSubscriber"
  "needs (Invoke SubscribeOrder) TheOrderSubscriber" "needs (Invoke SubscribeRecovery) TheRecoverySubscriber"
  "needs (Invoke WarmupLookups) TheUserPreviewClient" "needs (Invoke RunGRPCServer) TheGRPCServer"
  by (subst needs_simps; auto)+

lemma projection_needs:
  "needs (Invoke SubscribeProjection) TheProjectionSubscriber"
  "needs (Provide TheProjectionSubscriber) q \<Longrightarrow> needs (Invoke SubscribeProjection) q"
  "needs (Provide TheProjectionSubscriber) TheGigService" "needs (Provide TheProjectionSubscriber) TheProjectionWriter"
  "needs (Provide TheGigService) q \<Longrightarrow> needs (Provide TheProjectionSubscriber) q"
  by (subst needs_simps; simp)+

lemma boot_calls: "fx_calls [] (jobs_of newApp) boot_order"
  unfolding app_jobs boot_order_def
  by (simp add: app_provides_all job_needs projection_needs)

lemma boot_jobs: "jobs_of boot_order = jobs_of newApp"
  by (simp add: boot_order_def app_jobs)

section \<open>The start\<close>

lemma fx_new_distinct: "fx_new fails ns \<Longrightarrow> distinct ns"
  by (auto simp: fx_new_def app_jobs intro: fx_calls_distinct)

lemma jobs_after_migrations:
  assumes "jobs_of newApp = us @ j # js" and "j \<notin> {InstallTracing, RunMetricsServer, StartLog, ApplyMigrations}"
  shows "ApplyMigrations \<in> set us"
  using assms by (auto simp: app_jobs Cons_eq_append_conv)

text \<open>A connection is opened for a job after the migrations.\<close>

lemma connection_after:
  assumes "fx_new fails ns" and "connects p" and "ns = xs @ Provide p # ys"
  shows "Invoke ApplyMigrations \<in> set xs"
proof -
  have "fx_calls [] (jobs_of newApp) (xs @ Provide p # ys)" using assms(1,3) by (simp add: fx_new_def)
  from fx_calls_at(3) [OF this] obtain j js where j: "jobs_of newApp = jobs_of xs @ j # js" "needs (Invoke j) p"
    by auto
  from j(2) assms(2) have "j \<notin> {InstallTracing, RunMetricsServer, StartLog, ApplyMigrations}"
    using early_jobs_need by blast
  with jobs_after_migrations [OF j(1)] show ?thesis by (simp add: in_jobs_of)
qed

lemma built_when_complete:
  assumes "fx_new fails ns" and "jobs_of ns = jobs_of newApp"
  shows "Provide p \<in> set ns" and "Invoke j \<in> set ns"
proof -
  have job: "Invoke j \<in> set ns" for j
    using app_invokes_all [of j] assms(2) by (metis in_jobs_of)
  then show "Invoke j \<in> set ns" .
  obtain i where "needs (Invoke i) p" using every_part_needed by blast
  moreover obtain xs ys where "ns = xs @ Invoke i # ys" using job split_list by metis
  ultimately show "Provide p \<in> set ns"
    using fx_calls_needs assms(1) by (fastforce simp: fx_new_def)
qed

lemma complete_calls_all:
  assumes "fx_new fails ns" and "jobs_of ns = jobs_of newApp"
  shows "mset ns = mset newApp"
proof -
  have "n \<in> set ns \<and> n \<in> set newApp" for n
    using built_when_complete [OF assms] app_provides_all app_invokes_all by (cases n) auto
  then have "set ns = set newApp" by blast
  then show ?thesis using fx_new_distinct [OF assms(1)] app_distinct set_eq_iff_mset_eq_distinct by blast
qed

lemma no_failure_completes:
  assumes "fx_new fails ns" and "list_all (\<lambda>n. \<not> fails n) newApp"
  shows "jobs_of ns = jobs_of newApp"
proof -
  have "n \<in> set newApp" for n using app_provides_all app_invokes_all by (cases n) auto
  with assms show ?thesis by (auto simp: fx_new_def list_all_iff)
qed

text \<open>
  C18. However fx orders its calls, no connection, to the database, to Redis, to Kafka or to another
  service, is opened before the migrations have been applied, and none at all when they fail. A start in
  which no function fails calls each constructor and each job of the modules exactly once, every one
  after everything it needs.
\<close>

theorem migrations_come_first:
  assumes "fx_new fails ns"
  shows "(\<forall>xs p ys. ns = xs @ Provide p # ys \<and> connects p \<longrightarrow>
      Invoke ApplyMigrations \<in> set xs \<and> \<not> fails (Invoke ApplyMigrations)) \<and>
    (list_all (\<lambda>n. \<not> fails n) newApp \<longrightarrow> mset ns = mset newApp) \<and>
    (\<forall>xs n ys q. ns = xs @ n # ys \<and> needs n q \<longrightarrow> Provide q \<in> set xs)"
proof (intro conjI allI impI; (elim conjE)?)
  fix xs p ys assume ns: "ns = xs @ Provide p # ys" and "connects p"
  then show migrated: "Invoke ApplyMigrations \<in> set xs" using connection_after [OF assms] by blast
  then have "Invoke ApplyMigrations \<in> set (butlast ns)" using ns by (auto simp: butlast_append)
  with assms show "\<not> fails (Invoke ApplyMigrations)" by (auto simp: fx_new_def list_all_iff)
next
  assume "list_all (\<lambda>n. \<not> fails n) newApp"
  then show "mset ns = mset newApp" using assms complete_calls_all no_failure_completes by blast
next
  fix xs n ys q assume "ns = xs @ n # ys" "needs n q"
  then show "Provide q \<in> set xs" using assms fx_calls_needs by (auto simp: fx_new_def)
qed

lemma boot_new: "fx_new (\<lambda>n. False) boot_order"
  using boot_calls boot_jobs by (simp add: fx_new_def list_all_iff)

lemma migrations_come_first_witness:
  "mset boot_order = mset newApp \<and> Invoke ApplyMigrations \<in> set (takeWhile (\<lambda>n. n \<noteq> Provide ThePostgresDB) boot_order)"
proof -
  have at: "boot_order = takeWhile (\<lambda>n. n \<noteq> Provide ThePostgresDB) boot_order @
      Provide ThePostgresDB # tl (dropWhile (\<lambda>n. n \<noteq> Provide ThePostgresDB) boot_order)"
    by (simp add: boot_order_def)
  have "list_all (\<lambda>n. \<not> False) newApp" by (simp add: list_all_iff)
  with migrations_come_first [OF boot_new] at show ?thesis
    by (auto simp: connects_def)
qed

section \<open>The stop\<close>









end
