(* ===== verification/Spec2Isabelle.thy ===== *)
theory Spec2Isabelle
  imports ServiceClaims UseCaseClaims ListClaims ReadClaims GrpcClaims SubscriberClaims RecoveryClaims
    NatsClaims StartupClaims SchemaClaims GroupClaims ProjectionRun WindowClaims StorageClaims KafkaBroker Process WiringClaims
begin

text \<open>
  The gig service (Go, \<open>internal/\<close> and \<open>config/\<close>): freelancers draft, edit and publish gigs;
  readers list and open them; other services are told of every change. This development models
  the service from its stored rows to its handlers and proves what its parts promise.

  Parts and theories, in the order of their dependence:

  \<^item> \<open>Prelude\<close>, \<open>Floats\<close>, \<open>GoJson\<close>: the parts of Go's standard library the source uses: fixed
    width integers, \<open>strings.TrimSpace\<close>, \<open>strconv.Atoi\<close>, IEEE doubles, UTF-8, \<open>encoding/json\<close>.
  \<^item> \<open>Errors\<close>, \<open>Domain\<close>: \<open>domain/error.go\<close>, \<open>domain/gig.go\<close>, \<open>application/type.go\<close>. An error is a
    tree of wrapped and joined errors over the sentinels; \<open>errors_is\<close> is \<open>errors.Is\<close>.
  \<^item> \<open>EventMapper\<close> (\<open>application/mapper.go\<close>) and \<open>ReadCodec\<close>: the JSON payloads of events, of the
    read model, of previews and popularity snapshots. The locales \<open>gig_codec\<close> and \<open>doc_codec\<close>
    state what their users rely on.
  \<^item> \<open>World\<close>, \<open>Effects\<close>: the world (tables, Redis, messages sent, calls made to the file
    service, a tick) and programs over it; frames and their rules (locales \<open>effect\<close> and
    \<open>timeless_effect\<close>).
  \<^item> \<open>Sql\<close>, \<open>Postgres\<close> (\<open>infra/write/postgres\<close>): the statements over lists of rows, and the
    methods of the write repository. \<open>PostgresLaws\<close>, \<open>PostgresWrites\<close>, \<open>PostgresReplace\<close> (locale
    \<open>child_table\<close>) show each method to be a read, or an all-or-nothing update, of the view of
    the tables as a map from identifiers to gigs.
  \<^item> \<open>RedisStore\<close>, \<open>Redis\<close>, \<open>RedisLaws\<close> (\<open>infra/read/redis\<close>): the commands, the read repository,
    and its round trips (locale \<open>string_store\<close>).
  \<^item> \<open>Clients\<close> (\<open>infra/file\<close>, \<open>payment\<close>, \<open>review\<close>, \<open>order\<close>, \<open>user\<close>): the gRPC clients.
  \<^item> \<open>GigLists\<close> (\<open>application/my_gigs.go\<close>, \<open>preview.go\<close>): filtering, sorting (locale \<open>sort_order\<close>),
    paging.
  \<^item> \<open>Service\<close>, \<open>ServiceRead\<close> (\<open>application/service.go\<close> and the files beside it): the use cases.
    \<open>ServiceLaws\<close>, \<open>WriteOutcomes\<close>, \<open>OwnerWrites\<close> say what each does to the tables under every
    failure; \<open>ServiceInvariant\<close> closes an empty database under requests (\<open>reachable\<close>), with a
    publication split into check and commit so that others may come between.
  \<^item> \<open>Schema\<close>, \<open>SchemaClaims\<close> (\<open>migration/postgres\<close>, \<open>query.go\<close>): the typing of the tables, which every
    statement keeps and every reachable state has.
  \<^item> \<open>ServiceResults\<close>, \<open>UseCases\<close>: results and messages of the use cases that succeed.
  \<^item> \<open>Grpc\<close> (\<open>presentation/grpc\<close>): the mapper between the service's data and the messages of the
    protocol, the error replies, the links, and one handler per call. \<open>GrpcClaims\<close>: a handler
    does to the world what one request of the service does; links open their gigs.
  \<^item> \<open>Subscribers\<close> (\<open>presentation/event_broker/kafka/subscribers.go\<close> and the handlers under
    \<open>event_broker/nats\<close>): what an event does. \<open>SubscriberClaims\<close> joins the write side, the broker
    and the cache.
  \<^item> \<open>Kafka\<close>, \<open>KafkaLaws\<close>, \<open>KafkaClaims\<close> (\<open>kafka/broker.go\<close>): the consumers as state
    transformers that record what they do in a trace (claims, handled messages, retries, dead
    letters, commits); the laws are about the part of the trace one message adds, and the locale
    \<open>message_step\<close> is what a batch relies on of the step it takes each message through.
  \<^item> \<open>ProjectionRun\<close> (\<open>runProjectionBatchConsumer\<close>): the loop of the projection consumer over the
    replies of its reader, in batches of at most 32; it commits an initial part of what it fetched.
  \<^item> \<open>KafkaGroup\<close>, \<open>GroupClaims\<close> (\<open>runExplicitConsumerGroup\<close>): the consumer group of the recovery topic
    as a machine over generations, partitions, batches and messages, with crashes; what it
    commits is settled, and with Kafka at hand it comes to the end of the log.
  \<^item> \<open>KafkaBroker\<close> (\<open>kafka/broker.go\<close>, \<open>kafka/subscribers.go\<close>, \<open>config/kafka.go\<close>): the broker as an
    object with its readers and writers, and the consumer each subscriber gets.
  \<^item> \<open>Recovery\<close>, \<open>RecoveryClaims\<close> (\<open>kafka/recovery_subscriber.go\<close>): the commands replayed from the
    log, one definition per command, and that each is one request of the service.
  \<^item> \<open>Nats\<close>, \<open>NatsClaims\<close> (\<open>event_broker/nats\<close>, \<open>config/nats.go\<close>, \<open>config/pull_consumer.go\<close>): the
    settings of the pull consumers, their validation, the adaptive plan, the acknowledgements.
    \<open>NatsBroker\<close>: publishing, subscribing, the creation of consumers and of the stream, as calls to
    a server whose replies are given. \<open>NatsRuntime\<close>: the fetcher, the bounded queue and the workers of
    a pull consumer as a machine of interleaved steps; no message is lost or answered twice.
  \<^item> \<open>Startup\<close>, \<open>StartupClaims\<close> (\<open>internal/fx\<close>, \<open>config/preview_validation.go\<close>, \<open>New\<close>): migrations and
    their retries, the preview configuration, the supervision of the consumers, the warm-up.
    \<open>Process\<close>: the five background consumers, the gRPC server and the constructors of the parts.
  \<^item> \<open>Storage\<close> (\<open>pkg/storage\<close>, \<open>config/db.go\<close>, \<open>config/redis.go\<close>), \<open>Analytics\<close>
    (\<open>infra/analytics/clickhouse\<close>), \<open>StorageClaims\<close>: connection strings and what a URL parser makes of
    their credentials, migrations, transactions; the popularity statement and its rows.
    The hooks of the circuit breaker around Redis are \<open>ProcessHook\<close>; the breaker is a parameter.
  \<^item> \<open>Wiring\<close>, \<open>WiringClaims\<close> (\<open>internal/fx\<close>, \<open>cmd/gig-service/main.go\<close>): the modules, every function
    given to fx with its parameters and its hook, the sequences of calls fx may make when the
    process starts, and the stop; nothing is opened before the migrations, and a consumer is
    told to stop before a connection it needs is closed.
  \<^item> \<open>WindowClaims\<close>: what a written preview window leaves in Redis before and after its time to live.
  \<^item> \<open>Sample\<close> and the theories ending in \<open>Claims\<close>: the properties, each applied to a concrete
    environment and database.

  Failures: every call that leaves the process takes a tick, and the environment decides at that
  tick whether it is carried out, fails, or is carried out and its reply lost; every statement
  quantifies over the environment. A nil dereference or another panic is the result \<open>Panic\<close>.
  Bounds: the pages of lists are exact for page numbers and limits below \<open>2^31\<close> and lists below
  \<open>2^62\<close> entries. All recursion is structural or has a measure; no fuel is used. The loops of the
  consumers and of the supervisors run over the messages fetched and over the results of the
  runs, so what is shown of them holds after any number of rounds.

  Order: statements of different requests are taken one at a time, as row locks and transactions
  of PostgreSQL make them for one gig; what is interleaved is a publication's check and commit.
  The workers of a projection batch and the lanes of a recovery batch take messages in any order
  the code allows (\<open>lane_order\<close>), one message at a time.

  Parameters (code that is not in the repository): the slug library, PostgreSQL's reading of a
  \<open>uuid\<close> (\<open>uuid_ok\<close>: its output is read back as itself), the identifiers and notification bodies
  of the shared realtime package (\<open>ids_ok\<close>: valid UTF-8), the replies of the other services
  (\<open>urls_ok\<close>: valid UTF-8), the UUID parser of the links (\<open>ver\<close>), the protobuf decoder of the order
  event (\<open>osr\<close>), the shared packages of claims, retries, envelopes and dead letters (\<open>klib\<close>;
  \<open>retry_once\<close>: one attempt is one call, \<open>exclusive\<close>: a claim is granted to one), and the envelope and
  token decoders of the recovery (\<open>rlib\<close>).

  Concurrency: the recovery group and the runtime of a pull consumer are machines whose steps are
  taken in any order; a step is the handling of one message, or one action of the queue. Offsets
  are 64-bit; a log is taken to end below \<open>2^63 - 1\<close> (\<open>log_ok\<close>), so that the next offset exists.

  Not modelled: the libraries that speak to Kafka, NATS, PostgreSQL, Redis and ClickHouse and the
  library fx (their replies are parameters, what is relied on of their behaviour is a condition:
  \<open>fx_calls\<close>, \<open>klib\<close>), the state of the circuit breaker, the unreachable single-message loop of
  \<open>runExplicitConsumerGroup\<close>, the parser of environment variables, logging, traces and metrics: they are
  calls to libraries without a state of the program's own. The Go interfaces have no definition
  of their own: the model calls their one implementation.
\<close>

text \<open>
  C26. A gig whose texts are valid UTF-8 and whose instants have a JSON form survives the trip
  over the broker: decoding the payload of \<open>gig.published\<close> gives back the gig, but for the
  identifiers of its media rows.
\<close>

theorem published_payload_roundtrip:
  assumes "utf8_gig g" and "gig_times_ok g"
  shows "bind_res (ToPublishedPayload g) FromPublishedPayload = Ok (wire_gig g)"
  using assms by (rule published.roundtrip)

definition sample_gig :: Gig where
  "sample_gig =
     \<lparr>gig_ID = ''g1'', gig_FreelancerID = ''f1'', gig_SellerUsername = ''ann'', gig_Slug = ''logo-g1'',
      gig_Title = ''Logo'', gig_ShortInfo = ''A logo'', gig_Description = ''I draw'',
      gig_CategoryID = 3, gig_Currency = ''EUR'', gig_Status = ''draft'',
      gig_BasicInfoCompleted = True, gig_PackagesCompleted = True,
      gig_RequirementsCompleted = False, gig_MediaCompleted = False, gig_PictureFileID = [],
      gig_PictureURL = [], gig_PublishedAt = None, gig_CreatedAt = 0, gig_UpdatedAt = 0,
      gig_Packages = [], gig_Questions = [], gig_Media = []\<rparr>"

lemma sample_gig_ok: "utf8_gig sample_gig" "gig_times_ok sample_gig"
  by code_simp+

lemma published_payload_roundtrip_witness:
  "bind_res (ToPublishedPayload sample_gig) FromPublishedPayload = Ok (wire_gig sample_gig)"
  by (rule published_payload_roundtrip [OF sample_gig_ok])

text \<open>
  C27. The same holds of the read model's payload: a gig stored in the cache decodes to itself.
\<close>

theorem read_model_payload_roundtrip:
  assumes "utf8_gig g" and "gig_times_ok g"
  shows "bind_res (ToReadModelPayload g) FromReadModelPayload = Ok (wire_gig g)"
  using assms by (rule read_model.roundtrip)

lemma read_model_payload_roundtrip_witness:
  "bind_res (ToReadModelPayload sample_gig) FromReadModelPayload = Ok (wire_gig sample_gig)"
  by (rule read_model_payload_roundtrip [OF sample_gig_ok])

end
